(* ===== verification/Prelude.thy ===== *)
theory Prelude
  imports Main "HOL-Library.Char_ord" "HOL-Library.List_Lexorder"
begin

text \<open>
  Shared material of the development: the result type of code that can throw or abort,
  the state-and-exception monad in which the stateful operations are written, runs of
  event-driven objects, and the locales that several components implement (an event
  machine with an invariant, a machine whose final states are absorbing, a family of
  comparison operators, a codec over a token stream).

  Conventions of the model. A \<open>std::string\<close> and a \<open>QString\<close> are both HOL strings:
  \<open>QString::fromStdString\<close> and \<open>toStdString\<close> are inverse to each other on UTF-8 text and
  are not shown. A C++ exception is the constructor \<open>Raise\<close>, a failed \<open>assert()\<close>, a call
  of \<open>abort()\<close> or undefined behaviour (a non-recursive mutex locked twice, a signed
  overflow) is \<open>Abort\<close>.
\<close>

named_theorems keeps_intros \<open>rules that show that an operation keeps a predicate of the state\<close>
named_theorems run_simps \<open>equations that run an operation of the state-and-exception monad\<close>

section \<open>Results\<close>

datatype ('e, 'a) outcome = Ok 'a | Raise 'e | Abort

fun bindR :: "('e, 'a) outcome \<Rightarrow> ('a \<Rightarrow> ('e, 'b) outcome) \<Rightarrow> ('e, 'b) outcome" where
  "bindR (Ok a) f = f a"
| "bindR (Raise e) f = Raise e"
| "bindR Abort f = Abort"

fun is_ok :: "('e, 'a) outcome \<Rightarrow> bool" where
  "is_ok (Ok _) = True"
| "is_ok (Raise _) = False"
| "is_ok Abort = False"

text \<open>\<open>assert(c)\<close>, and \<open>if (c) throw e;\<close>\<close>

definition assertR :: "bool \<Rightarrow> ('e, unit) outcome" where
  "assertR c = (if c then Ok () else Abort)"

definition throw_if :: "bool \<Rightarrow> 'e \<Rightarrow> ('e, unit) outcome" where
  "throw_if c e = (if c then Raise e else Ok ())"

lemma bindR_eq_Ok [simp]: "bindR m f = Ok b \<longleftrightarrow> (\<exists>a. m = Ok a \<and> f a = Ok b)"
  by (cases m) auto

lemma bindR_eq_Raise: "bindR m f = Raise e \<longleftrightarrow> m = Raise e \<or> (\<exists>a. m = Ok a \<and> f a = Raise e)"
  by (cases m) auto

lemma assertR_Ok [simp]: "assertR c = Ok u \<longleftrightarrow> c"
  by (simp add: assertR_def)

lemma assertR_simps [simp]: "assertR True = Ok ()" "assertR False = Abort"
  by (simp_all add: assertR_def)

lemma throw_if_Ok [simp]: "throw_if c e = Ok u \<longleftrightarrow> \<not> c"
  by (simp add: throw_if_def)

lemma throw_if_simps [simp]: "throw_if True e = Raise e" "throw_if False e = Ok ()"
  by (simp_all add: throw_if_def)

lemma throw_if_not_Abort [simp]: "throw_if c e \<noteq> Abort"
  by (simp add: throw_if_def)

text \<open>Every failure of an operation is an exception with a given property.\<close>

fun raises_only :: "('e \<Rightarrow> bool) \<Rightarrow> ('e, 'a) outcome \<Rightarrow> bool" where
  "raises_only Q (Ok _) = True"
| "raises_only Q (Raise e) = Q e"
| "raises_only Q Abort = False"

lemma raises_only_bindR [intro]:
  "raises_only Q m \<Longrightarrow> (\<And>a. m = Ok a \<Longrightarrow> raises_only Q (f a)) \<Longrightarrow> raises_only Q (bindR m f)"
  by (cases m) auto

lemma raises_only_throw_if [simp]: "raises_only Q (throw_if c e) \<longleftrightarrow> (c \<longrightarrow> Q e)"
  by (simp add: throw_if_def)

lemma raises_only_unit: "raises_only Q r \<Longrightarrow> r \<noteq> Ok () \<Longrightarrow> \<exists>e. r = Raise e \<and> Q e"
  by (cases r) auto

lemma is_ok_iff: "is_ok r \<longleftrightarrow> (\<exists>a. r = Ok a)"
  by (cases r) auto

section \<open>The state-and-exception monad\<close>

text \<open>
  An operation takes the state and gives its result together with the state it leaves
  behind, also when it throws: effects made before a throw are not undone.
\<close>

type_synonym ('s, 'e, 'a) sx = "'s \<Rightarrow> ('e, 'a) outcome \<times> 's"

definition sx_return :: "'a \<Rightarrow> ('s, 'e, 'a) sx" where
  "sx_return a = (\<lambda>s. (Ok a, s))"

definition sx_throw :: "'e \<Rightarrow> ('s, 'e, 'a) sx" where
  "sx_throw e = (\<lambda>s. (Raise e, s))"

definition sx_bind :: "('s, 'e, 'a) sx \<Rightarrow> ('a \<Rightarrow> ('s, 'e, 'b) sx) \<Rightarrow> ('s, 'e, 'b) sx" where
  "sx_bind m f = (\<lambda>s. case m s of
      (Ok a, s') \<Rightarrow> f a s'
    | (Raise e, s') \<Rightarrow> (Raise e, s')
    | (Abort, s') \<Rightarrow> (Abort, s'))"

text \<open>A query reads the state and leaves it alone; a pure result is lifted.\<close>

definition sx_query :: "('s \<Rightarrow> ('e, 'a) outcome) \<Rightarrow> ('s, 'e, 'a) sx" where
  "sx_query q = (\<lambda>s. (q s, s))"

definition sx_lift :: "('e, 'a) outcome \<Rightarrow> ('s, 'e, 'a) sx" where
  "sx_lift r = (\<lambda>s. (r, s))"

definition sx_throw_if :: "bool \<Rightarrow> 'e \<Rightarrow> ('s, 'e, unit) sx" where
  "sx_throw_if c e = (if c then sx_throw e else sx_return ())"

text \<open>\<open>catch\<close>: the handler maps the exception to a new operation.\<close>

definition sx_catch :: "('s, 'e, 'a) sx \<Rightarrow> ('e \<Rightarrow> ('s, 'f, 'a) sx) \<Rightarrow> ('s, 'f, 'a) sx" where
  "sx_catch m h = (\<lambda>s. case m s of
      (Ok a, s') \<Rightarrow> (Ok a, s')
    | (Raise e, s') \<Rightarrow> h e s'
    | (Abort, s') \<Rightarrow> (Abort, s'))"

text \<open>A \<open>for\<close> loop over the elements of a list.\<close>

primrec sx_for :: "'a list \<Rightarrow> ('a \<Rightarrow> ('s, 'e, unit) sx) \<Rightarrow> ('s, 'e, unit) sx" where
  "sx_for [] f = sx_return ()"
| "sx_for (x # xs) f = sx_bind (f x) (\<lambda>_. sx_for xs f)"

lemma sx_return_run [run_simps]: "sx_return a s = (Ok a, s)"
  by (simp add: sx_return_def)

lemma sx_throw_run [run_simps]: "sx_throw e s = (Raise e, s)"
  by (simp add: sx_throw_def)

lemma sx_query_run [run_simps]: "sx_query q s = (q s, s)"
  by (simp add: sx_query_def)

lemma sx_lift_run [run_simps]: "sx_lift r s = (r, s)"
  by (simp add: sx_lift_def)

lemma sx_throw_if_run [run_simps]: "sx_throw_if c e s = (if c then Raise e else Ok (), s)"
  by (simp add: sx_throw_if_def sx_throw_def sx_return_def)

lemma sx_bind_run [run_simps]:
  "sx_bind m f s = (case m s of (Ok a, s') \<Rightarrow> f a s' | (Raise e, s') \<Rightarrow> (Raise e, s')
     | (Abort, s') \<Rightarrow> (Abort, s'))"
  by (simp add: sx_bind_def)

lemma sx_catch_run [run_simps]:
  "sx_catch m h s = (case m s of (Ok a, s') \<Rightarrow> (Ok a, s') | (Raise e, s') \<Rightarrow> h e s'
     | (Abort, s') \<Rightarrow> (Abort, s'))"
  by (simp add: sx_catch_def)

lemma sx_bind_OkE:
  assumes "sx_bind m f s = (Ok b, s')"
  obtains a t where "m s = (Ok a, t)" and "f a t = (Ok b, s')"
  using assms by (auto simp: sx_bind_def split: prod.splits outcome.splits)

lemma sx_bind_assoc: "sx_bind (sx_bind m f) g = sx_bind m (\<lambda>a. sx_bind (f a) g)"
  by (rule ext) (simp add: sx_bind_def split: prod.splits outcome.splits)

lemma sx_bind_return: "sx_bind (sx_return a) f = f a"
  by (rule ext) (simp add: sx_bind_def sx_return_def)

subsection \<open>Keeping a predicate of the state\<close>

definition keeps :: "('s \<Rightarrow> bool) \<Rightarrow> ('s, 'e, 'a) sx \<Rightarrow> bool" where
  "keeps P m \<longleftrightarrow> (\<forall>s. P s \<longrightarrow> P (snd (m s)))"

lemma keepsD: "keeps P m \<Longrightarrow> P s \<Longrightarrow> P (snd (m s))"
  by (simp add: keeps_def)

lemma keeps_return [keeps_intros]: "keeps P (sx_return a)"
  by (simp add: keeps_def sx_return_def)

lemma keeps_throw [keeps_intros]: "keeps P (sx_throw e)"
  by (simp add: keeps_def sx_throw_def)

lemma keeps_query [keeps_intros]: "keeps P (sx_query q)"
  by (simp add: keeps_def sx_query_def)

lemma keeps_lift [keeps_intros]: "keeps P (sx_lift r)"
  by (simp add: keeps_def sx_lift_def)

lemma keeps_throw_if [keeps_intros]: "keeps P (sx_throw_if c e)"
  by (simp add: keeps_def sx_throw_if_def sx_throw_def sx_return_def)

lemma keeps_bind [keeps_intros]:
  assumes "keeps P m" and "\<And>a. keeps P (f a)"
  shows "keeps P (sx_bind m f)"
  using assms by (fastforce simp: keeps_def sx_bind_def split: prod.splits outcome.splits)

text \<open>The continuation may rely on what the first operation returned.\<close>

lemma keeps_bind_Ok:
  assumes "keeps P m" and "\<And>a s t. m s = (Ok a, t) \<Longrightarrow> keeps P (f a)"
  shows "keeps P (sx_bind m f)"
  unfolding keeps_def
proof (intro allI impI)
  fix s
  assume s: "P s"
  obtain r t where rt: "m s = (r, t)" by force
  with s have t: "P t" using keepsD [OF assms(1) s] by simp
  show "P (snd (sx_bind m f s))"
  proof (cases r)
    case (Ok a)
    with rt t have "P (snd (f a t))" by (blast intro: keepsD assms(2))
    with rt Ok show ?thesis by (simp add: sx_bind_def)
  qed (use rt t in \<open>simp_all add: sx_bind_def\<close>)
qed

lemma keeps_query_bind:
  assumes "\<And>s a. P s \<Longrightarrow> q s = Ok a \<Longrightarrow> keeps P (f a)"
  shows "keeps P (sx_bind (sx_query q) f)"
  using assms by (auto simp: keeps_def sx_bind_def sx_query_def split: outcome.splits)

lemma keeps_lift_bind:
  assumes "\<And>a. r = Ok a \<Longrightarrow> keeps P (f a)"
  shows "keeps P (sx_bind (sx_lift r) f)"
  using assms by (auto simp: keeps_def sx_bind_def sx_lift_def split: outcome.splits)

lemma keeps_throw_if_bind:
  assumes "\<not> c \<Longrightarrow> keeps P (f ())"
  shows "keeps P (sx_bind (sx_throw_if c e) f)"
  using assms by (auto simp: keeps_def sx_bind_def sx_throw_if_def sx_throw_def sx_return_def)

lemma keeps_catch [keeps_intros]:
  assumes "keeps P m" and "\<And>e. keeps P (h e)"
  shows "keeps P (sx_catch m h)"
  using assms by (fastforce simp: keeps_def sx_catch_def split: prod.splits outcome.splits)

lemma keeps_if [keeps_intros]: "(c \<Longrightarrow> keeps P m) \<Longrightarrow> (\<not> c \<Longrightarrow> keeps P n) \<Longrightarrow> keeps P (if c then m else n)"
  by simp

lemma keeps_for [keeps_intros]:
  "(\<And>x. x \<in> set xs \<Longrightarrow> keeps P (f x)) \<Longrightarrow> keeps P (sx_for xs f)"
  by (induction xs) (auto intro!: keeps_bind keeps_return)

subsection \<open>Triples\<close>

text \<open>
  \<open>hoare E Q m R\<close>: started in a state with \<open>Q\<close>, the operation either returns with \<open>R\<close> or ends
  by an exception or an abort in a state with \<open>E\<close>.
\<close>

definition hoare :: "('s \<Rightarrow> bool) \<Rightarrow> ('s \<Rightarrow> bool) \<Rightarrow> ('s, 'e, 'a) sx \<Rightarrow> ('a \<Rightarrow> 's \<Rightarrow> bool) \<Rightarrow> bool" where
  "hoare E Q m R \<longleftrightarrow> (\<forall>s r t. Q s \<longrightarrow> m s = (r, t) \<longrightarrow>
     (\<forall>a. r = Ok a \<longrightarrow> R a t) \<and> ((\<forall>a. r \<noteq> Ok a) \<longrightarrow> E t))"

lemma hoareI:
  assumes "\<And>s a t. Q s \<Longrightarrow> m s = (Ok a, t) \<Longrightarrow> R a t"
    and "\<And>s r t. Q s \<Longrightarrow> m s = (r, t) \<Longrightarrow> \<forall>a. r \<noteq> Ok a \<Longrightarrow> E t"
  shows "hoare E Q m R"
  using assms unfolding hoare_def by blast

lemma hoareD:
  assumes "hoare E Q m R" and "Q s"
  shows "m s = (Ok a, t) \<Longrightarrow> R a t"
    and "m s = (Raise e, t) \<Longrightarrow> E t"
    and "m s = (Abort, t) \<Longrightarrow> E t"
  using assms unfolding hoare_def by blast+

lemma hoare_keeps: "hoare P P m (\<lambda>_. P) \<Longrightarrow> keeps P m"
  unfolding hoare_def keeps_def by (metis surj_pair snd_conv)

lemma keeps_hoare: "keeps P m \<Longrightarrow> hoare P P m (\<lambda>_. P)"
  unfolding hoare_def keeps_def by (metis snd_conv)

lemma hoare_bind:
  assumes m: "hoare E Q m R" and f: "\<And>a. hoare E (R a) (f a) S"
  shows "hoare E Q (sx_bind m f) S"
proof (rule hoareI)
  fix s b t
  assume s: "Q s"
  assume "sx_bind m f s = (Ok b, t)"
  then show "S b t" by (rule sx_bind_OkE) (blast dest: hoareD(1) [OF m s] hoareD(1) [OF f])
next
  fix s r t
  assume s: "Q s" and r: "\<forall>b. r \<noteq> Ok b" and bind: "sx_bind m f s = (r, t)"
  show "E t"
  proof (cases "m s")
    case (Pair q u)
    show ?thesis
    proof (cases q)
      case (Ok a)
      with bind Pair have "f a u = (r, t)" by (simp add: sx_bind_def)
      moreover have "R a u" using hoareD(1) [OF m s] Pair Ok by blast
      ultimately show ?thesis using f r unfolding hoare_def by blast
    qed (use bind Pair in \<open>auto simp: sx_bind_def dest: hoareD(2,3) [OF m s]\<close>)
  qed
qed

lemma hoare_query: "(\<And>s. Q s \<Longrightarrow> E s) \<Longrightarrow> hoare E Q (sx_query q) (\<lambda>a s. Q s \<and> q s = Ok a)"
  by (auto simp: hoare_def sx_query_def split: outcome.splits)

lemma hoare_throw_if: "(\<And>s. Q s \<Longrightarrow> E s) \<Longrightarrow> hoare E Q (sx_throw_if c e) (\<lambda>_ s. Q s \<and> \<not> c)"
  by (simp add: hoare_def sx_throw_if_def sx_throw_def sx_return_def)

lemma hoare_return: "hoare E Q (sx_return a) (\<lambda>_. Q)"
  by (simp add: hoare_def sx_return_def)

lemma hoare_throw: "(\<And>s. Q s \<Longrightarrow> E s) \<Longrightarrow> hoare E Q (sx_throw e) R"
  by (simp add: hoare_def sx_throw_def)

lemma hoare_catch:
  assumes m: "hoare E Q m R" and h: "\<And>e. hoare E E (h e) R"
  shows "hoare E Q (sx_catch m h) R"
proof -
  have "(\<forall>a. r = Ok a \<longrightarrow> R a t) \<and> ((\<forall>a. r \<noteq> Ok a) \<longrightarrow> E t)"
    if s: "Q s" and c: "sx_catch m h s = (r, t)" for s r t
  proof (cases "m s")
    case (Pair q u)
    show ?thesis
    proof (cases q)
      case (Raise e)
      with c Pair have "h e u = (r, t)" by (simp add: sx_catch_def)
      moreover have "E u" using hoareD(2) [OF m s] Pair Raise by blast
      ultimately show ?thesis using h unfolding hoare_def by blast
    qed (use c Pair in \<open>auto simp: sx_catch_def dest: hoareD(1,3) [OF m s]\<close>)
  qed
  then show ?thesis unfolding hoare_def by blast
qed

lemma hoare_if: "(c \<Longrightarrow> hoare E Q m R) \<Longrightarrow> (\<not> c \<Longrightarrow> hoare E Q n R) \<Longrightarrow> hoare E Q (if c then m else n) R"
  by simp

lemma hoare_for:
  "(\<And>x. x \<in> set xs \<Longrightarrow> hoare E Q (f x) (\<lambda>_. Q)) \<Longrightarrow> hoare E Q (sx_for xs f) (\<lambda>_. Q)"
  by (induction xs) (auto intro!: hoare_bind hoare_return)

lemma hoare_conseq:
  "hoare E Q' m R' \<Longrightarrow> (\<And>s. Q s \<Longrightarrow> Q' s) \<Longrightarrow> (\<And>a s. R' a s \<Longrightarrow> R a s) \<Longrightarrow> hoare E Q m R"
  unfolding hoare_def by blast

lemma hoare_pure:
  "(\<And>s. Q s \<Longrightarrow> C) \<Longrightarrow> (C \<Longrightarrow> hoare E Q m R) \<Longrightarrow> hoare E Q m R"
  by (fastforce simp: hoare_def)

section \<open>Strings\<close>

definition starts_with :: "string \<Rightarrow> string \<Rightarrow> bool" where
  "starts_with s p \<longleftrightarrow> take (length p) s = p"

lemma starts_with_append [simp]: "starts_with (p @ q) p"
  by (simp add: starts_with_def)

lemma starts_with_iff: "starts_with s p \<longleftrightarrow> (\<exists>t. s = p @ t)"
  by (metis append_take_drop_id starts_with_append starts_with_def)

lemma starts_with_trans: "starts_with s p \<Longrightarrow> starts_with p q \<Longrightarrow> starts_with s q"
  by (auto simp: starts_with_iff)

text \<open>\<open>std::to_string\<close> and \<open>QString::number\<close> on integers.\<close>

fun nat_to_string :: "nat \<Rightarrow> string" where
  "nat_to_string n =
     (if n < 10 then [char_of (48 + n)] else nat_to_string (n div 10) @ [char_of (48 + n mod 10)])"

declare nat_to_string.simps [simp del]

definition int_to_string :: "int \<Rightarrow> string" where
  "int_to_string i = (if i < 0 then ''-'' @ nat_to_string (nat (- i)) else nat_to_string (nat i))"

definition digits_value :: "string \<Rightarrow> nat" where
  "digits_value s = foldl (\<lambda>v c. 10 * v + (of_char c - 48)) 0 s"

lemma digits_value_snoc: "digits_value (s @ [c]) = 10 * digits_value s + (of_char c - 48)"
  by (simp add: digits_value_def)

lemma digits_value_nat_to_string [simp]: "digits_value (nat_to_string n) = n"
proof (induction n rule: nat_to_string.induct)
  case (1 n)
  have small: "of_char (char_of (48 + d) :: char) = (48 + d :: nat)" if "d < 10" for d :: nat
    using that by (simp add: of_char_of)
  show ?case
  proof (cases "n < 10")
    case True
    with small [of n] show ?thesis
      by (subst nat_to_string.simps) (simp add: digits_value_def)
  next
    case False
    with "1.IH" small [of "n mod 10"] show ?thesis
      by (subst nat_to_string.simps) (simp add: digits_value_snoc)
  qed
qed

lemma nat_to_string_inject [simp]: "nat_to_string m = nat_to_string n \<longleftrightarrow> m = n"
  by (metis digits_value_nat_to_string)

lemma nat_to_string_hd: "hd (nat_to_string n) \<noteq> CHR ''-''" "nat_to_string n \<noteq> []"
proof (induction n rule: nat_to_string.induct)
  case (1 n)
  have "char_of (48 + d) \<noteq> CHR ''-''" if "d < 10" for d :: nat
  proof
    assume eq: "char_of (48 + d) = CHR ''-''"
    have "(of_char (char_of (48 + d) :: char) :: nat) = 48 + d"
      using that by (simp add: of_char_of)
    with eq show False by simp
  qed
  with "1.IH" show "hd (nat_to_string n) \<noteq> CHR ''-''" and "nat_to_string n \<noteq> []"
    by (simp_all add: nat_to_string.simps [of n] hd_append)
qed

lemma int_to_string_inject [simp]: "int_to_string i = int_to_string j \<longleftrightarrow> i = j"
proof
  assume eq: "int_to_string i = int_to_string j"
  consider "(i < 0) = (j < 0)" | "i < 0" "\<not> j < 0" | "\<not> i < 0" "j < 0" by blast
  then show "i = j"
  proof cases
    case 1
    with eq show ?thesis by (auto simp: int_to_string_def split: if_splits)
  next
    case 2
    with eq have "hd (nat_to_string (nat j)) = CHR ''-''"
      by (metis append_Cons int_to_string_def list.sel(1))
    then show ?thesis by (simp add: nat_to_string_hd)
  next
    case 3
    with eq have "hd (nat_to_string (nat i)) = CHR ''-''"
      by (metis append_Cons int_to_string_def list.sel(1))
    then show ?thesis by (simp add: nat_to_string_hd)
  qed
qed simp

lemma int_to_string_not_Nil [simp]: "int_to_string i \<noteq> []"
  by (simp add: int_to_string_def nat_to_string_hd)

section \<open>Ordered maps as association lists\<close>

text \<open>
  \<open>std::map\<close> and \<open>QMap\<close> iterate in key order; the model keeps the entries as a list sorted
  by key. \<open>QMap::insert\<close> replaces the value of a key that is present (\<open>map_insert\<close>),
  \<open>std::map::insert\<close> and \<open>emplace\<close> keep the old one (\<open>map_emplace\<close>).
\<close>

fun map_insert :: "'k::linorder \<Rightarrow> 'v \<Rightarrow> ('k \<times> 'v) list \<Rightarrow> ('k \<times> 'v) list" where
  "map_insert k v [] = [(k, v)]"
| "map_insert k v ((k', v') # m) =
     (if k < k' then (k, v) # (k', v') # m
      else if k = k' then (k, v) # m
      else (k', v') # map_insert k v m)"

definition map_emplace :: "'k::linorder \<Rightarrow> 'v \<Rightarrow> ('k \<times> 'v) list \<Rightarrow> ('k \<times> 'v) list" where
  "map_emplace k v m = (if map_of m k = None then map_insert k v m else m)"

definition map_erase :: "'k \<Rightarrow> ('k \<times> 'v) list \<Rightarrow> ('k \<times> 'v) list" where
  "map_erase k m = filter (\<lambda>(k', _). k' \<noteq> k) m"

definition ordered_map :: "('k::linorder \<times> 'v) list \<Rightarrow> bool" where
  "ordered_map m \<longleftrightarrow> sorted_wrt (<) (map fst m)"

lemma ordered_map_Nil [simp]: "ordered_map []"
  by (simp add: ordered_map_def)

lemma ordered_map_Cons [simp]:
  "ordered_map ((k, v) # m) \<longleftrightarrow> (\<forall>k' \<in> fst ` set m. k < k') \<and> ordered_map m"
  by (auto simp: ordered_map_def)

lemma fst_set_map_insert [simp]: "fst ` set (map_insert k v m) = insert k (fst ` set m)"
  by (induction k v m rule: map_insert.induct) auto

lemma set_map_insert: "set (map_insert k v m) \<subseteq> insert (k, v) (set m)"
  by (induction k v m rule: map_insert.induct) auto

lemma map_insert_nonempty [simp]: "map_insert k v m \<noteq> []"
  by (cases "(k, v, m)" rule: map_insert.cases) auto

lemma ordered_map_insert [simp]: "ordered_map m \<Longrightarrow> ordered_map (map_insert k v m)"
  by (induction k v m rule: map_insert.induct) (auto dest: less_trans)

lemma map_of_insert: "ordered_map m \<Longrightarrow> map_of (map_insert k v m) = (map_of m)(k \<mapsto> v)"
  by (induction k v m rule: map_insert.induct) (auto simp: fun_eq_iff)

lemma ordered_map_distinct: "ordered_map m \<Longrightarrow> distinct (map fst m)"
  by (induction m) (auto simp: ordered_map_def)

lemma map_of_erase [simp]: "map_of (map_erase k m) = (map_of m)(k := None)"
  by (induction m) (auto simp: map_erase_def fun_eq_iff)

lemma ordered_map_filter: "ordered_map m \<Longrightarrow> ordered_map (filter P m)"
  by (induction m) (auto simp: ordered_map_def)

lemma ordered_map_erase [simp]: "ordered_map m \<Longrightarrow> ordered_map (map_erase k m)"
  by (simp add: map_erase_def ordered_map_filter)

lemma map_of_insert_self [simp]: "map_of (map_insert k v m) k = Some v"
  by (induction k v m rule: map_insert.induct) auto

lemma length_map_insert: "length (map_insert k v m) \<le> Suc (length m)"
  by (induction k v m rule: map_insert.induct) auto

lemma length_map_emplace: "length (map_emplace k v m) \<le> Suc (length m)"
  by (simp add: map_emplace_def length_map_insert)

lemma map_of_map_insert_other: "p \<noteq> k \<Longrightarrow> map_of (map_insert k v m) p = map_of m p"
  by (induction k v m rule: map_insert.induct) auto

lemma map_of_map_emplace_other: "p \<noteq> k \<Longrightarrow> map_of (map_emplace k v m) p = map_of m p"
  by (simp add: map_emplace_def map_of_map_insert_other)

lemma map_erase_absent: "k \<notin> fst ` set m \<Longrightarrow> map_erase k m = m"
  by (induction m) (auto simp: map_erase_def)

lemma map_erase_insert: "k \<notin> fst ` set m \<Longrightarrow> map_erase k (map_insert k v m) = m"
  by (induction k v m rule: map_insert.induct) (force simp: map_erase_def filter_id_conv)+

lemma map_insert_last: "(\<forall>k' \<in> fst ` set m. k' < k) \<Longrightarrow> map_insert k v m = m @ [(k, v)]"
  by (induction k v m rule: map_insert.induct) auto

text \<open>Inserting the entries of a sorted list one after the other rebuilds the list.\<close>

lemma foldl_map_insert:
  assumes "ordered_map (acc @ m)"
  shows "foldl (\<lambda>a (k, v). map_insert k v a) acc m = acc @ m"
  using assms
proof (induction m arbitrary: acc)
  case (Cons e m)
  obtain k v where e: "e = (k, v)" by force
  with Cons.prems have "\<forall>k' \<in> fst ` set acc. k' < k"
    by (auto simp: ordered_map_def sorted_wrt_append)
  then have "map_insert k v acc = acc @ [e]" by (simp add: map_insert_last e)
  with Cons e show ?case by simp
qed simp

section \<open>Runs of event-driven objects\<close>

text \<open>
  The classes of the framework are driven by the Qt event loop: method calls and signals
  arrive one at a time. A run feeds a list of events to the step function of the object.
\<close>

definition run_events :: "('s \<Rightarrow> 'ev \<Rightarrow> 's) \<Rightarrow> 's \<Rightarrow> 'ev list \<Rightarrow> 's" where
  "run_events step s es = foldl step s es"

lemma run_events_simps [simp]:
  "run_events step s [] = s"
  "run_events step s (e # es) = run_events step (step s e) es"
  "run_events step s (es @ fs) = run_events step (run_events step s es) fs"
  by (simp_all add: run_events_def)

text \<open>A machine with an invariant: what one event keeps, every run keeps.\<close>

locale invariant_machine =
  fixes step :: "'s \<Rightarrow> 'ev \<Rightarrow> 's"
    and inv :: "'s \<Rightarrow> bool"
  assumes inv_step: "inv s \<Longrightarrow> inv (step s e)"
begin

lemma inv_run: "inv s \<Longrightarrow> inv (run_events step s es)"
  by (induction es arbitrary: s) (simp_all add: inv_step)

end

text \<open>A machine that implements another one: what a run does, seen through the abstraction, is
  what the abstract machine does.\<close>

locale simulation = invariant_machine step inv
  for step :: "'s \<Rightarrow> 'ev \<Rightarrow> 's" and inv :: "'s \<Rightarrow> bool" +
  fixes abs :: "'s \<Rightarrow> 'a"
    and astep :: "'a \<Rightarrow> 'ev \<Rightarrow> 'a"
  assumes abs_step: "inv s \<Longrightarrow> abs (step s e) = astep (abs s) e"
begin

lemma abs_run: "inv s \<Longrightarrow> abs (run_events step s es) = run_events astep (abs s) es"
  by (induction es arbitrary: s) (simp_all add: inv_step abs_step)

end

text \<open>
  A job whose status becomes final once: in a final state no event changes the status and
  no event emits another status signal.
\<close>

locale final_machine =
  fixes step :: "'s \<Rightarrow> 'ev \<Rightarrow> 's"
    and status :: "'s \<Rightarrow> 'st"
    and final :: "'st \<Rightarrow> bool"
    and emitted :: "'s \<Rightarrow> 'st list"
    and legal :: "'s \<Rightarrow> 'ev \<Rightarrow> bool"
  assumes final_status: "final (status s) \<Longrightarrow> legal s e \<Longrightarrow> status (step s e) = status s"
    and final_quiet: "final (status s) \<Longrightarrow> legal s e \<Longrightarrow> emitted (step s e) = emitted s"
begin

fun legal_run :: "'s \<Rightarrow> 'ev list \<Rightarrow> bool" where
  "legal_run s [] = True"
| "legal_run s (e # es) = (legal s e \<and> legal_run (step s e) es)"

lemma final_run:
  "final (status s) \<Longrightarrow> legal_run s es \<Longrightarrow>
     status (run_events step s es) = status s \<and> emitted (run_events step s es) = emitted s"
  by (induction es arbitrary: s) (simp_all add: final_status final_quiet)

end

section \<open>Families of comparison operators\<close>

text \<open>
  The value classes define \<open>==\<close> and \<open><\<close> by hand and derive \<open>!=\<close>, \<open><=\<close>, \<open>>\<close> and \<open>>=\<close> from
  them. The contract of the family: \<open><\<close> is a strict total order up to \<open>==\<close>.
\<close>

locale comparison =
  fixes eq :: "'a \<Rightarrow> 'a \<Rightarrow> bool"
    and lt :: "'a \<Rightarrow> 'a \<Rightarrow> bool"
  assumes eq_refl: "eq x x"
    and eq_sym: "eq x y \<Longrightarrow> eq y x"
    and eq_trans: "eq x y \<Longrightarrow> eq y z \<Longrightarrow> eq x z"
    and lt_irrefl: "eq x y \<Longrightarrow> \<not> lt x y"
    and lt_trans: "lt x y \<Longrightarrow> lt y z \<Longrightarrow> lt x z"
    and lt_total: "lt x y \<or> eq x y \<or> lt y x"
    and lt_cong: "eq x x' \<Longrightarrow> eq y y' \<Longrightarrow> lt x y \<Longrightarrow> lt x' y'"
begin

lemma lt_eq_trans: "lt x y \<Longrightarrow> eq y z \<Longrightarrow> lt x z"
  using lt_cong eq_refl by blast

lemma eq_lt_trans: "eq x y \<Longrightarrow> lt y z \<Longrightarrow> lt x z"
  using lt_cong eq_refl eq_sym by blast

lemma lt_asym: "lt x y \<Longrightarrow> \<not> lt y x"
  using lt_irrefl lt_trans eq_refl by blast

text \<open>Exactly one of the three relations holds.\<close>

lemma trichotomy:
  "(lt x y \<and> \<not> eq x y \<and> \<not> lt y x) \<or> (\<not> lt x y \<and> eq x y \<and> \<not> lt y x) \<or>
   (\<not> lt x y \<and> \<not> eq x y \<and> lt y x)"
  using lt_total [of x y] lt_asym [of x y] lt_irrefl [of x y] lt_irrefl [of y x]
    eq_sym [of x y] eq_sym [of y x] by blast

text \<open>The derived operators: \<open>a <= b\<close> is \<open>a < b || a == b\<close>, \<open>a > b\<close> is \<open>!(a <= b)\<close>,
  \<open>a >= b\<close> is \<open>!(a < b)\<close>.\<close>

lemma gt_is_converse: "\<not> (lt x y \<or> eq x y) \<longleftrightarrow> lt y x"
  using trichotomy by blast

lemma ge_is_converse: "\<not> lt x y \<longleftrightarrow> lt y x \<or> eq x y"
  using trichotomy by blast

lemma le_antisym: "lt x y \<or> eq x y \<Longrightarrow> lt y x \<or> eq y x \<Longrightarrow> eq x y"
  using trichotomy eq_sym by blast

lemma le_trans: "lt x y \<or> eq x y \<Longrightarrow> lt y z \<or> eq y z \<Longrightarrow> lt x z \<or> eq x z"
  using lt_trans lt_cong eq_trans eq_refl by (metis eq_sym)

end

section \<open>Codecs over a token stream\<close>

text \<open>
  A marshalling operator writes tokens, an unmarshalling operator reads a value off the
  front of the stream and gives the rest. The contract: reading what was written gives the
  value back and stops at its end. It lifts to sequences of known length.
\<close>

locale codec =
  fixes put :: "'a \<Rightarrow> 't list"
    and get :: "'t list \<Rightarrow> ('a \<times> 't list) option"
    and ok :: "'a \<Rightarrow> bool"
  assumes get_put: "ok a \<Longrightarrow> get (put a @ rest) = Some (a, rest)"
begin

lemma put_inject: "ok a \<Longrightarrow> ok b \<Longrightarrow> put a = put b \<Longrightarrow> a = b"
  using get_put [of a "[]"] get_put [of b "[]"] by simp

lemma put_prefix_free: "ok a \<Longrightarrow> ok b \<Longrightarrow> put a @ r = put b @ r' \<Longrightarrow> a = b \<and> r = r'"
  by (metis get_put option.inject prod.inject)

end

end
