(* ===== verification/Activity.thy ===== *)
theory Activity
  imports Prelude
begin

text \<open>
  Idle shutdown: the environment variables that set the timeout
  (\<open>src/internal/EnvVars.cpp\<close>), the inactivity timer
  (\<open>src/internal/InactivityTimer.cpp\<close>) and the notifier objects that count the requests in
  progress (\<open>include/unity/storage/internal/ActivityNotifier.h\<close>). \<open>std::stoi\<close> is modelled
  as \<open>strtol\<close> in base 10 with the range of \<open>int\<close>; a multiplication that leaves that range
  is undefined behaviour, \<open>Abort\<close>.
\<close>

section \<open>Environment variables\<close>

definition INT_MIN :: int where "INT_MIN = - 2147483648"
definition INT_MAX :: int where "INT_MAX = 2147483647"

definition is_space :: "char \<Rightarrow> bool" where
  "is_space c \<longleftrightarrow> c = CHR '' '' \<or> (9 \<le> (of_char c :: nat) \<and> (of_char c :: nat) \<le> 13)"

definition is_digit :: "char \<Rightarrow> bool" where
  "is_digit c \<longleftrightarrow> 48 \<le> (of_char c :: nat) \<and> (of_char c :: nat) \<le> 57"

datatype stoi_error = Invalid_argument | Out_of_range

text \<open>The value and the number of characters that were used.\<close>

definition stoi :: "string \<Rightarrow> (stoi_error, int \<times> nat) outcome" where
  "stoi s =
     (let ws = length (takeWhile is_space s);
          s1 = drop ws s;
          neg = (s1 \<noteq> [] \<and> hd s1 = CHR ''-'');
          sgn = (if s1 \<noteq> [] \<and> (hd s1 = CHR ''-'' \<or> hd s1 = CHR ''+'') then 1 else 0);
          ds = takeWhile is_digit (drop sgn s1);
          v = (if neg then - int (digits_value ds) else int (digits_value ds))
      in if ds = [] then Raise Invalid_argument
         else if v < INT_MIN \<or> INT_MAX < v then Raise Out_of_range
         else Ok (v, ws + sgn + length ds))"

definition REGISTRY_IDLE_TIMEOUT_DFLT :: int where "REGISTRY_IDLE_TIMEOUT_DFLT = 30"
definition PROVIDER_IDLE_TIMEOUT_DFLT :: int where "PROVIDER_IDLE_TIMEOUT_DFLT = 30"

text \<open>\<open>EnvVars::get\<close>: an unset variable reads as the empty string.\<close>

definition EnvVars_get :: "(string \<rightharpoonup> string) \<Rightarrow> string \<Rightarrow> string" where
  "EnvVars_get env var_name = (case env var_name of None \<Rightarrow> '''' | Some p \<Rightarrow> p)"

definition mul_int :: "int \<Rightarrow> int \<Rightarrow> ('e, int) outcome" where
  "mul_int a b = (if INT_MIN \<le> a * b \<and> a * b \<le> INT_MAX then Ok (a * b) else Abort)"

definition get_timeout_ms :: "(string \<rightharpoonup> string) \<Rightarrow> string \<Rightarrow> int \<Rightarrow> ('e, int) outcome" where
  "get_timeout_ms env var_name dflt =
     (let val = EnvVars_get env var_name;
          timeout =
            (if val \<noteq> '''' then
               case stoi val of
                 Ok (int_val, pos) \<Rightarrow>
                   if pos \<noteq> length val then dflt      \<comment> \<open>unexpected trailing character(s)\<close>
                   else if int_val < 0 then dflt      \<comment> \<open>value must be \<open>>= 0\<close>\<close>
                   else int_val
               | _ \<Rightarrow> dflt
             else dflt)
      in mul_int timeout 1000)"

definition registry_timeout_ms :: "(string \<rightharpoonup> string) \<Rightarrow> ('e, int) outcome" where
  "registry_timeout_ms env = get_timeout_ms env ''SF_REGISTRY_IDLE_TIMEOUT'' REGISTRY_IDLE_TIMEOUT_DFLT"

definition provider_timeout_ms :: "(string \<rightharpoonup> string) \<Rightarrow> ('e, int) outcome" where
  "provider_timeout_ms env = get_timeout_ms env ''SF_PROVIDER_IDLE_TIMEOUT'' PROVIDER_IDLE_TIMEOUT_DFLT"

lemma is_digit_char_of: "d < 10 \<Longrightarrow> is_digit (char_of (48 + d))" for d :: nat
  by (simp add: is_digit_def of_char_of)

lemma nat_to_string_digits: "\<forall>c \<in> set (nat_to_string n). is_digit c"
proof (induction n rule: nat_to_string.induct)
  case (1 n)
  then show ?case
    by (subst nat_to_string.simps) (auto simp: is_digit_char_of)
qed

lemma digit_not_space_or_sign: "is_digit c \<Longrightarrow> \<not> is_space c \<and> c \<noteq> CHR ''-'' \<and> c \<noteq> CHR ''+''"
  by (auto simp: is_digit_def is_space_def)

text \<open>\<open>stoi\<close> reads back what \<open>to_string\<close> prints, to its last character.\<close>

lemma stoi_nat_to_string:
  "stoi (nat_to_string n) =
     (if int n \<le> INT_MAX then Ok (int n, length (nat_to_string n)) else Raise Out_of_range)"
proof -
  obtain c cs where s: "nat_to_string n = c # cs"
    using nat_to_string_hd(2) [of n] by (cases "nat_to_string n") auto
  with nat_to_string_digits [of n] have d: "is_digit c" "\<forall>c \<in> set cs. is_digit c" by auto
  then have "takeWhile is_digit cs = cs" by (simp add: takeWhile_eq_all_conv)
  with d digit_not_space_or_sign [of c] digits_value_nat_to_string [of n] show ?thesis
    unfolding s by (simp add: stoi_def Let_def INT_MIN_def INT_MAX_def del: takeWhile_eq_all_conv)
qed

text \<open>
  C40. The idle timeout is 1000 times the value of the variable when that is a decimal number
  whose milliseconds fit an \<open>int\<close>; a number between 2147484 and 2147483647 is accepted by the
  checks and then overflows the multiplication; a number that does not fit an \<open>int\<close> falls
  back to the default.
\<close>

theorem timeout_of_decimal:
  assumes "env var = Some (nat_to_string n)" and "0 \<le> dflt" and "dflt * 1000 \<le> INT_MAX"
  shows "get_timeout_ms env var dflt =
     (if int n \<le> 2147483 then Ok (int n * 1000)
      else if int n \<le> INT_MAX then Abort
      else Ok (dflt * 1000))"
  using assms nat_to_string_hd(2) [of n]
  by (simp add: get_timeout_ms_def EnvVars_get_def Let_def stoi_nat_to_string mul_int_def INT_MIN_def
      INT_MAX_def)

theorem timeout_of_decimal_witness:
  "get_timeout_ms [''T'' \<mapsto> nat_to_string 3000000] ''T'' 30 = Abort"
  using timeout_of_decimal [of "[''T'' \<mapsto> nat_to_string 3000000]" "''T''" 3000000 30]
  by (simp add: INT_MAX_def)

text \<open>A setting that does not parse, has trailing characters or is negative gives the default.\<close>

lemma timeout_of_garbage:
  assumes "\<nexists>v. stoi (EnvVars_get env var) = Ok (v, length (EnvVars_get env var)) \<and> 0 \<le> v"
    and "0 \<le> dflt" and "dflt * 1000 \<le> INT_MAX"
  shows "get_timeout_ms env var dflt = Ok (dflt * 1000)"
  using assms
  by (auto simp: get_timeout_ms_def Let_def mul_int_def INT_MIN_def split: outcome.splits prod.splits)

section \<open>The inactivity timer\<close>

text \<open>The single-shot \<open>QTimer\<close> is its interval and whether it is running.\<close>

record InactivityTimer =
  it_interval :: int
  it_running :: bool
  it_num_requests :: int

definition InactivityTimer_init :: "int \<Rightarrow> ('e, InactivityTimer) outcome" where
  "InactivityTimer_init timeout_ms =
     bindR (assertR (timeout_ms \<ge> 0))
       (\<lambda>_. Ok \<lparr>it_interval = timeout_ms, it_running = False, it_num_requests = 0\<rparr>)"

definition request_started :: "InactivityTimer \<Rightarrow> ('e, InactivityTimer) outcome" where
  "request_started t =
     bindR (assertR (it_num_requests t \<ge> 0))
       (\<lambda>_. let t' = t\<lparr>it_num_requests := it_num_requests t + 1\<rparr> in
             Ok (if it_num_requests t = 0 then t'\<lparr>it_running := False\<rparr> else t'))"

definition request_finished :: "InactivityTimer \<Rightarrow> ('e, InactivityTimer) outcome" where
  "request_finished t =
     bindR (assertR (it_num_requests t > 0))
       (\<lambda>_. let t' = t\<lparr>it_num_requests := it_num_requests t - 1\<rparr> in
             Ok (if it_num_requests t' = 0 then t'\<lparr>it_running := True\<rparr> else t'))"

section \<open>Activity notifiers\<close>

text \<open>
  The notifiers that exist, by a number that stands for the object, each with whether its
  \<open>timer_\<close> is set, and the timer they share.
\<close>

record activity =
  ac_timer :: InactivityTimer
  ac_notifiers :: "(nat \<times> bool) list"

datatype activity_event =
    Notifier_default nat      \<comment> \<open>\<open>ActivityNotifier()\<close>\<close>
  | Notifier_start nat        \<comment> \<open>\<open>ActivityNotifier(timer)\<close>\<close>
  | Notifier_move nat nat     \<comment> \<open>move construction of a new object from an old one\<close>
  | Notifier_assign nat nat   \<comment> \<open>move assignment: target, source\<close>
  | Notifier_destroy nat      \<comment> \<open>destructor\<close>

definition holds_timer :: "activity \<Rightarrow> nat \<Rightarrow> bool" where
  "holds_timer a i \<longleftrightarrow> map_of (ac_notifiers a) i = Some True"

fun activity_step :: "activity \<Rightarrow> activity_event \<Rightarrow> ('e, activity) outcome" where
  "activity_step a (Notifier_default i) = Ok (a\<lparr>ac_notifiers := map_insert i False (ac_notifiers a)\<rparr>)"
| "activity_step a (Notifier_start i) =
     bindR (request_started (ac_timer a))
       (\<lambda>t. Ok (a\<lparr>ac_timer := t, ac_notifiers := map_insert i True (ac_notifiers a)\<rparr>))"
| "activity_step a (Notifier_move i j) =
     Ok (a\<lparr>ac_notifiers := map_insert i (holds_timer a j) (map_insert j False (ac_notifiers a))\<rparr>)"
| "activity_step a (Notifier_assign i j) =
     Ok (a\<lparr>ac_notifiers := map_insert i (holds_timer a j) (map_insert j False (ac_notifiers a))\<rparr>)"
| "activity_step a (Notifier_destroy i) =
     (if holds_timer a i
      then bindR (request_finished (ac_timer a))
             (\<lambda>t. Ok (a\<lparr>ac_timer := t, ac_notifiers := map_erase i (ac_notifiers a)\<rparr>))
      else Ok (a\<lparr>ac_notifiers := map_erase i (ac_notifiers a)\<rparr>))"

text \<open>
  How C++ uses the objects: a new object gets a new number, moves and destruction name
  existing objects, and a move assignment goes into a notifier that holds no timer (the
  jobs call \<open>set_activity\<close> once, on a default-constructed member).
\<close>

fun activity_legal :: "activity \<Rightarrow> activity_event \<Rightarrow> bool" where
  "activity_legal a (Notifier_default i) = (map_of (ac_notifiers a) i = None)"
| "activity_legal a (Notifier_start i) = (map_of (ac_notifiers a) i = None)"
| "activity_legal a (Notifier_move i j) =
     (map_of (ac_notifiers a) i = None \<and> map_of (ac_notifiers a) j \<noteq> None)"
| "activity_legal a (Notifier_assign i j) =
     (i \<noteq> j \<and> map_of (ac_notifiers a) i = Some False \<and> map_of (ac_notifiers a) j \<noteq> None)"
| "activity_legal a (Notifier_destroy i) = (map_of (ac_notifiers a) i \<noteq> None)"

definition holders :: "(nat \<times> bool) list \<Rightarrow> nat" where
  "holders ns = length (filter snd ns)"

text \<open>The count is the number of notifiers that hold the timer, and the timer runs only when
  there are none.\<close>

definition activity_inv :: "activity \<Rightarrow> bool" where
  "activity_inv a \<longleftrightarrow> ordered_map (ac_notifiers a) \<and>
     it_num_requests (ac_timer a) = int (holders (ac_notifiers a)) \<and>
     (it_running (ac_timer a) \<longrightarrow> holders (ac_notifiers a) = 0)"

definition old_holder :: "(nat \<times> bool) list \<Rightarrow> nat \<Rightarrow> nat" where
  "old_holder ns i = (if map_of ns i = Some True then 1 else 0)"

lemma holders_insert:
  "ordered_map ns \<Longrightarrow> holders (map_insert i b ns) + old_holder ns i = holders ns + (if b then 1 else 0)"
proof (induction i b ns rule: map_insert.induct)
  case (2 k v k' v' m)
  then have "k < k' \<Longrightarrow> map_of m k = None"
    by (force simp: map_of_eq_None_iff)
  with 2 show ?case by (auto simp: holders_def old_holder_def)
qed (simp add: holders_def old_holder_def)

lemma holders_erase:
  "ordered_map ns \<Longrightarrow> holders (map_erase i ns) + old_holder ns i = holders ns"
proof (induction ns)
  case (Cons e ns)
  obtain k b where e: "e = (k, b)" by force
  show ?case
  proof (cases "k = i")
    case True
    with Cons.prems e have "i \<notin> fst ` set ns" by auto
    then have "map_erase i ns = ns" by (rule map_erase_absent)
    with True e show ?thesis by (simp add: holders_def old_holder_def map_erase_def)
  next
    case False
    with Cons e show ?thesis by (simp add: holders_def old_holder_def map_erase_def)
  qed
qed (simp add: holders_def old_holder_def map_erase_def)

text \<open>
  As long as no timer-holding notifier is assigned over, creating, moving and destroying
  notifiers never fails an assertion, the request count stays the number of notifiers that
  hold the timer, and the timer never runs while a request is in progress.
\<close>

theorem activity_step_inv:
  assumes "activity_inv a" and "activity_legal a ev"
  shows "\<exists>a'. activity_step a ev = Ok a' \<and> activity_inv a' \<and>
    (it_running (ac_timer a') \<longrightarrow> (\<forall>i. \<not> holds_timer a' i))"
proof -
  have none: "\<forall>i. \<not> holds_timer b i" if "holders (ac_notifiers b) = 0" for b
    using that by (auto simp: holds_timer_def holders_def filter_empty_conv dest!: map_of_SomeD)
  note ord = assms(1) [unfolded activity_inv_def, THEN conjunct1]
  have "\<exists>a'. activity_step a ev = Ok a' \<and> activity_inv a'"
  proof (cases ev)
    case (Notifier_default i)
    with assms holders_insert [OF ord, of i False] show ?thesis
      by (auto simp: activity_inv_def old_holder_def)
  next
    case (Notifier_start i)
    with assms holders_insert [OF ord, of i True] show ?thesis
      by (auto simp: activity_inv_def old_holder_def request_started_def Let_def)
  next
    case (Notifier_move i j)
    with assms holders_insert [OF ord, of j False]
      holders_insert [OF ordered_map_insert [OF ord], of i "holds_timer a j" j False] show ?thesis
      by (auto simp: activity_inv_def old_holder_def holds_timer_def map_of_insert split: if_splits)
  next
    case (Notifier_assign i j)
    with assms holders_insert [OF ord, of j False]
      holders_insert [OF ordered_map_insert [OF ord], of i "holds_timer a j" j False] show ?thesis
      by (auto simp: activity_inv_def old_holder_def holds_timer_def map_of_insert split: if_splits)
  next
    case (Notifier_destroy i)
    with assms holders_erase [OF ord, of i] ordered_map_erase [OF ord, of i] show ?thesis
      by (auto simp: activity_inv_def old_holder_def holds_timer_def request_finished_def Let_def
          split: if_splits)
  qed
  with none show ?thesis by (fastforce simp: activity_inv_def)
qed

theorem activity_step_inv_witness:
  "\<exists>a'. activity_step \<lparr>ac_timer = \<lparr>it_interval = 30000, it_running = True, it_num_requests = 0\<rparr>,
       ac_notifiers = []\<rparr> (Notifier_start 0) = Ok a' \<and> activity_inv a' \<and>
     (it_running (ac_timer a') \<longrightarrow> (\<forall>i. \<not> holds_timer a' i))"
  by (rule activity_step_inv) (simp_all add: activity_inv_def holders_def)

text \<open>Assigning over a notifier that holds the timer drops its request without finishing it:
  the count stays one too high for good, and the process never becomes idle.\<close>

lemma assign_over_holder_leaks:
  "activity_step \<lparr>ac_timer = \<lparr>it_interval = 30000, it_running = False, it_num_requests = 2\<rparr>,
      ac_notifiers = [(0, True), (1, True)]\<rparr> (Notifier_assign 0 1) =
   Ok \<lparr>ac_timer = \<lparr>it_interval = 30000, it_running = False, it_num_requests = 2\<rparr>,
      ac_notifiers = [(0, True), (1, False)]\<rparr>"
  by (simp add: holds_timer_def)

text \<open>
  A provider timeout of \<open>"0"\<close> arms a timer with interval 0 as soon as the last request
  has finished: the process exits at once, although the header says that 0 means "never".
\<close>

theorem zero_timeout_exits_at_once:
  assumes "env ''SF_PROVIDER_IDLE_TIMEOUT'' = Some ''0''"
  shows "bindR (provider_timeout_ms env) (\<lambda>ms.
           bindR (InactivityTimer_init ms) (\<lambda>t.
           bindR (request_started t) request_finished)) =
         Ok \<lparr>it_interval = 0, it_running = True, it_num_requests = 0\<rparr>"
proof -
  have z: "nat_to_string 0 = ''0''"
    by code_simp
  have "provider_timeout_ms env = Ok 0"
    using stoi_nat_to_string [of 0] assms
    by (simp add: provider_timeout_ms_def get_timeout_ms_def EnvVars_get_def mul_int_def INT_MIN_def
        INT_MAX_def z)
  then show ?thesis
    by (simp add: InactivityTimer_init_def request_started_def request_finished_def Let_def)
qed

theorem zero_timeout_exits_at_once_witness:
  "bindR (provider_timeout_ms [''SF_PROVIDER_IDLE_TIMEOUT'' \<mapsto> ''0'']) (\<lambda>ms.
     bindR (InactivityTimer_init ms) (\<lambda>t. bindR (request_started t) request_finished)) =
   Ok \<lparr>it_interval = 0, it_running = True, it_num_requests = 0\<rparr>"
  by (rule zero_timeout_exits_at_once) simp

end
