(* ===== verification/Common.thy ===== *)
theory Common
  imports Prelude "HOL-Library.Word"
begin

text \<open>
  The data that provider, registry and client exchange: item types and conflict policies
  (\<open>include/unity/storage/common.h\<close>), the table of well-known metadata keys
  (\<open>internal/metadata_keys.h\<close>), the provider's \<open>Item\<close>, the client's \<open>ItemMetadata\<close> and
  \<open>AccountDetails\<close> with its comparison operators (\<open>src/internal/AccountDetails.cpp\<close>).
\<close>

section \<open>Item types, policies and metadata keys\<close>

datatype ItemType = IT_file | IT_folder | IT_root

text \<open>The enumerators' values; \<open>LAST_ENTRY__\<close> is the end marker, not a type.\<close>

fun ItemType_code :: "ItemType \<Rightarrow> int" where
  "ItemType_code IT_file = 0"
| "ItemType_code IT_folder = 1"
| "ItemType_code IT_root = 2"

definition LAST_ENTRY :: int where
  "LAST_ENTRY = 3"

text \<open>\<open>static_cast<ItemType>(v)\<close>, used only for values that were range-checked.\<close>

definition ItemType_of_code :: "int \<Rightarrow> ItemType" where
  "ItemType_of_code v = (if v = 0 then IT_file else if v = 1 then IT_folder else IT_root)"

lemma ItemType_of_code_code [simp]: "ItemType_of_code (ItemType_code t) = t"
  by (cases t) (simp_all add: ItemType_of_code_def)

lemma ItemType_code_range [simp]: "0 \<le> ItemType_code t" "ItemType_code t < LAST_ENTRY"
  by (cases t; simp add: LAST_ENTRY_def)+

datatype ConflictPolicy = error_if_conflict | ignore_conflict

definition SIZE_IN_BYTES :: string where "SIZE_IN_BYTES = ''size_in_bytes''"
definition CREATION_TIME :: string where "CREATION_TIME = ''creation_time''"
definition LAST_MODIFIED_TIME :: string where "LAST_MODIFIED_TIME = ''last_modified_time''"
definition CHILD_COUNT :: string where "CHILD_COUNT = ''child_count''"
definition DESCRIPTION :: string where "DESCRIPTION = ''description''"
definition DISPLAY_NAME :: string where "DISPLAY_NAME = ''display_name''"
definition FREE_SPACE_BYTES :: string where "FREE_SPACE_BYTES = ''free_space_bytes''"
definition USED_SPACE_BYTES :: string where "USED_SPACE_BYTES = ''used_space_bytes''"
definition CONTENT_TYPE :: string where "CONTENT_TYPE = ''content_type''"
definition WRITABLE :: string where "WRITABLE = ''writable''"
definition MD5 :: string where "MD5 = ''md5''"
definition DOWNLOAD_URL :: string where "DOWNLOAD_URL = ''download_url''"

lemmas metadata_key_defs = SIZE_IN_BYTES_def CREATION_TIME_def LAST_MODIFIED_TIME_def
  CHILD_COUNT_def DESCRIPTION_def DISPLAY_NAME_def FREE_SPACE_BYTES_def USED_SPACE_BYTES_def
  CONTENT_TYPE_def WRITABLE_def MD5_def DOWNLOAD_URL_def

datatype MetadataType = non_zero_pos_int64 | iso_8601_date_time | MT_string | MT_boolean

definition known_metadata :: "(string \<times> MetadataType) list" where
  "known_metadata =
    [(SIZE_IN_BYTES, non_zero_pos_int64),
     (CREATION_TIME, iso_8601_date_time),
     (LAST_MODIFIED_TIME, iso_8601_date_time),
     (CHILD_COUNT, non_zero_pos_int64),
     (DESCRIPTION, MT_string),
     (DISPLAY_NAME, MT_string),
     (FREE_SPACE_BYTES, non_zero_pos_int64),
     (USED_SPACE_BYTES, non_zero_pos_int64),
     (CONTENT_TYPE, MT_string),
     (WRITABLE, MT_boolean),
     (MD5, MT_string),
     (DOWNLOAD_URL, MT_string)]"

lemma known_metadata_keys_distinct: "distinct (map fst known_metadata)"
  by (simp add: known_metadata_def metadata_key_defs)

section \<open>Items\<close>

text \<open>\<open>boost::variant<std::string, int64_t>\<close>, and the types of \<open>QVariant\<close> that occur.\<close>

datatype MetadataValue = MV_string string | MV_int64 int

datatype QVariant = QV_Invalid | QV_String string | QV_LongLong int | QV_Int int | QV_Bool bool

text \<open>The provider-side struct \<open>Item\<close> (\<open>provider/Item.h\<close>).\<close>

record provider_item =
  pi_item_id :: string
  pi_parent_ids :: "string list"
  pi_name :: string
  pi_etag :: string
  pi_type :: ItemType
  pi_metadata :: "(string \<times> MetadataValue) list"

text \<open>The client-side struct \<open>ItemMetadata\<close> (\<open>internal/ItemMetadata.h\<close>).\<close>

record ItemMetadata =
  md_item_id :: string
  md_parent_ids :: "string list"
  md_name :: string
  md_etag :: string
  md_type :: ItemType
  md_metadata :: "(string \<times> QVariant) list"

section \<open>Account details\<close>

record AccountDetails =
  ad_busName :: string
  ad_objectPath :: string
  ad_id :: "32 word"
  ad_serviceId :: string
  ad_displayName :: string
  ad_providerName :: string
  ad_iconName :: string

definition ad_eq :: "AccountDetails \<Rightarrow> AccountDetails \<Rightarrow> bool" where
  "ad_eq l r \<longleftrightarrow> ad_id l = ad_id r \<and> ad_serviceId l = ad_serviceId r \<and>
     ad_displayName l = ad_displayName r"

definition ad_ne :: "AccountDetails \<Rightarrow> AccountDetails \<Rightarrow> bool" where
  "ad_ne l r \<longleftrightarrow> \<not> ad_eq l r"

definition ad_lt :: "AccountDetails \<Rightarrow> AccountDetails \<Rightarrow> bool" where
  "ad_lt l r =
     (if ad_id l < ad_id r then True
      else if ad_id l > ad_id r then False
      else if ad_serviceId l < ad_serviceId r then True
      else if ad_serviceId l > ad_serviceId r then False
      else ad_displayName l < ad_displayName r)"

definition ad_le :: "AccountDetails \<Rightarrow> AccountDetails \<Rightarrow> bool" where
  "ad_le l r \<longleftrightarrow> ad_lt l r \<or> ad_eq l r"

definition ad_gt :: "AccountDetails \<Rightarrow> AccountDetails \<Rightarrow> bool" where
  "ad_gt l r \<longleftrightarrow> \<not> ad_le l r"

definition ad_ge :: "AccountDetails \<Rightarrow> AccountDetails \<Rightarrow> bool" where
  "ad_ge l r \<longleftrightarrow> \<not> ad_lt l r"

lemma ad_lt_lex:
  "ad_lt l r \<longleftrightarrow> ad_id l < ad_id r \<or>
     ad_id l = ad_id r \<and> (ad_serviceId l < ad_serviceId r \<or>
       ad_serviceId l = ad_serviceId r \<and> ad_displayName l < ad_displayName r)"
  by (auto simp: ad_lt_def)

interpretation ad_order: comparison ad_eq ad_lt
proof unfold_locales
  fix x y z x' y' :: AccountDetails
  show "ad_eq x x" by (simp add: ad_eq_def)
  show "ad_eq x y \<Longrightarrow> ad_eq y x" by (simp add: ad_eq_def)
  show "ad_eq x y \<Longrightarrow> ad_eq y z \<Longrightarrow> ad_eq x z" by (simp add: ad_eq_def)
  show "ad_eq x y \<Longrightarrow> \<not> ad_lt x y" by (simp add: ad_eq_def ad_lt_lex)
  show "ad_lt x y \<Longrightarrow> ad_lt y z \<Longrightarrow> ad_lt x z" by (force simp: ad_lt_lex)
  show "ad_lt x y \<or> ad_eq x y \<or> ad_lt y x" by (force simp: ad_eq_def ad_lt_lex)
  show "ad_eq x x' \<Longrightarrow> ad_eq y y' \<Longrightarrow> ad_lt x y \<Longrightarrow> ad_lt x' y'" by (simp add: ad_eq_def ad_lt_lex)
qed

end
