(* ===== verification/PeerCache.thy ===== *)
theory PeerCache
  imports Common
begin

text \<open>
  The cache of the credentials of D-Bus peers (\<open>src/provider/internal/DBusPeerCache.cpp\<close>):
  two generations of at most \<open>MAX_CACHE_SIZE\<close> entries, and the requests to the bus daemon
  that are under way with the promises that wait for each. A promise is a number; the calls
  of \<open>set_value\<close> are recorded in \<open>dc_resolved\<close>, the calls of \<open>GetConnectionCredentials\<close> in
  \<open>dc_asked\<close>.
\<close>

record PeerCredentials =
  cr_valid :: bool
  cr_uid :: "32 word"
  cr_pid :: "32 word"
  cr_label :: string

record DBusPeerCache =
  dc_apparmor_enabled :: bool
  dc_cache :: "(string \<times> PeerCredentials) list"
  dc_old_cache :: "(string \<times> PeerCredentials) list"
  dc_pending :: "(string \<times> nat list) list"
  dc_resolved :: "(nat \<times> PeerCredentials) list"
  dc_asked :: "string list"

definition MAX_CACHE_SIZE :: nat where "MAX_CACHE_SIZE = 50"

definition DBusPeerCache_init :: "bool \<Rightarrow> DBusPeerCache" where
  "DBusPeerCache_init apparmor = \<lparr>dc_apparmor_enabled = apparmor, dc_cache = [], dc_old_cache = [],
     dc_pending = [], dc_resolved = [], dc_asked = []\<rparr>"

definition set_value :: "nat \<Rightarrow> PeerCredentials \<Rightarrow> DBusPeerCache \<Rightarrow> DBusPeerCache" where
  "set_value p c s = s\<lparr>dc_resolved := dc_resolved s @ [(p, c)]\<rparr>"

text \<open>
  \<open>get\<close>: in the branch for the previous generation the reference \<open>credentials\<close> points into
  \<open>old_cache_\<close>; the entry is moved to \<open>cache_\<close> and erased, and the promise is then set from
  the dangling reference. That use after the erase is undefined behaviour.
\<close>

definition peer_get :: "string \<Rightarrow> nat \<Rightarrow> (DBusPeerCache, unit, unit) sx" where
  "peer_get peer promise = (\<lambda>s.
     case map_of (dc_cache s) peer of
       Some credentials \<Rightarrow> (Ok (), set_value promise credentials s)
     | None \<Rightarrow>
         (case map_of (dc_old_cache s) peer of
            Some credentials \<Rightarrow>
              (Abort, s\<lparr>dc_cache := map_emplace peer credentials (dc_cache s),
                        dc_old_cache := map_erase peer (dc_old_cache s)\<rparr>)
          | None \<Rightarrow>
              (case map_of (dc_pending s) peer of
                 Some promises \<Rightarrow>
                   (Ok (), s\<lparr>dc_pending := map_insert peer (promises @ [promise]) (dc_pending s)\<rparr>)
               | None \<Rightarrow>
                   (Ok (), s\<lparr>dc_asked := dc_asked s @ [peer],
                             dc_pending := map_insert peer [promise] (dc_pending s)\<rparr>))))"

section \<open>The reply of the bus daemon\<close>

text \<open>The entries of the reply map that are read; a missing entry reads as 0 or empty.\<close>

record peer_reply =
  pr_error :: bool
  pr_uid :: "32 word"
  pr_pid :: "32 word"
  pr_label :: string

text \<open>\<open>QByteArray::lastIndexOf\<close>: -1 when the character does not occur.\<close>

fun last_index :: "char \<Rightarrow> string \<Rightarrow> int" where
  "last_index c [] = -1"
| "last_index c (x # xs) =
     (let i = last_index c xs in if i \<ge> 0 then i + 1 else if x = c then 0 else -1)"

text \<open>The label without its terminator, with the mode in brackets cut off.\<close>

definition trim_mode :: "string \<Rightarrow> string" where
  "trim_mode label =
     (let pos = last_index (CHR '' '') label in
      if pos > 0 \<and> label \<noteq> [] \<and> last label = CHR '')'' \<and> label ! nat (pos + 1) = CHR ''(''
      then take (nat pos) label else label)"

definition peer_label :: "string \<Rightarrow> (unit, string) outcome" where
  "peer_label label =
     (if label = [] then Ok ''''
      else bindR (assertR (last label = CHR 0x00)) (\<lambda>_. Ok (trim_mode (butlast label))))"

definition peer_credentials :: "bool \<Rightarrow> peer_reply \<Rightarrow> (unit, PeerCredentials) outcome" where
  "peer_credentials apparmor_enabled reply =
     (if pr_error reply
      then Ok \<lparr>cr_valid = False, cr_uid = 0, cr_pid = 0, cr_label = ''''\<rparr>
      else bindR (if apparmor_enabled then peer_label (pr_label reply) else Ok ''unconfined'')
        (\<lambda>l. Ok \<lparr>cr_valid = True, cr_uid = pr_uid reply, cr_pid = pr_pid reply, cr_label = l\<rparr>))"

definition received_credentials :: "string \<Rightarrow> peer_reply \<Rightarrow> (DBusPeerCache, unit, unit) sx" where
  "received_credentials peer reply =
     sx_bind (sx_query (\<lambda>s. peer_credentials (dc_apparmor_enabled s) reply)) (\<lambda>credentials s.
       let s1 = (if length (dc_cache s) \<ge> MAX_CACHE_SIZE
                 then s\<lparr>dc_old_cache := dc_cache s, dc_cache := []\<rparr> else s);
           s2 = s1\<lparr>dc_cache := map_emplace peer credentials (dc_cache s1)\<rparr>
       in case map_of (dc_pending s2) peer of
            None \<Rightarrow> (Abort, s2)  \<comment> \<open>\<open>pending_.at(peer)\<close> throws \<open>out_of_range\<close> out of a slot\<close>
          | Some promises \<Rightarrow>
              (Ok (), (fold (\<lambda>p. set_value p credentials) promises s2)
                        \<lparr>dc_pending := map_erase peer (dc_pending s2)\<rparr>))"

section \<open>The invariant\<close>

text \<open>At most \<open>MAX_CACHE_SIZE\<close> entries a generation, and no request for a peer that is known.\<close>

definition peer_inv :: "DBusPeerCache \<Rightarrow> bool" where
  "peer_inv s \<longleftrightarrow> ordered_map (dc_pending s) \<and>
     length (dc_cache s) \<le> MAX_CACHE_SIZE \<and> length (dc_old_cache s) \<le> MAX_CACHE_SIZE \<and>
     (\<forall>p. map_of (dc_pending s) p \<noteq> None \<longrightarrow>
        map_of (dc_cache s) p = None \<and> map_of (dc_old_cache s) p = None)"

datatype peer_event = Get string nat | Received string peer_reply

text \<open>A reply arrives only for a request that is under way; a run stops where the behaviour
  is undefined.\<close>

definition peer_run :: "(DBusPeerCache, unit, unit) sx \<Rightarrow> DBusPeerCache \<Rightarrow> DBusPeerCache" where
  "peer_run m s = (case m s of (Ok _, s') \<Rightarrow> s' | _ \<Rightarrow> s)"

fun peer_step :: "DBusPeerCache \<Rightarrow> peer_event \<Rightarrow> DBusPeerCache" where
  "peer_step s (Get peer promise) = peer_run (peer_get peer promise) s"
| "peer_step s (Received peer reply) =
     (if map_of (dc_pending s) peer = None then s else peer_run (received_credentials peer reply) s)"

lemma fold_set_value:
  "fold (\<lambda>p. set_value p c) ps s = s\<lparr>dc_resolved := dc_resolved s @ map (\<lambda>p. (p, c)) ps\<rparr>"
  by (induction ps arbitrary: s) (simp_all add: set_value_def)

lemma peer_get_inv: "peer_inv s \<Longrightarrow> peer_inv (peer_run (peer_get peer promise) s)"
  by (auto simp: peer_run_def peer_get_def peer_inv_def set_value_def map_of_insert
      split: option.splits if_splits)

text \<open>What a reply does when a request for the peer is under way.\<close>

lemma received_credentials_run:
  assumes "map_of (dc_pending s) peer = Some promises"
    and "peer_credentials (dc_apparmor_enabled s) reply = Ok c"
  shows "received_credentials peer reply s =
    (let s1 = (if MAX_CACHE_SIZE \<le> length (dc_cache s)
               then s\<lparr>dc_old_cache := dc_cache s, dc_cache := []\<rparr> else s)
     in (Ok (), s1\<lparr>dc_cache := map_emplace peer c (dc_cache s1),
                   dc_resolved := dc_resolved s @ map (\<lambda>p. (p, c)) promises,
                   dc_pending := map_erase peer (dc_pending s)\<rparr>))"
  using assms by (simp add: received_credentials_def Let_def fold_set_value sx_bind_run sx_query_run)

lemma received_credentials_inv:
  assumes "peer_inv s" and "map_of (dc_pending s) peer = Some promises"
  shows "peer_inv (peer_run (received_credentials peer reply) s)"
proof (cases "peer_credentials (dc_apparmor_enabled s) reply")
  case (Ok c)
  have emplace: "length (map_emplace peer c m) \<le> MAX_CACHE_SIZE"
    if "length m < MAX_CACHE_SIZE" for m :: "(string \<times> PeerCredentials) list"
    using that length_map_emplace [of peer c m] by linarith
  have new: "length (map_emplace peer c []) \<le> MAX_CACHE_SIZE"
    by (simp add: map_emplace_def MAX_CACHE_SIZE_def)
  show ?thesis
    using assms emplace new
    by (auto simp: peer_run_def received_credentials_run [OF assms(2) Ok] Let_def peer_inv_def
        map_of_map_emplace_other not_le split: if_splits)
qed (use assms(1) in \<open>simp_all add: peer_run_def received_credentials_def sx_bind_run sx_query_run\<close>)

interpretation peer_machine: invariant_machine peer_step peer_inv
proof unfold_locales
  fix s e
  assume inv: "peer_inv s"
  show "peer_inv (peer_step s e)"
  proof (cases e)
    case (Get peer promise)
    with inv show ?thesis by (simp add: peer_get_inv)
  next
    case (Received peer reply)
    with inv show ?thesis by (auto intro: received_credentials_inv)
  qed
qed

section \<open>Properties\<close>


text \<open>
  Concurrent requests for one peer share one call to the bus daemon, and its reply
  resolves every one of them, in the order they came, with the same credentials, after which
  they are answered from the cache.
\<close>

theorem one_request_per_peer:
  assumes "peer_inv s" and "map_of (dc_pending s) peer = Some promises"
    and "peer_credentials (dc_apparmor_enabled s) reply = Ok c"
  shows "dc_asked (peer_step s (Get peer p)) = dc_asked s \<and>
    (let s' = peer_step (peer_step s (Get peer p)) (Received peer reply) in
       dc_resolved s' = dc_resolved s @ map (\<lambda>p. (p, c)) (promises @ [p]) \<and>
       map_of (dc_pending s') peer = None \<and>
       dc_resolved (peer_step s' (Get peer q)) = dc_resolved s' @ [(q, c)])"
proof -
  have unknown: "map_of (dc_cache s) peer = None" "map_of (dc_old_cache s) peer = None"
    using assms(1,2) by (auto simp: peer_inv_def)
  define s1 where "s1 = s\<lparr>dc_pending := map_insert peer (promises @ [p]) (dc_pending s)\<rparr>"
  have step1: "peer_step s (Get peer p) = s1"
    using assms(2) unknown by (simp add: s1_def peer_run_def peer_get_def)
  have pend: "map_of (dc_pending s1) peer = Some (promises @ [p])"
    using assms(1) by (simp add: s1_def map_of_insert peer_inv_def)
  have cred: "peer_credentials (dc_apparmor_enabled s1) reply = Ok c"
    using assms(3) by (simp add: s1_def)
  define s2 where "s2 = peer_step s1 (Received peer reply)"
  have s2: "dc_resolved s2 = dc_resolved s @ map (\<lambda>p. (p, c)) (promises @ [p])"
    "map_of (dc_pending s2) peer = None" "map_of (dc_cache s2) peer = Some c"
    using pend unknown received_credentials_run [OF pend cred]
    by (auto simp: s2_def s1_def peer_run_def Let_def map_emplace_def map_of_insert_self split: if_splits)
  have "dc_resolved (peer_step s2 (Get peer q)) = dc_resolved s2 @ [(q, c)]"
    using s2 by (simp add: peer_run_def peer_get_def set_value_def)
  moreover have "dc_asked s1 = dc_asked s" by (simp add: s1_def)
  ultimately show ?thesis
    unfolding step1 Let_def s2_def [symmetric] using s2 by blast
qed

theorem one_request_per_peer_witness:
  "dc_resolved (peer_step (peer_step (peer_step (DBusPeerCache_init False) (Get '':1'' 0)) (Get '':1'' 1))
     (Received '':1'' \<lparr>pr_error = False, pr_uid = 1000, pr_pid = 7, pr_label = ''''\<rparr>)) =
   [(0, \<lparr>cr_valid = True, cr_uid = 1000, cr_pid = 7, cr_label = ''unconfined''\<rparr>),
    (1, \<lparr>cr_valid = True, cr_uid = 1000, cr_pid = 7, cr_label = ''unconfined''\<rparr>)]"
proof -
  let ?s = "peer_step (DBusPeerCache_init False) (Get '':1'' 0)"
  have inv: "peer_inv ?s"
    by (rule peer_machine.inv_step) (simp add: peer_inv_def DBusPeerCache_init_def)
  have pend: "map_of (dc_pending ?s) '':1'' = Some [0]"
    by (simp add: peer_run_def peer_get_def DBusPeerCache_init_def)
  have cred: "peer_credentials (dc_apparmor_enabled ?s)
      \<lparr>pr_error = False, pr_uid = 1000, pr_pid = 7, pr_label = ''''\<rparr> =
     Ok \<lparr>cr_valid = True, cr_uid = 1000, cr_pid = 7, cr_label = ''unconfined''\<rparr>"
    by (simp add: peer_run_def peer_get_def DBusPeerCache_init_def peer_credentials_def)
  have "dc_resolved ?s = []" by (simp add: peer_run_def peer_get_def DBusPeerCache_init_def)
  with one_request_per_peer [OF inv pend cred, of 1] show ?thesis
    by (simp add: Let_def del: peer_step.simps)
qed

text \<open>
  A peer whose credentials are only in the previous generation is never answered: the
  lookup moves the entry and then reads it through a reference into the map it was erased
  from.
\<close>

theorem old_generation_hit_is_undefined:
  assumes "map_of (dc_cache s) peer = None" and "map_of (dc_old_cache s) peer = Some c"
  shows "fst (peer_get peer p s) = Abort \<and> dc_resolved (snd (peer_get peer p s)) = dc_resolved s"
  using assms by (simp add: peer_get_def)

theorem old_generation_hit_is_undefined_witness:
  "fst (peer_get '':1'' 0 ((DBusPeerCache_init True)\<lparr>dc_old_cache :=
     [('':1'', \<lparr>cr_valid = True, cr_uid = 1, cr_pid = 2, cr_label = ''x''\<rparr>)]\<rparr>)) = Abort"
  using old_generation_hit_is_undefined [of "(DBusPeerCache_init True)\<lparr>dc_old_cache :=
     [('':1'', \<lparr>cr_valid = True, cr_uid = 1, cr_pid = 2, cr_label = ''x''\<rparr>)]\<rparr>" "'':1''"
     "\<lparr>cr_valid = True, cr_uid = 1, cr_pid = 2, cr_label = ''x''\<rparr>" 0]
  by (simp add: DBusPeerCache_init_def)

subsection \<open>Security labels\<close>

lemma last_index_append: "c \<notin> set t \<Longrightarrow> last_index c (s @ c # t) = int (length s)"
proof (induction s)
  case Nil
  have "last_index c t = -1" using Nil by (induction t) auto
  then show ?case by (simp add: Let_def)
next
  case (Cons x s)
  then show ?case by (simp add: Let_def)
qed

lemma trim_mode_mode:
  assumes "s \<noteq> []" and "CHR '' '' \<notin> set m"
  shows "trim_mode (s @ '' ('' @ m @ '')'') = s"
proof -
  have "last_index (CHR '' '') (s @ CHR '' '' # ''('' @ m @ '')'') = int (length s)"
    using assms(2) by (intro last_index_append) auto
  then have "last_index (CHR '' '') (s @ '' ('' @ m @ '')'') = int (length s)" by simp
  with assms(1) show ?thesis by (simp add: trim_mode_def nth_append nat_add_distrib)
qed

end
