(* ===== verification/AccountData.thy ===== *)
theory AccountData
  imports Prelude
begin

text \<open>
  The credentials of an account (\<open>src/provider/internal/OnlineAccountData.cpp\<close> and
  \<open>FixedAccountData.cpp\<close>). The Online Accounts library is outside: its answers arrive as
  events, and the calls made to it are recorded in \<open>oa_sent\<close>. \<open>auth_watcher_\<close> is set while
  an authentication session is running.
\<close>

datatype AuthenticationMethod = AM_OAuth1 | AM_OAuth2 | AM_Password | AM_Other

datatype Credentials =
    Blank
  | OAuth1Credentials string string string string
  | OAuth2Credentials string
  | PasswordCredentials string string string

record auth_request =
  ar_method :: AuthenticationMethod
  ar_interactive :: bool
  ar_invalidate :: bool

record OnlineAccountData =
  oa_method :: AuthenticationMethod
  oa_host :: string                       \<comment> \<open>account setting \<open>"host"\<close>\<close>
  oa_auth_watcher :: bool
  oa_authenticating_interactively :: bool
  oa_authenticating_invalidate_cache :: bool
  oa_credentials :: Credentials
  oa_sent :: "auth_request list"
  oa_authenticated :: nat                 \<comment> \<open>emissions of \<open>authenticated()\<close>\<close>

text \<open>The reply to an authentication request, with the fields of all reply classes.\<close>

record auth_reply =
  rp_hasError :: bool
  rp_consumerKey :: string
  rp_consumerSecret :: string
  rp_token :: string
  rp_tokenSecret :: string
  rp_accessToken :: string
  rp_username :: string
  rp_password :: string
  rp_data_UserName :: string
  rp_data_Secret :: string

definition authenticate :: "bool \<Rightarrow> bool \<Rightarrow> OnlineAccountData \<Rightarrow> OnlineAccountData" where
  "authenticate interactive invalidate_cache s =
     (if oa_auth_watcher s \<and>
         (if invalidate_cache then oa_authenticating_invalidate_cache s
          else if interactive then oa_authenticating_interactively s
          else True)
      then s
      else s\<lparr>oa_authenticating_interactively := interactive,
             oa_authenticating_invalidate_cache := invalidate_cache,
             oa_credentials := Blank,
             oa_sent := oa_sent s @ [\<lparr>ar_method = oa_method s, ar_interactive = interactive,
                                      ar_invalidate = invalidate_cache\<rparr>],
             oa_auth_watcher := True\<rparr>)"

definition has_credentials :: "OnlineAccountData \<Rightarrow> bool" where
  "has_credentials s \<longleftrightarrow> oa_credentials s \<noteq> Blank"

text \<open>The constructor starts a non-interactive session.\<close>

definition OnlineAccountData_init :: "AuthenticationMethod \<Rightarrow> string \<Rightarrow> OnlineAccountData" where
  "OnlineAccountData_init meth host =
     authenticate False False
       \<lparr>oa_method = meth, oa_host = host, oa_auth_watcher = False,
        oa_authenticating_interactively = False, oa_authenticating_invalidate_cache = False,
        oa_credentials = Blank, oa_sent = [], oa_authenticated = 0\<rparr>"

text \<open>\<open>on_authenticated\<close>; the empty user name and password are replaced by the raw reply data
  (a workaround for a bug of the service).\<close>

definition credentials_of :: "AuthenticationMethod \<Rightarrow> string \<Rightarrow> auth_reply \<Rightarrow> Credentials" where
  "credentials_of meth host r =
     (case meth of
        AM_OAuth1 \<Rightarrow>
          if rp_hasError r then Blank
          else OAuth1Credentials (rp_consumerKey r) (rp_consumerSecret r) (rp_token r) (rp_tokenSecret r)
      | AM_OAuth2 \<Rightarrow> if rp_hasError r then Blank else OAuth2Credentials (rp_accessToken r)
      | AM_Password \<Rightarrow>
          if rp_hasError r then Blank
          else if rp_username r = [] \<and> rp_password r = []
               then PasswordCredentials (rp_data_UserName r) (rp_data_Secret r) host
               else PasswordCredentials (rp_username r) (rp_password r) host
      | AM_Other \<Rightarrow> Blank)"

definition oa_on_authenticated :: "auth_reply \<Rightarrow> OnlineAccountData \<Rightarrow> OnlineAccountData" where
  "oa_on_authenticated reply s =
     s\<lparr>oa_credentials := credentials_of (oa_method s) (oa_host s) reply,
       oa_auth_watcher := False,
       oa_authenticated := oa_authenticated s + 1\<rparr>"

definition oa_on_changed :: "OnlineAccountData \<Rightarrow> OnlineAccountData" where
  "oa_on_changed s = (if oa_auth_watcher s then s else s\<lparr>oa_credentials := Blank\<rparr>)"

datatype account_event = Authenticate bool bool | Auth_reply auth_reply | Changed

text \<open>A reply arrives only while a session is running.\<close>

fun account_step :: "OnlineAccountData \<Rightarrow> account_event \<Rightarrow> OnlineAccountData" where
  "account_step s (Authenticate i v) = authenticate i v s"
| "account_step s (Auth_reply r) = (if oa_auth_watcher s then oa_on_authenticated r s else s)"
| "account_step s Changed = oa_on_changed s"

section \<open>Fixed accounts\<close>

text \<open>A provider without Online Accounts: no credentials are needed, \<open>authenticate\<close> only
  queues the signal.\<close>

definition fixed_authenticate :: "bool \<Rightarrow> bool \<Rightarrow> nat \<Rightarrow> nat" where
  "fixed_authenticate interactive invalidate_cache queued_signals = queued_signals + 1"

definition fixed_has_credentials :: bool where
  "fixed_has_credentials \<longleftrightarrow> True"

section \<open>Properties\<close>

text \<open>While a session is running there are no credentials, and the flags are those of the
  request sent last.\<close>

definition account_inv :: "OnlineAccountData \<Rightarrow> bool" where
  "account_inv s \<longleftrightarrow>
     (oa_auth_watcher s \<longrightarrow> \<not> has_credentials s \<and> oa_sent s \<noteq> [] \<and>
        ar_interactive (last (oa_sent s)) = oa_authenticating_interactively s \<and>
        ar_invalidate (last (oa_sent s)) = oa_authenticating_invalidate_cache s)"

interpretation account_machine: invariant_machine account_step account_inv
proof unfold_locales
  fix s e
  assume "account_inv s"
  then show "account_inv (account_step s e)"
    by (cases e) (auto simp: account_inv_def authenticate_def oa_on_authenticated_def
        oa_on_changed_def has_credentials_def)
qed

lemma account_inv_init: "account_inv (OnlineAccountData_init meth host)"
  by (simp add: account_inv_def OnlineAccountData_init_def authenticate_def has_credentials_def)

text \<open>
  A request to authenticate always leaves a session running that serves it: its session
  invalidates the cache when that was asked for, and is interactive when that was asked for
  without invalidation; stale credentials are gone until the session ends.
\<close>

theorem authenticate_serves_request:
  assumes "s = run_events account_step (OnlineAccountData_init meth host) es"
  shows "let s' = authenticate interactive invalidate s; r = last (oa_sent s') in
    oa_auth_watcher s' \<and> \<not> has_credentials s' \<and> oa_sent s' \<noteq> [] \<and>
    (invalidate \<longrightarrow> ar_invalidate r) \<and> (interactive \<and> \<not> invalidate \<longrightarrow> ar_interactive r)"
proof -
  have "account_inv s"
    unfolding assms by (rule account_machine.inv_run) (rule account_inv_init)
  then show ?thesis
    by (auto simp: Let_def account_inv_def authenticate_def has_credentials_def)
qed

theorem authenticate_serves_request_witness:
  "let s' = authenticate True True (run_events account_step (OnlineAccountData_init AM_OAuth2 '''') []);
       r = last (oa_sent s') in
    oa_auth_watcher s' \<and> \<not> has_credentials s' \<and> oa_sent s' \<noteq> [] \<and>
    (True \<longrightarrow> ar_invalidate r) \<and> (True \<and> \<not> True \<longrightarrow> ar_interactive r)"
  by (rule authenticate_serves_request) (rule refl)

end
