(* ===== verification/Errors.thy ===== *)
theory Errors
  imports Common
begin

text \<open>
  Errors on both sides of the bus: the exceptions a provider throws
  (\<open>src/provider/Exceptions.cpp\<close>), their conversion for a future
  (\<open>provider/internal/utils.cpp\<close>), the D-Bus error reply made from one
  (\<open>Handler::marshal_exception\<close>), the client's error object
  (\<open>qt/internal/StorageErrorImpl.cpp\<close>), and the way back from a reply to an error object
  (\<open>qt/internal/unmarshal_error.cpp\<close>, \<open>qt/internal/Handler.h\<close>).
\<close>

section \<open>Provider exceptions\<close>

datatype StorageException =
    RemoteCommsException string
  | NotExistsException string string
  | ExistsException string string string
  | ConflictException string
  | UnauthorizedException string
  | PermissionException string
  | QuotaException string
  | CancelledException string
  | LogicException string
  | InvalidArgumentException string
  | ResourceException string int
  | UnknownException string
  | OtherStorageException string string  \<comment> \<open>a provider's own subclass: type, message\<close>

fun exc_type :: "StorageException \<Rightarrow> string" where
  "exc_type (RemoteCommsException m) = ''RemoteCommsException''"
| "exc_type (NotExistsException m k) = ''NotExistsException''"
| "exc_type (ExistsException m i n) = ''ExistsException''"
| "exc_type (ConflictException m) = ''ConflictException''"
| "exc_type (UnauthorizedException m) = ''UnauthorizedException''"
| "exc_type (PermissionException m) = ''PermissionException''"
| "exc_type (QuotaException m) = ''QuotaException''"
| "exc_type (CancelledException m) = ''CancelledException''"
| "exc_type (LogicException m) = ''LogicException''"
| "exc_type (InvalidArgumentException m) = ''InvalidArgumentException''"
| "exc_type (ResourceException m c) = ''ResourceException''"
| "exc_type (UnknownException m) = ''UnknownException''"
| "exc_type (OtherStorageException t m) = t"

fun error_message :: "StorageException \<Rightarrow> string" where
  "error_message (RemoteCommsException m) = m"
| "error_message (NotExistsException m k) = m"
| "error_message (ExistsException m i n) = m"
| "error_message (ConflictException m) = m"
| "error_message (UnauthorizedException m) = m"
| "error_message (PermissionException m) = m"
| "error_message (QuotaException m) = m"
| "error_message (CancelledException m) = m"
| "error_message (LogicException m) = m"
| "error_message (InvalidArgumentException m) = m"
| "error_message (ResourceException m c) = m"
| "error_message (UnknownException m) = m"
| "error_message (OtherStorageException t m) = m"

definition exc_what :: "StorageException \<Rightarrow> string" where
  "exc_what e = exc_type e @ '': '' @ error_message e"

text \<open>Anything that can be thrown: a storage exception, another \<open>std::exception\<close> with its
  \<open>what()\<close>, or something else.\<close>

datatype thrown = TStorage StorageException | TStd string | TOther

text \<open>\<open>convert_exception_ptr\<close>: \<open>boost::copy_exception\<close> of the known exceptions, otherwise
  \<open>boost::current_exception()\<close>.\<close>

datatype boost_exception_ptr = copy_exception StorageException | current_exception thrown

fun convert_exception_ptr :: "thrown \<Rightarrow> boost_exception_ptr" where
  "convert_exception_ptr (TStorage (OtherStorageException t m)) =
     current_exception (TStorage (OtherStorageException t m))"
| "convert_exception_ptr (TStorage e) = copy_exception e"
| "convert_exception_ptr t = current_exception t"

section \<open>The error reply\<close>

record error_reply =
  er_name :: string
  er_args :: "QVariant list"

definition createErrorReply :: "string \<Rightarrow> string \<Rightarrow> error_reply" where
  "createErrorReply name msg = \<lparr>er_name = name, er_args = [QV_String msg]\<rparr>"

definition DBUS_ERROR_PREFIX :: string where
  "DBUS_ERROR_PREFIX = ''com.canonical.StorageFramework.''"

text \<open>\<open>Handler::marshal_exception\<close>: the reply, and the lines written with \<open>qDebug()\<close>.\<close>

fun marshal_exception :: "thrown \<Rightarrow> error_reply \<times> string list" where
  "marshal_exception (TStorage e) =
     (let reply = createErrorReply (DBUS_ERROR_PREFIX @ exc_type e) (error_message e) in
      case e of
        NotExistsException m k \<Rightarrow> (reply\<lparr>er_args := er_args reply @ [QV_String k]\<rparr>, [])
      | ExistsException m i n \<Rightarrow>
          (reply\<lparr>er_args := er_args reply @ [QV_String i] @ [QV_String n]\<rparr>, [])
      | ResourceException m c \<Rightarrow> (reply\<lparr>er_args := er_args reply @ [QV_Int c]\<rparr>, [exc_what e])
      | RemoteCommsException m \<Rightarrow> (reply, [exc_what e])
      | UnknownException m \<Rightarrow> (reply, [exc_what e])
      | _ \<Rightarrow> (reply, []))"
| "marshal_exception (TStd what) =
     (let msg = ''unknown exception thrown by provider: '' @ what in
      (createErrorReply (DBUS_ERROR_PREFIX @ ''UnknownException'') msg, [msg]))"
| "marshal_exception TOther =
     (let msg = ''unknown exception thrown by provider'' in
      (createErrorReply (DBUS_ERROR_PREFIX @ ''UnknownException'') msg, [msg]))"

section \<open>The client's error object\<close>

datatype ErrorType =
    ET_NoError | ET_LocalCommsError | ET_RemoteCommsError | ET_RuntimeDestroyed
  | ET_NotExists | ET_Exists | ET_Conflict | ET_PermissionDenied | ET_Cancelled | ET_LogicError
  | ET_InvalidArgument | ET_ResourceError | ET_QuotaExceeded | ET_Unauthorized

text \<open>The enumerators' values, and the name each has in the header.\<close>

fun ErrorType_code :: "ErrorType \<Rightarrow> nat" where
  "ErrorType_code ET_NoError = 0"
| "ErrorType_code ET_LocalCommsError = 1"
| "ErrorType_code ET_RemoteCommsError = 2"
| "ErrorType_code ET_RuntimeDestroyed = 3"
| "ErrorType_code ET_NotExists = 4"
| "ErrorType_code ET_Exists = 5"
| "ErrorType_code ET_Conflict = 6"
| "ErrorType_code ET_PermissionDenied = 7"
| "ErrorType_code ET_Cancelled = 8"
| "ErrorType_code ET_LogicError = 9"
| "ErrorType_code ET_InvalidArgument = 10"
| "ErrorType_code ET_ResourceError = 11"
| "ErrorType_code ET_QuotaExceeded = 12"
| "ErrorType_code ET_Unauthorized = 13"

fun enumerator_name :: "ErrorType \<Rightarrow> string" where
  "enumerator_name ET_NoError = ''NoError''"
| "enumerator_name ET_LocalCommsError = ''LocalCommsError''"
| "enumerator_name ET_RemoteCommsError = ''RemoteCommsError''"
| "enumerator_name ET_RuntimeDestroyed = ''RuntimeDestroyed''"
| "enumerator_name ET_NotExists = ''NotExists''"
| "enumerator_name ET_Exists = ''Exists''"
| "enumerator_name ET_Conflict = ''Conflict''"
| "enumerator_name ET_PermissionDenied = ''PermissionDenied''"
| "enumerator_name ET_Cancelled = ''Cancelled''"
| "enumerator_name ET_LogicError = ''LogicError''"
| "enumerator_name ET_InvalidArgument = ''InvalidArgument''"
| "enumerator_name ET_ResourceError = ''ResourceError''"
| "enumerator_name ET_QuotaExceeded = ''QuotaExceeded''"
| "enumerator_name ET_Unauthorized = ''Unauthorized''"

text \<open>The array has \<open>__LAST_STORAGE_ERROR\<close> = 14 elements and 13 initialisers: the last
  element is a default-constructed \<open>QString\<close>.\<close>

definition ERROR_NAMES :: "string list" where
  "ERROR_NAMES =
    [''NoError'', ''LocalCommsError'', ''RemoteCommsError'', ''RuntimeDestroyed'',
     ''NotExists'', ''Exists'', ''Conflict'', ''PermissionDenied'', ''Cancelled'',
     ''LogicError'', ''InvalidArgument'', ''ResourceError'', ''Unauthorized''] @ ['''']"

record StorageError =
  se_type :: ErrorType
  se_name :: string
  se_message :: string
  se_item_id :: string
  se_item_name :: string
  se_error_code :: int

definition StorageErrorImpl_init :: "ErrorType \<Rightarrow> StorageError" where
  "StorageErrorImpl_init t = \<lparr>se_type = t, se_name = ERROR_NAMES ! ErrorType_code t,
     se_message = '''', se_item_id = '''', se_item_name = '''', se_error_code = 0\<rparr>"

definition StorageErrorImpl_default :: StorageError where
  "StorageErrorImpl_default = (StorageErrorImpl_init ET_NoError)\<lparr>se_message := ''No error''\<rparr>"

text \<open>The types the message-only constructor accepts; any other fails its \<open>assert\<close>.\<close>

definition message_only_types :: "ErrorType list" where
  "message_only_types =
    [ET_LocalCommsError, ET_RemoteCommsError, ET_RuntimeDestroyed, ET_Conflict,
     ET_PermissionDenied, ET_Cancelled, ET_LogicError, ET_InvalidArgument]"

definition StorageErrorImpl_msg :: "ErrorType \<Rightarrow> string \<Rightarrow> ('e, StorageError) outcome" where
  "StorageErrorImpl_msg t msg =
     bindR (assertR (t \<in> set message_only_types))
       (\<lambda>_. Ok ((StorageErrorImpl_init t)\<lparr>se_message := msg\<rparr>))"

definition StorageErrorImpl_key :: "ErrorType \<Rightarrow> string \<Rightarrow> string \<Rightarrow> ('e, StorageError) outcome" where
  "StorageErrorImpl_key t msg key =
     bindR (assertR (t = ET_NotExists))
       (\<lambda>_. let e = (StorageErrorImpl_init t)\<lparr>se_message := msg, se_item_id := key\<rparr> in
             Ok (if t = ET_NotExists then e\<lparr>se_item_name := key\<rparr> else e))"

definition StorageErrorImpl_exists ::
  "ErrorType \<Rightarrow> string \<Rightarrow> string \<Rightarrow> string \<Rightarrow> ('e, StorageError) outcome" where
  "StorageErrorImpl_exists t msg item_id item_name =
     bindR (assertR (t = ET_Exists))
       (\<lambda>_. Ok ((StorageErrorImpl_init t)\<lparr>se_message := msg, se_item_id := item_id,
              se_item_name := item_name\<rparr>))"

definition StorageErrorImpl_code :: "ErrorType \<Rightarrow> string \<Rightarrow> int \<Rightarrow> ('e, StorageError) outcome" where
  "StorageErrorImpl_code t msg error_code =
     bindR (assertR (t = ET_ResourceError))
       (\<lambda>_. Ok ((StorageErrorImpl_init t)\<lparr>se_message := msg, se_error_code := error_code\<rparr>))"

definition errorString :: "StorageError \<Rightarrow> string" where
  "errorString e = se_name e @ '': '' @ se_message e"

text \<open>The factories whose type passes the constructor's \<open>assert\<close> give a value at once.\<close>

definition make_msg_error :: "ErrorType \<Rightarrow> string \<Rightarrow> StorageError" where
  "make_msg_error t msg = (StorageErrorImpl_init t)\<lparr>se_message := msg\<rparr>"

definition local_comms_error :: "string \<Rightarrow> StorageError" where
  "local_comms_error msg = make_msg_error ET_LocalCommsError msg"

definition runtime_destroyed_error :: "string \<Rightarrow> StorageError" where
  "runtime_destroyed_error msg = make_msg_error ET_RuntimeDestroyed msg"

definition cancelled_error :: "string \<Rightarrow> StorageError" where
  "cancelled_error msg = make_msg_error ET_Cancelled msg"

definition permission_error :: "string \<Rightarrow> StorageError" where
  "permission_error msg = make_msg_error ET_PermissionDenied msg"

definition logic_error :: "string \<Rightarrow> StorageError" where
  "logic_error msg = make_msg_error ET_LogicError msg"

definition invalid_argument_error :: "string \<Rightarrow> StorageError" where
  "invalid_argument_error msg = make_msg_error ET_InvalidArgument msg"

lemmas error_factory_defs = local_comms_error_def runtime_destroyed_error_def cancelled_error_def
  permission_error_def logic_error_def invalid_argument_error_def

lemma StorageErrorImpl_init_sel [simp]:
  "se_type (StorageErrorImpl_init t) = t"
  "se_message (StorageErrorImpl_init t) = ''''"
  "se_item_id (StorageErrorImpl_init t) = ''''"
  "se_item_name (StorageErrorImpl_init t) = ''''"
  "se_error_code (StorageErrorImpl_init t) = 0"
  by (simp_all add: StorageErrorImpl_init_def)

lemma make_msg_error_sel [simp]:
  "se_type (make_msg_error t m) = t" "se_message (make_msg_error t m) = m"
  by (simp_all add: make_msg_error_def)

text \<open>The factories are the constructor run on a type it accepts.\<close>

lemma StorageErrorImpl_msg_factory:
  "t \<in> set message_only_types \<Longrightarrow> StorageErrorImpl_msg t m = Ok (make_msg_error t m)"
  by (simp add: StorageErrorImpl_msg_def make_msg_error_def)

section \<open>Unmarshalling\<close>

text \<open>
  What the client's \<open>QDBusPendingCallWatcher\<close> holds for an error reply: whether Qt maps
  the error name to \<open>QDBusError::Other\<close>, the name, the message and the arguments. Qt's
  mapping of names is the parameter \<open>qt_other\<close>; the message of the error is its first
  string argument.
\<close>

record error_call =
  ec_other :: bool
  ec_name :: string
  ec_message :: string
  ec_args :: "QVariant list"

text \<open>\<open>argumentAt<i>\<close> converts the argument, and default-constructs a missing or mistyped one.\<close>

definition arg_string :: "QVariant list \<Rightarrow> nat \<Rightarrow> string" where
  "arg_string args i = (if i < length args then case args ! i of QV_String s \<Rightarrow> s | _ \<Rightarrow> '''' else '''')"

definition arg_int :: "QVariant list \<Rightarrow> nat \<Rightarrow> int" where
  "arg_int args i = (if i < length args then case args ! i of QV_Int c \<Rightarrow> c | _ \<Rightarrow> 0 else 0)"

definition error_call_of :: "(string \<Rightarrow> bool) \<Rightarrow> error_reply \<Rightarrow> error_call" where
  "error_call_of qt_other r = \<lparr>ec_other = qt_other (er_name r), ec_name = er_name r,
     ec_message = arg_string (er_args r) 0, ec_args = er_args r\<rparr>"

text \<open>The template \<open>make_error<T>\<close> and its three specialisations.\<close>

fun make_error :: "ErrorType \<Rightarrow> error_call \<Rightarrow> ('e, StorageError) outcome" where
  "make_error ET_NotExists call =
     StorageErrorImpl_key ET_NotExists (arg_string (ec_args call) 0) (arg_string (ec_args call) 1)"
| "make_error ET_Exists call =
     StorageErrorImpl_exists ET_Exists (arg_string (ec_args call) 0) (arg_string (ec_args call) 1)
       (arg_string (ec_args call) 2)"
| "make_error ET_ResourceError call =
     StorageErrorImpl_code ET_ResourceError (arg_string (ec_args call) 0) (arg_int (ec_args call) 1)"
| "make_error T call = StorageErrorImpl_msg T (arg_string (ec_args call) 0)"

definition exception_factories :: "(string \<times> ErrorType) list" where
  "exception_factories =
    [(''RemoteCommsException'', ET_RemoteCommsError),
     (''NotExistsException'', ET_NotExists),
     (''ExistsException'', ET_Exists),
     (''ConflictException'', ET_Conflict),
     (''UnauthorizedException'', ET_Unauthorized),
     (''PermissionException'', ET_PermissionDenied),
     (''QuotaException'', ET_QuotaExceeded),
     (''CancelledException'', ET_Cancelled),
     (''LogicException'', ET_LogicError),
     (''InvalidArgumentException'', ET_InvalidArgument),
     (''ResourceException'', ET_ResourceError),
     (''UnknownException'', ET_LocalCommsError)]"

definition unmarshal_error :: "error_call \<Rightarrow> ('e, StorageError) outcome" where
  "unmarshal_error call =
     (if \<not> ec_other call then Ok (local_comms_error (ec_message call))
      else if \<not> starts_with (ec_name call) DBUS_ERROR_PREFIX then
        Ok (local_comms_error (''unmarshal_exception(): unknown exception type received from server: ''
              @ ec_name call @ '': '' @ ec_message call))
      else let exception_type = drop (length DBUS_ERROR_PREFIX) (ec_name call) in
        case map_of exception_factories exception_type of
          None \<Rightarrow> Ok (local_comms_error
            (''unmarshal_exception(): unknown exception type received from server: ''
              @ exception_type @ '': '' @ ec_message call))
        | Some T \<Rightarrow> make_error T call)"

text \<open>
  The closure of \<open>Handler\<close>: the error passed to the error closure, and the line logged
  with \<open>qCritical()\<close> for the error types that are unexpected.
\<close>

definition handler_error :: "error_call \<Rightarrow> ('e, StorageError \<times> string option) outcome" where
  "handler_error call =
     bindR (unmarshal_error call) (\<lambda>e.
       case se_type e of
         ET_NoError \<Rightarrow> let msg = ''impossible service exception: '' @ errorString e in
           Ok (local_comms_error msg, Some msg)
       | ET_LocalCommsError \<Rightarrow> Ok (e, Some (''service exception: '' @ errorString e))
       | ET_RemoteCommsError \<Rightarrow> Ok (e, Some (''service exception: '' @ errorString e))
       | ET_ResourceError \<Rightarrow> Ok (e, Some (''service exception: '' @ errorString e))
       | _ \<Rightarrow> Ok (e, None))"

section \<open>Properties\<close>

text \<open>What a client is meant to see of a provider's exception.\<close>

fun client_error :: "StorageException \<Rightarrow> StorageError option" where
  "client_error (RemoteCommsException m) = Some (make_msg_error ET_RemoteCommsError m)"
| "client_error (NotExistsException m k) =
     Some ((make_msg_error ET_NotExists m)\<lparr>se_item_id := k, se_item_name := k\<rparr>)"
| "client_error (ExistsException m i n) =
     Some ((make_msg_error ET_Exists m)\<lparr>se_item_id := i, se_item_name := n\<rparr>)"
| "client_error (ConflictException m) = Some (make_msg_error ET_Conflict m)"
| "client_error (PermissionException m) = Some (make_msg_error ET_PermissionDenied m)"
| "client_error (CancelledException m) = Some (make_msg_error ET_Cancelled m)"
| "client_error (LogicException m) = Some (make_msg_error ET_LogicError m)"
| "client_error (InvalidArgumentException m) = Some (make_msg_error ET_InvalidArgument m)"
| "client_error (ResourceException m c) =
     Some ((make_msg_error ET_ResourceError m)\<lparr>se_error_code := c\<rparr>)"
| "client_error (UnknownException m) = Some (make_msg_error ET_LocalCommsError m)"
| "client_error (UnauthorizedException m) = None"
| "client_error (QuotaException m) = None"
| "client_error (OtherStorageException t m) = None"

lemmas marshal_simps = error_call_of_def createErrorReply_def unmarshal_error_def Let_def
  exception_factories_def arg_string_def arg_int_def StorageErrorImpl_msg_def
  StorageErrorImpl_key_def StorageErrorImpl_exists_def StorageErrorImpl_code_def
  message_only_types_def make_msg_error_def

text \<open>
  C32. An exception thrown by a provider reaches the client with its type, its message and
  its extra data: unmarshalling the reply that \<open>Handler::marshal_exception\<close> sends gives the
  matching \<open>StorageError\<close>, for every kind of exception but \<open>UnauthorizedException\<close>,
  \<open>QuotaException\<close> and a provider's own subclass. Qt's mapping of error names enters through
  the hypothesis that the framework's own names map to \<open>QDBusError::Other\<close>.
\<close>

theorem error_round_trip:
  assumes "qt_other (DBUS_ERROR_PREFIX @ exc_type e)"
    and "client_error e = Some err"
  shows "unmarshal_error (error_call_of qt_other (fst (marshal_exception (TStorage e)))) = Ok err"
  using assms by (cases e) (simp_all add: marshal_simps)

theorem error_round_trip_witness:
  "unmarshal_error (error_call_of (\<lambda>n. starts_with n ''com.canonical.'')
      (fst (marshal_exception (TStorage (ExistsException ''m'' ''/r/a'' ''a''))))) =
   Ok ((make_msg_error ET_Exists ''m'')\<lparr>se_item_id := ''/r/a'', se_item_name := ''a''\<rparr>)"
  by (rule error_round_trip) (simp_all add: starts_with_def DBUS_ERROR_PREFIX_def)

text \<open>
  The two exceptions that the message-only constructor of \<open>StorageErrorImpl\<close> does not
  list: a reply that carries an \<open>UnauthorizedException\<close> or a \<open>QuotaException\<close> fails the
  constructor's \<open>assert\<close> in the client, whatever the message, although
  \<open>exception_factories\<close> maps both names to an error type.
\<close>

theorem unauthorized_and_quota_fail_assert:
  assumes "qt_other (DBUS_ERROR_PREFIX @ exc_type e)"
    and "e = UnauthorizedException m \<or> e = QuotaException m"
  shows "unmarshal_error (error_call_of qt_other (fst (marshal_exception (TStorage e)))) = Abort"
  using assms by (auto simp: marshal_simps)

theorem unauthorized_and_quota_fail_assert_witness:
  "unmarshal_error (error_call_of (\<lambda>n. True)
     (fst (marshal_exception (TStorage (UnauthorizedException ''no token''))))) = Abort"
  by (rule unauthorized_and_quota_fail_assert) simp_all

text \<open>
  The name of an error is the name of its enumerator for every error type before
  \<open>QuotaExceeded\<close>; the missing initialiser of \<open>ERROR_NAMES\<close> gives a quota error the name
  \<open>Unauthorized\<close> and an authorization error the empty name.
\<close>

theorem error_names:
  "se_name (StorageErrorImpl_init t) =
     (if t = ET_QuotaExceeded then ''Unauthorized''
      else if t = ET_Unauthorized then ''''
      else enumerator_name t)"
  by (cases t) (simp_all add: StorageErrorImpl_init_def ERROR_NAMES_def)

text \<open>Any other name under the prefix, and any name without it, is a local error.\<close>

lemma unmarshal_error_unknown:
  assumes "\<not> ec_other call \<or> \<not> starts_with (ec_name call) DBUS_ERROR_PREFIX \<or>
    map_of exception_factories (drop (length DBUS_ERROR_PREFIX) (ec_name call)) = None"
  shows "\<exists>m. unmarshal_error call = Ok (make_msg_error ET_LocalCommsError m)"
  using assms by (auto simp: unmarshal_error_def local_comms_error_def Let_def)

text \<open>The error closure of a \<open>Handler\<close> never receives \<open>NoError\<close>.\<close>

lemma make_error_type: "make_error T call = Ok e \<Longrightarrow> se_type e = T"
  by (cases "(T, call)" rule: make_error.cases)
    (auto simp: StorageErrorImpl_msg_def StorageErrorImpl_key_def StorageErrorImpl_exists_def
      StorageErrorImpl_code_def Let_def)

lemma exception_factories_no_NoError: "map_of exception_factories n \<noteq> Some ET_NoError"
  by (simp add: exception_factories_def)

lemma unmarshal_error_not_NoError: "unmarshal_error call = Ok e \<Longrightarrow> se_type e \<noteq> ET_NoError"
  using exception_factories_no_NoError [of "drop (length DBUS_ERROR_PREFIX) (ec_name call)"]
  by (auto simp: unmarshal_error_def local_comms_error_def Let_def dest: make_error_type
      split: if_splits option.splits)

lemma handler_error_not_NoError:
  assumes "(handler_error call :: ('x, _) outcome) = Ok (e, l)"
  shows "se_type e \<noteq> ET_NoError"
proof -
  from assms obtain a where a: "(unmarshal_error call :: ('x, _) outcome) = Ok a"
    by (auto simp: handler_error_def)
  with assms show ?thesis
    by (cases "se_type a")
      (auto simp: handler_error_def local_comms_error_def Let_def dest: unmarshal_error_not_NoError)
qed

end
