(* ===== verification/ReqHandler.thy ===== *)
theory ReqHandler
  imports Errors
begin

text \<open>
  The server side of one D-Bus request (\<open>src/provider/internal/Handler.cpp\<close>): obtain account
  credentials, obtain the caller's credentials, call the provider, send the reply. An
  \<open>UnauthorizedException\<close> that comes out of the provider's future restarts the request once,
  with fresh account credentials. The steps between two returns to the event loop are
  functions; which answer the environment (account, bus daemon, provider) gives is open, so
  the steps of a request are a relation. \<open>'m\<close> is the type of successful replies.
\<close>

datatype 'm message = Method_reply 'm | Error_message error_reply

datatype phase =
    Wait_auth                  \<comment> \<open>connected to \<open>AccountData::authenticated\<close>\<close>
  | Wait_peer                  \<comment> \<open>waiting for the caller's credentials\<close>
  | Queued_credentials         \<comment> \<open>\<open>credentials_received\<close> is queued\<close>
  | Wait_reply                 \<comment> \<open>waiting for the provider's future\<close>
  | Queued_unauthorized thrown \<comment> \<open>\<open>handle_unauthorized\<close> is queued\<close>
  | Queued_send                \<comment> \<open>\<open>send_reply\<close> is queued\<close>
  | Done                       \<comment> \<open>\<open>finished()\<close> was emitted\<close>
  | Lost                       \<comment> \<open>an exception that is no \<open>std::exception\<close> escaped\<close>

record 'm handler =
  h_retry :: bool
  h_phase :: phase
  h_reply :: "'m message option"
  h_sent :: "'m message list"
  h_callbacks :: nat
  h_authenticate :: "(bool \<times> bool) list"  \<comment> \<open>calls of \<open>authenticate(interactive, invalidate)\<close>\<close>

section \<open>The slots\<close>

definition queue_error :: "thrown \<Rightarrow> 'm handler \<Rightarrow> 'm handler" where
  "queue_error ep h =
     h\<lparr>h_reply := Some (Error_message (fst (marshal_exception ep))), h_phase := Queued_send\<rparr>"

definition handler_on_authenticated :: "bool \<Rightarrow> 'm handler \<Rightarrow> 'm handler" where
  "handler_on_authenticated has_creds h =
     (if \<not> has_creds
      then queue_error (TStorage (UnauthorizedException
             ''Handler::begin(): could not retrieve account credentials'')) h
      else h\<lparr>h_phase := Wait_peer\<rparr>)"

definition handler_begin :: "bool \<Rightarrow> 'm handler \<Rightarrow> 'm handler" where
  "handler_begin has_creds h =
     (if has_creds \<and> \<not> h_retry h then handler_on_authenticated has_creds h
      else h\<lparr>h_authenticate := h_authenticate h @ [(True, h_retry h)], h_phase := Wait_auth\<rparr>)"

text \<open>The continuation of \<open>dbus_peer().get()\<close>.\<close>

definition peer_received :: "bool \<Rightarrow> 'm handler \<Rightarrow> 'm handler" where
  "peer_received info_valid h =
     (if info_valid then h\<lparr>h_phase := Queued_credentials\<rparr>
      else queue_error (TStorage (UnauthorizedException
             ''Handler::begin(): could not retrieve D-Bus peer credentials'')) h)"

text \<open>The provider call either throws at once or gives a future.\<close>

datatype call_result = Call_throws thrown | Call_future

definition credentials_received :: "call_result \<Rightarrow> 'm handler \<Rightarrow> 'm handler" where
  "credentials_received r h0 =
     (let h = h0\<lparr>h_callbacks := h_callbacks h0 + 1\<rparr> in
      case r of
        Call_throws TOther \<Rightarrow> h\<lparr>h_phase := Lost\<rparr>
      | Call_throws ep \<Rightarrow> queue_error ep h
      | Call_future \<Rightarrow> h\<lparr>h_phase := Wait_reply\<rparr>)"

datatype 'm future_result = Future_value 'm | Future_throws thrown

text \<open>The continuation of the provider's future.\<close>

definition future_ready :: "'m future_result \<Rightarrow> 'm handler \<Rightarrow> 'm handler" where
  "future_ready r h =
     (case r of
        Future_value m \<Rightarrow> h\<lparr>h_reply := Some (Method_reply m), h_phase := Queued_send\<rparr>
      | Future_throws (TStorage (UnauthorizedException msg)) \<Rightarrow>
          h\<lparr>h_phase := Queued_unauthorized (TStorage (UnauthorizedException msg))\<rparr>
      | Future_throws TOther \<Rightarrow> h\<lparr>h_phase := Lost\<rparr>
      | Future_throws ep \<Rightarrow> queue_error ep h)"

definition send_reply :: "'m handler \<Rightarrow> 'm handler" where
  "send_reply h =
     h\<lparr>h_sent := h_sent h @ (case h_reply h of None \<Rightarrow> [] | Some m \<Rightarrow> [m]), h_phase := Done\<rparr>"

definition handle_unauthorized :: "bool \<Rightarrow> thrown \<Rightarrow> 'm handler \<Rightarrow> 'm handler" where
  "handle_unauthorized has_creds ep h =
     (if h_retry h
      then send_reply (h\<lparr>h_reply := Some (Error_message (fst (marshal_exception ep)))\<rparr>)
      else handler_begin has_creds (h\<lparr>h_retry := True\<rparr>))"

section \<open>Steps of a request\<close>

definition handler_init :: "'m handler" where
  "handler_init = \<lparr>h_retry = False, h_phase = Wait_auth, h_reply = None, h_sent = [],
     h_callbacks = 0, h_authenticate = []\<rparr>"

inductive handler_step :: "'m handler \<Rightarrow> 'm handler \<Rightarrow> bool" where
  authenticated: "h_phase h = Wait_auth \<Longrightarrow> handler_step h (handler_on_authenticated has_creds h)"
| peer: "h_phase h = Wait_peer \<Longrightarrow> handler_step h (peer_received info_valid h)"
| credentials: "h_phase h = Queued_credentials \<Longrightarrow> handler_step h (credentials_received r h)"
| future: "h_phase h = Wait_reply \<Longrightarrow> handler_step h (future_ready fr h)"
| unauthorized: "h_phase h = Queued_unauthorized ep \<Longrightarrow>
    handler_step h (handle_unauthorized has_creds ep h)"
| send: "h_phase h = Queued_send \<Longrightarrow> handler_step h (send_reply h)"

inductive_cases handler_stepE: "handler_step h h'"

text \<open>The states of a request that \<open>ProviderInterface::queue_request\<close> started with \<open>begin()\<close>.\<close>

inductive handler_reach :: "'m handler \<Rightarrow> bool" where
  start: "handler_reach (handler_begin has_creds handler_init)"
| step: "handler_reach h \<Longrightarrow> handler_step h h' \<Longrightarrow> handler_reach h'"

section \<open>Properties\<close>

lemmas handler_defs = queue_error_def handler_on_authenticated_def handler_begin_def
  peer_received_def credentials_received_def future_ready_def send_reply_def
  handle_unauthorized_def handler_init_def

text \<open>How many more steps a request can take at most.\<close>

fun phase_rank :: "bool \<Rightarrow> phase \<Rightarrow> nat" where
  "phase_rank retry Done = 0"
| "phase_rank retry Lost = 0"
| "phase_rank retry Queued_send = 1"
| "phase_rank retry (Queued_unauthorized ep) = (if retry then 2 else 7)"
| "phase_rank retry Wait_reply = (if retry then 3 else 8)"
| "phase_rank retry Queued_credentials = (if retry then 4 else 9)"
| "phase_rank retry Wait_peer = (if retry then 5 else 10)"
| "phase_rank retry Wait_auth = (if retry then 6 else 11)"

definition handler_rank :: "'m handler \<Rightarrow> nat" where
  "handler_rank h = phase_rank (h_retry h) (h_phase h)"

lemma handler_step_rank: "handler_step h h' \<Longrightarrow> handler_rank h' < handler_rank h"
  by (induction rule: handler_step.induct)
    (auto simp: handler_rank_def handler_defs Let_def split: call_result.splits thrown.splits
      future_result.splits StorageException.splits)

lemma handler_step_progress: "h_phase h \<noteq> Done \<Longrightarrow> h_phase h \<noteq> Lost \<Longrightarrow> \<exists>h'. handler_step h h'"
  by (cases "h_phase h") (blast intro: handler_step.intros)+

text \<open>What is known of a request in each phase.\<close>

definition handler_inv :: "'m handler \<Rightarrow> bool" where
  "handler_inv h \<longleftrightarrow>
     length (h_sent h) = (if h_phase h = Done then 1 else 0) \<and>
     (h_phase h = Queued_send \<longrightarrow> h_reply h \<noteq> None) \<and>
     h_callbacks h \<le> (if h_retry h then 2 else 1) \<and>
     (h_phase h \<in> {Wait_auth, Wait_peer, Queued_credentials} \<longrightarrow>
        h_callbacks h = (if h_retry h then 1 else 0)) \<and>
     (h_phase h = Wait_reply \<or> (\<exists>ep. h_phase h = Queued_unauthorized ep) \<longrightarrow>
        h_callbacks h = (if h_retry h then 2 else 1)) \<and>
     (h_retry h \<longrightarrow> (True, True) \<in> set (h_authenticate h))"

lemma handler_inv_init: "handler_inv (handler_begin has_creds handler_init)"
  by (auto simp: handler_inv_def handler_defs)

lemma handler_step_inv: "handler_step h h' \<Longrightarrow> handler_inv h \<Longrightarrow> handler_inv h'"
proof (induction rule: handler_step.induct)
  case (authenticated h has_creds)
  then show ?case by (auto simp: handler_inv_def handler_defs)
next
  case (peer h info_valid)
  then show ?case by (auto simp: handler_inv_def handler_defs)
next
  case (credentials h r)
  then show ?case
    by (auto simp: handler_inv_def handler_defs Let_def split: call_result.splits thrown.splits)
next
  case (future h fr)
  then show ?case
    by (auto simp: handler_inv_def handler_defs split: future_result.splits thrown.splits
        StorageException.splits)
next
  case (unauthorized h ep has_creds)
  then show ?case by (auto simp: handler_inv_def handler_defs)
next
  case (send h)
  then show ?case by (auto simp: handler_inv_def handler_defs)
qed

lemma handler_reach_inv: "handler_reach h \<Longrightarrow> handler_inv h"
  by (induction rule: handler_reach.induct) (auto intro: handler_inv_init handler_step_inv)

text \<open>
  Every request is answered exactly once: from any state a request can reach, a state
  without further steps is reached, every step takes the request closer to it, and there
  exactly one reply has been sent, unless the provider threw something that is not a
  \<open>std::exception\<close>, in which case none has.
\<close>

theorem request_answered_once:
  assumes "handler_reach h"
  shows "(\<forall>h'. handler_step h h' \<longrightarrow> handler_rank h' < handler_rank h) \<and>
    ((\<nexists>h'. handler_step h h') \<longrightarrow>
       h_phase h = Done \<and> length (h_sent h) = 1 \<or> h_phase h = Lost \<and> h_sent h = [])"
  using handler_step_rank handler_step_progress [of h] handler_reach_inv [OF assms]
  by (auto simp: handler_inv_def)

theorem request_answered_once_witness:
  "let h = send_reply (future_ready (Future_value ''ok'') (credentials_received Call_future
             (peer_received True (handler_begin True handler_init))))
   in (\<nexists>h'. handler_step h h') \<and> h_phase h = Done \<and> length (h_sent h) = 1"
proof -
  let ?h0 = "handler_begin True handler_init :: string handler"
  let ?h1 = "peer_received True ?h0"
  let ?h2 = "credentials_received Call_future ?h1"
  let ?h3 = "future_ready (Future_value ''ok'') ?h2"
  let ?h4 = "send_reply ?h3"
  have r0: "handler_reach ?h0" by (rule handler_reach.start)
  have r1: "handler_reach ?h1"
    by (rule handler_reach.step [OF r0], rule handler_step.peer) (simp add: handler_defs)
  have r2: "handler_reach ?h2"
    by (rule handler_reach.step [OF r1], rule handler_step.credentials) (simp add: handler_defs)
  have r3: "handler_reach ?h3"
    by (rule handler_reach.step [OF r2], rule handler_step.future) (simp add: handler_defs Let_def)
  have r4: "handler_reach ?h4"
    by (rule handler_reach.step [OF r3], rule handler_step.send) (simp add: handler_defs Let_def)
  have fin: "h_phase ?h4 = Done" by (simp add: handler_defs Let_def)
  then have stuck: "\<nexists>h'. handler_step ?h4 h'" by (auto elim: handler_stepE)
  with request_answered_once [OF r4] fin have "length (h_sent ?h4) = 1" by auto
  with fin stuck show ?thesis by (simp add: Let_def)
qed

text \<open>
  The provider is called at most twice for a request, and a second time only after the
  account was asked to authenticate again with its cached credentials invalidated.
\<close>

theorem request_retried_once:
  assumes "handler_reach h"
  shows "h_callbacks h \<le> 2 \<and>
    (h_callbacks h = 2 \<longrightarrow> h_retry h \<and> (True, True) \<in> set (h_authenticate h))"
  using handler_reach_inv [OF assms] by (auto simp: handler_inv_def split: if_splits)

theorem request_retried_once_witness:
  "h_callbacks (handler_begin False (handler_init :: string handler)) \<le> 2"
  using request_retried_once [OF handler_reach.start [of False]] by blast

end
