(* ===== verification/Validate.thy ===== *)
theory Validate
  imports Errors
begin

text \<open>
  The client's check of the metadata it receives (\<open>src/qt/internal/validate.cpp\<close>). Qt's
  date parser is the parameter \<open>parse_date\<close>: for a string, \<open>None\<close> when
  \<open>QDateTime::fromString(s, Qt::ISODate)\<close> is not valid and otherwise its \<open>timeSpec()\<close>.
  The log lines written before an error is thrown are not shown.
\<close>

datatype TimeSpec = LocalTime | UTC | OffsetFromUTC | TimeZone

type_synonym date_parser = "string \<Rightarrow> TimeSpec option"

fun typeName :: "QVariant \<Rightarrow> string" where
  "typeName QV_Invalid = ''''"
| "typeName (QV_String _) = ''QString''"
| "typeName (QV_LongLong _) = ''qlonglong''"
| "typeName (QV_Int _) = ''int''"
| "typeName (QV_Bool _) = ''bool''"

definition validate_type_and_value ::
  "date_parser \<Rightarrow> string \<Rightarrow> string \<Rightarrow> QVariant \<Rightarrow> MetadataType \<Rightarrow> (StorageError, unit) outcome" where
  "validate_type_and_value parse_date prefix key value known =
     (case known of
        iso_8601_date_time \<Rightarrow>
          (case value of
             QV_String s \<Rightarrow>
               (case parse_date s of
                  None \<Rightarrow> Raise (local_comms_error (prefix @ key @ '': value \"'' @ s @
                    ''\" does not parse as ISO-8601 date''))
                | Some spec \<Rightarrow>
                    throw_if (spec = LocalTime) (local_comms_error (prefix @ key @ '': value \"'' @ s @
                      ''\" lacks a time zone specification'')))
           | _ \<Rightarrow> Raise (local_comms_error (prefix @ key @
               '': expected value of type QString, but received value of type '' @ typeName value)))
      | non_zero_pos_int64 \<Rightarrow>
          (case value of
             QV_LongLong val \<Rightarrow>
               throw_if (val < 0) (local_comms_error (prefix @ key @
                 '': expected value >= 0, but received '' @ int_to_string val))
           | _ \<Rightarrow> Raise (local_comms_error (prefix @ key @
               '': expected value of type qlonglong, but received value of type '' @ typeName value)))
      | MT_string \<Rightarrow> Ok ()
      | MT_boolean \<Rightarrow> Ok ())"

text \<open>The loop over the metadata map; an unknown key is only warned about.\<close>

fun validate_entries ::
  "date_parser \<Rightarrow> string \<Rightarrow> (string \<times> QVariant) list \<Rightarrow> (StorageError, unit) outcome" where
  "validate_entries parse_date prefix [] = Ok ()"
| "validate_entries parse_date prefix ((key, value) # rest) =
     bindR (case map_of known_metadata key of
              None \<Rightarrow> Ok ()
            | Some known \<Rightarrow> validate_type_and_value parse_date prefix key value known)
       (\<lambda>_. validate_entries parse_date prefix rest)"

definition contains_key :: "(string \<times> QVariant) list \<Rightarrow> string \<Rightarrow> bool" where
  "contains_key m k \<longleftrightarrow> map_of m k \<noteq> None"

definition validate_prefix :: "string \<Rightarrow> ItemMetadata \<Rightarrow> string" where
  "validate_prefix meth md =
     meth @ '': received invalid metadata from provider''
       @ (if md_item_id md \<noteq> [] then '' (id = '' @ md_item_id md @ '')'' else [])
       @ '': ''"

definition validate :: "date_parser \<Rightarrow> string \<Rightarrow> ItemMetadata \<Rightarrow> (StorageError, unit) outcome" where
  "validate parse_date meth md =
     (let prefix = validate_prefix meth md in
      bindR (throw_if (md_item_id md = [])
        (local_comms_error (prefix @ ''item_id cannot be empty''))) (\<lambda>_.
      bindR (if md_type md \<noteq> IT_root then
               bindR (throw_if (md_parent_ids md = [])
                 (local_comms_error (prefix @ ''file or folder must have at least one parent ID''))) (\<lambda>_.
               throw_if (\<exists>p \<in> set (md_parent_ids md). p = [])
                 (local_comms_error (prefix @ ''parent_id of file or folder cannot be empty'')))
             else Ok ()) (\<lambda>_.
      bindR (throw_if (md_type md = IT_root \<and> md_parent_ids md \<noteq> [])
        (local_comms_error (prefix @ ''parent_ids of root must be empty''))) (\<lambda>_.
      bindR (if md_type md \<noteq> IT_root then
               throw_if (md_name md = []) (local_comms_error (prefix @ ''name cannot be empty''))
             else Ok ()) (\<lambda>_.
      bindR (throw_if (md_type md = IT_file \<and> md_etag md = [])
        (local_comms_error (prefix @ ''etag of a file cannot be empty''))) (\<lambda>_.
      bindR (validate_entries parse_date prefix (md_metadata md)) (\<lambda>_.
      if md_type md = IT_file then
        throw_if (\<not> contains_key (md_metadata md) SIZE_IN_BYTES \<or>
                  \<not> contains_key (md_metadata md) LAST_MODIFIED_TIME)
          (local_comms_error (prefix @ ''missing key \"'' @ SIZE_IN_BYTES @ ''\" in metadata''))
      else Ok ())))))))"

section \<open>Properties\<close>

text \<open>What well-formed metadata is.\<close>

definition valid_value :: "date_parser \<Rightarrow> MetadataType \<Rightarrow> QVariant \<Rightarrow> bool" where
  "valid_value parse_date known value \<longleftrightarrow>
     (known = iso_8601_date_time \<longrightarrow>
        (\<exists>s spec. value = QV_String s \<and> parse_date s = Some spec \<and> spec \<noteq> LocalTime)) \<and>
     (known = non_zero_pos_int64 \<longrightarrow> (\<exists>val. value = QV_LongLong val \<and> 0 \<le> val))"

definition valid_metadata :: "date_parser \<Rightarrow> ItemMetadata \<Rightarrow> bool" where
  "valid_metadata parse_date md \<longleftrightarrow>
     md_item_id md \<noteq> [] \<and>
     (md_type md = IT_root \<longleftrightarrow> md_parent_ids md = []) \<and>
     [] \<notin> set (md_parent_ids md) \<and>
     (md_type md \<noteq> IT_root \<longrightarrow> md_name md \<noteq> []) \<and>
     (md_type md = IT_file \<longrightarrow> md_etag md \<noteq> []) \<and>
     (\<forall>(k, v) \<in> set (md_metadata md). \<forall>known. map_of known_metadata k = Some known \<longrightarrow>
        valid_value parse_date known v) \<and>
     (md_type md = IT_file \<longrightarrow> {SIZE_IN_BYTES, LAST_MODIFIED_TIME} \<subseteq> fst ` set (md_metadata md))"

lemma validate_type_and_value_Ok:
  "validate_type_and_value parse_date prefix key value known = Ok u \<longleftrightarrow>
     valid_value parse_date known value"
  by (cases known; cases "value")
    (auto simp: validate_type_and_value_def valid_value_def split: option.splits)

lemma validate_entries_Ok:
  "validate_entries parse_date prefix m = Ok u \<longleftrightarrow>
     (\<forall>(k, v) \<in> set m. \<forall>known. map_of known_metadata k = Some known \<longrightarrow> valid_value parse_date known v)"
  by (induction m) (auto simp: validate_type_and_value_Ok split: option.splits)

lemma contains_key_iff: "contains_key m k \<longleftrightarrow> k \<in> fst ` set m"
  by (auto simp: contains_key_def map_of_eq_None_iff)

lemma validate_Ok_iff: "validate parse_date meth md = Ok () \<longleftrightarrow> valid_metadata parse_date md"
  unfolding validate_def Let_def valid_metadata_def
  by (cases "md_type md") (auto simp: validate_entries_Ok contains_key_iff)


lemma local_comms_error_sel [simp]:
  "se_type (local_comms_error m) = ET_LocalCommsError" "se_message (local_comms_error m) = m"
  by (simp_all add: local_comms_error_def)

definition refusal :: "string \<Rightarrow> StorageError \<Rightarrow> bool" where
  "refusal prefix e \<longleftrightarrow> se_type e = ET_LocalCommsError \<and> starts_with (se_message e) prefix"

lemma refusal_local_comms [simp]: "refusal prefix (local_comms_error (prefix @ m))"
  by (simp add: refusal_def)

lemma validate_type_and_value_refusal:
  "raises_only (refusal prefix) (validate_type_and_value parse_date prefix key value known)"
  by (cases known; cases "value") (auto simp: validate_type_and_value_def split: option.splits)

lemma validate_entries_refusal:
  "raises_only (refusal prefix) (validate_entries parse_date prefix m)"
  by (induction m) (auto intro!: raises_only_bindR validate_type_and_value_refusal split: option.splits)

lemma validate_refusal:
  "raises_only (refusal (validate_prefix meth md)) (validate parse_date meth md)"
  by (auto simp: validate_def Let_def intro!: raises_only_bindR validate_entries_refusal)

text \<open>
  Every refusal is a local communication error whose message names the method and, when
  there is one, the id of the item; validation never fails an assertion.
\<close>

theorem validate_error:
  assumes "validate parse_date meth md \<noteq> Ok ()"
  shows "\<exists>e. validate parse_date meth md = Raise e \<and> se_type e = ET_LocalCommsError \<and>
           starts_with (se_message e) (validate_prefix meth md)"
  using raises_only_unit [OF validate_refusal assms] by (simp add: refusal_def)

theorem validate_error_witness:
  "\<exists>e. validate (\<lambda>_. None) ''Account::get()''
      \<lparr>md_item_id = ''x'', md_parent_ids = [], md_name = ''n'', md_etag = '''', md_type = IT_folder,
       md_metadata = []\<rparr> = Raise e \<and> se_type e = ET_LocalCommsError \<and>
     starts_with (se_message e) (validate_prefix ''Account::get()''
      \<lparr>md_item_id = ''x'', md_parent_ids = [], md_name = ''n'', md_etag = '''', md_type = IT_folder,
       md_metadata = []\<rparr>)"
  by (rule validate_error) (simp add: validate_def)

end
