(* ===== verification/Wire.thy ===== *)
theory Wire
  imports Common
begin

text \<open>
  The marshalling operators of D-Bus values: the provider writes \<open>Item\<close>s
  (\<open>src/provider/internal/dbusmarshal.cpp\<close>), the client reads \<open>ItemMetadata\<close>
  (\<open>src/internal/dbusmarshal.cpp\<close>), registry and client exchange \<open>AccountDetails\<close>
  (\<open>src/internal/AccountDetails.cpp\<close>). A \<open>QDBusArgument\<close> is the list of the stream
  operations performed on it; a read that meets another token than the one it expects is
  the failure \<open>None\<close>.
\<close>

datatype dbus_token =
    T_beginStructure | T_endStructure | T_beginArray | T_endArray
  | T_beginMap | T_endMap | T_beginMapEntry | T_endMapEntry
  | T_string string | T_int32 int | T_uint32 "32 word" | T_path string | T_variant QVariant

type_synonym 'a reader = "dbus_token list \<Rightarrow> ('a \<times> dbus_token list) option"

section \<open>Reading basic values\<close>

fun get_token :: "dbus_token \<Rightarrow> unit reader" where
  "get_token t [] = None"
| "get_token t (t' # ts) = (if t' = t then Some ((), ts) else None)"

fun get_string :: "string reader" where
  "get_string (T_string s # ts) = Some (s, ts)"
| "get_string _ = None"

fun get_int32 :: "int reader" where
  "get_int32 (T_int32 i # ts) = Some (i, ts)"
| "get_int32 _ = None"

fun get_uint32 :: "32 word reader" where
  "get_uint32 (T_uint32 i # ts) = Some (i, ts)"
| "get_uint32 _ = None"

fun get_path :: "string reader" where
  "get_path (T_path s # ts) = Some (s, ts)"
| "get_path _ = None"

fun get_variant :: "QVariant reader" where
  "get_variant (T_variant v # ts) = Some (v, ts)"
| "get_variant _ = None"

text \<open>
  \<open>while (!argument.atEnd())\<close>: elements are read up to the closing token. The number of
  tokens left bounds the number of elements, since every element takes at least one.
\<close>

fun get_many :: "dbus_token \<Rightarrow> 'a reader \<Rightarrow> nat \<Rightarrow> 'a list reader" where
  "get_many close get 0 ts = None"
| "get_many close get (Suc fuel) ts =
     (case get_token close ts of
        Some (_, rest) \<Rightarrow> Some ([], rest)
      | None \<Rightarrow>
          (case get ts of
             None \<Rightarrow> None
           | Some (a, rest) \<Rightarrow>
               (case get_many close get fuel rest of
                  None \<Rightarrow> None
                | Some (as, rest') \<Rightarrow> Some (a # as, rest'))))"

definition get_sequence :: "dbus_token \<Rightarrow> dbus_token \<Rightarrow> 'a reader \<Rightarrow> 'a list reader" where
  "get_sequence opn close get ts =
     Option.bind (get_token opn ts) (\<lambda>(_, rest). get_many close get (length rest) rest)"

definition put_sequence :: "dbus_token \<Rightarrow> dbus_token \<Rightarrow> ('a \<Rightarrow> dbus_token list) \<Rightarrow> 'a list \<Rightarrow> dbus_token list" where
  "put_sequence opn close put xs = opn # concat (map put xs) @ [close]"

text \<open>A codec whose encodings never start with the token that closes the sequence.\<close>

locale element_codec = codec put get ok
  for put :: "'a \<Rightarrow> dbus_token list" and get :: "'a reader" and ok :: "'a \<Rightarrow> bool" +
  fixes close :: dbus_token
  assumes put_head: "\<exists>t ts. put a = t # ts \<and> t \<noteq> close"
begin

lemma put_not_close: "get_token close (put a @ rest) = None"
  using put_head [of a] by auto

lemma put_nonempty: "0 < length (put a)"
  using put_head [of a] by auto

lemma get_many_put:
  "(\<forall>x \<in> set xs. ok x) \<Longrightarrow> length (concat (map put xs)) < fuel \<Longrightarrow>
     get_many close get fuel (concat (map put xs) @ close # rest) = Some (xs, rest)"
proof (induction xs arbitrary: fuel)
  case Nil
  then show ?case by (cases fuel) simp_all
next
  case (Cons x xs)
  then obtain f where f: "fuel = Suc f" by (cases fuel) simp_all
  have "length (concat (map put (x # xs))) = length (put x) + length (concat (map put xs))" by simp
  with f Cons.prems(2) put_nonempty [of x] have "length (concat (map put xs)) < f" by linarith
  with Cons f show ?case
    by (simp add: put_not_close get_put)
qed

end

text \<open>Sequences of such elements are a codec again.\<close>

sublocale element_codec \<subseteq> seq: codec "put_sequence opn close put" "get_sequence opn close get"
  "list_all ok"
proof unfold_locales
  fix xs rest
  assume "list_all ok xs"
  then have "get_many close get (Suc (length (concat (map put xs)) + length rest))
      (concat (map put xs) @ close # rest) = Some (xs, rest)"
    by (intro get_many_put) (simp_all add: list_all_iff)
  then show "get_sequence opn close get (put_sequence opn close put xs @ rest) = Some (xs, rest)"
    by (simp add: put_sequence_def get_sequence_def del: get_many.simps)
qed

interpretation string_codec: element_codec "\<lambda>s. [T_string s]" get_string "\<lambda>_. True" T_endArray
  by unfold_locales simp_all

section \<open>Items\<close>

text \<open>\<open>to_qdbus_variant\<close>: alternative 0 is the string, alternative 1 the integer.\<close>

fun to_qdbus_variant :: "MetadataValue \<Rightarrow> QVariant" where
  "to_qdbus_variant (MV_string s) = QV_String s"
| "to_qdbus_variant (MV_int64 i) = QV_LongLong i"

definition put_entry :: "string \<times> QVariant \<Rightarrow> dbus_token list" where
  "put_entry e = [T_beginMapEntry, T_string (fst e), T_variant (snd e), T_endMapEntry]"

definition get_entry :: "(string \<times> QVariant) reader" where
  "get_entry ts =
     Option.bind (get_token T_beginMapEntry ts) (\<lambda>(_, ts).
     Option.bind (get_string ts) (\<lambda>(key, ts).
     Option.bind (get_variant ts) (\<lambda>(value, ts).
     Option.bind (get_token T_endMapEntry ts) (\<lambda>(_, ts). Some ((key, value), ts)))))"

interpretation entry_codec: element_codec put_entry get_entry "\<lambda>_. True" T_endMap
  by unfold_locales (auto simp: put_entry_def get_entry_def)

text \<open>The provider's \<open>operator<<\<close> for \<open>Item\<close>.\<close>

definition put_item :: "provider_item \<Rightarrow> dbus_token list" where
  "put_item item =
     [T_beginStructure, T_string (pi_item_id item)]
     @ (T_beginArray # map T_string (pi_parent_ids item) @ [T_endArray])
     @ [T_string (pi_name item), T_string (pi_etag item), T_int32 (ItemType_code (pi_type item))]
     @ (T_beginMap # concat (map (\<lambda>(k, v). [T_beginMapEntry, T_string k,
          T_variant (to_qdbus_variant v), T_endMapEntry]) (pi_metadata item)) @ [T_endMap])
     @ [T_endStructure]"

definition put_items :: "provider_item list \<Rightarrow> dbus_token list" where
  "put_items items = T_beginArray # concat (map put_item items) @ [T_endArray]"

text \<open>The client's \<open>operator<<\<close> and \<open>operator>>\<close> for \<open>ItemMetadata\<close>.\<close>

definition put_metadata :: "ItemMetadata \<Rightarrow> dbus_token list" where
  "put_metadata md =
     [T_beginStructure, T_string (md_item_id md)]
     @ put_sequence T_beginArray T_endArray (\<lambda>s. [T_string s]) (md_parent_ids md)
     @ [T_string (md_name md), T_string (md_etag md), T_int32 (ItemType_code (md_type md))]
     @ put_sequence T_beginMap T_endMap put_entry (md_metadata md)
     @ [T_endStructure]"

definition get_metadata :: "ItemMetadata reader" where
  "get_metadata ts =
     Option.bind (get_token T_beginStructure ts) (\<lambda>(_, ts).
     Option.bind (get_string ts) (\<lambda>(item_id, ts).
     Option.bind (get_sequence T_beginArray T_endArray get_string ts) (\<lambda>(parent_ids, ts).
     Option.bind (get_string ts) (\<lambda>(name, ts).
     Option.bind (get_string ts) (\<lambda>(etag, ts).
     Option.bind (get_int32 ts) (\<lambda>(enum_val, ts).
       if enum_val < 0 \<or> enum_val \<ge> LAST_ENTRY then None
       else
         Option.bind (get_sequence T_beginMap T_endMap get_entry ts) (\<lambda>(entries, ts).
         Option.bind (get_token T_endStructure ts) (\<lambda>(_, ts).
           Some (\<lparr>md_item_id = item_id, md_parent_ids = parent_ids, md_name = name,
                  md_etag = etag, md_type = ItemType_of_code enum_val,
                  md_metadata = foldl (\<lambda>m (k, v). map_insert k v m) [] entries\<rparr>, ts)))))))))"

definition put_metadata_list :: "ItemMetadata list \<Rightarrow> dbus_token list" where
  "put_metadata_list mds = put_sequence T_beginArray T_endArray put_metadata mds"

definition get_metadata_list :: "ItemMetadata list reader" where
  "get_metadata_list = get_sequence T_beginArray T_endArray get_metadata"

text \<open>A \<open>QMap\<close> and a \<open>std::map\<close> hold their entries in key order.\<close>

definition md_wf :: "ItemMetadata \<Rightarrow> bool" where
  "md_wf md \<longleftrightarrow> ordered_map (md_metadata md)"

lemma get_metadata_put: "md_wf md \<Longrightarrow> get_metadata (put_metadata md @ rest) = Some (md, rest)"
  using string_codec.seq.get_put [of "md_parent_ids md" T_beginArray]
    entry_codec.seq.get_put [of "md_metadata md" T_beginMap]
    foldl_map_insert [of "[]" "md_metadata md"]
  by (simp add: get_metadata_def put_metadata_def md_wf_def not_le not_less list_all_iff)

interpretation metadata_codec: element_codec put_metadata get_metadata md_wf T_endArray
  by unfold_locales (simp_all add: get_metadata_put, simp add: put_metadata_def)

section \<open>Account details\<close>

definition put_account :: "AccountDetails \<Rightarrow> dbus_token list" where
  "put_account a =
     [T_beginStructure, T_string (ad_busName a), T_path (ad_objectPath a), T_uint32 (ad_id a),
      T_string (ad_serviceId a), T_string (ad_displayName a), T_string (ad_providerName a),
      T_string (ad_iconName a), T_endStructure]"

definition get_account :: "AccountDetails reader" where
  "get_account ts =
     Option.bind (get_token T_beginStructure ts) (\<lambda>(_, ts).
     Option.bind (get_string ts) (\<lambda>(busName, ts).
     Option.bind (get_path ts) (\<lambda>(objectPath, ts).
     Option.bind (get_uint32 ts) (\<lambda>(i, ts).
     Option.bind (get_string ts) (\<lambda>(serviceId, ts).
     Option.bind (get_string ts) (\<lambda>(displayName, ts).
     Option.bind (get_string ts) (\<lambda>(providerName, ts).
     Option.bind (get_string ts) (\<lambda>(iconName, ts).
     Option.bind (get_token T_endStructure ts) (\<lambda>(_, ts).
       Some (\<lparr>ad_busName = busName, ad_objectPath = objectPath, ad_id = i,
              ad_serviceId = serviceId, ad_displayName = displayName,
              ad_providerName = providerName, ad_iconName = iconName\<rparr>, ts))))))))))"

interpretation account_codec: element_codec put_account get_account "\<lambda>_. True" T_endArray
  by unfold_locales (simp_all add: put_account_def get_account_def)

section \<open>Properties\<close>

text \<open>The item a client sees for an item of the provider.\<close>

definition client_view :: "provider_item \<Rightarrow> ItemMetadata" where
  "client_view item =
     \<lparr>md_item_id = pi_item_id item, md_parent_ids = pi_parent_ids item, md_name = pi_name item,
      md_etag = pi_etag item, md_type = pi_type item,
      md_metadata = map (\<lambda>(k, v). (k, to_qdbus_variant v)) (pi_metadata item)\<rparr>"

lemma concat_singletons: "concat (map (\<lambda>s. [f s]) xs) = map f xs"
  by (induction xs) simp_all

lemma put_item_eq: "put_item item = put_metadata (client_view item)"
  by (simp add: put_item_def put_metadata_def client_view_def put_sequence_def put_entry_def
      concat_singletons o_def case_prod_unfold)

lemma put_items_eq: "put_items items = put_metadata_list (map client_view items)"
  by (simp add: put_items_def put_metadata_list_def put_sequence_def put_item_eq [abs_def] o_def)

lemma client_view_wf [simp]: "md_wf (client_view item) \<longleftrightarrow> ordered_map (pi_metadata item)"
  by (simp add: md_wf_def client_view_def ordered_map_def o_def case_prod_unfold)

lemma get_put_items:
  assumes "\<forall>item \<in> set items. ordered_map (pi_metadata item)"
  shows "get_metadata_list (put_items items @ rest) = Some (map client_view items, rest)"
  using assms metadata_codec.seq.get_put [of "map client_view items" T_beginArray rest]
  by (simp add: put_items_eq put_metadata_list_def get_metadata_list_def list_all_iff)

text \<open>
  C36. What the provider marshals is what the client unmarshals: reading the reply of a
  provider call gives, for every item and in the same order, the item id, parents, name,
  etag, type and every metadata entry that the provider put in, and stops at the end of the
  list.
\<close>

theorem item_list_round_trip:
  assumes "\<forall>item \<in> set items. ordered_map (pi_metadata item)"
  shows "get_metadata_list (put_items items @ rest) = Some (map client_view items, rest)"
  using assms by (rule get_put_items)

definition sample_item :: provider_item where
  "sample_item = \<lparr>pi_item_id = ''/r/a'', pi_parent_ids = [''/r''], pi_name = ''a'',
     pi_etag = ''17'', pi_type = IT_file,
     pi_metadata = [(''content_type'', MV_string ''text/plain''), (''size_in_bytes'', MV_int64 5)]\<rparr>"

theorem item_list_round_trip_witness:
  "get_metadata_list (put_items [sample_item, sample_item] @ [T_string ''token'']) =
     Some ([client_view sample_item, client_view sample_item], [T_string ''token''])"
  using item_list_round_trip [of "[sample_item, sample_item]" "[T_string ''token'']"]
  by (simp add: sample_item_def)

text \<open>
  A reply whose item type is outside the enumeration is refused by the client, whatever
  else it holds.
\<close>

theorem get_metadata_bad_type:
  assumes "v < 0 \<or> LAST_ENTRY \<le> v"
  shows "get_metadata ([T_beginStructure, T_string i]
           @ put_sequence T_beginArray T_endArray (\<lambda>s. [T_string s]) ps
           @ [T_string n, T_string e, T_int32 v] @ rest) = None"
  using assms string_codec.seq.get_put [of ps T_beginArray]
  by (auto simp: get_metadata_def list_all_iff)

theorem get_metadata_bad_type_witness:
  "get_metadata ([T_beginStructure, T_string ''x'']
     @ put_sequence T_beginArray T_endArray (\<lambda>s. [T_string s]) [''p'']
     @ [T_string ''n'', T_string ''e'', T_int32 3]
     @ [T_beginMap, T_endMap, T_endStructure]) = None"
  by (rule get_metadata_bad_type) (simp add: LAST_ENTRY_def)

text \<open>
  The registry's list of accounts reaches the client unchanged.
\<close>

theorem account_list_round_trip:
  "get_sequence T_beginArray T_endArray get_account
     (put_sequence T_beginArray T_endArray put_account accounts @ rest) = Some (accounts, rest)"
  using account_codec.seq.get_put [of accounts T_beginArray rest] by (simp add: list_all_iff)

end
