(* ===== verification/Client.thy ===== *)
theory Client
  imports Validate Wire
begin

text \<open>
  The client library's handles (\<open>src/qt/internal/RuntimeImpl.cpp\<close>, \<open>AccountImpl.cpp\<close>,
  \<open>ItemImpl.cpp\<close>): what each operation checks before it calls the provider, which D-Bus call
  it makes and which check it attaches to the reply, and the comparison operators. The jobs
  that receive the replies are in \<open>ClientJobs\<close> and \<open>Transfers\<close>.

  An account refers to its runtime by a weak pointer: the argument \<open>rt\<close> is what locking it
  gives, \<open>None\<close> when the runtime is gone.
\<close>

section \<open>The runtime\<close>

record RuntimeImpl =
  rt_is_valid :: bool
  rt_error :: StorageError

definition RuntimeImpl_init :: RuntimeImpl where
  "RuntimeImpl_init = \<lparr>rt_is_valid = True, rt_error = StorageErrorImpl_default\<rparr>"

definition runtime_shutdown :: "RuntimeImpl \<Rightarrow> StorageError \<times> RuntimeImpl" where
  "runtime_shutdown r =
     (if rt_is_valid r then (StorageErrorImpl_default, r\<lparr>rt_is_valid := False\<rparr>)
      else let e = runtime_destroyed_error ''Runtime::shutdown(): Runtime was destroyed previously''
           in (e, r\<lparr>rt_error := e\<rparr>))"

text \<open>\<open>!runtime || !runtime->isValid()\<close>, negated.\<close>

definition runtime_alive :: "RuntimeImpl option \<Rightarrow> bool" where
  "runtime_alive rt = (case rt of None \<Rightarrow> False | Some r \<Rightarrow> rt_is_valid r)"

section \<open>Calls and jobs\<close>

type_synonym keys = "string list"

datatype dbus_call =
    Roots keys
  | List string string keys
  | Lookup string string keys
  | Metadata string keys
  | CreateFolder string string keys
  | CreateFile string string int string bool keys
  | Update string int string keys
  | FinishUpload string
  | CancelUpload string
  | Download string string
  | FinishDownload string
  | Delete string
  | Move string string string keys
  | Copy string string string keys

text \<open>A check of the metadata in a reply: the error that it throws, if any.\<close>

type_synonym validator = "ItemMetadata \<Rightarrow> StorageError option"

definition fails_if :: "bool \<Rightarrow> StorageError \<Rightarrow> StorageError option" where
  "fails_if c e = (if c then Some e else None)"

text \<open>What a method returns: a job that has failed already, an empty list job, or a job that
  waits for the replies to some calls and applies a check to the metadata in them.\<close>

datatype job_start = Failed_job StorageError | Empty_job | Started "dbus_call list" validator

section \<open>Accounts\<close>

record AccountImpl =
  ac_is_valid :: bool
  ac_details :: AccountDetails

definition no_details :: AccountDetails where
  "no_details = \<lparr>ad_busName = '''', ad_objectPath = '''', ad_id = 0, ad_serviceId = '''', ad_displayName = '''',
     ad_providerName = '''', ad_iconName = ''''\<rparr>"

definition AccountImpl_default :: AccountImpl where
  "AccountImpl_default = \<lparr>ac_is_valid = False, ac_details = no_details\<rparr>"

definition make_account :: "AccountDetails \<Rightarrow> (StorageError, AccountImpl) outcome" where
  "make_account details =
     (if ad_busName details \<noteq> '''' \<and> ad_objectPath details \<noteq> ''''
      then Ok \<lparr>ac_is_valid = True, ac_details = details\<rparr> else Abort)"

definition ac_busName :: "AccountImpl \<Rightarrow> string" where
  "ac_busName a = (if ac_is_valid a then ad_busName (ac_details a) else '''')"

definition ac_objectPath :: "AccountImpl \<Rightarrow> string" where
  "ac_objectPath a = (if ac_is_valid a then ad_objectPath (ac_details a) else '''')"

definition ac_displayName :: "AccountImpl \<Rightarrow> string" where
  "ac_displayName a = (if ac_is_valid a then ad_displayName (ac_details a) else '''')"

definition ac_providerName :: "AccountImpl \<Rightarrow> string" where
  "ac_providerName a = (if ac_is_valid a then ad_providerName (ac_details a) else '''')"

definition ac_iconName :: "AccountImpl \<Rightarrow> string" where
  "ac_iconName a = (if ac_is_valid a then ad_iconName (ac_details a) else '''')"

definition destroyed :: "string \<Rightarrow> StorageError" where
  "destroyed meth = runtime_destroyed_error (meth @ '': Runtime was destroyed previously'')"

definition check_account :: "RuntimeImpl option \<Rightarrow> string \<Rightarrow> AccountImpl \<Rightarrow> StorageError option" where
  "check_account rt meth a =
     (if \<not> ac_is_valid a then Some (logic_error (meth @ '': cannot create job from invalid account''))
      else if \<not> runtime_alive rt then Some (destroyed meth)
      else None)"

definition account_roots :: "RuntimeImpl option \<Rightarrow> AccountImpl \<Rightarrow> keys \<Rightarrow> job_start" where
  "account_roots rt a keys =
     (case check_account rt ''Account::roots()'' a of
        Some e \<Rightarrow> Failed_job e
      | None \<Rightarrow> Started [Roots keys] (\<lambda>md.
          fails_if (md_type md \<noteq> IT_root) (local_comms_error
            (''Account::roots(): provider returned non-root item type: '' @ int_to_string (ItemType_code (md_type md))
             @ '' (id = '' @ md_item_id md @ '')''))))"

definition account_get :: "RuntimeImpl option \<Rightarrow> AccountImpl \<Rightarrow> string \<Rightarrow> keys \<Rightarrow> job_start" where
  "account_get rt a itemId keys =
     (case check_account rt ''Account::get()'' a of
        Some e \<Rightarrow> Failed_job e
      | None \<Rightarrow> Started [Metadata itemId keys] (\<lambda>md. None))"

definition ac_eq :: "AccountImpl \<Rightarrow> AccountImpl \<Rightarrow> bool" where
  "ac_eq a b = (if ac_is_valid a then ac_is_valid b \<and> ad_eq (ac_details a) (ac_details b)
                else \<not> ac_is_valid b)"

definition ac_ne :: "AccountImpl \<Rightarrow> AccountImpl \<Rightarrow> bool" where
  "ac_ne a b \<longleftrightarrow> \<not> ac_eq a b"

definition ac_lt :: "AccountImpl \<Rightarrow> AccountImpl \<Rightarrow> bool" where
  "ac_lt a b =
     (if \<not> ac_is_valid a then ac_is_valid b
      else if ac_is_valid a \<and> \<not> ac_is_valid b then False
      else ad_lt (ac_details a) (ac_details b))"

definition ac_le :: "AccountImpl \<Rightarrow> AccountImpl \<Rightarrow> bool" where
  "ac_le a b \<longleftrightarrow> ac_lt a b \<or> ac_eq a b"

definition ac_gt :: "AccountImpl \<Rightarrow> AccountImpl \<Rightarrow> bool" where
  "ac_gt a b \<longleftrightarrow> \<not> ac_le a b"

definition ac_ge :: "AccountImpl \<Rightarrow> AccountImpl \<Rightarrow> bool" where
  "ac_ge a b \<longleftrightarrow> \<not> ac_lt a b"

text \<open>\<open>qHash\<close> and \<open>boost::hash_combine\<close> are parameters; \<open>size_t\<close> has 64 bits.\<close>

definition ac_hash ::
  "(string \<Rightarrow> 32 word) \<Rightarrow> (64 word \<Rightarrow> 64 word \<Rightarrow> 64 word) \<Rightarrow> AccountImpl \<Rightarrow> 64 word" where
  "ac_hash qHash combine a =
     (if \<not> ac_is_valid a then 0
      else combine (combine (ucast (ad_id (ac_details a))) (ucast (qHash (ad_serviceId (ac_details a)))))
             (ucast (qHash (ad_displayName (ac_details a)))))"

section \<open>Items\<close>

record ItemImpl =
  it_is_valid :: bool
  it_md :: ItemMetadata
  it_account :: AccountImpl

definition no_metadata :: ItemMetadata where
  "no_metadata = \<lparr>md_item_id = '''', md_parent_ids = [], md_name = '''', md_etag = '''', md_type = IT_file,
     md_metadata = []\<rparr>"

definition ItemImpl_default :: ItemImpl where
  "ItemImpl_default = \<lparr>it_is_valid = False, it_md = no_metadata, it_account = AccountImpl_default\<rparr>"

definition ItemImpl_init :: "ItemMetadata \<Rightarrow> AccountImpl \<Rightarrow> ItemImpl" where
  "ItemImpl_init md account = \<lparr>it_is_valid = True, it_md = md, it_account = account\<rparr>"

definition make_client_item ::
  "date_parser \<Rightarrow> string \<Rightarrow> ItemMetadata \<Rightarrow> AccountImpl \<Rightarrow> (StorageError, ItemImpl) outcome" where
  "make_client_item parse_date meth md account =
     bindR (validate parse_date meth md) (\<lambda>_. Ok (ItemImpl_init md account))"

definition item_itemId :: "ItemImpl \<Rightarrow> string" where
  "item_itemId i = (if it_is_valid i then md_item_id (it_md i) else '''')"

definition item_name :: "ItemImpl \<Rightarrow> string" where
  "item_name i = (if it_is_valid i then md_name (it_md i) else '''')"

definition item_account :: "ItemImpl \<Rightarrow> AccountImpl" where
  "item_account i = (if it_is_valid i then it_account i else AccountImpl_default)"

definition item_etag :: "ItemImpl \<Rightarrow> string" where
  "item_etag i = (if it_is_valid i then md_etag (it_md i) else '''')"

definition item_type :: "ItemImpl \<Rightarrow> ItemType" where
  "item_type i = md_type (it_md i)"

definition item_metadata :: "ItemImpl \<Rightarrow> (string \<times> QVariant) list" where
  "item_metadata i = (if it_is_valid i then md_metadata (it_md i) else [])"

text \<open>\<open>QVariant::toLongLong\<close> is a parameter.\<close>

definition item_sizeInBytes :: "(QVariant \<Rightarrow> int) \<Rightarrow> ItemImpl \<Rightarrow> (unit, int) outcome" where
  "item_sizeInBytes toLongLong i =
     (if \<not> it_is_valid i \<or> md_type (it_md i) \<noteq> IT_file then Ok 0
      else case map_of (md_metadata (it_md i)) SIZE_IN_BYTES of
             None \<Rightarrow> Abort
           | Some v \<Rightarrow> if v = QV_Invalid then Abort else Ok (toLongLong v))"

definition item_parentIds :: "ItemImpl \<Rightarrow> string list" where
  "item_parentIds i = (if \<not> it_is_valid i \<or> md_type (it_md i) = IT_root then [] else md_parent_ids (it_md i))"

subsection \<open>Guards\<close>

definition check_invalid_or_destroyed :: "RuntimeImpl option \<Rightarrow> string \<Rightarrow> ItemImpl \<Rightarrow> StorageError option" where
  "check_invalid_or_destroyed rt meth i =
     (if \<not> it_is_valid i then Some (logic_error (meth @ '': cannot create job from invalid item''))
      else if \<not> runtime_alive rt then Some (destroyed meth)
      else None)"

definition check_copy_move_precondition ::
  "RuntimeImpl option \<Rightarrow> string \<Rightarrow> ItemImpl \<Rightarrow> ItemImpl \<Rightarrow> string \<Rightarrow> StorageError option" where
  "check_copy_move_precondition rt meth i newParent newName =
     (case check_invalid_or_destroyed rt meth i of
        Some e \<Rightarrow> Some e
      | None \<Rightarrow>
          if \<not> it_is_valid newParent then Some (invalid_argument_error (meth @ '': newParent is invalid''))
          else if newName = '''' then Some (invalid_argument_error (meth @ '': newName cannot be empty''))
          else if ac_ne (item_account i) (item_account newParent) then
            Some (logic_error (meth @ '': source and target must belong to the same account''))
          else if item_type newParent = IT_file then
            Some (logic_error (meth @ '': newParent cannot be a file''))
          else None)"

subsection \<open>Operations\<close>

text \<open>The checks that the operations attach to the replies.\<close>

definition differs :: "ItemType \<Rightarrow> ItemType \<Rightarrow> bool" where
  "differs a b \<longleftrightarrow> (a = IT_file \<and> b \<noteq> IT_file) \<or> (a \<noteq> IT_file \<and> b = IT_file)"

definition type_error :: "string \<Rightarrow> string \<Rightarrow> ItemMetadata \<Rightarrow> StorageError" where
  "type_error meth what md =
     local_comms_error (meth @ '': impossible '' @ what @ '' item returned by provider (id = '' @ md_item_id md @ '')'')"

definition differ_error :: "string \<Rightarrow> ItemMetadata \<Rightarrow> ItemMetadata \<Rightarrow> StorageError" where
  "differ_error meth source md =
     local_comms_error (meth @ ''provider error: source and target item type differ (source id = ''
       @ md_item_id source @ '', target id = '' @ md_item_id md @ '')'')"

definition item_parents :: "RuntimeImpl option \<Rightarrow> ItemImpl \<Rightarrow> keys \<Rightarrow> (unit, job_start) outcome" where
  "item_parents rt i keys =
     (case check_invalid_or_destroyed rt ''Item::parents()'' i of
        Some e \<Rightarrow> Ok (Failed_job e)
      | None \<Rightarrow>
          if md_type (it_md i) = IT_root then Ok Empty_job
          else bindR (assertR (md_parent_ids (it_md i) \<noteq> [])) (\<lambda>_.
            Ok (Started (map (\<lambda>parent. Metadata parent keys) (md_parent_ids (it_md i))) (\<lambda>md.
              fails_if (md_type md = IT_file) (local_comms_error
                (''Item::parents(): provider returned a file as a parent (id = '' @ md_item_id md @ '')''))))))"

definition item_copy :: "RuntimeImpl option \<Rightarrow> ItemImpl \<Rightarrow> ItemImpl \<Rightarrow> string \<Rightarrow> keys \<Rightarrow> job_start" where
  "item_copy rt i newParent newName keys =
     (case check_copy_move_precondition rt ''Item::copy()'' i newParent newName of
        Some e \<Rightarrow> Failed_job e
      | None \<Rightarrow> Started [Copy (md_item_id (it_md i)) (item_itemId newParent) newName keys] (\<lambda>md.
          fails_if (differs (md_type (it_md i)) (md_type md)) (differ_error ''Item::copy()'' (it_md i) md)))"

definition item_move :: "RuntimeImpl option \<Rightarrow> ItemImpl \<Rightarrow> ItemImpl \<Rightarrow> string \<Rightarrow> keys \<Rightarrow> job_start" where
  "item_move rt i newParent newName keys =
     (case check_copy_move_precondition rt ''Item::move()'' i newParent newName of
        Some e \<Rightarrow> Failed_job e
      | None \<Rightarrow> Started [Move (md_item_id (it_md i)) (item_itemId newParent) newName keys] (\<lambda>md.
          if md_type md = IT_root then Some (type_error ''Item::move()'' ''root'' md)
          else fails_if (differs (md_type (it_md i)) (md_type md)) (differ_error ''Item::move(): '' (it_md i) md)))"

definition item_deleteItem :: "RuntimeImpl option \<Rightarrow> ItemImpl \<Rightarrow> job_start" where
  "item_deleteItem rt i =
     (case check_invalid_or_destroyed rt ''Item::deleteItem()'' i of
        Some e \<Rightarrow> Failed_job e
      | None \<Rightarrow>
          if md_type (it_md i) = IT_root then
            Failed_job (permission_error ''Item::deleteItem(): cannot delete root'')
          else Started [Delete (md_item_id (it_md i))] (\<lambda>md. None))"

definition etag_for :: "ConflictPolicy \<Rightarrow> ItemImpl \<Rightarrow> string" where
  "etag_for policy i = (if policy = ignore_conflict then '''' else md_etag (it_md i))"

definition must_be_file :: "string \<Rightarrow> validator" where
  "must_be_file meth md = fails_if (md_type md \<noteq> IT_file) (type_error meth ''folder'' md)"

definition item_createUploader :: "RuntimeImpl option \<Rightarrow> ItemImpl \<Rightarrow> ConflictPolicy \<Rightarrow> int \<Rightarrow> keys \<Rightarrow> job_start" where
  "item_createUploader rt i policy sizeInBytes keys =
     (case check_invalid_or_destroyed rt ''Item::createUploader()'' i of
        Some e \<Rightarrow> Failed_job e
      | None \<Rightarrow>
          if md_type (it_md i) \<noteq> IT_file then
            Failed_job (logic_error ''Item::createUploader(): cannot upload to a folder'')
          else if sizeInBytes < 0 then
            Failed_job (invalid_argument_error ''Item::createUploader(): size must be >= 0'')
          else Started [Update (md_item_id (it_md i)) sizeInBytes (etag_for policy i) keys]
                 (must_be_file ''Item::createUploader()''))"

definition item_createDownloader :: "RuntimeImpl option \<Rightarrow> ItemImpl \<Rightarrow> ConflictPolicy \<Rightarrow> job_start" where
  "item_createDownloader rt i policy =
     (case check_invalid_or_destroyed rt ''Item::createDownloader()'' i of
        Some e \<Rightarrow> Failed_job e
      | None \<Rightarrow>
          if md_type (it_md i) \<noteq> IT_file then
            Failed_job (logic_error ''Item::createDownloader(): cannot download a folder'')
          else Started [Download (md_item_id (it_md i)) (etag_for policy i)] (\<lambda>md. None))"

definition item_list :: "RuntimeImpl option \<Rightarrow> ItemImpl \<Rightarrow> keys \<Rightarrow> job_start" where
  "item_list rt i keys =
     (case check_invalid_or_destroyed rt ''Item::list()'' i of
        Some e \<Rightarrow> Failed_job e
      | None \<Rightarrow>
          if md_type (it_md i) = IT_file then
            Failed_job (logic_error ''Item::list(): cannot perform list on a file'')
          else Started [List (md_item_id (it_md i)) '''' keys] (\<lambda>md.
            fails_if (md_type md = IT_root) (type_error ''Item::list()'' ''root'' md)))"

text \<open>\<open>fetch_next\<close> of \<open>list\<close>\<close>

definition item_list_next :: "ItemImpl \<Rightarrow> keys \<Rightarrow> string \<Rightarrow> dbus_call" where
  "item_list_next i keys page_token = List (md_item_id (it_md i)) page_token keys"

definition item_lookup :: "RuntimeImpl option \<Rightarrow> ItemImpl \<Rightarrow> string \<Rightarrow> keys \<Rightarrow> job_start" where
  "item_lookup rt i name keys =
     (case check_invalid_or_destroyed rt ''Item::lookup()'' i of
        Some e \<Rightarrow> Failed_job e
      | None \<Rightarrow>
          if md_type (it_md i) = IT_file then
            Failed_job (logic_error ''Item::lookup(): cannot perform lookup on a file'')
          else Started [Lookup (md_item_id (it_md i)) name keys] (\<lambda>md. None))"

definition item_createFolder :: "RuntimeImpl option \<Rightarrow> ItemImpl \<Rightarrow> string \<Rightarrow> keys \<Rightarrow> job_start" where
  "item_createFolder rt i name keys =
     (case check_invalid_or_destroyed rt ''Item::createFolder()'' i of
        Some e \<Rightarrow> Failed_job e
      | None \<Rightarrow>
          if md_type (it_md i) = IT_file then
            Failed_job (logic_error ''Item::createFolder(): cannot create a folder with a file as the parent'')
          else Started [CreateFolder (md_item_id (it_md i)) name keys] (\<lambda>md.
            fails_if (md_type md = IT_file) (type_error ''Item::createFolder()'' ''file'' md)))"

definition item_createFile ::
  "RuntimeImpl option \<Rightarrow> ItemImpl \<Rightarrow> string \<Rightarrow> ConflictPolicy \<Rightarrow> int \<Rightarrow> string \<Rightarrow> keys \<Rightarrow> job_start" where
  "item_createFile rt i name policy sizeInBytes contentType keys =
     (case check_invalid_or_destroyed rt ''Item::createFile()'' i of
        Some e \<Rightarrow> Failed_job e
      | None \<Rightarrow>
          if md_type (it_md i) = IT_file then
            Failed_job (logic_error ''Item::createFile(): cannot create a file with a file as the parent'')
          else if sizeInBytes < 0 then
            Failed_job (invalid_argument_error ''Item::createFile(): size must be >= 0'')
          else if name = '''' then
            Failed_job (invalid_argument_error ''Item::createFile(): name cannot be empty'')
          else Started [CreateFile (md_item_id (it_md i)) name sizeInBytes contentType
                          (policy = ignore_conflict) keys] (must_be_file ''Item::createFile()''))"

subsection \<open>Comparison\<close>

definition it_eq :: "ItemImpl \<Rightarrow> ItemImpl \<Rightarrow> bool" where
  "it_eq a b =
     (if it_is_valid a then it_is_valid b \<and> ac_eq (it_account a) (it_account b) \<and>
        md_item_id (it_md a) = md_item_id (it_md b)
      else \<not> it_is_valid b)"

definition it_ne :: "ItemImpl \<Rightarrow> ItemImpl \<Rightarrow> bool" where
  "it_ne a b \<longleftrightarrow> \<not> it_eq a b"

definition it_lt :: "ItemImpl \<Rightarrow> ItemImpl \<Rightarrow> bool" where
  "it_lt a b =
     (if \<not> it_is_valid a then it_is_valid b
      else if it_is_valid a \<and> \<not> it_is_valid b then False
      else if ac_lt (it_account a) (it_account b) then True
      else if ac_gt (it_account a) (it_account b) then False
      else md_item_id (it_md a) < md_item_id (it_md b))"

definition it_le :: "ItemImpl \<Rightarrow> ItemImpl \<Rightarrow> bool" where
  "it_le a b \<longleftrightarrow> it_lt a b \<or> it_eq a b"

definition it_gt :: "ItemImpl \<Rightarrow> ItemImpl \<Rightarrow> bool" where
  "it_gt a b \<longleftrightarrow> \<not> it_le a b"

definition it_ge :: "ItemImpl \<Rightarrow> ItemImpl \<Rightarrow> bool" where
  "it_ge a b \<longleftrightarrow> \<not> it_lt a b"

definition it_hash ::
  "(string \<Rightarrow> 32 word) \<Rightarrow> (64 word \<Rightarrow> 64 word \<Rightarrow> 64 word) \<Rightarrow> ItemImpl \<Rightarrow> 64 word" where
  "it_hash qHash combine i =
     (if \<not> it_is_valid i then 0
      else combine (combine 0 (ac_hash qHash combine (it_account i))) (ucast (qHash (md_item_id (it_md i)))))"

section \<open>Properties\<close>

interpretation ac_order: comparison ac_eq ac_lt
proof unfold_locales
  fix x y z x' y' :: AccountImpl
  show "ac_eq x x" by (simp add: ac_eq_def ad_order.eq_refl)
  show "ac_eq x y \<Longrightarrow> ac_eq y x" by (auto simp: ac_eq_def ad_order.eq_sym split: if_splits)
  show "ac_eq x y \<Longrightarrow> ac_eq y z \<Longrightarrow> ac_eq x z"
    by (auto simp: ac_eq_def split: if_splits intro: ad_order.eq_trans)
  show "ac_eq x y \<Longrightarrow> \<not> ac_lt x y" by (auto simp: ac_eq_def ac_lt_def ad_order.lt_irrefl split: if_splits)
  show "ac_lt x y \<Longrightarrow> ac_lt y z \<Longrightarrow> ac_lt x z"
    by (auto simp: ac_lt_def split: if_splits intro: ad_order.lt_trans)
  show "ac_lt x y \<or> ac_eq x y \<or> ac_lt y x"
    using ad_order.lt_total by (auto simp: ac_lt_def ac_eq_def)
  show "ac_eq x x' \<Longrightarrow> ac_eq y y' \<Longrightarrow> ac_lt x y \<Longrightarrow> ac_lt x' y'"
    by (auto simp: ac_eq_def ac_lt_def split: if_splits intro: ad_order.lt_cong)
qed

lemma ac_gt_iff: "ac_gt a b \<longleftrightarrow> ac_lt b a"
  unfolding ac_gt_def ac_le_def by (rule ac_order.gt_is_converse)

lemma it_lt_iff:
  "it_lt a b \<longleftrightarrow> it_is_valid b \<and> (it_is_valid a \<longrightarrow>
     ac_lt (it_account a) (it_account b) \<or>
     ac_eq (it_account a) (it_account b) \<and> md_item_id (it_md a) < md_item_id (it_md b))"
  using ac_order.trichotomy [of "it_account a" "it_account b"]
  by (auto simp: it_lt_def ac_gt_iff)

interpretation it_order: comparison it_eq it_lt
proof unfold_locales
  fix x y z x' y' :: ItemImpl
  show "it_eq x x" by (simp add: it_eq_def ac_order.eq_refl)
  show "it_eq x y \<Longrightarrow> it_eq y x" by (auto simp: it_eq_def ac_order.eq_sym split: if_splits)
  show "it_eq x y \<Longrightarrow> it_eq y z \<Longrightarrow> it_eq x z"
    by (auto simp: it_eq_def split: if_splits intro: ac_order.eq_trans)
  show "it_eq x y \<Longrightarrow> \<not> it_lt x y"
    by (auto simp: it_eq_def it_lt_iff ac_order.lt_irrefl split: if_splits)
  show "it_lt x y \<Longrightarrow> it_lt y z \<Longrightarrow> it_lt x z"
    by (auto simp: it_lt_iff intro: ac_order.lt_trans ac_order.lt_eq_trans ac_order.eq_lt_trans ac_order.eq_trans
        less_trans)
  show "it_lt x y \<or> it_eq x y \<or> it_lt y x"
    using ac_order.lt_total [of "it_account x" "it_account y"] ac_order.eq_sym
    by (auto simp: it_lt_iff it_eq_def)
  show "it_eq x x' \<Longrightarrow> it_eq y y' \<Longrightarrow> it_lt x y \<Longrightarrow> it_lt x' y'"
    by (auto simp: it_lt_iff it_eq_def split: if_splits
        intro: ac_order.lt_cong ac_order.eq_trans ac_order.eq_sym)
qed

lemma ac_hash_cong: "ac_eq a b \<Longrightarrow> ac_hash qHash combine a = ac_hash qHash combine b"
  by (auto simp: ac_eq_def ac_hash_def ad_eq_def split: if_splits)

text \<open>
  The comparison operators of items agree with each other: exactly one of \<open><\<close>, \<open>==\<close> and
  \<open>>\<close> holds for any two items, \<open><\<close> is transitive, \<open><=\<close> and \<open>>=\<close> are what their names say, an
  invalid item comes before every valid one, and equal items have equal hash values.
\<close>

theorem item_comparison:
  "(it_lt a b \<and> \<not> it_eq a b \<and> \<not> it_gt a b \<or> \<not> it_lt a b \<and> it_eq a b \<and> \<not> it_gt a b \<or>
    \<not> it_lt a b \<and> \<not> it_eq a b \<and> it_gt a b) \<and>
   (it_gt a b \<longleftrightarrow> it_lt b a) \<and> (it_ge a b \<longleftrightarrow> it_gt a b \<or> it_eq a b) \<and> (it_le a b \<longleftrightarrow> it_ge b a) \<and>
   (it_lt a b \<and> it_lt b c \<longrightarrow> it_lt a c) \<and>
   (\<not> it_is_valid a \<and> it_is_valid b \<longrightarrow> it_lt a b) \<and>
   (it_eq a b \<longrightarrow> it_hash qHash combine a = it_hash qHash combine b)"
proof -
  have gt: "it_gt x y \<longleftrightarrow> it_lt y x" for x y
    unfolding it_gt_def it_le_def by (rule it_order.gt_is_converse)
  have ge: "it_ge x y \<longleftrightarrow> it_lt y x \<or> it_eq x y" for x y
    unfolding it_ge_def by (rule it_order.ge_is_converse)
  have h: "it_hash qHash combine a = it_hash qHash combine b" if "it_eq a b"
    using that ac_hash_cong [of "it_account a" "it_account b"]
    by (auto simp: it_eq_def it_hash_def split: if_splits)
  show ?thesis
    using it_order.trichotomy [of a b] it_order.lt_trans [of a b c] h it_order.eq_sym [of a b] it_order.eq_sym [of b a]
    unfolding gt ge it_le_def by (auto simp: it_lt_iff)
qed

definition sample_account :: AccountImpl where
  "sample_account = \<lparr>ac_is_valid = True, ac_details = no_details\<lparr>ad_busName := ''b'', ad_objectPath := ''/p'', ad_id := 2\<rparr>\<rparr>"

definition sample_file :: ItemImpl where
  "sample_file = ItemImpl_init (no_metadata\<lparr>md_item_id := ''/r/a'', md_parent_ids := [''/r''], md_name := ''a''\<rparr>)
     sample_account"

definition sample_folder :: ItemImpl where
  "sample_folder = ItemImpl_init
     (no_metadata\<lparr>md_item_id := ''/r/d'', md_parent_ids := [''/r''], md_name := ''d'', md_type := IT_folder\<rparr>) sample_account"

lemmas sample_defs = sample_file_def sample_folder_def sample_account_def ItemImpl_init_def no_metadata_def
  no_details_def ItemImpl_default_def

theorem item_comparison_witness:
  "it_lt ItemImpl_default sample_file \<and> it_lt sample_file sample_folder \<and> it_lt ItemImpl_default sample_folder"
proof -
  have "it_lt sample_file sample_folder"
    by (simp add: it_lt_iff sample_defs ac_order.eq_refl)
  then show ?thesis using item_comparison [of ItemImpl_default sample_file sample_folder]
    by (simp add: sample_defs)
qed

definition refuses :: "ErrorType \<Rightarrow> job_start \<Rightarrow> bool" where
  "refuses t js \<longleftrightarrow> (\<exists>e. js = Failed_job e \<and> se_type e = t)"

lemma se_type_factories [simp]:
  "se_type (logic_error m) = ET_LogicError" "se_type (runtime_destroyed_error m) = ET_RuntimeDestroyed"
  "se_type (invalid_argument_error m) = ET_InvalidArgument" "se_type (permission_error m) = ET_PermissionDenied"
  "se_type (cancelled_error m) = ET_Cancelled"
  by (simp_all add: error_factory_defs make_msg_error_def StorageErrorImpl_init_def)

lemma guard_refuses:
  assumes "\<not> it_is_valid i \<or> \<not> runtime_alive rt"
  shows "\<exists>e. check_invalid_or_destroyed rt meth i = Some e \<and>
    se_type e = (if it_is_valid i then ET_RuntimeDestroyed else ET_LogicError)"
  using assms by (cases "it_is_valid i") (simp_all add: check_invalid_or_destroyed_def destroyed_def)

text \<open>
  No operation of an item calls the provider when the item is invalid or its runtime has
  been shut down: the job it returns has failed, with a logic error for an invalid item and
  with the error that says that the runtime was destroyed otherwise.
\<close>

theorem guarded_operations:
  assumes "\<not> it_is_valid i \<or> \<not> runtime_alive rt"
  shows "(\<forall>js \<in> {item_copy rt i p n keys, item_move rt i p n keys, item_deleteItem rt i,
             item_createUploader rt i policy sz keys, item_createDownloader rt i policy, item_list rt i keys,
             item_lookup rt i n keys, item_createFolder rt i n keys, item_createFile rt i n policy sz ct keys}.
            refuses (if it_is_valid i then ET_RuntimeDestroyed else ET_LogicError) js) \<and>
         (\<exists>js. item_parents rt i keys = Ok js \<and>
            refuses (if it_is_valid i then ET_RuntimeDestroyed else ET_LogicError) js)"
proof -
  let ?t = "if it_is_valid i then ET_RuntimeDestroyed else ET_LogicError"
  have g: "\<exists>e. check_invalid_or_destroyed rt meth i = Some e \<and> se_type e = ?t" for meth
    by (rule guard_refuses [OF assms])
  have cm: "\<exists>e. check_copy_move_precondition rt meth i p n = Some e \<and> se_type e = ?t" for meth
    using g [of meth] by (auto simp: check_copy_move_precondition_def)
  have "refuses ?t (item_copy rt i p n keys)" "refuses ?t (item_move rt i p n keys)"
    using cm [of "''Item::copy()''"] cm [of "''Item::move()''"]
    by (auto simp: item_copy_def item_move_def refuses_def)
  moreover have "refuses ?t (item_deleteItem rt i)" "refuses ?t (item_createUploader rt i policy sz keys)"
    "refuses ?t (item_createDownloader rt i policy)" "refuses ?t (item_list rt i keys)"
    "refuses ?t (item_lookup rt i n keys)" "refuses ?t (item_createFolder rt i n keys)"
    "refuses ?t (item_createFile rt i n policy sz ct keys)"
    using g [of "''Item::deleteItem()''"] g [of "''Item::createUploader()''"]
      g [of "''Item::createDownloader()''"] g [of "''Item::list()''"] g [of "''Item::lookup()''"]
      g [of "''Item::createFolder()''"] g [of "''Item::createFile()''"]
    by (auto simp: item_deleteItem_def item_createUploader_def item_createDownloader_def item_list_def
        item_lookup_def item_createFolder_def item_createFile_def refuses_def)
  moreover have "\<exists>js. item_parents rt i keys = Ok js \<and> refuses ?t js"
    using g [of "''Item::parents()''"] by (auto simp: item_parents_def refuses_def)
  ultimately show ?thesis by blast
qed

theorem guarded_operations_witness:
  "refuses ET_RuntimeDestroyed (item_list None sample_folder []) \<and>
   refuses ET_LogicError (item_deleteItem (Some RuntimeImpl_init) ItemImpl_default)"
  using guarded_operations [of sample_folder None] guarded_operations [of ItemImpl_default "Some RuntimeImpl_init"]
  by (simp add: runtime_alive_def sample_defs)

text \<open>
  A copy or a move is sent to the provider exactly when the item is valid, the runtime is
  alive, the new parent is a valid item of the same account that is not a file, and the new
  name is not empty; then it is one call with the ids of the item and of the new parent.
\<close>

theorem copy_move_sent_iff:
  "((\<exists>calls v. item_copy rt i p n keys = Started calls v) \<longleftrightarrow>
      it_is_valid i \<and> runtime_alive rt \<and> it_is_valid p \<and> n \<noteq> '''' \<and>
      ac_eq (it_account i) (it_account p) \<and> md_type (it_md p) \<noteq> IT_file) \<and>
   ((\<exists>calls v. item_move rt i p n keys = Started calls v) \<longleftrightarrow>
      (\<exists>calls v. item_copy rt i p n keys = Started calls v)) \<and>
   (\<forall>calls v. item_copy rt i p n keys = Started calls v \<longrightarrow>
      calls = [Copy (md_item_id (it_md i)) (md_item_id (it_md p)) n keys]) \<and>
   (\<forall>calls v. item_move rt i p n keys = Started calls v \<longrightarrow>
      calls = [Move (md_item_id (it_md i)) (md_item_id (it_md p)) n keys])"
  by (auto simp: item_copy_def item_move_def check_copy_move_precondition_def check_invalid_or_destroyed_def
      item_account_def item_type_def item_itemId_def ac_ne_def split: option.splits if_splits)

theorem copy_move_sent_iff_witness:
  "\<exists>v. item_move (Some RuntimeImpl_init) sample_file sample_folder ''x'' [] =
     Started [Move ''/r/a'' ''/r/d'' ''x'' []] v"
proof -
  have "\<exists>calls v. item_move (Some RuntimeImpl_init) sample_file sample_folder ''x'' [] = Started calls v"
    using copy_move_sent_iff [of "Some RuntimeImpl_init" sample_file sample_folder "''x''" "[]"]
    by (simp add: sample_defs runtime_alive_def RuntimeImpl_init_def ac_order.eq_refl)
  then show ?thesis
    using copy_move_sent_iff [of "Some RuntimeImpl_init" sample_file sample_folder "''x''" "[]"]
    by (auto simp: sample_defs)
qed

end
