(* ===== verification/ClientJobs.thy ===== *)
theory ClientJobs
  imports Client
begin

text \<open>
  The client's jobs (\<open>VoidJobImpl\<close>, \<open>ItemJobImpl\<close>, \<open>ListJobImplBase\<close>, \<open>ItemListJobImpl\<close>,
  \<open>MultiItemJobImpl\<close>, \<open>MultiItemListJobImpl\<close> and \<open>AccountsJobImpl\<close> under
  \<open>src/qt/internal/\<close>) and the handler that gives each its replies (\<open>HandlerBase.cpp\<close>,
  \<open>Handler.h\<close>). A job is its status, its error, the signals it has emitted, the calls that
  it made itself and the number of calls whose reply has not arrived; the events are the
  replies, each with what locking the runtime gives at that moment. A handler disconnects
  itself before it runs: a reply that nobody waits for does nothing.
\<close>

section \<open>State and events\<close>

datatype job_status = JS_Loading | JS_Ready | JS_Finished | JS_Cancelled | JS_Error

definition final_status :: "job_status \<Rightarrow> bool" where
  "final_status st \<longleftrightarrow> st \<in> {JS_Finished, JS_Cancelled, JS_Error}"

record job =
  jb_status :: job_status
  jb_error :: StorageError
  jb_signals :: "job_status list"       \<comment> \<open>statusChanged, in order\<close>
  jb_items :: "ItemImpl list list"      \<comment> \<open>the arguments of itemsReady, or the item of an item job\<close>
  jb_calls :: "dbus_call list"          \<comment> \<open>further calls\<close>
  jb_waiting :: nat                     \<comment> \<open>replies that are still to come\<close>

datatype 'r reply = Reply "RuntimeImpl option" 'r | Error_reply StorageError

definition job_loading :: "nat \<Rightarrow> job" where
  "job_loading n = \<lparr>jb_status = JS_Loading, jb_error = StorageErrorImpl_default, jb_signals = [], jb_items = [],
     jb_calls = [], jb_waiting = n\<rparr>"

text \<open>\<open>status_ = s; Q_EMIT statusChanged(status_)\<close>, also with an error before it.\<close>

definition emit_status :: "job_status \<Rightarrow> job \<Rightarrow> job" where
  "emit_status st j = j\<lparr>jb_status := st, jb_signals := jb_signals j @ [st]\<rparr>"

definition emit_error :: "StorageError \<Rightarrow> job \<Rightarrow> job" where
  "emit_error e j = emit_status JS_Error (j\<lparr>jb_error := e\<rparr>)"

text \<open>\<open>make_job(error)\<close>: the queued signal is part of the initial state.\<close>

definition make_error_job :: "StorageError \<Rightarrow> job" where
  "make_error_job e = emit_error e (job_loading 0)"

definition make_empty_job :: job where
  "make_empty_job = emit_status JS_Finished (job_loading 0)"

text \<open>\<open>HandlerBase::finished\<close>: the closure runs once per reply.\<close>

definition handled :: "('r reply \<Rightarrow> job \<Rightarrow> job) \<Rightarrow> job \<Rightarrow> 'r reply \<Rightarrow> job" where
  "handled closure j r = (if jb_waiting j = 0 then j else closure r (j\<lparr>jb_waiting := jb_waiting j - 1\<rparr>))"

section \<open>The closures\<close>

fun void_closure :: "string \<Rightarrow> unit reply \<Rightarrow> job \<Rightarrow> job" where
  "void_closure meth (Reply rt _) j =
     (if \<not> runtime_alive rt then emit_error (destroyed meth) j else emit_status JS_Finished j)"
| "void_closure meth (Error_reply e) j = emit_error e j"

definition checked_item ::
  "date_parser \<Rightarrow> string \<Rightarrow> validator \<Rightarrow> AccountImpl \<Rightarrow> ItemMetadata \<Rightarrow> (StorageError, ItemImpl) outcome" where
  "checked_item parse_date meth check account md =
     (case check md of Some e \<Rightarrow> Raise e | None \<Rightarrow> make_client_item parse_date meth md account)"

fun item_closure ::
  "date_parser \<Rightarrow> string \<Rightarrow> validator \<Rightarrow> AccountImpl \<Rightarrow> ItemMetadata reply \<Rightarrow> job \<Rightarrow> job" where
  "item_closure parse_date meth check account (Reply rt md) j =
     (if \<not> runtime_alive rt then emit_error (destroyed meth) j
      else case checked_item parse_date meth check account md of
          Ok item \<Rightarrow> emit_status JS_Finished (j\<lparr>jb_items := [[item]]\<rparr>)
        | Raise e \<Rightarrow> emit_error e j
        | Abort \<Rightarrow> j)"
| "item_closure parse_date meth check account (Error_reply e) j = emit_error e j"

text \<open>The loop of \<open>ItemListJobImpl\<close>: bad items are left out, the last error is kept.\<close>

fun collect_items ::
  "(ItemMetadata \<Rightarrow> (StorageError, ItemImpl) outcome) \<Rightarrow> ItemMetadata list \<Rightarrow> ItemImpl list \<times> StorageError option" where
  "collect_items mk [] = ([], None)"
| "collect_items mk (md # mds) =
     (case collect_items mk mds of (items, err) \<Rightarrow>
        (case mk md of
           Ok item \<Rightarrow> (item # items, err)
         | Raise e \<Rightarrow> (items, case err of None \<Rightarrow> Some e | Some e' \<Rightarrow> Some e')
         | Abort \<Rightarrow> (items, err)))"

fun list_closure ::
  "date_parser \<Rightarrow> string \<Rightarrow> validator \<Rightarrow> AccountImpl \<Rightarrow> ItemMetadata list reply \<Rightarrow> job \<Rightarrow> job" where
  "list_closure parse_date meth check account (Reply rt mds) j =
     (if \<not> runtime_alive rt then emit_error (destroyed meth) j
      else case collect_items (checked_item parse_date meth check account) mds of
          (items, None) \<Rightarrow> emit_status JS_Finished (j\<lparr>jb_items := jb_items j @ [items]\<rparr>)
        | (items, Some e) \<Rightarrow> emit_error e (j\<lparr>jb_items := jb_items j @ [items]\<rparr>))"
| "list_closure parse_date meth check account (Error_reply e) j = emit_error e j"

text \<open>\<open>MultiItemJobImpl\<close>: one reply per item; \<open>jb_waiting\<close> plays \<open>replies_remaining_\<close>, which
  counts only the replies that are processed while the job is loading.\<close>

fun multi_item_closure ::
  "date_parser \<Rightarrow> string \<Rightarrow> validator \<Rightarrow> AccountImpl \<Rightarrow> ItemMetadata reply \<Rightarrow> job \<Rightarrow> job" where
  "multi_item_closure parse_date meth check account (Reply rt md) j =
     (if jb_status j \<noteq> JS_Loading then j
      else if \<not> runtime_alive rt then emit_error (destroyed meth) j
      else case checked_item parse_date meth check account md of
          Ok item \<Rightarrow>
            (let j = j\<lparr>jb_items := jb_items j @ [[item]]\<rparr> in
             if jb_waiting j = 0 then emit_status JS_Finished j else j)
        | Raise e \<Rightarrow> emit_error e j
        | Abort \<Rightarrow> j)"
| "multi_item_closure parse_date meth check account (Error_reply e) j =
     (if jb_status j \<noteq> JS_Loading then j else emit_error e j)"

text \<open>\<open>MultiItemListJobImpl\<close>: pages. The first bad item ends the job; a page with a token makes
  the next call. \<open>assert(status_ == Loading)\<close> in \<open>process_error_\<close>: a violation is no state of
  the model, \<open>page_assert\<close> below shows that it cannot happen.\<close>

fun page_items ::
  "(ItemMetadata \<Rightarrow> (StorageError, ItemImpl) outcome) \<Rightarrow> ItemMetadata list \<Rightarrow> (StorageError, ItemImpl list) outcome" where
  "page_items mk [] = Ok []"
| "page_items mk (md # mds) = bindR (mk md) (\<lambda>item. bindR (page_items mk mds) (\<lambda>items. Ok (item # items)))"

fun page_closure ::
  "date_parser \<Rightarrow> string \<Rightarrow> validator \<Rightarrow> AccountImpl \<Rightarrow> (string \<Rightarrow> dbus_call) \<Rightarrow>
     (ItemMetadata list \<times> string) reply \<Rightarrow> job \<Rightarrow> job" where
  "page_closure parse_date meth check account fetch_next (Reply rt (mds, token)) j =
     (if jb_status j \<noteq> JS_Loading then j
      else if \<not> runtime_alive rt then emit_error (destroyed meth) j
      else case page_items (checked_item parse_date meth check account) mds of
          Raise e \<Rightarrow> emit_error e j
        | Abort \<Rightarrow> j
        | Ok items \<Rightarrow>
            (let j = j\<lparr>jb_items := jb_items j @ [items]\<rparr> in
             if token = '''' then emit_status JS_Finished j
             else j\<lparr>jb_calls := jb_calls j @ [fetch_next token], jb_waiting := jb_waiting j + 1\<rparr>))"
| "page_closure parse_date meth check account fetch_next (Error_reply e) j = emit_error e j"

section \<open>The machines\<close>

definition void_step :: "string \<Rightarrow> job \<Rightarrow> unit reply \<Rightarrow> job" where
  "void_step meth = handled (void_closure meth)"

definition item_step ::
  "date_parser \<Rightarrow> string \<Rightarrow> validator \<Rightarrow> AccountImpl \<Rightarrow> job \<Rightarrow> ItemMetadata reply \<Rightarrow> job" where
  "item_step parse_date meth check account = handled (item_closure parse_date meth check account)"

definition list_step ::
  "date_parser \<Rightarrow> string \<Rightarrow> validator \<Rightarrow> AccountImpl \<Rightarrow> job \<Rightarrow> ItemMetadata list reply \<Rightarrow> job" where
  "list_step parse_date meth check account = handled (list_closure parse_date meth check account)"

definition multi_item_step ::
  "date_parser \<Rightarrow> string \<Rightarrow> validator \<Rightarrow> AccountImpl \<Rightarrow> job \<Rightarrow> ItemMetadata reply \<Rightarrow> job" where
  "multi_item_step parse_date meth check account =
     handled (multi_item_closure parse_date meth check account)"

definition page_step ::
  "date_parser \<Rightarrow> string \<Rightarrow> validator \<Rightarrow> AccountImpl \<Rightarrow> (string \<Rightarrow> dbus_call) \<Rightarrow> job \<Rightarrow>
     (ItemMetadata list \<times> string) reply \<Rightarrow> job" where
  "page_step parse_date meth check account fetch_next =
     handled (page_closure parse_date meth check account fetch_next)"

section \<open>The accounts job\<close>

text \<open>\<open>AccountsJobImpl\<close> keeps its accounts; \<open>accounts()\<close> is \<open>const\<close> and changes the status
  through a \<open>const_cast\<close> when the runtime is gone. \<open>emit_status_changed\<close> emits (deferred) only
  while the job is loading, and gives the new status.\<close>

record accounts_job = job +
  aj_accounts :: "AccountImpl list"

definition emit_status_changed :: "job_status \<Rightarrow> accounts_job \<Rightarrow> accounts_job" where
  "emit_status_changed new_status j =
     (if jb_status j = JS_Loading then j\<lparr>jb_signals := jb_signals j @ [new_status], jb_status := new_status\<rparr>
      else j\<lparr>jb_status := new_status\<rparr>)"

definition get_runtime_impl :: "RuntimeImpl option \<Rightarrow> string \<Rightarrow> accounts_job \<Rightarrow> bool \<times> accounts_job" where
  "get_runtime_impl rt meth j =
     (if \<not> runtime_alive rt then (False, emit_status_changed JS_Error (j\<lparr>jb_error := destroyed meth\<rparr>))
      else (True, j))"

text \<open>\<open>make_account\<close> asserts that the bus name and the object path are not empty.\<close>

fun make_accounts :: "AccountDetails list \<Rightarrow> (StorageError, AccountImpl list) outcome" where
  "make_accounts [] = Ok []"
| "make_accounts (d # ds) = bindR (make_account d) (\<lambda>a. bindR (make_accounts ds) (\<lambda>as. Ok (a # as)))"

fun accounts_closure :: "string \<Rightarrow> AccountDetails list reply \<Rightarrow> accounts_job \<Rightarrow> (StorageError, accounts_job) outcome" where
  "accounts_closure meth (Reply rt details) j =
     (case get_runtime_impl rt meth j of
        (False, j) \<Rightarrow> Ok j
      | (True, j) \<Rightarrow>
          bindR (make_accounts details) (\<lambda>as.
            Ok (j\<lparr>aj_accounts := aj_accounts j @ as, jb_status := JS_Finished,
                  jb_signals := jb_signals j @ [JS_Finished]\<rparr>)))"
| "accounts_closure meth (Error_reply e) j =
     Ok (j\<lparr>jb_error := e, jb_status := JS_Error, jb_signals := jb_signals j @ [JS_Error]\<rparr>)"

definition accounts_of :: "RuntimeImpl option \<Rightarrow> accounts_job \<Rightarrow> AccountImpl list \<times> accounts_job" where
  "accounts_of rt j =
     (case get_runtime_impl rt ''AccountsJob::accounts()'' j of
        (False, j) \<Rightarrow> ([], j)
      | (True, j) \<Rightarrow> (if jb_status j \<noteq> JS_Finished then ([], j) else (aj_accounts j, j)))"

text \<open>The only call to the registry.\<close>

datatype registry_call = ListAccounts

definition runtime_accounts :: "RuntimeImpl \<Rightarrow> StorageError + registry_call" where
  "runtime_accounts r =
     (if \<not> rt_is_valid r then
        Inl (runtime_destroyed_error ''Runtime::accounts(): Runtime was destroyed previously'')
      else Inr ListAccounts)"

text \<open>A query of a finished job turns it into a failed one when the runtime is gone, and no
  signal says so.\<close>

lemma accounts_after_shutdown:
  assumes "jb_status j = JS_Finished" and "\<not> runtime_alive rt"
  shows "fst (accounts_of rt j) = [] \<and> jb_status (snd (accounts_of rt j)) = JS_Error \<and>
         jb_signals (snd (accounts_of rt j)) = jb_signals j"
  using assms by (simp add: accounts_of_def get_runtime_impl_def emit_status_changed_def)

section \<open>One final status\<close>

lemma validate_not_Abort: "validate parse_date meth md \<noteq> Abort"
  using validate_refusal [of meth md parse_date] by (cases "validate parse_date meth md") auto

lemma checked_item_Ok:
  "checked_item parse_date meth check account md = Ok item \<longleftrightarrow>
     check md = None \<and> valid_metadata parse_date md \<and> item = ItemImpl_init md account"
  by (auto simp: checked_item_def make_client_item_def validate_Ok_iff split: option.splits)

lemma checked_item_not_Abort: "checked_item parse_date meth check account md \<noteq> Abort"
  using validate_not_Abort [of parse_date meth md]
  by (cases "validate parse_date meth md") (auto simp: checked_item_def make_client_item_def split: option.splits)

lemma page_items_not_Abort: "page_items (checked_item parse_date meth check account) mds \<noteq> Abort"
proof (induction mds)
  case (Cons md mds)
  then show ?case
    using checked_item_not_Abort [of parse_date meth check account md]
    by (cases "checked_item parse_date meth check account md";
        cases "page_items (checked_item parse_date meth check account) mds") simp_all
qed simp

text \<open>A job reports once: no signal while it waits for replies, one with the final status
  afterwards. A job with one call has no reply left when it has reported.\<close>

definition reports_once :: "job \<Rightarrow> bool" where
  "reports_once j \<longleftrightarrow>
     (if jb_status j = JS_Loading then jb_signals j = [] \<and> 0 < jb_waiting j
      else final_status (jb_status j) \<and> jb_signals j = [jb_status j])"

definition single_inv :: "job \<Rightarrow> bool" where
  "single_inv j \<longleftrightarrow> reports_once j \<and> jb_waiting j = (if jb_status j = JS_Loading then 1 else 0)"

lemma emit_sel [simp]:
  "jb_status (emit_status st j) = st" "jb_signals (emit_status st j) = jb_signals j @ [st]"
  "jb_waiting (emit_status st j) = jb_waiting j" "jb_items (emit_status st j) = jb_items j"
  "jb_calls (emit_status st j) = jb_calls j"
  "jb_status (emit_error e j) = JS_Error" "jb_signals (emit_error e j) = jb_signals j @ [JS_Error]"
  "jb_waiting (emit_error e j) = jb_waiting j" "jb_items (emit_error e j) = jb_items j"
  "jb_calls (emit_error e j) = jb_calls j"
  by (simp_all add: emit_status_def emit_error_def)

lemma final_status_simps [simp]:
  "final_status JS_Finished" "final_status JS_Error" "final_status JS_Cancelled"
  "\<not> final_status JS_Loading" "\<not> final_status JS_Ready"
  by (simp_all add: final_status_def)

text \<open>What a closure does when it runs on a job that waits for its only reply.\<close>

definition settles :: "('r reply \<Rightarrow> job \<Rightarrow> job) \<Rightarrow> bool" where
  "settles closure \<longleftrightarrow> (\<forall>r j. jb_status j = JS_Loading \<and> jb_signals j = [] \<and> jb_waiting j = 0 \<longrightarrow>
     single_inv (closure r j) \<and> jb_status (closure r j) \<noteq> JS_Loading)"

lemma handled_single:
  assumes "settles closure" and "single_inv j"
  shows "single_inv (handled closure j r)"
  using assms by (auto simp: handled_def settles_def single_inv_def reports_once_def split: if_splits)

lemma void_settles: "settles (void_closure meth)"
  unfolding settles_def
proof (intro allI impI)
  fix r and j :: job
  assume "jb_status j = JS_Loading \<and> jb_signals j = [] \<and> jb_waiting j = 0"
  then show "single_inv (void_closure meth r j) \<and> jb_status (void_closure meth r j) \<noteq> JS_Loading"
    by (cases r) (auto simp: single_inv_def reports_once_def)
qed

lemma item_settles: "settles (item_closure parse_date meth check account)"
  unfolding settles_def
proof (intro allI impI)
  fix r and j :: job
  assume j: "jb_status j = JS_Loading \<and> jb_signals j = [] \<and> jb_waiting j = 0"
  have "checked_item parse_date meth check account md \<noteq> Abort" for md by (rule checked_item_not_Abort)
  with j show "single_inv (item_closure parse_date meth check account r j) \<and>
      jb_status (item_closure parse_date meth check account r j) \<noteq> JS_Loading"
    by (cases r) (auto simp: single_inv_def reports_once_def split: outcome.splits)
qed

lemma list_settles: "settles (list_closure parse_date meth check account)"
  unfolding settles_def
proof (intro allI impI)
  fix r and j :: job
  assume j: "jb_status j = JS_Loading \<and> jb_signals j = [] \<and> jb_waiting j = 0"
  then show "single_inv (list_closure parse_date meth check account r j) \<and>
      jb_status (list_closure parse_date meth check account r j) \<noteq> JS_Loading"
    by (cases r) (auto simp: single_inv_def reports_once_def split: prod.splits option.splits)
qed

interpretation void_machine: invariant_machine "void_step meth" single_inv for meth
  by unfold_locales (simp add: void_step_def handled_single void_settles)

interpretation item_machine: invariant_machine "item_step parse_date meth check account" single_inv
  for parse_date meth check account
  by unfold_locales (simp add: item_step_def handled_single item_settles)

interpretation list_machine: invariant_machine "list_step parse_date meth check account" single_inv
  for parse_date meth check account
  by unfold_locales (simp add: list_step_def handled_single list_settles)

lemma page_keeps_single:
  assumes "single_inv j"
  shows "single_inv (page_step parse_date meth check account fetch_next j r)"
proof (cases r)
  case (Reply rt mt)
  with assms page_items_not_Abort [of parse_date meth check account "fst mt"] show ?thesis
    by (cases mt)
      (auto simp: page_step_def handled_def single_inv_def reports_once_def Let_def split: outcome.splits if_splits)
qed (use assms in \<open>auto simp: page_step_def handled_def single_inv_def reports_once_def split: if_splits\<close>)

interpretation page_machine: invariant_machine "page_step parse_date meth check account fetch_next" single_inv
  for parse_date meth check account fetch_next
  by unfold_locales (rule page_keeps_single)

lemma multi_keeps:
  assumes "reports_once j"
  shows "reports_once (multi_item_step parse_date meth check account j r)"
proof (cases r)
  case (Reply rt md)
  with assms checked_item_not_Abort [of parse_date meth check account md] show ?thesis
    by (auto simp: multi_item_step_def handled_def reports_once_def Let_def split: outcome.splits if_splits)
qed (use assms in \<open>auto simp: multi_item_step_def handled_def reports_once_def split: if_splits\<close>)

interpretation multi_item_machine: invariant_machine "multi_item_step parse_date meth check account" reports_once
  for parse_date meth check account
  by unfold_locales (rule multi_keeps)

lemma single_inv_init: "single_inv (job_loading 1)"
  by (simp add: single_inv_def reports_once_def job_loading_def)

lemma page_assert:
  assumes "0 < jb_waiting (run_events (page_step parse_date meth check account fetch_next) (job_loading 1) rs)"
  shows "jb_status (run_events (page_step parse_date meth check account fetch_next) (job_loading 1) rs) = JS_Loading"
  using assms page_machine.inv_run [OF single_inv_init, of parse_date meth check account fetch_next rs]
  by (simp add: single_inv_def split: if_splits)

lemma single_reports: "single_inv j \<Longrightarrow> reports_once j"
  by (simp add: single_inv_def)

text \<open>
  Every job of the client reports its result once: whatever replies arrive, in whatever
  order and whether or not the runtime is shut down meanwhile, a job that has not ended has
  emitted nothing and still waits for a reply, and one that has ended has emitted exactly one
  status change, with its final status.
\<close>

theorem jobs_report_once:
  "reports_once (run_events (void_step meth) (job_loading 1) vs) \<and>
   reports_once (run_events (item_step parse_date meth check account) (job_loading 1) is) \<and>
   reports_once (run_events (list_step parse_date meth check account) (job_loading 1) ls) \<and>
   reports_once (run_events (multi_item_step parse_date meth check account) (job_loading (Suc n)) ms) \<and>
   reports_once (run_events (page_step parse_date meth check account fetch_next) (job_loading 1) ps)"
proof (intro conjI)
  show "reports_once (run_events (multi_item_step parse_date meth check account) (job_loading (Suc n)) ms)"
    by (rule multi_item_machine.inv_run) (simp add: reports_once_def job_loading_def)
qed (rule single_reports, rule void_machine.inv_run item_machine.inv_run list_machine.inv_run
    page_machine.inv_run, rule single_inv_init)+

section \<open>What is delivered\<close>

definition good_item :: "date_parser \<Rightarrow> validator \<Rightarrow> AccountImpl \<Rightarrow> ItemImpl \<Rightarrow> bool" where
  "good_item parse_date check account i \<longleftrightarrow>
     it_is_valid i \<and> it_account i = account \<and> valid_metadata parse_date (it_md i) \<and> check (it_md i) = None"

definition good_items :: "date_parser \<Rightarrow> validator \<Rightarrow> AccountImpl \<Rightarrow> job \<Rightarrow> bool" where
  "good_items parse_date check account j \<longleftrightarrow>
     (\<forall>items \<in> set (jb_items j). \<forall>i \<in> set items. good_item parse_date check account i)"

lemma checked_good:
  "checked_item parse_date meth check account md = Ok i \<Longrightarrow> good_item parse_date check account i"
  by (simp add: checked_item_Ok good_item_def ItemImpl_init_def)

lemma collect_good:
  "i \<in> set (fst (collect_items (checked_item parse_date meth check account) mds)) \<Longrightarrow>
     good_item parse_date check account i"
  by (induction mds) (auto split: prod.splits outcome.splits dest: checked_good)

lemma page_good:
  "page_items (checked_item parse_date meth check account) mds = Ok items \<Longrightarrow> i \<in> set items \<Longrightarrow>
     good_item parse_date check account i"
  by (induction mds arbitrary: items) (auto dest: checked_good)

interpretation item_goods: invariant_machine "item_step parse_date meth check account"
  "good_items parse_date check account" for parse_date meth check account
proof
  fix j r
  assume "good_items parse_date check account j"
  then show "good_items parse_date check account (item_step parse_date meth check account j r)"
    by (cases r)
      (auto simp: item_step_def handled_def good_items_def split: outcome.splits dest: checked_good)
qed

interpretation list_goods: invariant_machine "list_step parse_date meth check account"
  "good_items parse_date check account" for parse_date meth check account
proof
  fix j r
  assume j: "good_items parse_date check account j"
  show "good_items parse_date check account (list_step parse_date meth check account j r)"
  proof (cases r)
    case (Reply rt mds)
    obtain items err where c: "collect_items (checked_item parse_date meth check account) mds = (items, err)"
      by force
    then have "\<forall>i \<in> set items. good_item parse_date check account i"
      using collect_good [of _ parse_date meth check account mds] by simp
    with j Reply c show ?thesis
      by (cases err) (auto simp: list_step_def handled_def good_items_def)
  qed (use j in \<open>auto simp: list_step_def handled_def good_items_def\<close>)
qed

interpretation multi_item_goods: invariant_machine "multi_item_step parse_date meth check account"
  "good_items parse_date check account" for parse_date meth check account
proof
  fix j r
  assume "good_items parse_date check account j"
  then show "good_items parse_date check account (multi_item_step parse_date meth check account j r)"
    by (cases r)
      (auto simp: multi_item_step_def handled_def good_items_def Let_def split: outcome.splits dest: checked_good)
qed

interpretation page_goods: invariant_machine "page_step parse_date meth check account fetch_next"
  "good_items parse_date check account" for parse_date meth check account fetch_next
proof
  fix j and r :: "(ItemMetadata list \<times> string) reply"
  assume "good_items parse_date check account j"
  then show "good_items parse_date check account (page_step parse_date meth check account fetch_next j r)"
    by (cases "(parse_date, meth, check, account, fetch_next, r, j)" rule: page_closure.cases)
      (auto simp: page_step_def handled_def good_items_def Let_def split: outcome.splits dest: page_good)
qed

text \<open>
  C30. Whatever a provider sends, the items that a job hands to the application are valid: their
  metadata passed the client's validation and the check of the operation that started the
  job, and they belong to the account that was asked.
\<close>

theorem delivered_items_are_good:
  "good_items parse_date check account (run_events (item_step parse_date meth check account) (job_loading 1) is) \<and>
   good_items parse_date check account (run_events (list_step parse_date meth check account) (job_loading 1) ls) \<and>
   good_items parse_date check account (run_events (multi_item_step parse_date meth check account) (job_loading n) ms) \<and>
   good_items parse_date check account
     (run_events (page_step parse_date meth check account fetch_next) (job_loading 1) ps)"
proof -
  have "good_items parse_date check account (job_loading k)" for k
    by (simp add: good_items_def job_loading_def)
  then show ?thesis
    by (intro conjI item_goods.inv_run list_goods.inv_run multi_item_goods.inv_run page_goods.inv_run)
qed

subsection \<open>Listing\<close>

lemma page_items_all:
  "(\<And>md. md \<in> set mds \<Longrightarrow> check md = None \<and> valid_metadata parse_date md) \<Longrightarrow>
     page_items (checked_item parse_date meth check account) mds = Ok (map (\<lambda>md. ItemImpl_init md account) mds)"
  by (induction mds) (auto simp: checked_item_Ok)

lemma page_run:
  assumes good: "\<And>md. md \<in> set (concat (map fst pages)) \<union> set lastp \<Longrightarrow> check md = None \<and> valid_metadata parse_date md"
    and tokens: "\<And>p. p \<in> set pages \<Longrightarrow> snd p \<noteq> ''''"
    and rt: "runtime_alive rt"
    and j: "jb_status j = JS_Loading" "jb_waiting j = 1"
  shows "run_events (page_step parse_date meth check account fetch_next) j
      (map (Reply rt) (pages @ [(lastp, '''')])) =
    j\<lparr>jb_status := JS_Finished, jb_signals := jb_signals j @ [JS_Finished], jb_waiting := 0,
      jb_items := jb_items j @ map (map (\<lambda>md. ItemImpl_init md account)) (map fst pages @ [lastp]),
      jb_calls := jb_calls j @ map (\<lambda>p. fetch_next (snd p)) pages\<rparr>"
  using good tokens j
proof (induction pages arbitrary: j)
  case Nil
  then show ?case
    by (simp add: page_step_def handled_def rt page_items_all emit_status_def)
next
  case (Cons p pages)
  obtain mds t where p: "p = (mds, t)" by force
  let ?j = "j\<lparr>jb_items := jb_items j @ [map (\<lambda>md. ItemImpl_init md account) mds],
      jb_calls := jb_calls j @ [fetch_next t]\<rparr>"
  have "page_items (checked_item parse_date meth check account) mds = Ok (map (\<lambda>md. ItemImpl_init md account) mds)"
    using Cons.prems(1) p by (intro page_items_all) auto
  moreover have "t \<noteq> ''''" using Cons.prems(2) [of p] p by simp
  ultimately have first: "page_step parse_date meth check account fetch_next j (Reply rt p) = ?j"
    using Cons.prems(3,4) p by (cases j) (simp add: page_step_def handled_def rt Let_def)
  show ?case
    using Cons.IH [of ?j] Cons.prems first p by simp
qed

text \<open>
  C31. Listing a folder gives all of it: when the provider answers with pages that end with one
  without a token, and all items are acceptable, the job asks for every page by the token of
  the one before, delivers all items in the provider's order, and finishes.
\<close>

theorem listing_delivers_all_pages:
  assumes good: "\<forall>md \<in> set (concat (map fst pages) @ lastp). check md = None \<and> valid_metadata parse_date md"
    and tokens: "\<forall>p \<in> set pages. snd p \<noteq> ''''" and rt: "runtime_alive rt"
  shows "\<exists>j. run_events (page_step parse_date meth check account fetch_next) (job_loading 1)
      (map (Reply rt) (pages @ [(lastp, '''')])) = j \<and>
    jb_status j = JS_Finished \<and> jb_calls j = map (\<lambda>p. fetch_next (snd p)) pages \<and>
    concat (jb_items j) = map (\<lambda>md. ItemImpl_init md account) (concat (map fst pages) @ lastp)"
proof -
  have "run_events (page_step parse_date meth check account fetch_next) (job_loading 1)
      (map (Reply rt) (pages @ [(lastp, '''')])) =
    (job_loading 1)\<lparr>jb_status := JS_Finished, jb_signals := jb_signals (job_loading 1) @ [JS_Finished],
      jb_waiting := 0,
      jb_items := jb_items (job_loading 1) @ map (map (\<lambda>md. ItemImpl_init md account)) (map fst pages @ [lastp]),
      jb_calls := jb_calls (job_loading 1) @ map (\<lambda>p. fetch_next (snd p)) pages\<rparr>"
    by (rule page_run) (use good tokens rt in \<open>auto simp: job_loading_def\<close>)
  then show ?thesis by (simp add: job_loading_def map_concat o_def)
qed

theorem listing_delivers_all_pages_witness:
  "\<exists>j. run_events (page_step (\<lambda>_. Some UTC) ''Item::list()'' (\<lambda>_. None) sample_account (item_list_next sample_folder []))
      (job_loading 1) [Reply (Some RuntimeImpl_init) ([it_md sample_folder], ''t''), Reply (Some RuntimeImpl_init) ([], '''')] = j \<and>
     jb_status j = JS_Finished \<and> jb_calls j = [List ''/r/d'' ''t'' []] \<and> concat (jb_items j) = [sample_folder]"
  using listing_delivers_all_pages [of "[([it_md sample_folder], ''t'')]" "[]" "\<lambda>_. None" "\<lambda>_. Some UTC"
      "Some RuntimeImpl_init" "''Item::list()''" sample_account "item_list_next sample_folder []"]
  by (simp add: sample_defs valid_metadata_def runtime_alive_def RuntimeImpl_init_def item_list_next_def)

end
