(* ===== verification/Registry.thy ===== *)
theory Registry
  imports ClientJobs
begin

text \<open>
  The registry (\<open>src/registry/internal/ListAccountsHandler.cpp\<close>, \<open>RegistryAdaptor.cpp\<close>,
  \<open>qdbus-last-error-msg.cpp\<close>): a call of \<open>ListAccounts\<close> starts a handler that waits for the
  Online Accounts manager, at most 25 seconds, and answers with the accounts that have a storage
  provider, and the local provider. What the manager knows (\<open>OnlineAccounts::Account\<close>) and the
  user's name are parameters. The handler is driven by the manager's \<open>ready\<close> signal, its timer
  and the deferred deletion.
\<close>

section \<open>The accounts\<close>

record oa_account =
  oa_id :: "32 word"
  oa_serviceId :: string
  oa_displayName :: string

definition BUS_NAMES :: "(string \<times> (string \<times> string)) list" where
  "BUS_NAMES =
     [(''storage-provider-test'', (''com.canonical.StorageFramework.Provider.ProviderTest'', ''Test Provider'')),
      (''storage-provider-mcloud'', (''com.canonical.StorageFramework.Provider.McloudProvider'', ''mcloud'')),
      (''storage-provider-owncloud'', (''com.canonical.StorageFramework.Provider.OwnCloud'', ''OwnCloud'')),
      (''storage-provider-onedrive'', (''com.canonical.StorageFramework.Provider.OnedriveProvider'', ''OneDrive'')),
      (''storage-provider-gdrive'', (''com.canonical.StorageFramework.Provider.GdriveProvider'', ''GDrive'')),
      (''storage-provider-nextcloud'', (''com.canonical.StorageFramework.Provider.Nextcloud'', ''Nextcloud''))]"

text \<open>\<open>QStringLiteral("/provider/%1").arg(id)\<close>\<close>

definition provider_path :: "32 word \<Rightarrow> string" where
  "provider_path i = ''/provider/'' @ nat_to_string (unat i)"

definition remote_details :: "oa_account \<Rightarrow> string \<times> string \<Rightarrow> AccountDetails" where
  "remote_details acct names =
     \<lparr>ad_busName = fst names, ad_objectPath = provider_path (oa_id acct), ad_id = oa_id acct,
      ad_serviceId = oa_serviceId acct, ad_displayName = oa_displayName acct, ad_providerName = snd names,
      ad_iconName = ''''\<rparr>"

definition local_details :: "string \<Rightarrow> AccountDetails" where
  "local_details user_name =
     \<lparr>ad_busName = ''com.canonical.StorageFramework.Provider.Local'', ad_objectPath = ''/provider/0'', ad_id = 0,
      ad_serviceId = '''', ad_displayName = user_name, ad_providerName = ''Local Provider'', ad_iconName = ''''\<rparr>"

fun known_accounts :: "oa_account list \<Rightarrow> AccountDetails list" where
  "known_accounts [] = []"
| "known_accounts (acct # accts) =
     (case map_of BUS_NAMES (oa_serviceId acct) of
        None \<Rightarrow> known_accounts accts
      | Some names \<Rightarrow> remote_details acct names # known_accounts accts)"

definition listed_accounts :: "string \<Rightarrow> oa_account list \<Rightarrow> AccountDetails list" where
  "listed_accounts user_name accts = known_accounts accts @ [local_details user_name]"

section \<open>The handler\<close>

definition last_error_msg :: "string \<Rightarrow> string" where
  "last_error_msg msg = (if msg \<noteq> '''' then '': '' @ msg else msg)"

datatype accounts_reply = Accounts_reply "AccountDetails list" | Accounts_error string

record accounts_handler =
  lh_timer_active :: bool
  lh_deleting :: bool         \<comment> \<open>\<open>deleteLater\<close> was called\<close>
  lh_deleted :: bool
  lh_replies :: "accounts_reply list"

definition TIMEOUT_MS :: int where "TIMEOUT_MS = 25000"

text \<open>The constructor; the notifier that it holds counts as one request until the handler is deleted.\<close>

definition ListAccountsHandler_init :: accounts_handler where
  "ListAccountsHandler_init = \<lparr>lh_timer_active = True, lh_deleting = False, lh_deleted = False, lh_replies = []\<rparr>"

text \<open>\<open>disconnect(this)\<close> removes the connections from the handler's own signals to itself; those
  of the manager and of the timer stay.\<close>

definition manager_ready :: "string \<Rightarrow> oa_account list \<Rightarrow> accounts_handler \<Rightarrow> accounts_handler" where
  "manager_ready user_name accts h =
     h\<lparr>lh_timer_active := False, lh_deleting := True,
       lh_replies := lh_replies h @ [Accounts_reply (listed_accounts user_name accts)]\<rparr>"

definition handler_timeout :: "accounts_handler \<Rightarrow> accounts_handler" where
  "handler_timeout h =
     h\<lparr>lh_timer_active := False, lh_deleting := True,
       lh_replies := lh_replies h @ [Accounts_error (''cannot contact Online Accounts: request timed out after ''
         @ int_to_string TIMEOUT_MS @ '' ms'')]\<rparr>"

definition holds_activity :: "accounts_handler \<Rightarrow> bool" where
  "holds_activity h \<longleftrightarrow> \<not> lh_deleted h"

datatype accounts_event = Manager_ready "oa_account list" | Timer_fires | Deferred_delete

text \<open>The timer is single-shot: it fires only while it is active.\<close>

fun accounts_step :: "string \<Rightarrow> accounts_handler \<Rightarrow> accounts_event \<Rightarrow> accounts_handler" where
  "accounts_step user_name h (Manager_ready accts) =
     (if lh_deleted h then h else manager_ready user_name accts h)"
| "accounts_step user_name h Timer_fires =
     (if lh_deleted h \<or> \<not> lh_timer_active h then h else handler_timeout h)"
| "accounts_step user_name h Deferred_delete = (if lh_deleting h then h\<lparr>lh_deleted := True\<rparr> else h)"

section \<open>Properties\<close>

lemma make_accounts_all:
  "\<forall>d \<in> set ds. ad_busName d \<noteq> '''' \<and> ad_objectPath d \<noteq> '''' \<Longrightarrow>
     make_accounts ds = Ok (map (\<lambda>d. \<lparr>ac_is_valid = True, ac_details = d\<rparr>) ds)"
  by (induction ds) (simp_all add: make_account_def)

lemma known_accounts_eq:
  "known_accounts accts = map (\<lambda>a. remote_details a (the (map_of BUS_NAMES (oa_serviceId a))))
     (filter (\<lambda>a. oa_serviceId a \<in> dom (map_of BUS_NAMES)) accts)"
  by (induction accts) (auto split: option.splits)

lemma bus_names_nonempty: "map_of BUS_NAMES i \<noteq> Some ('''', b)"
  by (simp add: BUS_NAMES_def)

lemma listed_accounts_usable:
  assumes "d \<in> set (listed_accounts user_name accts)"
  shows "ad_busName d \<noteq> '''' \<and> ad_objectPath d \<noteq> ''''"
  using assms
  by (auto simp: listed_accounts_def known_accounts_eq local_details_def remote_details_def provider_path_def
      bus_names_nonempty)

text \<open>A handler answers: before its deletion there is a reply, and as long as nothing was sent the
  timer runs and the registry does not become idle.\<close>

definition handler_pending :: "accounts_handler \<Rightarrow> bool" where
  "handler_pending h \<longleftrightarrow>
     (if lh_replies h = [] then lh_timer_active h \<and> \<not> lh_deleting h \<and> \<not> lh_deleted h
      else lh_deleting h \<and> \<not> lh_timer_active h)"

interpretation accounts_machine: invariant_machine "accounts_step user_name" handler_pending for user_name
proof unfold_locales
  fix h e
  assume "handler_pending h"
  then show "handler_pending (accounts_step user_name h e)"
    by (cases e) (auto simp: handler_pending_def manager_ready_def handler_timeout_def split: if_splits)
qed

text \<open>
  A call of \<open>ListAccounts\<close> is answered or its time-out still runs, and until it is answered the
  registry is kept alive: in every state a handler can reach without a reply, the timer is active
  and its expiry sends the time-out error; once it is answered, the deferred deletion lets the
  registry become idle.
\<close>

theorem list_accounts_answers:
  "(let h = run_events (accounts_step user_name) ListAccountsHandler_init es in
    if lh_replies h = [] then holds_activity h \<and>
      lh_replies (accounts_step user_name h Timer_fires) =
        [Accounts_error (''cannot contact Online Accounts: request timed out after ''
           @ int_to_string TIMEOUT_MS @ '' ms'')]
    else \<not> holds_activity (accounts_step user_name h Deferred_delete))"
proof -
  have "handler_pending ListAccountsHandler_init"
    by (simp add: handler_pending_def ListAccountsHandler_init_def)
  then have "handler_pending (run_events (accounts_step user_name) ListAccountsHandler_init es)"
    by (rule accounts_machine.inv_run)
  then show ?thesis
    by (auto simp: Let_def handler_pending_def holds_activity_def handler_timeout_def split: if_splits)
qed

text \<open>The connections outlive \<open>disconnect(this)\<close>: a manager that becomes ready after the time-out
  and before the deletion makes the handler send a second reply to the same call.\<close>

lemma second_reply_after_timeout:
  "length (lh_replies (run_events (accounts_step user_name) ListAccountsHandler_init
     [Timer_fires, Manager_ready accts])) = 2"
  by (simp add: ListAccountsHandler_init_def handler_timeout_def manager_ready_def)

text \<open>
  What the client makes of the registry's answer: if the runtime is alive, the reply always gives
  a finished job, with one valid account per Online Accounts account whose service has a known
  provider, in the manager's order, and the local provider last.
\<close>

theorem listed_accounts_reach_client:
  assumes "runtime_alive rt"
  shows "\<exists>j'. accounts_closure meth (Reply rt (listed_accounts user_name accts)) j = Ok j' \<and>
     jb_status j' = JS_Finished \<and>
     aj_accounts j' = aj_accounts j @ map (\<lambda>d. \<lparr>ac_is_valid = True, ac_details = d\<rparr>)
       (map (\<lambda>a. remote_details a (the (map_of BUS_NAMES (oa_serviceId a))))
          (filter (\<lambda>a. oa_serviceId a \<in> dom (map_of BUS_NAMES)) accts) @ [local_details user_name])"
proof -
  have "make_accounts (listed_accounts user_name accts) =
      Ok (map (\<lambda>d. \<lparr>ac_is_valid = True, ac_details = d\<rparr>) (listed_accounts user_name accts))"
    using listed_accounts_usable by (intro make_accounts_all) blast
  with assms show ?thesis
    by (simp add: get_runtime_impl_def listed_accounts_def known_accounts_eq)
qed

theorem listed_accounts_reach_client_witness:
  "\<exists>j'. accounts_closure ''m'' (Reply (Some RuntimeImpl_init) (listed_accounts ''u''
        [\<lparr>oa_id = 4, oa_serviceId = ''storage-provider-gdrive'', oa_displayName = ''d''\<rparr>,
         \<lparr>oa_id = 5, oa_serviceId = ''mail'', oa_displayName = ''e''\<rparr>]))
      (job.extend (job_loading 1) \<lparr>aj_accounts = []\<rparr>) = Ok j' \<and>
    map (\<lambda>a. (ad_id (ac_details a), ad_providerName (ac_details a))) (aj_accounts j') =
      [(4, ''GDrive''), (0, ''Local Provider'')]"
proof -
  have "runtime_alive (Some RuntimeImpl_init)" by (simp add: runtime_alive_def RuntimeImpl_init_def)
  from listed_accounts_reach_client [OF this, of "''m''" "''u''"
      "[\<lparr>oa_id = 4, oa_serviceId = ''storage-provider-gdrive'', oa_displayName = ''d''\<rparr>,
        \<lparr>oa_id = 5, oa_serviceId = ''mail'', oa_displayName = ''e''\<rparr>]"
      "job.extend (job_loading 1) \<lparr>aj_accounts = []\<rparr>"]
  show ?thesis
    by (auto simp: dom_def BUS_NAMES_def remote_details_def local_details_def job.defs accounts_job.defs)
qed

end
