(* ===== verification/Server.thy ===== *)
theory Server
  imports Registry
begin

text \<open>
  The provider's process (\<open>src/provider/internal/ServerImpl.cpp\<close>): which accounts it serves. Without
  a service id there is one account with id 0; with one, the Online Accounts manager announces the
  accounts. Each account has a D-Bus object under \<open>/provider/<id>\<close> (its behaviour is \<open>Provider\<close>). The
  manager, its accounts and the success of \<open>registerService\<close> are parameters; \<open>registerObject\<close> fails
  for a path that is in use, and the code does not look at its result.
\<close>

section \<open>State and operations\<close>

record server =
  sv_service_id :: string
  sv_interfaces :: "(32 word \<times> oa_account option) list"   \<comment> \<open>interfaces_, by account id\<close>
  sv_objects :: "string list"                             \<comment> \<open>object paths on the bus\<close>
  sv_watching :: "32 word list"                           \<comment> \<open>accounts whose \<open>disabled\<close> signal is connected\<close>
  sv_name :: bool                                         \<comment> \<open>the bus name is ours\<close>
  sv_running :: bool                                      \<comment> \<open>in \<open>app_->exec()\<close>\<close>
  sv_exit :: "int option"
  sv_added :: nat                                         \<comment> \<open>emissions of \<open>accountAdded\<close>\<close>
  sv_removed :: nat

definition ServerImpl_init :: "string \<Rightarrow> server" where
  "ServerImpl_init service_id =
     \<lparr>sv_service_id = service_id, sv_interfaces = [], sv_objects = [], sv_watching = [], sv_name = False,
      sv_running = False, sv_exit = None, sv_added = 0, sv_removed = 0\<rparr>"

text \<open>\<open>QCoreApplication::exit\<close> does nothing while the event loop is not running.\<close>

definition app_exit :: "int \<Rightarrow> server \<Rightarrow> server" where
  "app_exit rc s = (if sv_running s then s\<lparr>sv_exit := Some rc, sv_running := False\<rparr> else s)"

definition register_bus_name :: "bool \<Rightarrow> server \<Rightarrow> server" where
  "register_bus_name ok s = (if \<not> ok then app_exit 1 s else s\<lparr>sv_name := True\<rparr>)"

definition register_object :: "string \<Rightarrow> server \<Rightarrow> server" where
  "register_object p s = (if p \<in> set (sv_objects s) then s else s\<lparr>sv_objects := sv_objects s @ [p]\<rparr>)"

definition add_account :: "oa_account option \<Rightarrow> server \<Rightarrow> server" where
  "add_account account s =
     (let account_id = (case account of None \<Rightarrow> 0 | Some a \<Rightarrow> oa_id a) in
      if account \<noteq> None \<and> account_id \<in> fst ` set (sv_interfaces s) then s
      else let s = register_object (provider_path account_id) s;
               s = s\<lparr>sv_interfaces := map_emplace account_id account (sv_interfaces s)\<rparr>;
               s = (if account \<noteq> None then s\<lparr>sv_watching := account_id # sv_watching s\<rparr> else s)
           in s\<lparr>sv_added := sv_added s + 1\<rparr>)"

definition remove_account :: "oa_account \<Rightarrow> server \<Rightarrow> server" where
  "remove_account a s =
     (if oa_id a \<notin> fst ` set (sv_interfaces s) then s
      else s\<lparr>sv_objects := filter (\<lambda>p. p \<noteq> provider_path (oa_id a)) (sv_objects s),
             sv_interfaces := map_erase (oa_id a) (sv_interfaces s), sv_removed := sv_removed s + 1\<rparr>)"

definition server_init :: "bool \<Rightarrow> server \<Rightarrow> server" where
  "server_init name_ok s =
     (if sv_service_id s = '''' then register_bus_name name_ok (add_account None s) else s)"

definition server_run :: "server \<Rightarrow> server" where
  "server_run s = s\<lparr>sv_running := True\<rparr>"

definition on_account_manager_ready :: "bool \<Rightarrow> oa_account list \<Rightarrow> server \<Rightarrow> server" where
  "on_account_manager_ready name_ok accounts s =
     register_bus_name name_ok (fold (\<lambda>a. add_account (Some a)) accounts s)"

definition on_account_available :: "oa_account \<Rightarrow> server \<Rightarrow> server" where
  "on_account_available a s =
     (if oa_serviceId a \<noteq> sv_service_id s then s else add_account (Some a) s)"

definition on_account_disabled :: "oa_account \<Rightarrow> server \<Rightarrow> server" where
  "on_account_disabled a s = remove_account a s"

definition on_timeout :: "server \<Rightarrow> server" where
  "on_timeout s = app_exit 0 s"

section \<open>Events\<close>

datatype server_event =
    SV_ready bool "oa_account list"
  | SV_available oa_account
  | SV_disabled oa_account
  | SV_timeout

text \<open>Signals reach the server while its loop runs; those of an account only if it is connected.\<close>

fun server_step :: "server \<Rightarrow> server_event \<Rightarrow> server" where
  "server_step s (SV_ready name_ok accounts) =
     (if sv_running s \<and> sv_service_id s \<noteq> '''' then on_account_manager_ready name_ok accounts s else s)"
| "server_step s (SV_available a) =
     (if sv_running s \<and> sv_service_id s \<noteq> '''' then on_account_available a s else s)"
| "server_step s (SV_disabled a) =
     (if sv_running s \<and> oa_id a \<in> set (sv_watching s) then on_account_disabled a s else s)"
| "server_step s SV_timeout = (if sv_running s then on_timeout s else s)"

definition start_server :: "string \<Rightarrow> bool \<Rightarrow> server" where
  "start_server service_id name_ok = server_run (server_init name_ok (ServerImpl_init service_id))"

section \<open>What a server promises\<close>

text \<open>The abstract server: the accounts it serves and whether it runs.\<close>

definition server_abs :: "server \<Rightarrow> 32 word set \<times> bool" where
  "server_abs s = (fst ` set (sv_interfaces s), sv_running s)"

fun spec_step :: "string \<Rightarrow> 32 word set \<times> bool \<Rightarrow> server_event \<Rightarrow> 32 word set \<times> bool" where
  "spec_step service_id (A, False) e = (A, False)"
| "spec_step service_id (A, True) (SV_ready name_ok accounts) =
     (if service_id \<noteq> '''' then (A \<union> oa_id ` set accounts, name_ok) else (A, True))"
| "spec_step service_id (A, True) (SV_available a) =
     (if service_id \<noteq> '''' \<and> oa_serviceId a = service_id then (insert (oa_id a) A, True) else (A, True))"
| "spec_step service_id (A, True) (SV_disabled a) =
     (if service_id \<noteq> '''' then (A - {oa_id a}, True) else (A, True))"
| "spec_step service_id (A, True) SV_timeout = (A, False)"

definition server_inv :: "string \<Rightarrow> server \<Rightarrow> bool" where
  "server_inv service_id s \<longleftrightarrow> sv_service_id s = service_id \<and> ordered_map (sv_interfaces s) \<and>
     distinct (sv_objects s) \<and> set (sv_objects s) = provider_path ` fst ` set (sv_interfaces s) \<and>
     (if service_id = '''' then sv_watching s = [] else fst ` set (sv_interfaces s) \<subseteq> set (sv_watching s))"

lemma provider_path_inject [simp]: "provider_path i = provider_path j \<longleftrightarrow> i = j"
  by (simp add: provider_path_def word_unat_eq_iff)

lemma fst_set_map_emplace [simp]: "fst ` set (map_emplace k v m) = insert k (fst ` set m)"
  by (auto simp: map_emplace_def dest!: map_of_SomeD intro: rev_image_eqI)

lemma fst_set_map_erase [simp]: "fst ` set (map_erase k m) = fst ` set m - {k}"
  by (auto simp: map_erase_def)

lemma ordered_map_emplace: "ordered_map m \<Longrightarrow> ordered_map (map_emplace k v m)"
  by (simp add: map_emplace_def)

lemma add_account_ids:
  "fst ` set (sv_interfaces (add_account a s)) =
     insert (case a of None \<Rightarrow> 0 | Some a \<Rightarrow> oa_id a) (fst ` set (sv_interfaces s))"
  "sv_running (add_account a s) = sv_running s" "sv_service_id (add_account a s) = sv_service_id s"
  by (auto simp: add_account_def register_object_def Let_def)

lemma add_account_inv:
  assumes "server_inv service_id s" and "service_id = '''' \<longleftrightarrow> a = None"
  shows "server_inv service_id (add_account a s)"
  using assms
  by (cases a) (auto simp: server_inv_def add_account_def register_object_def ordered_map_emplace Let_def)

lemma add_accounts:
  assumes "server_inv service_id s" and "service_id \<noteq> ''''"
  shows "server_inv service_id (fold (\<lambda>a. add_account (Some a)) accts s) \<and>
    server_abs (fold (\<lambda>a. add_account (Some a)) accts s) =
      (fst (server_abs s) \<union> oa_id ` set accts, snd (server_abs s))"
  using assms
proof (induction accts arbitrary: s)
  case (Cons a accts)
  have "server_inv service_id (add_account (Some a) s)"
    using Cons.prems by (intro add_account_inv) simp_all
  with Cons.IH [OF this Cons.prems(2)] show ?case by (simp add: server_abs_def add_account_ids)
qed (simp add: server_abs_def)

lemma remove_account_inv:
  assumes "server_inv service_id s"
  shows "server_inv service_id (remove_account a s)"
  using assms by (auto simp: server_inv_def remove_account_def split: if_splits)

lemma server_frame:
  "server_inv service_id (register_bus_name ok s) = server_inv service_id s"
  "server_inv service_id (app_exit rc s) = server_inv service_id s"
  by (simp_all add: server_inv_def register_bus_name_def app_exit_def)

lemma server_step_inv:
  assumes "server_inv service_id s"
  shows "server_inv service_id (server_step s e)"
proof -
  have "sv_service_id s = service_id" using assms by (simp add: server_inv_def)
  with assms show ?thesis
    by (cases e) (auto simp: on_account_manager_ready_def on_account_available_def on_account_disabled_def
        on_timeout_def server_frame add_accounts remove_account_inv intro: add_account_inv)
qed

lemma server_step_abs:
  assumes "server_inv service_id s"
  shows "server_abs (server_step s e) = spec_step service_id (server_abs s) e"
proof (cases "sv_running s")
  case True
  have sid: "sv_service_id s = service_id" using assms by (simp add: server_inv_def)
  show ?thesis
  proof (cases e)
    case (SV_ready ok accts)
    with True sid add_accounts [OF assms, of accts] show ?thesis
      by (auto simp: server_abs_def on_account_manager_ready_def register_bus_name_def app_exit_def)
  next
    case (SV_available a)
    with True sid show ?thesis
      by (simp add: server_abs_def on_account_available_def add_account_ids)
  next
    case (SV_disabled a)
    have "oa_id a \<in> fst ` set (sv_interfaces s) \<Longrightarrow> service_id \<noteq> '''' \<Longrightarrow> oa_id a \<in> set (sv_watching s)"
      using assms by (auto simp: server_inv_def)
    with SV_disabled True sid assms show ?thesis
      by (simp add: server_abs_def server_inv_def on_account_disabled_def remove_account_def) blast
  next
    case SV_timeout
    with True show ?thesis by (simp add: server_abs_def on_timeout_def app_exit_def)
  qed
next
  case False
  then show ?thesis by (cases e) (simp_all add: server_abs_def)
qed

interpretation server: simulation server_step "server_inv service_id" server_abs "spec_step service_id" for service_id
  by unfold_locales (simp_all add: server_step_inv server_step_abs)

lemma start_server_inv:
  "server_inv service_id (start_server service_id ok) \<and>
   server_abs (start_server service_id ok) = (if service_id = '''' then {0} else {}, True)"
proof -
  have i: "server_inv service_id (ServerImpl_init service_id)" by (simp add: server_inv_def ServerImpl_init_def)
  have "server_inv service_id (server_init ok (ServerImpl_init service_id))"
    using i add_account_inv [OF i, of None]
    by (auto simp: server_init_def server_frame ServerImpl_init_def)
  then show ?thesis
    by (auto simp: start_server_def server_run_def server_inv_def server_abs_def server_init_def
        register_bus_name_def app_exit_def add_account_ids ServerImpl_init_def)
qed

lemma server_reaches:
  "server_inv service_id (run_events server_step (start_server service_id ok) es) \<and>
   server_abs (run_events server_step (start_server service_id ok) es) =
     run_events (spec_step service_id) (if service_id = '''' then {0} else {}, True) es"
proof
  note start = start_server_inv [of service_id ok]
  show "server_inv service_id (run_events server_step (start_server service_id ok) es)"
    using start by (intro server.inv_run) simp
  have "server_abs (run_events server_step (start_server service_id ok) es) =
      run_events (spec_step service_id) (server_abs (start_server service_id ok)) es"
    using start by (intro server.abs_run) simp
  with start show "server_abs (run_events server_step (start_server service_id ok) es) =
     run_events (spec_step service_id) (if service_id = '''' then {0} else {}, True) es" by simp
qed

lemma objects_of_accounts:
  "server_inv service_id s \<Longrightarrow> distinct (sv_objects s) \<and> set (sv_objects s) = provider_path ` fst (server_abs s)"
  by (simp add: server_inv_def server_abs_def)

text \<open>
  C19. The provider process serves exactly the accounts that Online Accounts has announced for its
  service and not disabled since (or account 0 when it has no service id), whatever the order
  and repetition of the announcements, and the object paths on the bus are those of these
  accounts; it stops serving new accounts when the bus name is refused or the idle time is over.
\<close>

theorem server_serves_announced_accounts:
  "(let s = run_events server_step (start_server service_id ok) es in
    server_abs s = run_events (spec_step service_id) (if service_id = '''' then {0} else {}, True) es \<and>
    distinct (sv_objects s) \<and> set (sv_objects s) = provider_path ` fst (server_abs s))"
  unfolding Let_def using server_reaches objects_of_accounts by blast

text \<open>A provider without a service id asks for its bus name before its loop runs: when the name is
  refused, \<open>exit(1)\<close> has no effect, and the process goes on without a name.\<close>

lemma refused_name_is_ignored:
  "sv_running (start_server '''' False) \<and> sv_exit (start_server '''' False) = None \<and> \<not> sv_name (start_server '''' False)"
  by (simp add: start_server_def server_run_def server_init_def register_bus_name_def app_exit_def add_account_def
      register_object_def ServerImpl_init_def Let_def)

end
