(* ===== verification/LocalFs.thy ===== *)
theory LocalFs
  imports Errors
begin

text \<open>
  The ground the local provider stands on: Boost.Filesystem, the POSIX calls and the MIME
  database are the parameter \<open>fsapi\<close>, a record of functions over an abstract state \<open>'w\<close> of
  the file system; the helper functions of \<open>src/local-provider/utils.cpp\<close> and the static
  functions at the top of \<open>LocalProvider.cpp\<close> are definitions over it.
\<close>

section \<open>The file system interface\<close>

datatype errc =
    permission_denied | operation_not_permitted | no_such_file_or_directory | file_exists
  | no_space_on_device | other_errc int

fun errc_value :: "errc \<Rightarrow> int" where
  "errc_value permission_denied = 13"
| "errc_value operation_not_permitted = 1"
| "errc_value no_such_file_or_directory = 2"
| "errc_value file_exists = 17"
| "errc_value no_space_on_device = 28"
| "errc_value (other_errc i) = i"

text \<open>\<open>boost::filesystem::filesystem_error\<close>\<close>

record fs_error =
  fe_code :: errc
  fe_path1 :: string
  fe_path2 :: string
  fe_what :: string

datatype file_type = regular_file | directory_file | file_not_found | other_file

record file_status =
  st_type :: file_type
  st_owner_write :: bool
  st_owner_exe :: bool

text \<open>
  Path functions are lexical. Queries do not change the state. \<open>fs_mtime\<close> is
  \<open>stat()\<close>: an errno, or seconds and nanoseconds. \<open>fs_space\<close> gives the available bytes and
  the capacity. \<open>fs_entries\<close> gives the paths a \<open>directory_iterator\<close> visits.
\<close>

record 'w fsapi =
  path_filename :: "string \<Rightarrow> string"
  path_parent :: "string \<Rightarrow> string"
  path_append :: "string \<Rightarrow> string \<Rightarrow> string"
  fs_canonical :: "'w \<Rightarrow> string \<Rightarrow> (fs_error, string) outcome"
  fs_status :: "'w \<Rightarrow> string \<Rightarrow> (fs_error, file_status) outcome"
  fs_mtime :: "'w \<Rightarrow> string \<Rightarrow> (int, int \<times> int) outcome"
  fs_file_size :: "'w \<Rightarrow> string \<Rightarrow> (fs_error, int) outcome"
  fs_space :: "'w \<Rightarrow> string \<Rightarrow> (fs_error, int \<times> int) outcome"
  fs_entries :: "'w \<Rightarrow> string \<Rightarrow> (fs_error, string list) outcome"
  fs_unique_path :: "'w \<Rightarrow> string \<Rightarrow> string"
  fs_create_directory :: "string \<Rightarrow> ('w, fs_error, unit) sx"
  fs_create_directories :: "string \<Rightarrow> ('w, fs_error, unit) sx"
  fs_remove_all :: "string \<Rightarrow> ('w, fs_error, unit) sx"
  fs_rename :: "string \<Rightarrow> string \<Rightarrow> ('w, fs_error, unit) sx"
  fs_copy_file :: "string \<Rightarrow> string \<Rightarrow> ('w, fs_error, unit) sx"
  fs_copy_directory :: "string \<Rightarrow> string \<Rightarrow> ('w, fs_error, unit) sx"
  fs_strerror :: "int \<Rightarrow> string"
  mime_type_name :: "string \<Rightarrow> string option"

text \<open>What a provider method can throw before \<open>invoke_async\<close> converts it.\<close>

datatype lp_exn = LP_storage StorageException | LP_fs fs_error | LP_std string

type_synonym ('w, 'a) lp = "('w, lp_exn, 'a) sx"

fun map_raise :: "('e \<Rightarrow> 'f) \<Rightarrow> ('e, 'a) outcome \<Rightarrow> ('f, 'a) outcome" where
  "map_raise f (Ok a) = Ok a"
| "map_raise f (Raise e) = Raise (f e)"
| "map_raise f Abort = Abort"

definition fsq :: "('w \<Rightarrow> (fs_error, 'a) outcome) \<Rightarrow> ('w, 'a) lp" where
  "fsq q = sx_query (\<lambda>w. map_raise LP_fs (q w))"

definition fsm :: "('w, fs_error, 'a) sx \<Rightarrow> ('w, 'a) lp" where
  "fsm m = sx_catch m (\<lambda>e. sx_throw (LP_fs e))"

definition throw_storage :: "StorageException \<Rightarrow> ('w, 'a) lp" where
  "throw_storage e = sx_throw (LP_storage e)"

lemma keeps_fsq [keeps_intros]: "keeps P (fsq q)"
  by (simp add: fsq_def keeps_query)

lemma keeps_fsm [keeps_intros]: "keeps P m \<Longrightarrow> keeps P (fsm m)"
  by (simp add: fsm_def keeps_catch keeps_throw)

lemma keeps_throw_storage [keeps_intros]: "keeps P (throw_storage e)"
  by (simp add: throw_storage_def keeps_throw)

text \<open>\<open>exists(p)\<close>, \<open>is_directory(p)\<close> and \<open>is_regular_file(p)\<close> are tests of \<open>status(p)\<close>.\<close>

definition fs_exists :: "'w fsapi \<Rightarrow> string \<Rightarrow> ('w, bool) lp" where
  "fs_exists F p = sx_bind (fsq (\<lambda>w. fs_status F w p)) (\<lambda>st. sx_return (st_type st \<noteq> file_not_found))"

definition fs_is_directory :: "'w fsapi \<Rightarrow> string \<Rightarrow> ('w, bool) lp" where
  "fs_is_directory F p = sx_bind (fsq (\<lambda>w. fs_status F w p)) (\<lambda>st. sx_return (st_type st = directory_file))"

lemma keeps_fs_exists [keeps_intros]: "keeps P (fs_exists F p)"
  by (simp add: fs_exists_def keeps_intros)

lemma keeps_fs_is_directory [keeps_intros]: "keeps P (fs_is_directory F p)"
  by (simp add: fs_is_directory_def keeps_intros)

section \<open>Helpers of the local provider\<close>

definition TMPFILE_PREFIX :: string where
  "TMPFILE_PREFIX = ''.storage-framework''"

definition INT64_MAX :: int where "INT64_MAX = 9223372036854775807"
definition INT64_MIN :: int where "INT64_MIN = - 9223372036854775808"

text \<open>Modification time in nanoseconds; the product and the sum must fit an \<open>int64_t\<close>.\<close>

definition get_mtime_nsecs :: "'w fsapi \<Rightarrow> string \<Rightarrow> string \<Rightarrow> ('w, int) lp" where
  "get_mtime_nsecs F meth path = sx_query (\<lambda>w.
     case fs_mtime F w path of
       Raise err \<Rightarrow> Raise (LP_storage (ResourceException
         (meth @ '': cannot stat \"'' @ path @ ''\": '' @ fs_strerror F err) err))
     | Abort \<Rightarrow> Abort
     | Ok (sec, nsec) \<Rightarrow>
         (let r = sec * 1000000000 + nsec in
          if INT64_MIN \<le> sec * 1000000000 \<and> sec * 1000000000 \<le> INT64_MAX \<and>
             INT64_MIN \<le> r \<and> r \<le> INT64_MAX
          then Ok r else Abort))"

definition is_reserved_path :: "'w fsapi \<Rightarrow> string \<Rightarrow> bool" where
  "is_reserved_path F path = starts_with (path_filename F path) TMPFILE_PREFIX"

definition sanitize :: "'w fsapi \<Rightarrow> string \<Rightarrow> string \<Rightarrow> ('w, string) lp" where
  "sanitize F meth name =
     (if path_parent F name \<noteq> '''' then
        throw_storage (InvalidArgumentException
          (meth @ '': name \"'' @ name @ ''\" cannot contain a slash''))
      else let filename = path_filename F name in
        if filename = '''' \<or> filename = ''.'' \<or> filename = ''..'' then
          throw_storage (InvalidArgumentException (meth @ '': invalid name: \"'' @ name @ ''\"''))
        else if is_reserved_path F filename then
          throw_storage (InvalidArgumentException
            (meth @ '': names beginning with \"'' @ TMPFILE_PREFIX @ ''\" are reserved''))
        else sx_return name)"

text \<open>\<open>throw_storage_exception(method, filesystem_error)\<close>\<close>

definition storage_exception_of :: "'w fsapi \<Rightarrow> string \<Rightarrow> fs_error \<Rightarrow> StorageException" where
  "storage_exception_of F meth e =
     (let msg = meth @ '': ''
            @ (if fe_path2 e \<noteq> ''''
               then ''src = \"'' @ fe_path1 e @ ''\", target = \"'' @ fe_path2 e @ ''\"''
               else ''\"'' @ fe_path1 e @ ''\"'')
            @ '': '' @ fe_what e
      in case fe_code e of
           permission_denied \<Rightarrow> PermissionException msg
         | operation_not_permitted \<Rightarrow> PermissionException msg
         | no_such_file_or_directory \<Rightarrow> NotExistsException msg (fe_path1 e)
         | file_exists \<Rightarrow> ExistsException msg (fe_path1 e) (path_filename F (fe_path1 e))
         | no_space_on_device \<Rightarrow> QuotaException msg
         | other_errc c \<Rightarrow> ResourceException msg c)"

text \<open>\<open>throw_storage_exception(method, msg, FileError)\<close>: the Qt error code is the errno-like
  number, 0 is \<open>NoError\<close> and a precondition violation.\<close>

definition file_error_exception :: "string \<Rightarrow> string \<Rightarrow> int \<Rightarrow> (StorageException, 'a) outcome" where
  "file_error_exception meth msg e =
     (if e = 0 then Abort
      else Raise (ResourceException
        (meth @ '': '' @ msg @ '' (QFileDevice::FileError = '' @ int_to_string e @ '')'') e))"

definition socket_error_exception :: "string \<Rightarrow> string \<Rightarrow> int \<Rightarrow> StorageException" where
  "socket_error_exception meth msg e =
     ResourceException
       (meth @ '': '' @ msg @ '' (QLocalSocket::LocalSocketError = '' @ int_to_string e @ '')'') e"

text \<open>The conversion that \<open>invoke_async\<close> wraps around every method: what the future holds.\<close>

definition invoke_async :: "'w fsapi \<Rightarrow> string \<Rightarrow> ('w, 'a) lp \<Rightarrow> ('w, StorageException, 'a) sx" where
  "invoke_async F meth functor =
     sx_catch functor (\<lambda>x. sx_throw
       (case x of
          LP_storage e \<Rightarrow> e
        | LP_fs e \<Rightarrow> storage_exception_of F meth e
        | LP_std what \<Rightarrow> UnknownException what))"

lemma keeps_invoke_async [keeps_intros]: "keeps P m \<Longrightarrow> keeps P (invoke_async F meth m)"
  by (simp add: invoke_async_def keeps_intros)

lemma keeps_get_mtime_nsecs [keeps_intros]: "keeps P (get_mtime_nsecs F meth path)"
  by (simp add: get_mtime_nsecs_def keeps_query)

lemma keeps_sanitize [keeps_intros]: "keeps P (sanitize F meth name)"
  by (simp add: sanitize_def Let_def keeps_intros)

lemma sanitize_Ok:
  "sanitize F meth name w = (Ok n, w') \<longleftrightarrow>
     n = name \<and> w' = w \<and> path_parent F name = '''' \<and> path_filename F name \<notin> {'''', ''.'', ''..''} \<and>
     \<not> is_reserved_path F (path_filename F name)"
  by (auto simp: sanitize_def Let_def throw_storage_def run_simps)

subsection \<open>Dates\<close>

text \<open>\<open>gmtime_r\<close>: the civil date of a day number in the proleptic Gregorian calendar.\<close>

definition civil_from_days :: "int \<Rightarrow> int \<times> int \<times> int" where
  "civil_from_days d =
     (let z = d + 719468;
          era = z div 146097;
          doe = z mod 146097;
          yoe = (doe - doe div 1460 + doe div 36524 - doe div 146096) div 365;
          doy = doe - (365 * yoe + yoe div 4 - yoe div 100);
          mp = (5 * doy + 2) div 153;
          day = doy - (153 * mp + 2) div 5 + 1;
          month = (if mp < 10 then mp + 3 else mp - 9)
      in (yoe + era * 400 + (if month \<le> 2 then 1 else 0), month, day))"

definition two_digits :: "int \<Rightarrow> string" where
  "two_digits i = (if i < 10 then ''0'' @ int_to_string i else int_to_string i)"

text \<open>C++ division truncates towards zero.\<close>

definition trunc_quot :: "int \<Rightarrow> int \<Rightarrow> int" where
  "trunc_quot a b = (if a < 0 then - ((- a) div b) else a div b)"

definition make_iso_date :: "int \<Rightarrow> string" where
  "make_iso_date nsecs_since_epoch =
     (let secs = trunc_quot nsecs_since_epoch 1000000000;
          sod = secs mod 86400;
          (y, m, d) = civil_from_days (secs div 86400)
      in int_to_string y @ ''-'' @ two_digits m @ ''-'' @ two_digits d @ ''T''
         @ two_digits (sod div 3600) @ '':'' @ two_digits (sod div 60 mod 60) @ '':''
         @ two_digits (sod mod 60) @ ''Z'')"

end
