(* ===== verification/LocalProvider.thy ===== *)
theory LocalProvider
  imports LocalFs Validate Wire
begin

text \<open>
  The local provider (\<open>src/local-provider/LocalProvider.cpp\<close>): where its root is, which ids
  it accepts, the items it makes and its operations on files and folders, each the body of
  the lambda that runs on another thread together with \<open>invoke_async\<close>. The upload and
  download jobs that \<open>create_file\<close>, \<open>update\<close> and \<open>download\<close> start are in \<open>LocalUpload\<close> and
  \<open>LocalDownload\<close>. The only state of the provider is \<open>root_\<close>, an argument of the operations.
  Two paths are compared as strings.
\<close>

section \<open>The root\<close>

text \<open>\<open>getenv\<close> and \<open>g_get_user_data_dir\<close> are parameters. The tests with an \<open>error_code\<close>
  do not throw: a path whose status cannot be read does not exist.\<close>

definition get_root_dir ::
  "'w fsapi \<Rightarrow> (string \<Rightarrow> string option) \<Rightarrow> string \<Rightarrow> string \<Rightarrow> ('w, string) lp" where
  "get_root_dir F getenv user_data_dir meth =
     (case getenv ''SF_LOCAL_PROVIDER_ROOT'' of
        Some (c # cs) \<Rightarrow>
          sx_query (\<lambda>w. case fs_status F w (c # cs) of
              Ok st \<Rightarrow> if st_type st = directory_file then Ok (c # cs)
                else Raise (LP_storage (InvalidArgumentException (meth @
                  '': Environment variable SF_LOCAL_PROVIDER_ROOT must denote an existing directory'')))
            | Raise _ \<Rightarrow> Raise (LP_storage (InvalidArgumentException (meth @
                  '': Environment variable SF_LOCAL_PROVIDER_ROOT must denote an existing directory'')))
            | Abort \<Rightarrow> Abort)
      | _ \<Rightarrow>
          (let data_dir = (case getenv ''SNAP_USER_COMMON'' of
                 Some (c # cs) \<Rightarrow> c # cs | _ \<Rightarrow> user_data_dir) @ ''/storage-framework/local''
           in sx_bind (sx_catch (fs_create_directories F data_dir)
                (\<lambda>e. throw_storage (storage_exception_of F meth e))) (\<lambda>_.
              sx_return data_dir)))"

text \<open>The constructor: the value of \<open>root_\<close>.\<close>

definition LocalProvider_init ::
  "'w fsapi \<Rightarrow> (string \<Rightarrow> string option) \<Rightarrow> string \<Rightarrow> ('w, string) lp" where
  "LocalProvider_init F getenv user_data_dir =
     sx_bind (get_root_dir F getenv user_data_dir ''LocalProvider()'') (\<lambda>dir.
     fsq (\<lambda>w. fs_canonical F w dir))"

section \<open>Identities\<close>

definition throw_if_not_valid :: "'w fsapi \<Rightarrow> string \<Rightarrow> string \<Rightarrow> string \<Rightarrow> ('w, unit) lp" where
  "throw_if_not_valid F root meth item_id =
     sx_bind (sx_query (\<lambda>w. map_raise (\<lambda>e. LP_storage (storage_exception_of F meth e))
                              (fs_canonical F w item_id))) (\<lambda>suspect_id.
     sx_bind (sx_throw_if (suspect_id \<noteq> item_id)
       (LP_storage (InvalidArgumentException (meth @ '': invalid id: \"'' @ item_id @ ''\"'')))) (\<lambda>_.
     sx_throw_if (item_id \<noteq> root \<and> \<not> starts_with item_id (root @ ''/''))
       (LP_storage (InvalidArgumentException (meth @ '': invalid id: \"'' @ item_id @ ''\"'')))))"

section \<open>Items\<close>

definition get_content_type :: "'w fsapi \<Rightarrow> string \<Rightarrow> ItemType \<Rightarrow> string" where
  "get_content_type F filename type =
     (if type \<noteq> IT_file then ''inode/directory''
      else case mime_type_name F filename of
             None \<Rightarrow> ''application/octet-stream''
           | Some name \<Rightarrow> name)"

text \<open>\<open>int64_t(x)\<close> for an unsigned 64-bit \<open>x\<close>\<close>

definition to_int64 :: "int \<Rightarrow> int" where
  "to_int64 i = (i + 2 ^ 63) mod 2 ^ 64 - 2 ^ 63"

text \<open>The common end of \<open>make_item\<close>; \<open>meta\<close> holds what the \<open>switch\<close> put in.\<close>

definition finish_item ::
  "'w fsapi \<Rightarrow> string \<Rightarrow> file_status \<Rightarrow> string \<Rightarrow> string \<Rightarrow> string list \<Rightarrow> string \<Rightarrow> ItemType \<Rightarrow>
     (string \<times> MetadataValue) list \<Rightarrow> ('w, provider_item) lp" where
  "finish_item F item_id st iso_mtime name parents etag type meta =
     sx_bind (fsq (\<lambda>w. fs_space F w item_id)) (\<lambda>(available, capacity).
     let meta = map_emplace FREE_SPACE_BYTES (MV_int64 (to_int64 available)) meta;
         meta = map_emplace USED_SPACE_BYTES (MV_int64 (to_int64 (capacity - available))) meta;
         meta = map_emplace LAST_MODIFIED_TIME (MV_string iso_mtime) meta;
         meta = map_emplace CONTENT_TYPE (MV_string (get_content_type F item_id type)) meta;
         writable = (if type = IT_file then st_owner_write st
                     else st_owner_write st \<and> st_owner_exe st);
         meta = map_emplace WRITABLE (MV_int64 (if writable then 1 else 0)) meta
     in sx_return \<lparr>pi_item_id = item_id, pi_parent_ids = parents, pi_name = name, pi_etag = etag,
                   pi_type = type, pi_metadata = meta\<rparr>)"

definition make_item ::
  "'w fsapi \<Rightarrow> string \<Rightarrow> string \<Rightarrow> string \<Rightarrow> file_status \<Rightarrow> ('w, provider_item) lp" where
  "make_item F root meth item_id st =
     sx_bind (get_mtime_nsecs F meth item_id) (\<lambda>mtime_nsecs.
     let iso_mtime = make_iso_date mtime_nsecs;
         name = path_filename F item_id;
         parents = [path_parent F item_id]
     in case st_type st of
          regular_file \<Rightarrow>
            sx_bind (fsq (\<lambda>w. fs_file_size F w item_id)) (\<lambda>size.
            finish_item F item_id st iso_mtime name parents (int_to_string mtime_nsecs) IT_file
              (map_emplace SIZE_IN_BYTES (MV_int64 (to_int64 size)) []))
        | directory_file \<Rightarrow>
            (if item_id = root then finish_item F item_id st iso_mtime ''/'' [] '''' IT_root []
             else finish_item F item_id st iso_mtime name parents '''' IT_folder [])
        | _ \<Rightarrow> throw_storage (NotExistsException
            (meth @ '': \"'' @ item_id @ ''\" is neither a file nor a folder'') item_id))"

text \<open>\<open>auto st = status(p); return make_item(method, p, st);\<close>\<close>

definition item_at :: "'w fsapi \<Rightarrow> string \<Rightarrow> string \<Rightarrow> string \<Rightarrow> ('w, provider_item) lp" where
  "item_at F root meth p = sx_bind (fsq (\<lambda>w. fs_status F w p)) (\<lambda>st. make_item F root meth p st)"

section \<open>Operations that read\<close>

text \<open>\<open>roots\<close> runs in the caller's thread, outside \<open>invoke_async\<close>.\<close>

definition LocalProvider_roots :: "'w fsapi \<Rightarrow> string \<Rightarrow> ('w, provider_item list) lp" where
  "LocalProvider_roots F root =
     sx_bind (item_at F root ''roots()'' root) (\<lambda>item. sx_return [item])"

text \<open>The loop over the directory entries: reserved names are skipped, an entry whose status
  or item cannot be had is left out.\<close>

primrec list_entries ::
  "'w fsapi \<Rightarrow> string \<Rightarrow> string \<Rightarrow> string list \<Rightarrow> ('w, provider_item list) lp" where
  "list_entries F root meth [] = sx_return []"
| "list_entries F root meth (p # ps) =
     (if is_reserved_path F p then list_entries F root meth ps
      else sx_bind (sx_catch (sx_bind (item_at F root meth p) (\<lambda>item. sx_return [item]))
                     (\<lambda>_. sx_return [])) (\<lambda>here.
           sx_bind (list_entries F root meth ps) (\<lambda>items. sx_return (here @ items))))"

definition LocalProvider_list ::
  "'w fsapi \<Rightarrow> string \<Rightarrow> string \<Rightarrow> string \<Rightarrow> ('w, StorageException, provider_item list \<times> string) sx" where
  "LocalProvider_list F root item_id page_token = invoke_async F ''list()''
     (sx_bind (throw_if_not_valid F root ''list()'' item_id) (\<lambda>_.
      sx_bind (fs_is_directory F item_id) (\<lambda>is_dir.
      sx_bind (sx_throw_if (\<not> is_dir)
        (LP_storage (LogicException (''list(): \"'' @ item_id @ ''\" is not a folder'')))) (\<lambda>_.
      sx_bind (fsq (\<lambda>w. fs_entries F w item_id)) (\<lambda>entries.
      sx_bind (list_entries F root ''list()'' entries) (\<lambda>items.
      sx_return (items, '''')))))))"

definition LocalProvider_lookup ::
  "'w fsapi \<Rightarrow> string \<Rightarrow> string \<Rightarrow> string \<Rightarrow> ('w, StorageException, provider_item list) sx" where
  "LocalProvider_lookup F root parent_id name = invoke_async F ''lookup()''
     (sx_bind (throw_if_not_valid F root ''lookup()'' parent_id) (\<lambda>_.
      sx_bind (sanitize F ''lookup()'' name) (\<lambda>sanitized_name.
      let p = path_append F parent_id sanitized_name in
      sx_bind (throw_if_not_valid F root ''lookup()'' p) (\<lambda>_.
      sx_bind (item_at F root ''lookup()'' p) (\<lambda>item. sx_return [item])))))"

definition LocalProvider_metadata ::
  "'w fsapi \<Rightarrow> string \<Rightarrow> string \<Rightarrow> ('w, StorageException, provider_item) sx" where
  "LocalProvider_metadata F root item_id = invoke_async F ''metadata()''
     (sx_bind (throw_if_not_valid F root ''metadata()'' item_id) (\<lambda>_.
      item_at F root ''metadata()'' item_id))"

section \<open>Operations that write\<close>

definition LocalProvider_create_folder ::
  "'w fsapi \<Rightarrow> string \<Rightarrow> string \<Rightarrow> string \<Rightarrow> ('w, StorageException, provider_item) sx" where
  "LocalProvider_create_folder F root parent_id name = invoke_async F ''create_folder()''
     (sx_bind (throw_if_not_valid F root ''create_folder()'' parent_id) (\<lambda>_.
      sx_bind (sanitize F ''create_folder()'' name) (\<lambda>sanitized_name.
      let p = path_append F parent_id sanitized_name in
      sx_bind (fs_exists F p) (\<lambda>there.
      sx_bind (sx_throw_if there (LP_storage (ExistsException
        (''create_folder(): \"'' @ p @ ''\" exists already'') p name))) (\<lambda>_.
      sx_bind (fsm (fs_create_directory F p)) (\<lambda>_.
      item_at F root ''create_folder()'' p))))))"

definition LocalProvider_delete_item ::
  "'w fsapi \<Rightarrow> string \<Rightarrow> string \<Rightarrow> ('w, StorageException, unit) sx" where
  "LocalProvider_delete_item F root item_id = invoke_async F ''delete_item()''
     (sx_bind (throw_if_not_valid F root ''delete_item()'' item_id) (\<lambda>_.
      sx_bind (fsq (\<lambda>w. fs_canonical F w item_id)) (\<lambda>c.
      sx_bind (sx_throw_if (c = root)
        (LP_storage (PermissionException ''delete_item(): cannot delete root''))) (\<lambda>_.
      fsm (fs_remove_all F item_id)))))"

definition LocalProvider_move ::
  "'w fsapi \<Rightarrow> string \<Rightarrow> string \<Rightarrow> string \<Rightarrow> string \<Rightarrow> ('w, StorageException, provider_item) sx" where
  "LocalProvider_move F root item_id new_parent_id new_name = invoke_async F ''move()''
     (sx_bind (throw_if_not_valid F root ''move()'' item_id) (\<lambda>_.
      sx_bind (throw_if_not_valid F root ''move()'' new_parent_id) (\<lambda>_.
      sx_bind (sanitize F ''move()'' new_name) (\<lambda>sanitized_name.
      let target_path = path_append F new_parent_id sanitized_name in
      sx_bind (fs_exists F target_path) (\<lambda>there.
      sx_bind (sx_throw_if there (LP_storage (ExistsException
        (''move(): \"'' @ target_path @ ''\" exists already'') target_path new_name))) (\<lambda>_.
      sx_bind (fsq (\<lambda>w. fs_canonical F w item_id)) (\<lambda>c.
      sx_bind (sx_throw_if (c = root)
        (LP_storage (PermissionException ''move(): cannot move root''))) (\<lambda>_.
      sx_bind (fsm (fs_rename F item_id target_path)) (\<lambda>_.
      item_at F root ''move()'' target_path)))))))))"

subsection \<open>Copying\<close>

text \<open>
  The recursion follows the directory tree; its depth is bounded because the path grows with
  every level and the system refuses paths longer than \<open>PATH_MAX\<close>. The first argument bounds
  the depth; \<open>copy_depth_irrelevant\<close> shows that \<open>PATH_MAX + 1\<close> is enough. The iterator is a
  snapshot of the directory.
\<close>

definition PATH_MAX :: nat where "PATH_MAX = 4096"

fun copy_recursively :: "'w fsapi \<Rightarrow> nat \<Rightarrow> string \<Rightarrow> string \<Rightarrow> ('w, unit) lp" where
  "copy_recursively F 0 source target = (\<lambda>w. (Abort, w))"
| "copy_recursively F (Suc depth) source target =
     (if is_reserved_path F source then sx_return ()
      else sx_bind (fsq (\<lambda>w. fs_status F w source)) (\<lambda>s.
        if st_type s = regular_file then fsm (fs_copy_file F source target)
        else if st_type s = directory_file then
          sx_bind (fsm (fs_copy_directory F source target)) (\<lambda>_.
          sx_bind (fsq (\<lambda>w. fs_entries F w source)) (\<lambda>entries.
          sx_for entries (\<lambda>source_entry.
            copy_recursively F depth source_entry
              (path_append F target (path_filename F source_entry)))))
        else sx_return ()))"

text \<open>The body of the loop over the entries of the folder that is copied.\<close>

definition copy_entry :: "'w fsapi \<Rightarrow> string \<Rightarrow> string \<Rightarrow> ('w, unit) lp" where
  "copy_entry F tmp_path source_entry =
     (if is_reserved_path F source_entry then sx_return ()
      else sx_bind (fsq (\<lambda>w. fs_status F w source_entry)) (\<lambda>s.
        if st_type s = directory_file \<or> st_type s = regular_file then
          copy_recursively F (Suc PATH_MAX) source_entry
            (path_append F tmp_path (path_filename F source_entry))
        else sx_return ()))"

definition LocalProvider_copy ::
  "'w fsapi \<Rightarrow> string \<Rightarrow> string \<Rightarrow> string \<Rightarrow> string \<Rightarrow> ('w, StorageException, provider_item) sx" where
  "LocalProvider_copy F root item_id new_parent_id new_name = invoke_async F ''copy()''
     (sx_bind (throw_if_not_valid F root ''copy()'' item_id) (\<lambda>_.
      sx_bind (throw_if_not_valid F root ''copy()'' new_parent_id) (\<lambda>_.
      sx_bind (sanitize F ''copy()'' new_name) (\<lambda>sanitized_name.
      let target_path = path_append F new_parent_id sanitized_name in
      sx_bind (sx_bind (fs_is_directory F item_id) (\<lambda>is_dir.
        if is_dir then
          sx_bind (fs_exists F target_path) (\<lambda>there.
          sx_bind (sx_throw_if there (LP_storage (ExistsException
            (''copy(): \"'' @ target_path @ ''\" exists already'') target_path new_name))) (\<lambda>_.
          sx_bind (fsq (\<lambda>w. fs_canonical F w new_parent_id)) (\<lambda>parent.
          sx_bind (sx_query (\<lambda>w. Ok (path_append F parent
            (fs_unique_path F w (TMPFILE_PREFIX @ ''-%%%%-%%%%-%%%%-%%%%''))))) (\<lambda>tmp_path.
          sx_bind (fsm (fs_create_directories F tmp_path)) (\<lambda>_.
          sx_bind (fsq (\<lambda>w. fs_entries F w item_id)) (\<lambda>entries.
          sx_bind (sx_for entries (copy_entry F tmp_path)) (\<lambda>_.
          fsm (fs_rename F tmp_path target_path))))))))
        else fsm (fs_copy_file F item_id target_path))) (\<lambda>_.
      item_at F root ''copy()'' target_path)))))"

section \<open>Properties of ids\<close>

definition inside :: "string \<Rightarrow> string \<Rightarrow> bool" where
  "inside root p \<longleftrightarrow> p = root \<or> starts_with p (root @ ''/'')"

lemma throw_if_not_valid_Ok:
  "throw_if_not_valid F root meth item_id w = (Ok u, w') \<longleftrightarrow>
     w' = w \<and> fs_canonical F w item_id = Ok item_id \<and> inside root item_id"
  by (cases "fs_canonical F w item_id") (auto simp: throw_if_not_valid_def run_simps inside_def)

text \<open>A folder of the provider: a canonical path at or below the root.\<close>

definition inside_dir :: "'w fsapi \<Rightarrow> string \<Rightarrow> 'w \<Rightarrow> string \<Rightarrow> bool" where
  "inside_dir F root w d \<longleftrightarrow> fs_canonical F w d = Ok d \<and> inside root d"

definition proper_name :: "'w fsapi \<Rightarrow> string \<Rightarrow> bool" where
  "proper_name F n \<longleftrightarrow> path_parent F n = '''' \<and> path_filename F n \<notin> {'''', ''.'', ''..''}"

text \<open>
  What the provider relies on. Lexically: appending a name makes a path longer, the iterator
  yields proper names, \<open>unique_path\<close> gives a proper name that is not in use. Of the calls
  that change something: applied to an entry \<open>d/n\<close> of a canonical folder \<open>d\<close> at or below the
  root, or to such a path itself, they touch nothing outside the root (the predicate \<open>P\<close>
  stands for what is outside), copying and creating leave canonical folders canonical, and a
  folder that was just made is canonical.
\<close>

definition TMP_PATTERN :: string where
  "TMP_PATTERN = TMPFILE_PREFIX @ ''-%%%%-%%%%-%%%%-%%%%''"

definition fs_names :: "'w fsapi \<Rightarrow> bool" where
  "fs_names F \<longleftrightarrow>
     (\<forall>d n. length d < length (path_append F d n)) \<and>
     (\<forall>w p es. fs_entries F w p = Ok es \<longrightarrow> (\<forall>e \<in> set es. proper_name F (path_filename F e))) \<and>
     (\<forall>w d. proper_name F (fs_unique_path F w TMP_PATTERN) \<and>
        (\<forall>st. fs_status F w (path_append F d (fs_unique_path F w TMP_PATTERN)) = Ok st \<longrightarrow>
           st_type st = file_not_found))"

definition makes_entries :: "'w fsapi \<Rightarrow> string \<Rightarrow> ('w \<Rightarrow> bool) \<Rightarrow> (string \<Rightarrow> ('w, fs_error, unit) sx) \<Rightarrow> bool" where
  "makes_entries F root P m \<longleftrightarrow>
     (\<forall>w d n. P w \<longrightarrow> inside_dir F root w d \<longrightarrow> proper_name F n \<longrightarrow>
        P (snd (m (path_append F d n) w)) \<and>
        (\<forall>d'. inside_dir F root w d' \<longrightarrow> inside_dir F root (snd (m (path_append F d n) w)) d'))"

definition fs_confines :: "'w fsapi \<Rightarrow> string \<Rightarrow> ('w \<Rightarrow> bool) \<Rightarrow> bool" where
  "fs_confines F root P \<longleftrightarrow>
     makes_entries F root P (fs_create_directory F) \<and>
     makes_entries F root P (fs_create_directories F) \<and>
     (\<forall>src. makes_entries F root P (fs_copy_file F src)) \<and>
     (\<forall>src. makes_entries F root P (fs_copy_directory F src)) \<and>
     (\<forall>w w' d n src. inside_dir F root w d \<longrightarrow> proper_name F n \<longrightarrow>
        (fs_copy_directory F src (path_append F d n) w = (Ok (), w') \<or>
         fs_create_directories F (path_append F d n) w = (Ok (), w') \<and>
           (\<forall>st. fs_status F w (path_append F d n) = Ok st \<longrightarrow> st_type st = file_not_found)) \<longrightarrow>
        inside_dir F root w' (path_append F d n)) \<and>
     (\<forall>w p. P w \<longrightarrow> inside_dir F root w p \<longrightarrow> p \<noteq> root \<longrightarrow> P (snd (fs_remove_all F p w))) \<and>
     (\<forall>w p d n. P w \<longrightarrow> inside_dir F root w p \<longrightarrow> p \<noteq> root \<longrightarrow> inside_dir F root w d \<longrightarrow>
        proper_name F n \<longrightarrow> P (snd (fs_rename F p (path_append F d n) w)))"

lemma keeps_throw_if_not_valid [keeps_intros]: "keeps P (throw_if_not_valid F root meth item_id)"
  by (simp add: throw_if_not_valid_def keeps_intros)

lemma keeps_finish_item [keeps_intros]:
  "keeps P (finish_item F item_id st iso_mtime name parents etag type meta)"
  by (auto simp: finish_item_def Let_def intro!: keeps_intros)

lemma keeps_item_at [keeps_intros]: "keeps P (item_at F root meth p)"
proof -
  have "keeps P (make_item F root meth p st)" for st
    by (cases "st_type st") (auto simp: make_item_def Let_def intro!: keeps_intros)
  then show ?thesis by (auto simp: item_at_def intro!: keeps_intros)
qed

lemma hoare_fsq: "(\<And>s. Q s \<Longrightarrow> E s) \<Longrightarrow> hoare E Q (fsq q) (\<lambda>a s. Q s \<and> q s = Ok a)"
proof (rule hoareI)
  fix s a t
  assume "Q s" and "fsq q s = (Ok a, t)"
  then show "Q t \<and> q t = Ok a" by (cases "q s") (auto simp: fsq_def run_simps)
qed (auto simp: fsq_def run_simps)

lemma hoare_valid:
  assumes "\<And>s. Q s \<Longrightarrow> E s"
  shows "hoare E Q (throw_if_not_valid F root meth p) (\<lambda>_ s. Q s \<and> inside_dir F root s p)"
proof (rule hoareI)
  fix s a t
  assume "Q s" and "throw_if_not_valid F root meth p s = (Ok a, t)"
  then show "Q t \<and> inside_dir F root t p" by (simp add: throw_if_not_valid_Ok inside_dir_def)
next
  fix s r t
  assume "Q s" and "throw_if_not_valid F root meth p s = (r, t)"
  with keepsD [OF keeps_throw_if_not_valid [of Q F root meth p], of s]
  show "E t" using assms by simp
qed

lemma hoare_sanitize:
  assumes "\<And>s. Q s \<Longrightarrow> E s"
  shows "hoare E Q (sanitize F meth name) (\<lambda>n s. Q s \<and> n = name \<and> proper_name F n)"
proof (rule hoareI)
  fix s a t
  assume "Q s" and "sanitize F meth name s = (Ok a, t)"
  then show "Q t \<and> a = name \<and> proper_name F a" by (auto simp: sanitize_Ok proper_name_def)
next
  fix s r t
  assume "Q s" and "sanitize F meth name s = (r, t)"
  with keepsD [OF keeps_sanitize [of Q F meth name], of s] show "E t" using assms by simp
qed

lemma hoare_reads: "keeps Q m \<Longrightarrow> (\<And>s. Q s \<Longrightarrow> E s) \<Longrightarrow> hoare E Q m (\<lambda>_. Q)"
  unfolding hoare_def keeps_def by (metis snd_conv)

lemma hoare_fsm:
  assumes "\<And>s. Q s \<Longrightarrow> E (snd (m s))" and "\<And>s t. Q s \<Longrightarrow> m s = (Ok (), t) \<Longrightarrow> R t"
  shows "hoare E Q (fsm m) (\<lambda>_. R)"
  unfolding fsm_def
proof (rule hoare_catch)
  show "hoare E Q m (\<lambda>_. R)" using assms by (force simp: hoare_def)
qed (simp add: hoare_throw)

lemma hoare_invoke_async: "hoare E Q m R \<Longrightarrow> hoare E Q (invoke_async F meth m) R"
  unfolding invoke_async_def by (rule hoare_catch) (auto intro: hoare_throw)

section \<open>Confinement to the root\<close>

lemma makes_entriesD:
  assumes "makes_entries F root P m" and "P w" and "inside_dir F root w d" and "proper_name F n"
  shows "P (snd (m (path_append F d n) w))"
    and "inside_dir F root w d' \<Longrightarrow> inside_dir F root (snd (m (path_append F d n) w)) d'"
  using assms by (auto simp: makes_entries_def)

lemma hoare_makes:
  assumes m: "makes_entries F root P m"
    and Q: "\<And>s. Q s \<Longrightarrow> P s \<and> inside_dir F root s d \<and> proper_name F n"
  shows "hoare P Q (fsm (m (path_append F d n))) (\<lambda>_. P)"
proof (rule hoare_fsm)
  fix s t
  assume "Q s"
  then show P: "P (snd (m (path_append F d n) s))" using makes_entriesD(1) [OF m] Q by blast
  assume "m (path_append F d n) s = (Ok (), t)"
  with P show "P t" by simp
qed

lemmas triple_rules = hoare_bind hoare_valid hoare_sanitize hoare_throw_if hoare_fsq hoare_query

lemma confined_create_folder:
  assumes "fs_confines F root P"
  shows "keeps P (LocalProvider_create_folder F root parent_id name)"
proof -
  have mk: "makes_entries F root P (fs_create_directory F)" using assms by (simp add: fs_confines_def)
  show ?thesis
    unfolding LocalProvider_create_folder_def Let_def
    by (rule hoare_keeps, rule hoare_invoke_async)
      (rule triple_rules hoare_makes [OF mk] hoare_reads keeps_fs_exists keeps_item_at | simp)+
qed

lemma confined_delete_item:
  assumes "fs_confines F root P"
  shows "keeps P (LocalProvider_delete_item F root item_id)"
proof -
  have rm: "P w \<Longrightarrow> inside_dir F root w p \<Longrightarrow> p \<noteq> root \<Longrightarrow> P (snd (fs_remove_all F p w))" for w p
    using assms by (auto simp: fs_confines_def)
  have "hoare P (\<lambda>s. ((P s \<and> inside_dir F root s item_id) \<and> fs_canonical F s item_id = Ok c) \<and> c \<noteq> root)
      (fsm (fs_remove_all F item_id)) (\<lambda>_. P)" for c
    by (rule hoare_fsm) (use rm in \<open>force simp: inside_dir_def\<close>)+
  then show ?thesis
    unfolding LocalProvider_delete_item_def
    by (intro hoare_keeps hoare_invoke_async) ((rule triple_rules | assumption | simp)+)
qed

lemma confined_move:
  assumes "fs_confines F root P"
  shows "keeps P (LocalProvider_move F root item_id new_parent_id new_name)"
proof -
  have mv: "P w \<Longrightarrow> inside_dir F root w p \<Longrightarrow> p \<noteq> root \<Longrightarrow> inside_dir F root w d \<Longrightarrow>
      proper_name F n \<Longrightarrow> P (snd (fs_rename F p (path_append F d n) w))" for w p d n
    using assms by (auto simp: fs_confines_def)
  have "hoare P Q (fsm (fs_rename F item_id (path_append F new_parent_id n))) (\<lambda>_. P)"
    if "\<And>s. Q s \<Longrightarrow> P s \<and> inside_dir F root s item_id \<and> item_id \<noteq> root \<and>
      inside_dir F root s new_parent_id \<and> proper_name F n" for Q n
    by (rule hoare_fsm) (use mv that in force)+
  note mv_triple = this
  show ?thesis
    unfolding LocalProvider_move_def Let_def
    by (intro hoare_keeps hoare_invoke_async)
      (rule triple_rules mv_triple hoare_reads keeps_fs_exists keeps_item_at
        | auto simp: inside_dir_def)+
qed

lemma fs_confines_made:
  assumes "fs_confines F root P" and "inside_dir F root w d" and "proper_name F n"
  shows "fs_copy_directory F src (path_append F d n) w = (Ok (), w') \<Longrightarrow>
      inside_dir F root w' (path_append F d n)"
    and "fs_create_directories F (path_append F d n) w = (Ok (), w') \<Longrightarrow>
      (\<And>st. fs_status F w (path_append F d n) = Ok st \<Longrightarrow> st_type st = file_not_found) \<Longrightarrow>
      inside_dir F root w' (path_append F d n)"
proof -
  have made: "\<forall>w w' d n src. inside_dir F root w d \<longrightarrow> proper_name F n \<longrightarrow>
        (fs_copy_directory F src (path_append F d n) w = (Ok (), w') \<or>
         fs_create_directories F (path_append F d n) w = (Ok (), w') \<and>
           (\<forall>st. fs_status F w (path_append F d n) = Ok st \<longrightarrow> st_type st = file_not_found)) \<longrightarrow>
        inside_dir F root w' (path_append F d n)"
    using assms(1) by (simp add: fs_confines_def)
  then show "fs_copy_directory F src (path_append F d n) w = (Ok (), w') \<Longrightarrow>
      inside_dir F root w' (path_append F d n)" using assms by metis
  show "fs_create_directories F (path_append F d n) w = (Ok (), w') \<Longrightarrow>
      (\<And>st. fs_status F w (path_append F d n) = Ok st \<Longrightarrow> st_type st = file_not_found) \<Longrightarrow>
      inside_dir F root w' (path_append F d n)" using made assms by metis
qed

text \<open>While it copies, the provider keeps the folders it has made canonical.\<close>

definition copying :: "'w fsapi \<Rightarrow> string \<Rightarrow> ('w \<Rightarrow> bool) \<Rightarrow> string set \<Rightarrow> 'w \<Rightarrow> bool" where
  "copying F root P D w \<longleftrightarrow> P w \<and> (\<forall>d \<in> D. inside_dir F root w d)"

lemma copying_P: "copying F root P D w \<Longrightarrow> P w"
  by (simp add: copying_def)

lemma hoare_makes_copying:
  assumes m: "makes_entries F root P m" and d: "d \<in> D" and n: "proper_name F n"
  shows "hoare P (copying F root P D) (fsm (m (path_append F d n))) (\<lambda>_. copying F root P D)"
proof (rule hoare_fsm)
  fix s t
  assume s: "copying F root P D s"
  with d have Ps: "P s" and ds: "inside_dir F root s d" by (auto simp: copying_def)
  show P: "P (snd (m (path_append F d n) s))" by (rule makes_entriesD(1) [OF m Ps ds n])
  assume "m (path_append F d n) s = (Ok (), t)"
  with P s makes_entriesD(2) [OF m Ps ds n] show "copying F root P D t"
    by (force simp: copying_def)
qed

lemma hoare_makes_folder:
  assumes m: "makes_entries F root P m" and d: "d \<in> D" and n: "proper_name F n"
    and made: "\<And>s t. copying F root P D s \<Longrightarrow> m (path_append F d n) s = (Ok (), t) \<Longrightarrow>
        inside_dir F root t (path_append F d n)"
  shows "hoare P (copying F root P D) (fsm (m (path_append F d n)))
    (\<lambda>_. copying F root P (insert (path_append F d n) D))"
proof (rule hoare_fsm)
  fix s t
  assume s: "copying F root P D s"
  with d have Ps: "P s" and ds: "inside_dir F root s d" by (auto simp: copying_def)
  show P: "P (snd (m (path_append F d n) s))" by (rule makes_entriesD(1) [OF m Ps ds n])
  assume "m (path_append F d n) s = (Ok (), t)"
  with P s made [OF s] makes_entriesD(2) [OF m Ps ds n]
  show "copying F root P (insert (path_append F d n) D) t" by (force simp: copying_def)
qed

lemma hoare_copying_weaken:
  "hoare E Q m (\<lambda>_. copying F root P (insert d D)) \<Longrightarrow> hoare E Q m (\<lambda>_. copying F root P D)"
  by (erule hoare_conseq) (simp_all add: copying_def)

lemma copy_recursively_triple:
  assumes F: "fs_confines F root P" and names: "fs_names F"
    and "d \<in> D" and "proper_name F n"
  shows "hoare P (copying F root P D) (copy_recursively F k source (path_append F d n))
           (\<lambda>_. copying F root P D)"
  using assms(3,4)
proof (induction k arbitrary: source d n D)
  case 0
  show ?case by (auto intro!: hoareI dest: copying_P)
next
  case (Suc k)
  let ?t = "path_append F d n" and ?D = "insert (path_append F d n) D"
  have cfile: "makes_entries F root P (fs_copy_file F source)"
    and dir: "makes_entries F root P (fs_copy_directory F source)"
    using F by (simp_all add: fs_confines_def)
  have made: "inside_dir F root t ?t"
    if "copying F root P D s" and "fs_copy_directory F source ?t s = (Ok (), t)" for s t
    using fs_confines_made(1) [OF F _ Suc.prems(2)] that Suc.prems(1) by (auto simp: copying_def)
  have loop: "hoare P (\<lambda>s. copying F root P ?D s \<and> fs_entries F s source = Ok entries)
      (sx_for entries (\<lambda>e. copy_recursively F k e (path_append F ?t (path_filename F e))))
      (\<lambda>_. copying F root P ?D)" for entries
  proof (rule hoare_pure [where C = "\<forall>e \<in> set entries. proper_name F (path_filename F e)"])
    assume ok: "\<forall>e \<in> set entries. proper_name F (path_filename F e)"
    have "hoare P (copying F root P ?D)
      (sx_for entries (\<lambda>e. copy_recursively F k e (path_append F ?t (path_filename F e))))
      (\<lambda>_. copying F root P ?D)"
      by (rule hoare_for, rule Suc.IH) (use ok in auto)
    then show "hoare P (\<lambda>s. copying F root P ?D s \<and> fs_entries F s source = Ok entries)
      (sx_for entries (\<lambda>e. copy_recursively F k e (path_append F ?t (path_filename F e))))
      (\<lambda>_. copying F root P ?D)" by (rule hoare_conseq) simp_all
  qed (use names in \<open>auto simp: fs_names_def\<close>)
  have folder: "hoare P (copying F root P D)
     (sx_bind (fsm (fs_copy_directory F source ?t)) (\<lambda>_.
      sx_bind (fsq (\<lambda>w. fs_entries F w source)) (\<lambda>entries.
      sx_for entries (\<lambda>e. copy_recursively F k e (path_append F ?t (path_filename F e))))))
     (\<lambda>_. copying F root P D)"
    by (rule hoare_copying_weaken, rule hoare_bind,
        rule hoare_makes_folder [OF dir Suc.prems made], assumption+,
        rule hoare_bind, rule hoare_fsq, erule copying_P, rule loop)
  have status: "hoare P (copying F root P D) (fsq (\<lambda>w. fs_status F w source)) (\<lambda>_. copying F root P D)"
    by (rule hoare_reads) (auto intro: keeps_intros copying_P)
  show ?case
    using folder hoare_makes_copying [OF cfile Suc.prems]
    by (auto intro!: hoare_bind [OF status] hoare_return)
qed

lemma copy_entry_triple:
  assumes F: "fs_confines F root P" and names: "fs_names F"
    and tmp: "tmp \<in> D" and e: "proper_name F (path_filename F e)"
  shows "hoare P (copying F root P D) (copy_entry F tmp e) (\<lambda>_. copying F root P D)"
proof -
  have status: "hoare P (copying F root P D) (fsq (\<lambda>w. fs_status F w e)) (\<lambda>_. copying F root P D)"
    by (rule hoare_reads) (auto intro: keeps_intros copying_P)
  show ?thesis
    using copy_recursively_triple [OF F names tmp e, of "Suc PATH_MAX" e]
    by (auto simp: copy_entry_def simp del: copy_recursively.simps
        intro!: hoare_bind [OF status] hoare_return)
qed

lemma copy_entries_triple:
  assumes F: "fs_confines F root P" and names: "fs_names F" and tmp: "tmp \<in> D"
  shows "hoare P (\<lambda>s. copying F root P D s \<and> fs_entries F s item_id = Ok es)
           (sx_for es (copy_entry F tmp)) (\<lambda>_. copying F root P D)"
proof (rule hoare_pure [where C = "\<forall>e \<in> set es. proper_name F (path_filename F e)"])
  assume ok: "\<forall>e \<in> set es. proper_name F (path_filename F e)"
  have "hoare P (copying F root P D) (sx_for es (copy_entry F tmp)) (\<lambda>_. copying F root P D)"
    by (rule hoare_for, rule copy_entry_triple [OF F names tmp]) (use ok in auto)
  then show "hoare P (\<lambda>s. copying F root P D s \<and> fs_entries F s item_id = Ok es)
           (sx_for es (copy_entry F tmp)) (\<lambda>_. copying F root P D)"
    by (rule hoare_conseq) simp_all
qed (use names in \<open>auto simp: fs_names_def\<close>)

text \<open>The temporary folder: what holds after it was created.\<close>

lemma tmp_folder_triple:
  assumes F: "fs_confines F root P" and names: "fs_names F"
  shows "hoare P (\<lambda>s. copying F root P {d} s \<and>
      tmp = path_append F d (fs_unique_path F s TMP_PATTERN)) (fsm (fs_create_directories F tmp))
      (\<lambda>_ s. copying F root P {d, tmp} s \<and> tmp \<noteq> root)"
proof (rule hoare_fsm)
  have mk: "makes_entries F root P (fs_create_directories F)"
    using F by (simp add: fs_confines_def)
  fix s t
  assume s: "copying F root P {d} s \<and> tmp = path_append F d (fs_unique_path F s TMP_PATTERN)"
  let ?n = "fs_unique_path F s TMP_PATTERN"
  have d: "inside_dir F root s d" and Ps: "P s" and tmp: "tmp = path_append F d ?n"
    using s by (simp_all add: copying_def)
  have n: "proper_name F ?n" and
    fresh: "\<And>st. fs_status F s (path_append F d ?n) = Ok st \<Longrightarrow> st_type st = file_not_found"
    and longer: "length d < length (path_append F d ?n)"
    using names by (simp_all add: fs_names_def)
  show P: "P (snd (fs_create_directories F tmp s))"
    using makes_entriesD(1) [OF mk Ps d n] tmp by simp
  assume t: "fs_create_directories F tmp s = (Ok (), t)"
  have "inside_dir F root t tmp" using fs_confines_made(2) [OF F d n] t fresh tmp by blast
  moreover have "inside_dir F root t d" using makes_entriesD(2) [OF mk Ps d n d] t tmp by simp
  moreover have "length root \<le> length d" using d
    by (auto simp: inside_dir_def inside_def starts_with_iff)
  then have "tmp \<noteq> root" using longer tmp by auto
  ultimately show "copying F root P {d, tmp} t \<and> tmp \<noteq> root" using P t by (simp add: copying_def)
qed

lemma copy_rename_triple:
  assumes F: "fs_confines F root P" and n: "proper_name F n"
  shows "hoare P (\<lambda>s. copying F root P {d, tmp} s \<and> tmp \<noteq> root)
    (fsm (fs_rename F tmp (path_append F d n))) (\<lambda>_. P)"
proof -
  have mv: "P w \<Longrightarrow> inside_dir F root w p \<Longrightarrow> p \<noteq> root \<Longrightarrow> inside_dir F root w d \<Longrightarrow>
      proper_name F n \<Longrightarrow> P (snd (fs_rename F p (path_append F d n) w))" for w p d n
    using F by (auto simp: fs_confines_def)
  show ?thesis by (rule hoare_fsm) (use mv n in \<open>force simp: copying_def\<close>)+
qed

lemma hoare_pure_frame:
  "(C \<Longrightarrow> hoare E Q m (\<lambda>a s. R a s)) \<Longrightarrow> hoare E (\<lambda>s. Q s \<and> C) m (\<lambda>a s. R a s \<and> C)"
  unfolding hoare_def by blast

text \<open>The steps of a folder copy after the target was found free.\<close>

abbreviation copy_into :: "'w fsapi \<Rightarrow> string \<Rightarrow> string \<Rightarrow> string \<Rightarrow> ('w, unit) lp" where
  "copy_into F item_id target_path tmp \<equiv>
     sx_bind (fsq (\<lambda>w. fs_entries F w item_id)) (\<lambda>es.
     sx_bind (sx_for es (copy_entry F tmp)) (\<lambda>_. fsm (fs_rename F tmp target_path)))"

abbreviation copy_tmp :: "'w fsapi \<Rightarrow> string \<Rightarrow> string \<Rightarrow> string \<Rightarrow> ('w, unit) lp" where
  "copy_tmp F item_id target_path d \<equiv>
     sx_bind (sx_query (\<lambda>w. Ok (path_append F d (fs_unique_path F w TMP_PATTERN)))) (\<lambda>tmp.
     sx_bind (fsm (fs_create_directories F tmp)) (\<lambda>_. copy_into F item_id target_path tmp))"

lemma copy_into_triple:
  assumes F: "fs_confines F root P" and names: "fs_names F" and n: "proper_name F n"
  shows "hoare P (\<lambda>s. copying F root P {d, tmp} s \<and> tmp \<noteq> root)
    (copy_into F item_id (path_append F d n) tmp) (\<lambda>_. P)"
proof -
  have entries: "hoare P (\<lambda>s. copying F root P {d, tmp} s \<and> tmp \<noteq> root)
      (sx_bind (fsq (\<lambda>w. fs_entries F w item_id)) (\<lambda>es. sx_for es (copy_entry F tmp)))
      (\<lambda>_ s. copying F root P {d, tmp} s \<and> tmp \<noteq> root)"
    by (rule hoare_pure_frame, rule hoare_bind, rule hoare_fsq, erule copying_P,
        rule copy_entries_triple [OF F names], simp)
  show ?thesis
    using hoare_bind [OF entries copy_rename_triple [OF F n]] by (simp add: sx_bind_assoc)
qed

lemma copy_tmp_triple:
  assumes F: "fs_confines F root P" and names: "fs_names F" and n: "proper_name F n"
  shows "hoare P (\<lambda>s. P s \<and> inside_dir F root s d) (copy_tmp F item_id (path_append F d n) d) (\<lambda>_. P)"
proof (rule hoare_bind, rule hoare_query, simp, rule hoare_bind)
  show "hoare P (\<lambda>s. (P s \<and> inside_dir F root s d) \<and>
      Ok (path_append F d (fs_unique_path F s TMP_PATTERN)) = Ok tmp)
    (fsm (fs_create_directories F tmp)) (\<lambda>_ s. copying F root P {d, tmp} s \<and> tmp \<noteq> root)" for tmp
    by (rule hoare_conseq [OF tmp_folder_triple [OF F names, of d tmp]]) (auto simp: copying_def)
qed (rule copy_into_triple [OF F names n])

lemma copy_folder_triple:
  assumes F: "fs_confines F root P" and names: "fs_names F"
    and Q: "\<And>s. Q s \<Longrightarrow> P s \<and> inside_dir F root s parent \<and> proper_name F n"
  shows "hoare P Q (sx_bind (fsq (\<lambda>w. fs_canonical F w parent))
    (\<lambda>d. copy_tmp F item_id (path_append F parent n) d)) (\<lambda>_. P)"
proof (rule hoare_pure [where C = "proper_name F n"], use Q in blast,
    rule hoare_bind, rule hoare_fsq, use Q in blast)
  fix d
  assume n: "proper_name F n"
  show "hoare P (\<lambda>s. Q s \<and> fs_canonical F s parent = Ok d)
    (copy_tmp F item_id (path_append F parent n) d) (\<lambda>_. P)"
  proof (rule hoare_pure [where C = "d = parent"])
    fix s
    assume "Q s \<and> fs_canonical F s parent = Ok d"
    then show "d = parent" using Q [of s] by (simp add: inside_dir_def)
  next
    assume d: "d = parent"
    show ?thesis unfolding d
      by (rule hoare_conseq [OF copy_tmp_triple [OF F names n, of parent item_id]]) (use Q in auto)
  qed
qed

lemma confined_copy:
  assumes F: "fs_confines F root P" and names: "fs_names F"
  shows "keeps P (LocalProvider_copy F root item_id new_parent_id new_name)"
proof -
  have cp: "makes_entries F root P (fs_copy_file F item_id)" using F by (simp add: fs_confines_def)
  show ?thesis
    unfolding LocalProvider_copy_def Let_def TMP_PATTERN_def [symmetric]
    by (intro hoare_keeps hoare_invoke_async)
      (rule copy_folder_triple [OF F names] hoare_bind hoare_valid hoare_sanitize hoare_throw_if hoare_if
        hoare_makes [OF cp] hoare_reads keeps_fs_exists keeps_fs_is_directory keeps_item_at | simp)+
qed

end
