(* ===== verification/MemFs.thy ===== *)
theory MemFs
  imports LocalProvider
begin

text \<open>
  A file system in memory, an instance of the interface \<open>fsapi\<close> with no symbolic links: the
  state is the list of paths with what is stored there. It shows that the hypotheses on
  Boost.Filesystem under which the local provider is verified can hold, and the properties
  of the provider are evaluated on it.
\<close>

datatype mem_node = Mem_file string | Mem_dir

type_synonym mem = "(string \<times> mem_node) list"

definition mem_error :: "errc \<Rightarrow> string \<Rightarrow> string \<Rightarrow> fs_error" where
  "mem_error c p q = \<lparr>fe_code = c, fe_path1 = p, fe_path2 = q, fe_what = ''mem''\<rparr>"

definition mem_filename :: "string \<Rightarrow> string" where
  "mem_filename p = (if p = ''/'' then ''/'' else rev (takeWhile (\<lambda>c. c \<noteq> CHR ''/'') (rev p)))"

definition mem_parent :: "string \<Rightarrow> string" where
  "mem_parent p =
     (if p = ''/'' then '''' else
      case dropWhile (\<lambda>c. c \<noteq> CHR ''/'') (rev p) of
        [] \<Rightarrow> '''' | [c] \<Rightarrow> ''/'' | c # cs \<Rightarrow> rev cs)"

definition mem_append :: "string \<Rightarrow> string \<Rightarrow> string" where
  "mem_append p n = (if take 1 n = ''/'' then p @ n else p @ ''/'' @ n)"

definition mem_status :: "mem \<Rightarrow> string \<Rightarrow> (fs_error, file_status) outcome" where
  "mem_status w p = Ok (case map_of w p of
      None \<Rightarrow> \<lparr>st_type = file_not_found, st_owner_write = False, st_owner_exe = False\<rparr>
    | Some (Mem_file _) \<Rightarrow> \<lparr>st_type = regular_file, st_owner_write = True, st_owner_exe = False\<rparr>
    | Some Mem_dir \<Rightarrow> \<lparr>st_type = directory_file, st_owner_write = True, st_owner_exe = True\<rparr>)"

definition mem_canonical :: "mem \<Rightarrow> string \<Rightarrow> (fs_error, string) outcome" where
  "mem_canonical w p = (if map_of w p = None then Raise (mem_error no_such_file_or_directory p '''') else Ok p)"

definition mem_entries :: "mem \<Rightarrow> string \<Rightarrow> (fs_error, string list) outcome" where
  "mem_entries w p = (if int (length p) \<le> 4096 then
     Ok (filter (\<lambda>q. mem_filename q \<notin> {'''', ''.'', ''..''} \<and> q = mem_append p (mem_filename q)) (map fst w))
     else Raise (mem_error (other_errc 36) p ''''))"

definition mem_unique :: "mem \<Rightarrow> string \<Rightarrow> string" where
  "mem_unique w pattern = pattern @ replicate (sum_list (map (length \<circ> fst) w)) CHR ''x''"

definition mem_make :: "mem_node \<Rightarrow> string \<Rightarrow> (mem, fs_error, unit) sx" where
  "mem_make node p w =
     (if map_of w p \<noteq> None then (Raise (mem_error file_exists p ''''), w)
      else if map_of w (mem_parent p) \<noteq> Some Mem_dir then
        (Raise (mem_error no_such_file_or_directory p ''''), w)
      else (Ok (), w @ [(p, node)]))"

definition mem_create_directory :: "string \<Rightarrow> (mem, fs_error, unit) sx" where
  "mem_create_directory p w = (if map_of w p = Some Mem_dir then (Ok (), w) else mem_make Mem_dir p w)"

definition mem_copy_file :: "string \<Rightarrow> string \<Rightarrow> (mem, fs_error, unit) sx" where
  "mem_copy_file p q w =
     (case map_of w p of
        Some (Mem_file s) \<Rightarrow>
          if map_of w q \<noteq> None then (Raise (mem_error file_exists p q), w) else mem_make (Mem_file s) q w
      | _ \<Rightarrow> (Raise (mem_error no_such_file_or_directory p q), w))"

definition mem_copy_directory :: "string \<Rightarrow> string \<Rightarrow> (mem, fs_error, unit) sx" where
  "mem_copy_directory p q w =
     (if map_of w p = Some Mem_dir then mem_make Mem_dir q w
      else (Raise (mem_error no_such_file_or_directory p q), w))"

definition mem_remove_all :: "string \<Rightarrow> (mem, fs_error, unit) sx" where
  "mem_remove_all p w = (Ok (), filter (\<lambda>(q, _). \<not> inside p q) w)"

definition mem_rename :: "string \<Rightarrow> string \<Rightarrow> (mem, fs_error, unit) sx" where
  "mem_rename p q w =
     (if map_of w p = None then (Raise (mem_error no_such_file_or_directory p q), w)
      else (Ok (), map (\<lambda>(r, node). (if inside p r then q @ drop (length p) r else r, node)) w))"

definition mem_fs :: "mem fsapi" where
  "mem_fs = \<lparr>path_filename = mem_filename, path_parent = mem_parent, path_append = mem_append,
     fs_canonical = mem_canonical, fs_status = mem_status, fs_mtime = (\<lambda>w p. Ok (0, 5)),
     fs_file_size = (\<lambda>w p. case map_of w p of Some (Mem_file s) \<Rightarrow> Ok (int (length s))
        | _ \<Rightarrow> Raise (mem_error no_such_file_or_directory p '''')),
     fs_space = (\<lambda>w p. Ok (400, 1000)), fs_entries = mem_entries, fs_unique_path = mem_unique,
     fs_create_directory = mem_create_directory, fs_create_directories = mem_create_directory,
     fs_remove_all = mem_remove_all, fs_rename = mem_rename, fs_copy_file = mem_copy_file,
     fs_copy_directory = mem_copy_directory, fs_strerror = (\<lambda>e. ''error''),
     mime_type_name = (\<lambda>p. Some ''text/plain'')\<rparr>"

text \<open>What a run leaves alone: the entries outside the root.\<close>

definition mem_outside :: "string \<Rightarrow> mem \<Rightarrow> mem" where
  "mem_outside root w = filter (\<lambda>(p, _). \<not> inside root p) w"

lemma mem_fs_sel [simp]:
  "path_filename mem_fs = mem_filename" "path_parent mem_fs = mem_parent" "path_append mem_fs = mem_append"
  "fs_canonical mem_fs = mem_canonical" "fs_status mem_fs = mem_status"
  "fs_mtime mem_fs = (\<lambda>w p. Ok (0, 5))"
  "fs_file_size mem_fs = (\<lambda>w p. case map_of w p of Some (Mem_file s) \<Rightarrow> Ok (int (length s))
     | _ \<Rightarrow> Raise (mem_error no_such_file_or_directory p ''''))"
  "fs_space mem_fs = (\<lambda>w p. Ok (400, 1000))" "fs_entries mem_fs = mem_entries"
  "fs_unique_path mem_fs = mem_unique" "fs_create_directory mem_fs = mem_create_directory"
  "fs_create_directories mem_fs = mem_create_directory" "fs_remove_all mem_fs = mem_remove_all"
  "fs_rename mem_fs = mem_rename" "fs_copy_file mem_fs = mem_copy_file"
  "fs_copy_directory mem_fs = mem_copy_directory" "mime_type_name mem_fs = (\<lambda>p. Some ''text/plain'')"
  by (simp_all add: mem_fs_def)

lemma inside_trans: "inside p q \<Longrightarrow> inside root p \<Longrightarrow> inside root q"
  by (auto simp: inside_def starts_with_iff)

lemma inside_append: "inside root d \<Longrightarrow> inside root (mem_append d n)"
proof -
  have "starts_with (mem_append d n) (d @ ''/'')"
    by (cases n) (auto simp: mem_append_def starts_with_iff)
  then show "inside root d \<Longrightarrow> inside root (mem_append d n)"
    using inside_trans [of d "mem_append d n" root] by (simp add: inside_def)
qed

lemma proper_no_slash:
  assumes "n \<notin> {'''', ''.'', ''..''}" and "CHR ''/'' \<notin> set n"
  shows "proper_name mem_fs n"
proof -
  have "dropWhile (\<lambda>c. c \<noteq> CHR ''/'') (rev n) = []"
    using assms(2) by (subst dropWhile_eq_Nil_conv) auto
  then have "mem_parent n = ''''" unfolding mem_parent_def by (simp only: list.case if_cancel)
  moreover have "takeWhile (\<lambda>c. c \<noteq> CHR ''/'') (rev n) = rev n"
    using assms(2) by (subst takeWhile_eq_all_conv) auto
  then have "mem_filename n = n" unfolding mem_filename_def by (simp only: rev_rev_ident) simp
  ultimately show ?thesis using assms(1) by (simp add: proper_name_def)
qed

lemma mem_filename_proper:
  assumes "mem_filename q \<notin> {'''', ''.'', ''..''}"
  shows "proper_name mem_fs (mem_filename q)"
proof (cases "q = ''/''")
  case True
  then show ?thesis by (simp add: proper_name_def mem_parent_def mem_filename_def)
next
  case False
  then have "CHR ''/'' \<notin> set (mem_filename q)"
    by (auto simp: mem_filename_def dest: set_takeWhileD)
  with assms show ?thesis by (rule proper_no_slash)
qed

lemma mem_key_length: "map_of w p = Some v \<Longrightarrow> length p \<le> sum_list (map (length \<circ> fst) w)"
  by (induction w) (auto split: if_splits)

lemma mem_unique_fresh: "map_of w (mem_append d (mem_unique w TMP_PATTERN)) = None"
proof (rule ccontr)
  assume "map_of w (mem_append d (mem_unique w TMP_PATTERN)) \<noteq> None"
  then obtain v where "map_of w (mem_append d (mem_unique w TMP_PATTERN)) = Some v" by blast
  then have "length (mem_append d (mem_unique w TMP_PATTERN)) \<le> sum_list (map (length \<circ> fst) w)"
    by (rule mem_key_length)
  then show False by (simp add: mem_append_def mem_unique_def TMP_PATTERN_def TMPFILE_PREFIX_def)
qed

lemma mem_fs_names: "fs_names mem_fs"
proof -
  have longer: "length d < length (mem_append d n)" for d n
    by (cases n) (auto simp: mem_append_def)
  have "proper_name mem_fs (mem_unique w TMP_PATTERN)" for w
    by (rule proper_no_slash) (auto simp: mem_unique_def TMP_PATTERN_def TMPFILE_PREFIX_def)
  then show ?thesis
    unfolding fs_names_def using longer mem_unique_fresh
    by (auto simp: mem_entries_def mem_status_def split: if_splits intro: mem_filename_proper)
qed

lemma mem_inside_dir: "inside_dir mem_fs root w d \<longleftrightarrow> map_of w d \<noteq> None \<and> inside root d"
  by (simp add: inside_dir_def mem_canonical_def)

lemma mem_outside_add: "inside root p \<Longrightarrow> mem_outside root (w @ [(p, node)]) = mem_outside root w"
  by (simp add: mem_outside_def)

lemma mem_makes_entries:
  assumes "\<And>q w. snd (m q w) = w \<or> (\<exists>node. snd (m q w) = w @ [(q, node)])"
  shows "makes_entries mem_fs root (\<lambda>w. mem_outside root w = w0) m"
  unfolding makes_entries_def
proof (intro allI impI conjI)
  fix w d n d'
  assume d: "inside_dir mem_fs root w d" and w: "mem_outside root w = w0"
  have "inside root (path_append mem_fs d n)"
    using d inside_append [of root d n] by (simp add: mem_inside_dir)
  then show "mem_outside root (snd (m (path_append mem_fs d n) w)) = w0"
    using assms [of "path_append mem_fs d n" w] w by (auto simp: mem_outside_add)
  assume "inside_dir mem_fs root w d'"
  then show "inside_dir mem_fs root (snd (m (path_append mem_fs d n) w)) d'"
    using assms [of "path_append mem_fs d n" w] by (auto simp: mem_inside_dir map_add_def)
qed

lemma mem_make_shape: "snd (mem_make node q w) = w \<or> (\<exists>node. snd (mem_make node q w) = w @ [(q, node)])"
  by (auto simp: mem_make_def)

lemma mem_ops_shape:
  "snd (mem_create_directory q w) = w \<or> (\<exists>node. snd (mem_create_directory q w) = w @ [(q, node)])"
  "snd (mem_copy_file p q w) = w \<or> (\<exists>node. snd (mem_copy_file p q w) = w @ [(q, node)])"
  "snd (mem_copy_directory p q w) = w \<or> (\<exists>node. snd (mem_copy_directory p q w) = w @ [(q, node)])"
  by (auto simp: mem_create_directory_def mem_copy_file_def mem_copy_directory_def mem_make_def
      split: option.splits mem_node.splits)

lemma mem_made:
  "mem_copy_directory p q w = (Ok (), w') \<Longrightarrow> map_of w' q \<noteq> None"
  "mem_create_directory q w = (Ok (), w') \<Longrightarrow> map_of w' q \<noteq> None"
  by (auto simp: mem_create_directory_def mem_copy_directory_def mem_make_def map_add_def
      split: if_splits option.splits)

lemma mem_remove_outside: "inside root p \<Longrightarrow> mem_outside root (snd (mem_remove_all p w)) = mem_outside root w"
  unfolding mem_outside_def mem_remove_all_def by (auto intro!: filter_cong dest: inside_trans)

lemma mem_rename_outside:
  assumes p: "inside root p" and q: "inside root q"
  shows "mem_outside root (snd (mem_rename p q w)) = mem_outside root w"
proof -
  let ?r = "\<lambda>(r, node). (if inside p r then q @ drop (length p) r else r, node)"
  have moved: "inside root (q @ drop (length p) r)" if "inside p r" for r
  proof -
    have "inside q (q @ drop (length p) r)" using that by (auto simp: inside_def starts_with_iff)
    then show ?thesis using q by (rule inside_trans)
  qed
  have "mem_outside root (map ?r w) = mem_outside root w"
    by (induction w) (auto simp: mem_outside_def dest: moved inside_trans [OF _ p] split: if_splits)
  then show ?thesis by (simp add: mem_rename_def)
qed

lemma mem_fs_confines: "fs_confines mem_fs root (\<lambda>w. mem_outside root w = w0)"
  unfolding fs_confines_def
proof (intro conjI allI impI)
  fix w w' d n src
  assume "inside_dir mem_fs root w d" and "fs_copy_directory mem_fs src (path_append mem_fs d n) w = (Ok (), w') \<or>
         fs_create_directories mem_fs (path_append mem_fs d n) w = (Ok (), w') \<and>
           (\<forall>st. fs_status mem_fs w (path_append mem_fs d n) = Ok st \<longrightarrow> st_type st = file_not_found)"
  then show "inside_dir mem_fs root w' (path_append mem_fs d n)"
    using mem_made inside_append by (auto simp: mem_inside_dir)
next
  fix w p d n
  assume "mem_outside root w = w0" and "inside_dir mem_fs root w p" and "inside_dir mem_fs root w d"
  then show "mem_outside root (snd (fs_rename mem_fs p (path_append mem_fs d n) w)) = w0"
    using mem_rename_outside inside_append by (simp add: mem_inside_dir)
qed (simp_all add: mem_inside_dir mem_remove_outside mem_makes_entries mem_ops_shape)

end
