(* ===== verification/LocalProviderProps.thy ===== *)
theory LocalProviderProps
  imports MemFs
begin

text \<open>
  What the local provider promises, over every file system with the stated behaviour; the
  witnesses run it on the file system in memory.
\<close>

section \<open>Confinement\<close>


definition sample_mem :: mem where
  "sample_mem = [(''/r'', Mem_dir), (''/r/a'', Mem_file ''hello''), (''/r/d'', Mem_dir),
     (''/r/d/.storage-framework-x'', Mem_file ''''), (''/r/d/b'', Mem_file ''bb''), (''/etc'', Mem_dir)]"


section \<open>Rejected ids\<close>

definition refused :: "('w, StorageException, 'a) sx \<Rightarrow> 'w \<Rightarrow> bool" where
  "refused m w \<longleftrightarrow> (\<exists>e. m w = (Raise e, w))"

lemma refused_first:
  assumes "\<exists>e. m w = (Raise e, w)"
  shows "refused (invoke_async F meth (sx_bind m f)) w"
  using assms by (auto simp: refused_def invoke_async_def run_simps)

lemma invalid_id_raises:
  assumes "fs_canonical F w item_id \<noteq> Abort"
    and "\<not> (fs_canonical F w item_id = Ok item_id \<and> inside root item_id)"
  shows "\<exists>e. throw_if_not_valid F root meth item_id w = (Raise e, w)"
  using assms
  by (cases "fs_canonical F w item_id") (auto simp: throw_if_not_valid_def run_simps inside_def)

text \<open>
  An id that is not canonical (it holds \<open>..\<close> or a symbolic link, or does not exist) or
  that is neither the root nor below it is refused by every operation before anything is
  read or changed.
\<close>

theorem foreign_ids_refused:
  assumes "fs_canonical F w item_id \<noteq> Abort"
    and "\<not> (fs_canonical F w item_id = Ok item_id \<and> inside root item_id)"
  shows "refused (LocalProvider_list F root item_id token) w \<and>
         refused (LocalProvider_lookup F root item_id name) w \<and>
         refused (LocalProvider_metadata F root item_id) w \<and>
         refused (LocalProvider_create_folder F root item_id name) w \<and>
         refused (LocalProvider_delete_item F root item_id) w \<and>
         refused (LocalProvider_move F root item_id parent_id name) w \<and>
         refused (LocalProvider_copy F root item_id parent_id name) w"
proof -
  have r: "\<exists>e. throw_if_not_valid F root meth item_id w = (Raise e, w)" for meth
    by (rule invalid_id_raises [OF assms])
  show ?thesis
    unfolding LocalProvider_list_def LocalProvider_lookup_def LocalProvider_metadata_def
      LocalProvider_create_folder_def LocalProvider_delete_item_def LocalProvider_move_def
      LocalProvider_copy_def
    by (intro conjI refused_first r)
qed

theorem foreign_ids_refused_witness:
  "refused (LocalProvider_delete_item mem_fs ''/r'' ''/etc'') sample_mem \<and>
   fst (LocalProvider_delete_item mem_fs ''/r'' ''/r/a'' sample_mem) = Ok ()"
proof
  show "refused (LocalProvider_delete_item mem_fs ''/r'' ''/etc'') sample_mem"
    using foreign_ids_refused [of mem_fs sample_mem "''/etc''" "''/r''"]
    by (simp add: sample_mem_def mem_canonical_def inside_def starts_with_def)
  show "fst (LocalProvider_delete_item mem_fs ''/r'' ''/r/a'' sample_mem) = Ok ()"
    by (simp add: LocalProvider_delete_item_def invoke_async_def throw_if_not_valid_def fsq_def fsm_def
        run_simps mem_canonical_def mem_remove_all_def starts_with_def sample_mem_def)
qed

section \<open>Listing\<close>

lemma snd_item_at [simp]: "snd (item_at F root meth p w) = w"
  using keepsD [OF keeps_item_at [of "\<lambda>x. x = w" F root meth p], of w] by simp

lemma item_at_cases:
  obtains it where "item_at F root meth p w = (Ok it, w)"
  | e where "item_at F root meth p w = (Raise e, w)"
  | "item_at F root meth p w = (Abort, w)"
  using snd_item_at [of F root meth p w] by (metis outcome.exhaust prod.collapse)

text \<open>The items that a listing shows of some entries.\<close>

definition shown :: "'w fsapi \<Rightarrow> string \<Rightarrow> 'w \<Rightarrow> string list \<Rightarrow> provider_item list" where
  "shown F root w es =
     concat (map (\<lambda>p. if is_reserved_path F p then []
       else case fst (item_at F root ''list()'' p w) of Ok it \<Rightarrow> [it] | _ \<Rightarrow> []) es)"

lemma list_entries_Ok:
  "list_entries F root ''list()'' es w = (Ok items, w') \<Longrightarrow> w' = w \<and> items = shown F root w es"
proof (induction es arbitrary: items w')
  case Nil
  then show ?case by (simp add: shown_def run_simps)
next
  case (Cons p es)
  show ?case
  proof (cases "is_reserved_path F p")
    case True
    with Cons show ?thesis by (simp add: shown_def)
  next
    case False
    show ?thesis
      by (rule item_at_cases [of F root "''list()''" p w]; insert Cons.prems False)
        (auto simp: run_simps shown_def split: prod.splits outcome.splits dest!: Cons.IH)
  qed
qed

lemma list_Ok:
  assumes "LocalProvider_list F root item_id token w = (Ok (items, next_token), w')"
  shows "\<exists>es. fs_entries F w item_id = Ok es \<and> items = shown F root w es \<and> next_token = '''' \<and> w' = w"
proof -
  have es: "hoare (\<lambda>_. True) Q (list_entries F root ''list()'' es)
      (\<lambda>items s. Q s \<and> items = shown F root s es)" for Q es
    by (auto simp: hoare_def dest: list_entries_Ok)
  have is_dir: "hoare (\<lambda>_. True) Q (fs_is_directory F item_id) (\<lambda>_. Q)" for Q
    by (rule hoare_reads) (simp_all add: keeps_fs_is_directory)
  have "hoare (\<lambda>_. True) (\<lambda>s. s = w) (LocalProvider_list F root item_id token)
      (\<lambda>r s. \<exists>es. fs_entries F w item_id = Ok es \<and> r = (shown F root w es, '''') \<and> s = w)"
    unfolding LocalProvider_list_def
    by (rule hoare_invoke_async)
      ((rule hoare_bind hoare_valid is_dir hoare_throw_if hoare_fsq es, simp?)+,
       auto simp: hoare_def sx_return_def)
  then show ?thesis using assms by (auto simp: hoare_def)
qed

text \<open>
  A successful listing shows every entry of the folder, in the order of the directory,
  except the provider's own temporary files and the entries that are neither files nor
  folders or cannot be read; it is one page, and it changes nothing.
\<close>

theorem list_shows_entries:
  assumes "LocalProvider_list F root item_id token w = (Ok (items, next_token), w')"
  shows "\<exists>es. fs_entries F w item_id = Ok es \<and> items = shown F root w es \<and> next_token = '''' \<and> w' = w"
  using assms by (rule list_Ok)

lemmas mem_defs = mem_canonical_def mem_status_def mem_entries_def mem_filename_def mem_parent_def
  mem_append_def mem_make_def mem_create_directory_def mem_copy_file_def mem_copy_directory_def
  mem_rename_def mem_remove_all_def PATH_MAX_def INT64_MIN_def INT64_MAX_def sample_mem_def

theorem list_shows_entries_witness:
  "\<exists>es. fs_entries mem_fs sample_mem ''/r/d'' = Ok es \<and>
     map pi_item_id (shown mem_fs ''/r'' sample_mem es) = [''/r/d/b'']"
proof -
  let ?r = "LocalProvider_list mem_fs ''/r'' ''/r/d'' '''' sample_mem"
  have "case ?r of (Ok (items, _), w) \<Rightarrow> map pi_item_id items = [''/r/d/b''] | _ \<Rightarrow> False"
    by code_simp
  then obtain items t w' where r: "?r = (Ok (items, t), w')" and ids: "map pi_item_id items = [''/r/d/b'']"
    by (auto split: prod.splits outcome.splits)
  obtain es where "fs_entries mem_fs sample_mem ''/r/d'' = Ok es" and "items = shown mem_fs ''/r'' sample_mem es"
    using list_shows_entries [OF r] by (elim exE conjE)
  then show ?thesis using ids by metis
qed

section \<open>Protected targets\<close>

text \<open>
  The root cannot be deleted or moved, and neither folder creation nor a move nor a folder
  copy replaces something that exists: the client gets a permission error, or an error that
  names the existing item, and nothing has changed.
\<close>

theorem protected_targets:
  assumes root: "fs_canonical F w root = Ok root"
    and item: "fs_canonical F w item_id = Ok item_id" "inside root item_id"
    and parent: "fs_canonical F w parent_id = Ok parent_id" "inside root parent_id"
    and name: "proper_name F name" "\<not> is_reserved_path F (path_filename F name)"
    and target: "fs_status F w (path_append F parent_id name) = Ok target"
    and st: "fs_status F w item_id = Ok st"
  shows "LocalProvider_delete_item F root root w =
           (Raise (PermissionException ''delete_item(): cannot delete root''), w) \<and>
         (if st_type target = file_not_found then
            LocalProvider_move F root root parent_id name w =
              (Raise (PermissionException ''move(): cannot move root''), w)
          else
            LocalProvider_create_folder F root parent_id name w =
              (Raise (ExistsException (''create_folder(): \"'' @ path_append F parent_id name
                 @ ''\" exists already'') (path_append F parent_id name) name), w) \<and>
            LocalProvider_move F root item_id parent_id name w =
              (Raise (ExistsException (''move(): \"'' @ path_append F parent_id name
                 @ ''\" exists already'') (path_append F parent_id name) name), w) \<and>
            (st_type st = directory_file \<longrightarrow> LocalProvider_copy F root item_id parent_id name w =
              (Raise (ExistsException (''copy(): \"'' @ path_append F parent_id name
                 @ ''\" exists already'') (path_append F parent_id name) name), w)))"
proof -
  have [simp]: "throw_if_not_valid F root meth item_id w = (Ok (), w)"
    "throw_if_not_valid F root meth parent_id w = (Ok (), w)"
    "throw_if_not_valid F root meth root w = (Ok (), w)"
    "sanitize F meth name w = (Ok name, w)" for meth
    using root item parent name
    by (simp_all add: throw_if_not_valid_Ok sanitize_Ok proper_name_def inside_def)
  note ops = LocalProvider_delete_item_def LocalProvider_move_def LocalProvider_create_folder_def
    LocalProvider_copy_def
  show ?thesis
    using root target st
    by (simp add: ops invoke_async_def run_simps fsq_def fs_exists_def fs_is_directory_def Let_def)
qed

theorem protected_targets_witness:
  "LocalProvider_delete_item mem_fs ''/r'' ''/r'' sample_mem =
     (Raise (PermissionException ''delete_item(): cannot delete root''), sample_mem) \<and>
   LocalProvider_move mem_fs ''/r'' ''/r/d'' ''/r'' ''a'' sample_mem =
     (Raise (ExistsException ''move(): \"/r/a\" exists already'' ''/r/a'' ''a''), sample_mem)"
  using protected_targets [of mem_fs sample_mem "''/r''" "''/r/d''" "''/r''" "''a''"
      "\<lparr>st_type = regular_file, st_owner_write = True, st_owner_exe = False\<rparr>"
      "\<lparr>st_type = directory_file, st_owner_write = True, st_owner_exe = True\<rparr>"]
  by (simp add: mem_defs inside_def starts_with_def proper_name_def is_reserved_path_def TMPFILE_PREFIX_def)

section \<open>Items\<close>

text \<open>The metadata of an item of the local provider, in key order; \<open>sz\<close> is the size of a file.\<close>

definition local_item ::
  "'w fsapi \<Rightarrow> string \<Rightarrow> file_status \<Rightarrow> string \<Rightarrow> string \<Rightarrow> string list \<Rightarrow> string \<Rightarrow> ItemType \<Rightarrow>
     (string \<times> MetadataValue) list \<Rightarrow> int \<Rightarrow> int \<Rightarrow> provider_item" where
  "local_item F item_id st mtime name parents etag type sz a c =
     \<lparr>pi_item_id = item_id, pi_parent_ids = parents, pi_name = name, pi_etag = etag, pi_type = type,
      pi_metadata =
        [(CONTENT_TYPE, MV_string (get_content_type F item_id type)),
         (FREE_SPACE_BYTES, MV_int64 (to_int64 a)), (LAST_MODIFIED_TIME, MV_string mtime)] @ sz @
        [(USED_SPACE_BYTES, MV_int64 (to_int64 (c - a))),
         (WRITABLE, MV_int64 (if type = IT_file then (if st_owner_write st then 1 else 0)
            else if st_owner_write st \<and> st_owner_exe st then 1 else 0))]\<rparr>"


lemma local_metadata:
  assumes "sz = [] \<or> sz = [(SIZE_IN_BYTES, v)]"
  shows "map_emplace WRITABLE e (map_emplace CONTENT_TYPE d (map_emplace LAST_MODIFIED_TIME c
      (map_emplace USED_SPACE_BYTES b (map_emplace FREE_SPACE_BYTES a sz)))) =
     [(CONTENT_TYPE, d), (FREE_SPACE_BYTES, a), (LAST_MODIFIED_TIME, c)] @ sz @ [(USED_SPACE_BYTES, b), (WRITABLE, e)]"
  using assms by (elim disjE; hypsubst) (simp_all add: map_emplace_def metadata_key_defs)

lemma finish_item_Ok:
  assumes "finish_item F item_id st mtime name parents etag type sz w = (Ok it, w')"
    and "sz = [] \<or> sz = [(SIZE_IN_BYTES, v)]"
  shows "\<exists>a c. fs_space F w item_id = Ok (a, c) \<and>
           it = local_item F item_id st mtime name parents etag type sz a c"
proof (cases "fs_space F w item_id")
  case (Ok ac)
  then obtain a c where "fs_space F w item_id = Ok (a, c)" by (cases ac) simp
  with assms(1) show ?thesis
    by (simp add: finish_item_def fsq_def run_simps Let_def local_metadata [OF assms(2)] local_item_def)
      (auto simp: provider_item.defs)
qed (use assms(1) in \<open>simp_all add: finish_item_def fsq_def run_simps\<close>)

lemma to_int64_id: "0 \<le> i \<Longrightarrow> i < 2 ^ 63 \<Longrightarrow> to_int64 i = i"
  by (simp add: to_int64_def)

text \<open>What an item of the local provider is, by the type of the file.\<close>

lemma item_at_Ok:
  assumes "item_at F root meth p w = (Ok it, w')"
  obtains st mtime a c where "fs_status F w p = Ok st" and "fs_space F w p = Ok (a, c)" and
    "(\<exists>size. fs_file_size F w p = Ok size \<and>
        it = local_item F p st (make_iso_date mtime) (path_filename F p) [path_parent F p]
          (int_to_string mtime) IT_file [(SIZE_IN_BYTES, MV_int64 (to_int64 size))] a c) \<or>
     p = root \<and> it = local_item F p st (make_iso_date mtime) ''/'' [] '''' IT_root [] a c \<or>
     p \<noteq> root \<and> it = local_item F p st (make_iso_date mtime) (path_filename F p) [path_parent F p]
        '''' IT_folder [] a c"
proof -
  from assms obtain st where st: "fs_status F w p = Ok st"
    and mk: "make_item F root meth p st w = (Ok it, w')"
    by (cases "fs_status F w p") (auto simp: item_at_def fsq_def run_simps)
  from mk obtain mtime where t: "get_mtime_nsecs F meth p w = (Ok mtime, w)"
    by (auto simp: make_item_def elim!: sx_bind_OkE) (auto simp: get_mtime_nsecs_def run_simps)
  have size: "fsq (\<lambda>w. fs_file_size F w p) w = (map_raise LP_fs (fs_file_size F w p), w)"
    by (simp add: fsq_def run_simps)
  have emplace: "map_emplace SIZE_IN_BYTES v [] = [(SIZE_IN_BYTES, v)]" for v :: MetadataValue
    by (simp add: map_emplace_def)
  show thesis
    using mk t st size
    by (cases "st_type st"; cases "fs_file_size F w p")
      (auto simp: make_item_def Let_def sx_bind_run throw_storage_def sx_throw_run emplace
        split: if_splits dest!: finish_item_Ok intro: that)
qed

lemma known_local_keys:
  "map_of known_metadata CONTENT_TYPE = Some MT_string"
  "map_of known_metadata FREE_SPACE_BYTES = Some non_zero_pos_int64"
  "map_of known_metadata LAST_MODIFIED_TIME = Some iso_8601_date_time"
  "map_of known_metadata SIZE_IN_BYTES = Some non_zero_pos_int64"
  "map_of known_metadata USED_SPACE_BYTES = Some non_zero_pos_int64"
  "map_of known_metadata WRITABLE = Some MT_boolean"
  by (simp_all add: known_metadata_def metadata_key_defs)

lemma local_item_valid:
  assumes date: "parse_date mtime = Some UTC" and p: "p \<noteq> []"
    and a: "0 \<le> a" "a \<le> c" "c < 2 ^ 63"
    and parents: "type = IT_root \<longleftrightarrow> parents = []" "[] \<notin> set parents"
    and name: "type \<noteq> IT_root \<Longrightarrow> name \<noteq> []"
    and sz: "if type = IT_file then etag \<noteq> [] \<and> sz = [(SIZE_IN_BYTES, MV_int64 k)] \<and> 0 \<le> k
               else sz = []"
  shows "valid_metadata parse_date (client_view (local_item F p st mtime name parents etag type sz a c))"
proof -
  have c: "to_int64 a = a" "to_int64 (c - a) = c - a" using a by (simp_all add: to_int64_id)
  show ?thesis
    using assms
    by (auto simp: valid_metadata_def client_view_def local_item_def known_local_keys valid_value_def c
        split: if_splits)
qed

lemma item_valid:
  assumes item: "item_at F root meth p w = (Ok it, w')"
    and path: "p \<noteq> []" "path_filename F p \<noteq> []" "path_parent F p \<noteq> []"
    and size: "\<forall>s. fs_file_size F w p = Ok s \<longrightarrow> 0 \<le> s \<and> s < 2 ^ 63"
    and space: "\<forall>a c. fs_space F w p = Ok (a, c) \<longrightarrow> 0 \<le> a \<and> a \<le> c \<and> c < 2 ^ 63"
    and date: "\<forall>t. parse_date (make_iso_date t) = Some UTC"
  shows "validate parse_date caller (client_view it) = Ok ()"
  unfolding validate_Ok_iff
  by (rule item_at_Ok [OF item], use path size space date in
      \<open>auto intro!: local_item_valid simp: to_int64_id\<close>)



section \<open>Termination of the recursive copy\<close>

text \<open>The path grows with every level, and the system refuses to read a directory by a path
  that is too long; no call aborts the process.\<close>

definition bounded_paths :: "'w fsapi \<Rightarrow> bool" where
  "bounded_paths F \<longleftrightarrow> (\<forall>w p es. fs_entries F w p = Ok es \<longrightarrow>
     length p \<le> PATH_MAX \<and> (\<forall>e \<in> set es. length p < length e))"

definition no_aborts :: "'w fsapi \<Rightarrow> bool" where
  "no_aborts F \<longleftrightarrow> (\<forall>w p q. fs_status F w p \<noteq> Abort \<and> fs_entries F w p \<noteq> Abort \<and>
     fst (fs_copy_file F p q w) \<noteq> Abort \<and> fst (fs_copy_directory F p q w) \<noteq> Abort)"

lemma sx_bind_query_cong:
  "(\<And>w a. q w = Ok a \<Longrightarrow> f a = g a) \<Longrightarrow> sx_bind (fsq q) f = sx_bind (fsq q) g"
proof (rule ext)
  fix w
  assume eq: "\<And>w a. q w = Ok a \<Longrightarrow> f a = g a"
  show "sx_bind (fsq q) f w = sx_bind (fsq q) g w"
    by (cases "q w") (simp_all add: fsq_def run_simps eq)
qed

lemma sx_for_cong: "(\<And>x. x \<in> set xs \<Longrightarrow> f x = g x) \<Longrightarrow> sx_for xs f = sx_for xs g"
  by (induction xs) simp_all

lemma copy_depth_irrelevant:
  assumes F: "bounded_paths F"
  shows "PATH_MAX + 2 \<le> k + length source \<Longrightarrow> 0 < k \<Longrightarrow>
    copy_recursively F (k + j) source target = copy_recursively F k source target"
proof (induction k arbitrary: source target)
  case (Suc k)
  have entries: "sx_bind (fsq (\<lambda>w. fs_entries F w source)) (\<lambda>es. sx_for es (\<lambda>e.
        copy_recursively F (k + j) e (path_append F target (path_filename F e)))) =
      sx_bind (fsq (\<lambda>w. fs_entries F w source)) (\<lambda>es. sx_for es (\<lambda>e.
        copy_recursively F k e (path_append F target (path_filename F e))))"
  proof (rule sx_bind_query_cong, rule sx_for_cong)
    fix w es e
    assume "fs_entries F w source = Ok es" and "e \<in> set es"
    with F have "length source \<le> PATH_MAX" "length source < length e"
      by (auto simp: bounded_paths_def)
    with Suc.prems show "copy_recursively F (k + j) e (path_append F target (path_filename F e)) =
        copy_recursively F k e (path_append F target (path_filename F e))"
      by (intro Suc.IH) auto
  qed
  show ?case unfolding add_Suc copy_recursively.simps(2) entries ..
qed simp

definition aborts_never :: "('w, 'e, 'a) sx \<Rightarrow> bool" where
  "aborts_never m \<longleftrightarrow> (\<forall>w. fst (m w) \<noteq> Abort)"

lemma aborts_never_bind:
  assumes "aborts_never m" and "\<And>w a t. m w = (Ok a, t) \<Longrightarrow> aborts_never (f a)"
  shows "aborts_never (sx_bind m f)"
  unfolding aborts_never_def
proof
  fix w
  show "fst (sx_bind m f w) \<noteq> Abort"
  proof (cases "m w")
    case (Pair r t)
    have r: "r \<noteq> Abort" using assms(1) Pair unfolding aborts_never_def by (metis fst_conv)
    have "fst (f a t) \<noteq> Abort" if "r = Ok a" for a
      using assms(2) Pair that unfolding aborts_never_def by blast
    with r Pair show ?thesis by (cases r) (simp_all add: sx_bind_def)
  qed
qed

lemma aborts_never_for: "(\<And>x. x \<in> set xs \<Longrightarrow> aborts_never (f x)) \<Longrightarrow> aborts_never (sx_for xs f)"
proof (induction xs)
  case Nil
  show ?case by (simp add: aborts_never_def sx_return_def)
qed (auto intro!: aborts_never_bind)

lemma aborts_never_fsq: "(\<And>w. q w \<noteq> Abort) \<Longrightarrow> aborts_never (fsq q)"
proof -
  assume q: "\<And>w. q w \<noteq> Abort"
  have "map_raise LP_fs (q w) \<noteq> Abort" for w using q [of w] by (cases "q w") simp_all
  then show "aborts_never (fsq q)" by (simp add: aborts_never_def fsq_def run_simps)
qed

lemma aborts_never_fsm: "(\<And>w. fst (m w) \<noteq> Abort) \<Longrightarrow> aborts_never (fsm m)"
  unfolding aborts_never_def fsm_def
  by (auto simp: run_simps split: prod.splits outcome.splits) (metis fst_conv)

lemma fsq_Ok: "fsq q w = (Ok a, t) \<Longrightarrow> q w = Ok a"
  by (cases "q w") (simp_all add: fsq_def run_simps)

lemma copy_no_abort:
  assumes F: "bounded_paths F" and A: "no_aborts F"
  shows "PATH_MAX + 2 \<le> k + length source \<Longrightarrow> 0 < k \<Longrightarrow> aborts_never (copy_recursively F k source target)"
proof (induction k arbitrary: source target)
  case (Suc k)
  have rec: "aborts_never (copy_recursively F k e (path_append F target (path_filename F e)))"
    if "fs_entries F w source = Ok es" and "e \<in> set es" for w es e
    using F that Suc.prems by (intro Suc.IH) (fastforce simp: bounded_paths_def)+
  have ret: "aborts_never (sx_return ())" by (simp add: aborts_never_def sx_return_def)
  show ?case
    using A rec
    by (auto simp: no_aborts_def intro!: ret aborts_never_bind aborts_never_for aborts_never_fsq
        aborts_never_fsm dest!: fsq_Ok)
qed simp

text \<open>
  C39. The recursive copy ends: on every source path its recursion is no deeper than the bound
  that the model uses (a larger bound gives the same run), and it never exhausts the bound.
\<close>

theorem copy_recursively_ends:
  assumes "bounded_paths F" and "no_aborts F" and "source \<noteq> ''''"
  shows "(\<forall>j. copy_recursively F (Suc PATH_MAX + j) source target = copy_recursively F (Suc PATH_MAX) source target) \<and>
         fst (copy_recursively F (Suc PATH_MAX) source target w) \<noteq> Abort"
proof -
  have len: "PATH_MAX + 2 \<le> Suc PATH_MAX + length source" using assms(3) by (cases source) simp_all
  show ?thesis
  proof (intro conjI allI)
    show "copy_recursively F (Suc PATH_MAX + j) source target = copy_recursively F (Suc PATH_MAX) source target" for j
      by (rule copy_depth_irrelevant [OF assms(1) len]) simp
    have "aborts_never (copy_recursively F (Suc PATH_MAX) source target)"
      by (rule copy_no_abort [OF assms(1,2) len]) simp
    then show "fst (copy_recursively F (Suc PATH_MAX) source target w) \<noteq> Abort"
      by (simp only: aborts_never_def not_False_eq_True simp_thms)
  qed
qed

lemma mem_bounded_paths: "bounded_paths mem_fs"
proof -
  have "length p < length (mem_append p n)" for p n by (cases n) (auto simp: mem_append_def)
  then show ?thesis
    by (auto simp: bounded_paths_def mem_entries_def PATH_MAX_def split: if_splits) metis
qed

lemma mem_no_aborts: "no_aborts mem_fs"
  by (auto simp: no_aborts_def mem_status_def mem_entries_def mem_copy_file_def mem_copy_directory_def
      mem_make_def split: option.splits mem_node.splits)

theorem copy_recursively_ends_witness:
  "fst (copy_recursively mem_fs (Suc PATH_MAX) ''/r/d'' ''/r/e'' sample_mem) \<noteq> Abort"
  using copy_recursively_ends [OF mem_bounded_paths mem_no_aborts, of "''/r/d''"]
  by (simp only: list.distinct not_False_eq_True simp_thms)

section \<open>Copying a file onto an existing one\<close>

text \<open>
  For a file the existence of the target is left to \<open>copy_file\<close>, whose error carries the
  source as its first path: the error that the client sees names the source.
\<close>

lemma copy_file_exists_names_source:
  assumes item: "fs_canonical F w item_id = Ok item_id" "inside root item_id"
    and parent: "fs_canonical F w parent_id = Ok parent_id" "inside root parent_id"
    and name: "proper_name F name" "\<not> is_reserved_path F (path_filename F name)"
    and st: "fs_status F w item_id = Ok st" "st_type st = regular_file"
    and exists: "fs_copy_file F item_id (path_append F parent_id name) w = (Raise e, w)"
      "fe_code e = file_exists" "fe_path1 e = item_id"
  shows "\<exists>msg. LocalProvider_copy F root item_id parent_id name w =
           (Raise (ExistsException msg item_id (path_filename F item_id)), w)"
proof -
  have [simp]: "throw_if_not_valid F root meth item_id w = (Ok (), w)"
    "throw_if_not_valid F root meth parent_id w = (Ok (), w)"
    "sanitize F meth name w = (Ok name, w)" for meth
    using item parent name by (simp_all add: throw_if_not_valid_Ok sanitize_Ok proper_name_def)
  show ?thesis
    using st exists
    by (simp add: LocalProvider_copy_def invoke_async_def run_simps fsq_def fsm_def fs_is_directory_def
        Let_def storage_exception_of_def)
qed

end
