(* ===== verification/JobImpl.thy ===== *)
theory JobImpl
  imports Errors
begin

text \<open>
  The provider's side of a transfer: the base classes \<open>UploadJobImpl\<close> and \<open>DownloadJobImpl\<close>
  (\<open>src/provider/internal/UploadJobImpl.cpp\<close>, \<open>DownloadJobImpl.cpp\<close>) and the upload that
  spools to a temporary file (\<open>TempfileUploadJobImpl.cpp\<close>). The two base classes have the
  same members, held in the record \<open>job_impl\<close>, which the concrete jobs extend. A descriptor
  is an \<open>int\<close>, -1 when it was given away or closed. \<open>completion_lock_\<close> is a \<open>std::mutex\<close>:
  locking it again while it is held is \<open>Abort\<close> (a deadlock). \<open>socketpair\<close> and \<open>strerror\<close> are
  parameters.
\<close>

section \<open>Futures and the common members\<close>

datatype 'v future = Fut_value 'v | Fut_error boost_exception_ptr

record 'v job_impl =
  ji_id :: string
  ji_read_socket :: int
  ji_write_socket :: int
  ji_closed :: "int list"            \<comment> \<open>descriptors this object has closed, latest first\<close>
  ji_locked :: bool                  \<comment> \<open>completion_lock_ is held\<close>
  ji_completed :: bool
  ji_promise :: "'v future option"   \<comment> \<open>completion_promise_, once it is satisfied\<close>
  ji_future_taken :: bool            \<comment> \<open>get_future() was called\<close>

text \<open>The constructor: \<open>socketpair\<close> gives two descriptors or an errno.\<close>

definition job_impl_init ::
  "(int, int \<times> int) outcome \<Rightarrow> (int \<Rightarrow> string) \<Rightarrow> string \<Rightarrow> (StorageException, 'v job_impl) outcome" where
  "job_impl_init socketpair safe_strerror job_id =
     (case socketpair of
        Raise error_code \<Rightarrow> Raise (ResourceException
          (''could not create socketpair: '' @ safe_strerror error_code) error_code)
      | Abort \<Rightarrow> Abort
      | Ok (r, w) \<Rightarrow> Ok \<lparr>ji_id = job_id, ji_read_socket = r, ji_write_socket = w, ji_closed = [],
          ji_locked = False, ji_completed = False, ji_promise = None, ji_future_taken = False\<rparr>)"

definition close_read_socket :: "('v, 'z) job_impl_scheme \<Rightarrow> ('v, 'z) job_impl_scheme" where
  "close_read_socket j =
     (if ji_read_socket j \<ge> 0
      then j\<lparr>ji_closed := ji_read_socket j # ji_closed j, ji_read_socket := -1\<rparr> else j)"

definition close_write_socket :: "('v, 'z) job_impl_scheme \<Rightarrow> ('v, 'z) job_impl_scheme" where
  "close_write_socket j =
     (if ji_write_socket j \<ge> 0
      then j\<lparr>ji_closed := ji_write_socket j # ji_closed j, ji_write_socket := -1\<rparr> else j)"

text \<open>The destructors close both sockets unless they were given away.\<close>

definition job_impl_destroy :: "('v, 'z) job_impl_scheme \<Rightarrow> ('v, 'z) job_impl_scheme" where
  "job_impl_destroy j = close_write_socket (close_read_socket j)"

definition take_write_socket :: "(('v, 'z) job_impl_scheme, thrown, int) sx" where
  "take_write_socket j =
     (if ji_write_socket j \<ge> 0 then (Ok (ji_write_socket j), j\<lparr>ji_write_socket := -1\<rparr>) else (Abort, j))"

definition take_read_socket :: "(('v, 'z) job_impl_scheme, thrown, int) sx" where
  "take_read_socket j =
     (if ji_read_socket j \<ge> 0 then (Ok (ji_read_socket j), j\<lparr>ji_read_socket := -1\<rparr>) else (Abort, j))"

text \<open>\<open>lock_guard<mutex> guard(completion_lock_)\<close> around an operation.\<close>

definition with_lock :: "(('v, 'z) job_impl_scheme, 'e, 'a) sx \<Rightarrow> (('v, 'z) job_impl_scheme, 'e, 'a) sx" where
  "with_lock m j =
     (if ji_locked j then (Abort, j)
      else case m (j\<lparr>ji_locked := True\<rparr>) of (r, j') \<Rightarrow> (r, j'\<lparr>ji_locked := False\<rparr>))"

text \<open>\<open>set_value\<close> and \<open>set_exception\<close> throw when the promise is satisfied already,
  \<open>get_future\<close> when it was called before; it gives the state of the promise.\<close>

definition set_promise :: "'v future \<Rightarrow> (('v, 'z) job_impl_scheme, thrown, unit) sx" where
  "set_promise v j =
     (if ji_promise j = None then (Ok (), j\<lparr>ji_promise := Some v\<rparr>)
      else (Raise (TStd ''promise_already_satisfied''), j))"

definition get_future :: "(('v, 'z) job_impl_scheme, thrown, 'v future option) sx" where
  "get_future j =
     (if ji_future_taken j then (Raise (TStd ''future_already_retrieved''), j)
      else (Ok (ji_promise j), j\<lparr>ji_future_taken := True\<rparr>))"

section \<open>Upload jobs\<close>

definition complete_with :: "'v future \<Rightarrow> (('v, 'z) job_impl_scheme, thrown, unit) sx" where
  "complete_with v = with_lock (\<lambda>j. set_promise v (j\<lparr>ji_completed := True\<rparr>))"

definition upload_report_error :: "thrown \<Rightarrow> (('v, 'z) job_impl_scheme, thrown, unit) sx" where
  "upload_report_error p j = complete_with (Fut_error (convert_exception_ptr p)) (close_read_socket j)"

text \<open>\<open>finish\<close> and \<open>cancel\<close> ask the concrete job, an argument, unless the job has completed.\<close>

definition upload_finish ::
  "(('v, 'z) job_impl_scheme, thrown, 'v future option) sx \<Rightarrow> (('v, 'z) job_impl_scheme, thrown, 'v future option) sx" where
  "upload_finish job_finish = with_lock (\<lambda>j. if ji_completed j then get_future j else job_finish j)"

definition upload_cancel ::
  "(('v, 'z) job_impl_scheme, thrown, unit future option) sx \<Rightarrow>
     (('v, 'z) job_impl_scheme, thrown, unit future option) sx" where
  "upload_cancel job_cancel =
     with_lock (\<lambda>j. if ji_completed j then (Ok (Some (Fut_value ())), j) else job_cancel j)"

section \<open>Download jobs\<close>

definition download_report_complete :: "((unit, 'z) job_impl_scheme, thrown, unit) sx" where
  "download_report_complete j = complete_with (Fut_value ()) (close_write_socket j)"

definition download_report_error :: "thrown \<Rightarrow> ((unit, 'z) job_impl_scheme, thrown, unit) sx" where
  "download_report_error p j = complete_with (Fut_error (convert_exception_ptr p)) (close_write_socket j)"

definition download_finish ::
  "((unit, 'z) job_impl_scheme, thrown, unit future option) sx \<Rightarrow>
     ((unit, 'z) job_impl_scheme, thrown, unit future option) sx" where
  "download_finish job_finish = with_lock (\<lambda>j. if ji_completed j then get_future j else job_finish j)"

definition download_cancel ::
  "((unit, 'z) job_impl_scheme, thrown, unit future option) sx \<Rightarrow>
     ((unit, 'z) job_impl_scheme, thrown, unit future option) sx" where
  "download_cancel job_cancel =
     with_lock (\<lambda>j. if ji_completed j then (Ok (Some (Fut_value ())), j) else job_cancel j)"

section \<open>The upload to a temporary file\<close>

text \<open>The temporary file is its contents and whether it is open; \<open>tu_available\<close> are the bytes
  that the socket has buffered. Writing is the parameter \<open>accept\<close>: from the contents so far
  and the data, the number of bytes written or -1.\<close>

record 'v tempfile_upload = "'v job_impl" +
  tu_tmpfile :: "(string \<times> bool) option"
  tu_file_name :: string
  tu_available :: string
  tu_descriptor :: int

text \<open>\<open>complete_init\<close>; \<open>opened\<close> is the result of \<open>tmpfile_->open()\<close>, whose call is the
  argument of \<open>assert\<close>.\<close>

definition tempfile_complete_init :: "bool \<Rightarrow> string \<Rightarrow> ('v tempfile_upload, thrown, unit) sx" where
  "tempfile_complete_init opened name j =
     (if \<not> opened then (Abort, j)
      else (Ok (), j\<lparr>tu_tmpfile := Some ('''', True), tu_file_name := name,
              tu_descriptor := ji_read_socket j, ji_read_socket := -1\<rparr>))"

definition tempfile_file_name :: "'v tempfile_upload \<Rightarrow> string" where
  "tempfile_file_name j = (case tu_tmpfile j of None \<Rightarrow> '''' | Some _ \<Rightarrow> tu_file_name j)"

text \<open>The loop of \<open>on_ready_read\<close>: buffers of 4096 bytes until nothing is available.\<close>

definition BUFFER_SIZE :: nat where "BUFFER_SIZE = 4096"

function read_loop :: "(string \<Rightarrow> string \<Rightarrow> int) \<Rightarrow> string \<Rightarrow> string \<Rightarrow> (thrown, string) outcome" where
  "read_loop accept available contents =
     (if available = '''' then Ok contents
      else let buffer = take BUFFER_SIZE available in
        if accept contents buffer = int (length buffer)
        then read_loop accept (drop BUFFER_SIZE available) (contents @ buffer)
        else Abort)"
  by pat_completeness auto
termination
  by (relation "measure (\<lambda>(accept, available, contents). length available)")
    (auto simp: BUFFER_SIZE_def)

declare read_loop.simps [simp del]

definition on_ready_read :: "(string \<Rightarrow> string \<Rightarrow> int) \<Rightarrow> ('v tempfile_upload, thrown, unit) sx" where
  "on_ready_read accept j =
     (case tu_tmpfile j of
        None \<Rightarrow> (Abort, j)
      | Some (contents, is_open) \<Rightarrow>
          (case read_loop (if is_open then accept else (\<lambda>_ _. -1)) (tu_available j) contents of
             Ok contents' \<Rightarrow> (Ok (), j\<lparr>tu_tmpfile := Some (contents', is_open), tu_available := ''''\<rparr>)
           | Raise e \<Rightarrow> (Raise e, j)
           | Abort \<Rightarrow> (Abort, j)))"

definition on_read_channel_finished :: "(string \<Rightarrow> string \<Rightarrow> int) \<Rightarrow> ('v tempfile_upload, thrown, unit) sx" where
  "on_read_channel_finished accept = sx_bind (on_ready_read accept) (\<lambda>_ j.
     (Ok (), j\<lparr>tu_tmpfile := map_option (\<lambda>(c, _). (c, False)) (tu_tmpfile j)\<rparr>))"

text \<open>What \<open>waitForReadyRead(0)\<close> finds on the socket: new data (it returns true after the slot
  has run), the end of the stream (the slot runs, it returns false), or nothing.\<close>

datatype socket_event = Sock_data string | Sock_closed | Sock_nothing

fun wait_for_ready_read ::
  "(string \<Rightarrow> string \<Rightarrow> int) \<Rightarrow> socket_event \<Rightarrow> ('v tempfile_upload, thrown, bool) sx" where
  "wait_for_ready_read accept (Sock_data d) =
     sx_bind (\<lambda>j. (Ok (), j\<lparr>tu_available := tu_available j @ d\<rparr>)) (\<lambda>_.
     sx_bind (on_ready_read accept) (\<lambda>_. sx_return True))"
| "wait_for_ready_read accept Sock_closed =
     sx_bind (on_read_channel_finished accept) (\<lambda>_. sx_return False)"
| "wait_for_ready_read accept Sock_nothing = sx_return False"

definition tmpfile_open :: "'v tempfile_upload \<Rightarrow> bool" where
  "tmpfile_open j \<longleftrightarrow> (\<exists>c. tu_tmpfile j = Some (c, True))"

text \<open>\<open>drain\<close>: the list gives what the successive calls of \<open>waitForReadyRead\<close> find, nothing
  after its end.\<close>

primrec tempfile_drain ::
  "(string \<Rightarrow> string \<Rightarrow> int) \<Rightarrow> socket_event list \<Rightarrow> ('v tempfile_upload, thrown, unit) sx" where
  "tempfile_drain accept [] = (\<lambda>j.
     if \<not> tmpfile_open j then (Ok (), j) else (Raise (TStorage (LogicException ''Socket not closed'')), j))"
| "tempfile_drain accept (e # es) = (\<lambda>j.
     if \<not> tmpfile_open j then (Ok (), j)
     else sx_bind (wait_for_ready_read accept e) (\<lambda>ready j.
       if \<not> ready \<and> tmpfile_open j then (Raise (TStorage (LogicException ''Socket not closed'')), j)
       else tempfile_drain accept es j) j)"

section \<open>Properties\<close>

lemma close_read_socket_sel [simp]:
  "ji_locked (close_read_socket j) = ji_locked j" "ji_completed (close_read_socket j) = ji_completed j"
  "ji_promise (close_read_socket j) = ji_promise j"
  "ji_future_taken (close_read_socket j) = ji_future_taken j"
  "ji_read_socket (close_read_socket j) < 0"
  by (simp_all add: close_read_socket_def)

lemma close_write_socket_sel [simp]:
  "ji_locked (close_write_socket j) = ji_locked j" "ji_completed (close_write_socket j) = ji_completed j"
  "ji_promise (close_write_socket j) = ji_promise j"
  "ji_future_taken (close_write_socket j) = ji_future_taken j"
  "ji_write_socket (close_write_socket j) < 0"
  by (simp_all add: close_write_socket_def)

lemma complete_with_locked: "ji_locked j \<Longrightarrow> complete_with v j = (Abort, j)"
  by (simp add: complete_with_def with_lock_def)

lemma complete_with_once:
  "\<not> ji_locked j \<Longrightarrow> ji_promise j = None \<Longrightarrow>
     complete_with v j = (Ok (), j\<lparr>ji_completed := True, ji_promise := Some v\<rparr>)"
  by (simp add: complete_with_def with_lock_def set_promise_def)

text \<open>
  An error that a transfer reports is what the client's \<open>finish\<close> call gets, whatever the
  job's own \<open>finish\<close> would do, and the sending socket is closed; cancelling a completed job
  succeeds without asking the job, and a second report is refused.
\<close>

theorem reported_error_is_delivered:
  assumes "\<not> ji_locked j" and "ji_promise j = None" and "\<not> ji_future_taken j"
  shows "\<exists>j'. upload_report_error p j = (Ok (), j') \<and> ji_read_socket j' < 0 \<and>
           fst (upload_finish job_finish j') = Ok (Some (Fut_error (convert_exception_ptr p))) \<and>
           upload_cancel job_cancel j' = (Ok (Some (Fut_value ())), j') \<and>
           fst (upload_report_error p' j') = Raise (TStd ''promise_already_satisfied'')"
  using assms
  by (simp add: upload_report_error_def complete_with_once upload_finish_def upload_cancel_def with_lock_def
      get_future_def complete_with_def set_promise_def)

definition sample_impl :: "unit job_impl" where
  "sample_impl = \<lparr>ji_id = ''7'', ji_read_socket = 4, ji_write_socket = 5, ji_closed = [], ji_locked = False,
     ji_completed = False, ji_promise = None, ji_future_taken = False\<rparr>"

theorem reported_error_is_delivered_witness:
  "\<exists>j'. upload_report_error (TStorage (LogicException ''x'')) sample_impl = (Ok (), j') \<and>
     fst (upload_finish (\<lambda>j. (Abort, j)) j') = Ok (Some (Fut_error (copy_exception (LogicException ''x''))))"
  using reported_error_is_delivered [of sample_impl "TStorage (LogicException ''x'')" "\<lambda>j. (Abort, j)"]
  by (auto simp: sample_impl_def)

subsection \<open>Spooling\<close>

definition accepts_all :: "(string \<Rightarrow> string \<Rightarrow> int) \<Rightarrow> bool" where
  "accepts_all accept \<longleftrightarrow> (\<forall>c d. accept c d = int (length d))"

lemma read_loop_all: "accepts_all accept \<Longrightarrow> read_loop accept available contents = Ok (contents @ available)"
  by (induction accept available contents rule: read_loop.induct)
    (subst read_loop.simps, simp add: accepts_all_def Let_def)

lemma on_ready_read_all:
  "accepts_all accept \<Longrightarrow> tu_tmpfile j = Some (c, True) \<Longrightarrow>
     on_ready_read accept j = (Ok (), j\<lparr>tu_tmpfile := Some (c @ tu_available j, True), tu_available := ''''\<rparr>)"
  by (simp add: on_ready_read_def read_loop_all)

text \<open>The bytes that a list of socket events carries up to the end of the stream, and whether
  the end was reached before a moment without data.\<close>

fun stream_bytes :: "socket_event list \<Rightarrow> string \<times> bool" where
  "stream_bytes [] = ('''', False)"
| "stream_bytes (Sock_data d # es) = (case stream_bytes es of (ds, closed) \<Rightarrow> (d @ ds, closed))"
| "stream_bytes (Sock_closed # es) = ('''', True)"
| "stream_bytes (Sock_nothing # es) = ('''', False)"

lemma drain_spec:
  assumes all: "accepts_all accept" and "tu_tmpfile j = Some (c, True)" and "tu_available j = ''''"
  shows "tempfile_drain accept es j =
    (if snd (stream_bytes es) then Ok () else Raise (TStorage (LogicException ''Socket not closed'')),
     j\<lparr>tu_tmpfile := Some (c @ fst (stream_bytes es), \<not> snd (stream_bytes es))\<rparr>)"
  using assms(2,3)
proof (induction es arbitrary: j c)
  case Nil
  then show ?case by (simp add: tmpfile_open_def)
next
  case (Cons e es)
  show ?case
  proof (cases e)
    case (Sock_data d)
    let ?j = "j\<lparr>tu_available := d\<rparr>"
    have "on_ready_read accept ?j = (Ok (), ?j\<lparr>tu_tmpfile := Some (c @ d, True), tu_available := ''''\<rparr>)"
      using on_ready_read_all [OF all, of ?j c] Cons.prems by simp
    moreover have "?j\<lparr>tu_tmpfile := Some (c @ d, True), tu_available := ''''\<rparr> =
        j\<lparr>tu_tmpfile := Some (c @ d, True)\<rparr>"
      using Cons.prems by (cases j) simp
    ultimately show ?thesis
      using Sock_data Cons.prems Cons.IH [of "j\<lparr>tu_tmpfile := Some (c @ d, True)\<rparr>" "c @ d"]
      by (simp add: tmpfile_open_def run_simps split: prod.splits)
  next
    case Sock_closed
    have "on_read_channel_finished accept j = (Ok (), j\<lparr>tu_tmpfile := Some (c, False)\<rparr>)"
      using on_ready_read_all [OF all, of j c] Cons.prems
      by (cases j) (simp add: on_read_channel_finished_def run_simps)
    then show ?thesis using Sock_closed Cons.prems
      by (cases es) (simp_all add: tmpfile_open_def run_simps)
  next
    case Sock_nothing
    then show ?thesis using Cons.prems by (cases j) (simp add: tmpfile_open_def run_simps)
  qed
qed

text \<open>
  \<open>TempfileUploadJob::drain\<close> ends on every sequence of socket events; it returns exactly
  when the client has closed its end, and then the temporary file is closed and holds what it
  held before followed by every byte that was sent, in order. Otherwise it throws, and the
  bytes received so far are in the file, which stays open.
\<close>

theorem drain_collects_stream:
  assumes "accepts_all accept" and "tu_tmpfile j = Some (c, True)" and "tu_available j = ''''"
  shows "tempfile_drain accept es j =
    (if snd (stream_bytes es) then Ok () else Raise (TStorage (LogicException ''Socket not closed'')),
     j\<lparr>tu_tmpfile := Some (c @ fst (stream_bytes es), \<not> snd (stream_bytes es))\<rparr>)"
  using assms by (rule drain_spec)

definition sample_tempfile :: "unit tempfile_upload" where
  "sample_tempfile = job_impl.extend sample_impl
     \<lparr>tu_tmpfile = Some (''a'', True), tu_file_name = ''/tmp/qt'', tu_available = '''', tu_descriptor = 4\<rparr>"

theorem drain_collects_stream_witness:
  "tempfile_drain (\<lambda>_ d. int (length d)) [Sock_data ''bc'', Sock_data ''d'', Sock_closed] sample_tempfile =
     (Ok (), sample_tempfile\<lparr>tu_tmpfile := Some (''abcd'', False)\<rparr>)"
proof -
  have "accepts_all (\<lambda>_ d. int (length d))" "tu_tmpfile sample_tempfile = Some (''a'', True)"
    "tu_available sample_tempfile = ''''"
    by (simp_all add: accepts_all_def sample_tempfile_def job_impl.defs)
  from drain_collects_stream [OF this, of "[Sock_data ''bc'', Sock_data ''d'', Sock_closed]"]
  show ?thesis by (simp del: tempfile_drain.simps)
qed

end
