(* ===== verification/LocalUpload.thy ===== *)
theory LocalUpload
  imports LocalProviderProps JobImpl
begin

text \<open>
  The local provider's upload (\<open>src/local-provider/LocalUploadJob.cpp\<close>): the job that
  \<open>create_file\<close> and \<open>update\<close> start, which writes what arrives on a socket to an unnamed
  temporary file and links the file into place when the client finishes the upload. The
  calls of the operating system and of \<open>QFile\<close> that it adds to \<open>fsapi\<close> are the parameter
  \<open>osapi\<close>; the temporary file is represented by the bytes written to it, the socket by the
  bytes that were received and not yet read.
\<close>

text \<open>\<open>os_open_tmpfile\<close>: the descriptor or -1. \<open>os_mkstemp\<close>, \<open>os_linkat\<close> and \<open>os_rename\<close> fail
  with an errno; the last two take the contents of the temporary file. \<open>qf_write\<close> and
  \<open>qf_flush\<close> fail with an error code and an error string.\<close>

record 'w osapi =
  os_open_tmpfile :: "'w \<Rightarrow> string \<Rightarrow> int"
  os_mkstemp :: "string \<Rightarrow> ('w, int, int \<times> string) sx"
  os_dup :: "'w \<Rightarrow> int \<Rightarrow> (int, int) outcome"
  os_unlink :: "string \<Rightarrow> 'w \<Rightarrow> 'w"
  os_linkat :: "string \<Rightarrow> string \<Rightarrow> ('w, int, unit) sx"
  os_rename :: "string \<Rightarrow> string \<Rightarrow> string \<Rightarrow> ('w, int, unit) sx"
  qf_write :: "'w \<Rightarrow> string \<Rightarrow> (int \<times> string, int) outcome"
  qf_flush :: "'w \<Rightarrow> (int \<times> string, unit) outcome"

datatype upload_state = US_in_progress | US_finished | US_cancelled

record 'w local_upload = "provider_item job_impl" +
  lu_fs :: 'w                 \<comment> \<open>the file system\<close>
  lu_size :: int
  lu_bytes_to_write :: int
  lu_method :: string
  lu_state :: upload_state
  lu_item_id :: string
  lu_old_etag :: string
  lu_parent_id :: string
  lu_allow_overwrite :: bool
  lu_use_linkat :: bool
  lu_tmp_fd :: int
  lu_file_name :: string
  lu_written :: string        \<comment> \<open>contents of the temporary file\<close>
  lu_file_open :: bool
  lu_pending :: string        \<comment> \<open>read_socket_: received, not read\<close>
  lu_connected :: bool        \<comment> \<open>the socket's signals are connected\<close>

type_synonym ('w, 'a) up = "('w local_upload, lp_exn, 'a) sx"

text \<open>An operation of the provider on the job's file system.\<close>

definition up_fs :: "('w, 'a) lp \<Rightarrow> ('w, 'a) up" where
  "up_fs m j = (case m (lu_fs j) of (r, w) \<Rightarrow> (r, j\<lparr>lu_fs := w\<rparr>))"

section \<open>Construction\<close>

definition LocalUploadJob_base :: "provider_item job_impl \<Rightarrow> 'w \<Rightarrow> int \<Rightarrow> string \<Rightarrow> 'w local_upload" where
  "LocalUploadJob_base impl w sz meth = job_impl.extend impl
     \<lparr>lu_fs = w, lu_size = sz, lu_bytes_to_write = sz, lu_method = meth, lu_state = US_in_progress,
      lu_item_id = '''', lu_old_etag = '''', lu_parent_id = '''', lu_allow_overwrite = False,
      lu_use_linkat = False, lu_tmp_fd = -1, lu_file_name = '''', lu_written = '''', lu_file_open = False,
      lu_pending = '''', lu_connected = False\<rparr>"

text \<open>The template has no \<open>XXXXXX\<close> at its end.\<close>

definition tmpfile_template :: "string \<Rightarrow> string" where
  "tmpfile_template parent = parent @ ''/'' @ TMPFILE_PREFIX @ ''-%%%%-%%%%-%%%%-%%%%''"

definition open_tmpfile :: "'w fsapi \<Rightarrow> 'w osapi \<Rightarrow> ('w, unit) up" where
  "open_tmpfile F A j =
     (let parent_path = path_parent F (lu_item_id j);
          fd = os_open_tmpfile A (lu_fs j) parent_path
      in if fd = -1 then
           (let tmpfile = tmpfile_template parent_path in
            case os_mkstemp A tmpfile (lu_fs j) of
              (Ok (fd, name), w) \<Rightarrow>
                (Ok (), j\<lparr>lu_fs := w, lu_use_linkat := False, lu_tmp_fd := fd, lu_file_name := name,
                          lu_file_open := True\<rparr>)
            | (Raise err, w) \<Rightarrow>
                (Raise (LP_storage (ResourceException
                   (lu_method j @ '': cannot create temp file \"'' @ tmpfile @ ''\": '' @ fs_strerror F err) err)),
                 j\<lparr>lu_fs := w, lu_use_linkat := False\<rparr>)
            | (Abort, w) \<Rightarrow> (Abort, j))
         else (Ok (), j\<lparr>lu_use_linkat := True, lu_tmp_fd := fd, lu_file_open := True\<rparr>))"

definition prepare_channels :: "'w fsapi \<Rightarrow> 'w osapi \<Rightarrow> ('w, unit) up" where
  "prepare_channels F A = sx_bind (open_tmpfile F A) (\<lambda>_ j.
     case os_dup A (lu_fs j) (ji_read_socket j) of
       Raise err \<Rightarrow>
         (Raise (LP_storage (ResourceException (lu_method j @ '': dup() failed: '' @ fs_strerror F err) err)), j)
     | Abort \<Rightarrow> (Abort, j)
     | Ok _ \<Rightarrow> (Ok (), j\<lparr>lu_connected := True\<rparr>))"

text \<open>\<open>LocalProvider::create_file\<close>: the constructor with parent and name. It runs on the base
  object and leaves the job; a throw leaves only the file system.\<close>

definition LocalUploadJob_create ::
  "'w fsapi \<Rightarrow> 'w osapi \<Rightarrow> string \<Rightarrow> string \<Rightarrow> string \<Rightarrow> bool \<Rightarrow> ('w, unit) up" where
  "LocalUploadJob_create F A root parent_id name allow_overwrite =
     sx_bind (\<lambda>j. (Ok (), j\<lparr>lu_parent_id := parent_id, lu_allow_overwrite := allow_overwrite\<rparr>)) (\<lambda>_.
     sx_bind (up_fs (throw_if_not_valid F root ''create_file()'' parent_id)) (\<lambda>_.
     sx_bind (up_fs (sanitize F ''create_file()'' name)) (\<lambda>sanitized_name.
     let item_id = path_append F parent_id sanitized_name in
     sx_bind (\<lambda>j. (Ok (), j\<lparr>lu_item_id := item_id\<rparr>)) (\<lambda>_.
     sx_bind (if allow_overwrite then sx_return False else up_fs (fs_exists F item_id)) (\<lambda>there.
     sx_bind (sx_throw_if there (LP_storage (ExistsException
       (''create_file(): \"'' @ item_id @ ''\" exists already'') item_id sanitized_name))) (\<lambda>_.
     prepare_channels F A))))))"

definition LocalProvider_create_file ::
  "'w fsapi \<Rightarrow> 'w osapi \<Rightarrow> string \<Rightarrow> provider_item job_impl \<Rightarrow> string \<Rightarrow> string \<Rightarrow> int \<Rightarrow> bool \<Rightarrow> 'w \<Rightarrow>
     (lp_exn, unit) outcome \<times> 'w local_upload" where
  "LocalProvider_create_file F A root impl parent_id name sz allow_overwrite w =
     LocalUploadJob_create F A root parent_id name allow_overwrite
       (LocalUploadJob_base impl w sz ''create_file()'')"

definition etag_check :: "'w fsapi \<Rightarrow> string \<Rightarrow> string \<Rightarrow> string \<Rightarrow> ('w, unit) lp" where
  "etag_check F meth item_id etag =
     sx_bind (get_mtime_nsecs F meth item_id) (\<lambda>mtime.
     sx_throw_if (int_to_string mtime \<noteq> etag) (LP_storage (ConflictException (meth @ '': ETag mismatch''))))"

definition LocalUploadJob_update ::
  "'w fsapi \<Rightarrow> 'w osapi \<Rightarrow> string \<Rightarrow> string \<Rightarrow> string \<Rightarrow> ('w, unit) up" where
  "LocalUploadJob_update F A root item_id old_etag =
     sx_bind (\<lambda>j. (Ok (), j\<lparr>lu_item_id := item_id\<rparr>)) (\<lambda>_.
     sx_bind (up_fs (throw_if_not_valid F root ''update()'' item_id)) (\<lambda>_.
     sx_bind (up_fs (sx_query (\<lambda>w. map_raise (\<lambda>e. LP_storage (storage_exception_of F ''update()'' e))
                (fs_status F w item_id)))) (\<lambda>st.
     sx_bind (sx_throw_if (st_type st \<noteq> regular_file)
       (LP_storage (LogicException (''update(): \"'' @ item_id @ ''\" is not a file'')))) (\<lambda>_.
     sx_bind (if old_etag \<noteq> '''' then up_fs (etag_check F ''update()'' item_id old_etag)
              else sx_return ()) (\<lambda>_.
     sx_bind (\<lambda>j. (Ok (), j\<lparr>lu_old_etag := old_etag\<rparr>)) (\<lambda>_.
     prepare_channels F A))))))"

definition LocalProvider_update ::
  "'w fsapi \<Rightarrow> 'w osapi \<Rightarrow> string \<Rightarrow> provider_item job_impl \<Rightarrow> string \<Rightarrow> int \<Rightarrow> string \<Rightarrow> 'w \<Rightarrow>
     (lp_exn, unit) outcome \<times> 'w local_upload" where
  "LocalProvider_update F A root impl item_id sz old_etag w =
     LocalUploadJob_update F A root item_id old_etag (LocalUploadJob_base impl w sz ''update()'')"

section \<open>Receiving\<close>

definition abort_upload :: "'w osapi \<Rightarrow> 'w local_upload \<Rightarrow> 'w local_upload" where
  "abort_upload A j =
     j\<lparr>lu_state := US_cancelled, lu_connected := False, lu_pending := '''', lu_file_open := False,
       lu_fs := (if lu_use_linkat j then lu_fs j else os_unlink A (lu_file_name j) (lu_fs j)),
       lu_bytes_to_write := 0\<rparr>"

text \<open>\<open>QFileDevice::FatalError\<close>\<close>

definition FatalError :: int where "FatalError = 3"

text \<open>The body of the \<open>try\<close> block; the result is what was thrown.\<close>

definition store_bytes :: "'w osapi \<Rightarrow> ('w local_upload, StorageException, unit) sx" where
  "store_bytes A j =
     (let buf = lu_pending j; j = j\<lparr>lu_pending := ''''\<rparr> in
      if buf = '''' then (Ok (), j)
      else let j = j\<lparr>lu_bytes_to_write := lu_bytes_to_write j - int (length buf)\<rparr> in
        if lu_bytes_to_write j < 0 then
          (Raise (LogicException (lu_method j @ '': received more than the expected number (''
             @ int_to_string (lu_size j) @ '') of bytes'')), j)
        else case qf_write A (lu_fs j) buf of
          Raise (err, msg) \<Rightarrow> (file_error_exception (lu_method j) (''write error: '' @ msg) err, j)
        | Abort \<Rightarrow> (Abort, j)
        | Ok n \<Rightarrow>
            let j = j\<lparr>lu_written := lu_written j @ take (nat n) buf\<rparr> in
            if n \<noteq> int (length buf) then
              (file_error_exception (lu_method j)
                 (''write error, requested '' @ int_to_string (int (length buf)) @ '' B, but wrote only ''
                  @ int_to_string n @ '' B.'') FatalError, j)
            else (Ok (), j))"

definition on_bytes_ready :: "'w osapi \<Rightarrow> ('w local_upload, thrown, unit) sx" where
  "on_bytes_ready A j =
     (if lu_bytes_to_write j < 0 then (Ok (), j)
      else sx_catch (store_bytes A)
        (\<lambda>e. sx_bind (\<lambda>j. (Ok (), abort_upload A j)) (\<lambda>_. upload_report_error (TStorage e))) j)"

text \<open>Data arrives on the socket, and \<open>readyRead\<close> or \<open>readChannelFinished\<close> runs the slot.\<close>

definition bytes_arrive :: "'w osapi \<Rightarrow> string \<Rightarrow> ('w local_upload, thrown, unit) sx" where
  "bytes_arrive A d j =
     (if lu_connected j then on_bytes_ready A (j\<lparr>lu_pending := lu_pending j @ d\<rparr>) else (Ok (), j))"

section \<open>Ending\<close>

definition local_upload_cancel :: "'w osapi \<Rightarrow> ('w local_upload, thrown, unit future option) sx" where
  "local_upload_cancel A j =
     (Ok (Some (Fut_value ())), if lu_state j = US_in_progress then abort_upload A j else j)"

definition recheck_target :: "'w fsapi \<Rightarrow> 'w local_upload \<Rightarrow> ('w, unit) lp" where
  "recheck_target F j =
     (let item_id = lu_item_id j; meth = lu_method j;
          exists_error = LP_storage (ExistsException (meth @ '': \"'' @ item_id @ ''\" exists already'')
            item_id (path_filename F item_id)) in
      if lu_parent_id j \<noteq> '''' then
        (if lu_allow_overwrite j then sx_return ()
         else sx_bind (fs_exists F item_id) (\<lambda>there. sx_throw_if there exists_error))
      else if lu_old_etag j \<noteq> '''' then
        sx_bind (fs_exists F item_id) (\<lambda>there.
        sx_bind (if there then sx_bind (fsq (\<lambda>w. fs_status F w item_id)) (\<lambda>st.
                   sx_return (st_type st \<noteq> regular_file)) else sx_return False) (\<lambda>in_the_way.
        sx_bind (sx_throw_if in_the_way exists_error) (\<lambda>_.
        etag_check F meth item_id (lu_old_etag j))))
      else sx_return ())"

definition flush_file :: "'w osapi \<Rightarrow> ('w, unit) up" where
  "flush_file A j =
     (case qf_flush A (lu_fs j) of
        Ok _ \<Rightarrow> (Ok (), j)
      | Raise (err, msg) \<Rightarrow>
          (map_raise LP_storage (file_error_exception ''finish()''
             (''finish(): cannot flush output file: '' @ msg) err), j)
      | Abort \<Rightarrow> (Abort, j))"

definition link_file :: "'w fsapi \<Rightarrow> 'w osapi \<Rightarrow> ('w, unit) up" where
  "link_file F A j =
     (let item_id = lu_item_id j;
          fail = (\<lambda>what old_path err. LP_storage (ResourceException
            (''finish(): '' @ what @ '' \"'' @ old_path @ ''\" to \"'' @ item_id @ ''\" failed: ''
               @ fs_strerror F err) err)) in
      if lu_use_linkat j then
        (case os_linkat A (lu_written j) item_id (os_unlink A item_id (lu_fs j)) of
           (Ok _, w) \<Rightarrow> (Ok (), j\<lparr>lu_fs := w\<rparr>)
         | (Raise err, w) \<Rightarrow>
             (Raise (fail ''linkat'' (''/proc/self/fd/'' @ int_to_string (lu_tmp_fd j)) err), j\<lparr>lu_fs := w\<rparr>)
         | (Abort, w) \<Rightarrow> (Abort, j))
      else
        (case os_rename A (lu_written j) (lu_file_name j) item_id (lu_fs j) of
           (Ok _, w) \<Rightarrow> (Ok (), j\<lparr>lu_fs := w\<rparr>)
         | (Raise err, w) \<Rightarrow> (Raise (fail ''rename'' (lu_file_name j) err), j\<lparr>lu_fs := w\<rparr>)
         | (Abort, w) \<Rightarrow> (Abort, j)))"

definition commit_upload :: "'w fsapi \<Rightarrow> 'w osapi \<Rightarrow> string \<Rightarrow> ('w, provider_item) up" where
  "commit_upload F A root =
     sx_bind (\<lambda>j. up_fs (recheck_target F j) j) (\<lambda>_.
     sx_bind (flush_file A) (\<lambda>_.
     sx_bind (link_file F A) (\<lambda>_.
     sx_bind (\<lambda>j. (Ok (), j\<lparr>lu_file_open := False, lu_pending := '''', lu_connected := False\<rparr>)) (\<lambda>_ j.
     up_fs (item_at F root (lu_method j) (lu_item_id j)) j))))"

fun finish_error :: "'w fsapi \<Rightarrow> lp_exn \<Rightarrow> boost_exception_ptr" where
  "finish_error F (LP_storage e) = current_exception (TStorage e)"
| "finish_error F (LP_fs e) = current_exception (TStorage (storage_exception_of F ''finish()'' e))"
| "finish_error F (LP_std what) = copy_exception (UnknownException what)"

definition too_early :: "'w local_upload \<Rightarrow> string" where
  "too_early j = ''finish() method called too early, size was given as '' @ int_to_string (lu_size j)
     @ '' but only '' @ int_to_string (lu_size j - lu_bytes_to_write j) @ '' bytes were received''"

definition local_upload_finish ::
  "'w fsapi \<Rightarrow> 'w osapi \<Rightarrow> string \<Rightarrow> ('w local_upload, thrown, provider_item future option) sx" where
  "local_upload_finish F A root =
     sx_bind (on_bytes_ready A) (\<lambda>_ j.
       if lu_bytes_to_write j > 0 then
         (Ok (Some (Fut_error (copy_exception (LogicException (too_early j))))), j)
       else case commit_upload F A root (j\<lparr>lu_state := US_finished\<rparr>) of
           (Ok item, j) \<Rightarrow> (Ok (Some (Fut_value item)), j)
         | (Raise e, j) \<Rightarrow> (Ok (Some (Fut_error (finish_error F e))), j)
         | (Abort, j) \<Rightarrow> (Abort, j))"

text \<open>What the provider interface calls.\<close>

definition FinishUpload_job ::
  "'w fsapi \<Rightarrow> 'w osapi \<Rightarrow> string \<Rightarrow> ('w local_upload, thrown, provider_item future option) sx" where
  "FinishUpload_job F A root = upload_finish (local_upload_finish F A root)"

definition CancelUpload_job :: "'w osapi \<Rightarrow> ('w local_upload, thrown, unit future option) sx" where
  "CancelUpload_job A = upload_cancel (local_upload_cancel A)"

section \<open>Receiving the bytes\<close>

definition writes_all :: "'w osapi \<Rightarrow> bool" where
  "writes_all A \<longleftrightarrow> (\<forall>w b. qf_write A w b = Ok (int (length b)))"

text \<open>The invariant of an upload in progress: everything that was received is in the temporary
  file, and the two counts add up to the size that the client announced.\<close>

definition receiving :: "string \<Rightarrow> 'w local_upload \<Rightarrow> bool" where
  "receiving rcv j \<longleftrightarrow>
     \<not> ji_locked j \<and> \<not> ji_completed j \<and> ji_promise j = None \<and> \<not> ji_future_taken j \<and>
     lu_state j = US_in_progress \<and> lu_connected j \<and> lu_use_linkat j \<and> lu_pending j = '''' \<and>
     lu_written j = rcv \<and> 0 \<le> lu_bytes_to_write j \<and>
     int (length rcv) + lu_bytes_to_write j = lu_size j"

definition surplus_error :: "'w local_upload \<Rightarrow> StorageException" where
  "surplus_error j = LogicException (lu_method j @ '': received more than the expected number (''
     @ int_to_string (lu_size j) @ '') of bytes'')"

text \<open>The job after it has received too much.\<close>

definition overrun :: "'w local_upload \<Rightarrow> 'w local_upload \<Rightarrow> bool" where
  "overrun j0 j \<longleftrightarrow>
     \<not> ji_locked j \<and> ji_completed j \<and> ji_promise j = Some (Fut_error (copy_exception (surplus_error j0))) \<and>
     \<not> ji_future_taken j \<and> \<not> lu_connected j \<and> lu_fs j = lu_fs j0"

lemma arrive_fits:
  assumes "writes_all A" and "receiving rcv j" and "int (length d) \<le> lu_bytes_to_write j"
  shows "bytes_arrive A d j =
     (Ok (), j\<lparr>lu_written := rcv @ d, lu_bytes_to_write := lu_bytes_to_write j - int (length d)\<rparr>)"
proof (cases "d = ''''")
  case True
  with assms(2) show ?thesis
    by (cases j) (simp add: receiving_def bytes_arrive_def on_bytes_ready_def sx_catch_def store_bytes_def)
next
  case False
  with assms show ?thesis
    by (cases j)
      (simp add: receiving_def writes_all_def bytes_arrive_def on_bytes_ready_def sx_catch_def
        store_bytes_def Let_def)
qed

lemma receiving_more:
  "receiving rcv j \<Longrightarrow> int (length d) \<le> lu_bytes_to_write j \<Longrightarrow>
     receiving (rcv @ d) (j\<lparr>lu_written := rcv @ d, lu_bytes_to_write := lu_bytes_to_write j - int (length d)\<rparr>)"
  by (simp add: receiving_def)

lemma arrive_surplus:
  assumes "receiving rcv j" and "lu_bytes_to_write j < int (length d)"
  shows "\<exists>j'. bytes_arrive A d j = (Ok (), j') \<and> overrun j j'"
proof -
  have d: "d \<noteq> ''''" using assms by (auto simp: receiving_def)
  with assms show ?thesis
    by (simp add: receiving_def bytes_arrive_def on_bytes_ready_def store_bytes_def Let_def run_simps
        abort_upload_def upload_report_error_def close_read_socket_def complete_with_def with_lock_def
        set_promise_def overrun_def surplus_error_def)
qed

lemma arrive_overrun: "overrun j0 j \<Longrightarrow> bytes_arrive A d j = (Ok (), j)"
  by (simp add: overrun_def bytes_arrive_def)

lemma deliver_overrun: "overrun j0 j \<Longrightarrow> sx_for ds (bytes_arrive A) j = (Ok (), j)"
  by (induction ds) (simp_all add: run_simps arrive_overrun)

lemma deliver_all:
  assumes A: "writes_all A" and "receiving rcv j"
  shows "\<exists>j'. sx_for ds (bytes_arrive A) j = (Ok (), j') \<and>
     (if int (length (concat ds)) \<le> lu_bytes_to_write j
      then j' = j\<lparr>lu_written := rcv @ concat ds,
                  lu_bytes_to_write := lu_bytes_to_write j - int (length (concat ds))\<rparr>
      else overrun j j')"
  using assms(2)
proof (induction ds arbitrary: rcv j)
  case Nil
  then show ?case by (cases j) (simp add: run_simps receiving_def)
next
  case (Cons d ds)
  show ?case
  proof (cases "int (length d) \<le> lu_bytes_to_write j")
    case True
    let ?j = "j\<lparr>lu_written := rcv @ d, lu_bytes_to_write := lu_bytes_to_write j - int (length d)\<rparr>"
    note first = arrive_fits [OF A Cons.prems True]
    obtain j' where "sx_for ds (bytes_arrive A) ?j = (Ok (), j')"
      and "if int (length (concat ds)) \<le> lu_bytes_to_write ?j
        then j' = ?j\<lparr>lu_written := (rcv @ d) @ concat ds,
                     lu_bytes_to_write := lu_bytes_to_write ?j - int (length (concat ds))\<rparr>
        else overrun ?j j'"
      using Cons.IH [OF receiving_more [OF Cons.prems True]] by blast
    then show ?thesis using first
      by (auto simp: run_simps overrun_def surplus_error_def split: if_splits)
  next
    case False
    then obtain j' where j': "bytes_arrive A d j = (Ok (), j')" "overrun j j'"
      using arrive_surplus [OF Cons.prems] by (meson not_le)
    have "sx_for (d # ds) (bytes_arrive A) j = (Ok (), j')"
      using j'(1) deliver_overrun [OF j'(2)] by (simp add: run_simps)
    with False j'(2) show ?thesis by (auto split: if_splits)
  qed
qed

lemma finish_overrun:
  "overrun j0 j \<Longrightarrow> FinishUpload_job F A root j =
     (Ok (Some (Fut_error (copy_exception (surplus_error j0)))), j\<lparr>ji_future_taken := True\<rparr>)"
  by (cases j) (simp add: overrun_def FinishUpload_job_def upload_finish_def with_lock_def get_future_def)

text \<open>
  However the data is cut into pieces, an upload that receives no more than the announced
  size has all bytes in its temporary file, in order, and its counts are right; one that
  receives more fails: the client's finish call gets an error that names the announced size.
  Either way the file system has not changed while the data came in.
\<close>

theorem upload_receives:
  assumes "writes_all A" and "receiving '''' j"
  shows "\<exists>j'. sx_for ds (bytes_arrive A) j = (Ok (), j') \<and> lu_fs j' = lu_fs j \<and>
     (if int (length (concat ds)) \<le> lu_size j then receiving (concat ds) j'
      else fst (FinishUpload_job F A root j') = Ok (Some (Fut_error (copy_exception (surplus_error j)))))"
proof -
  obtain j' where run: "sx_for ds (bytes_arrive A) j = (Ok (), j')" and
    j': "if int (length (concat ds)) \<le> lu_bytes_to_write j
      then j' = j\<lparr>lu_written := concat ds, lu_bytes_to_write := lu_bytes_to_write j - int (length (concat ds))\<rparr>
      else overrun j j'"
    using deliver_all [OF assms, of ds] by auto
  have sz: "lu_bytes_to_write j = lu_size j" using assms(2) by (simp add: receiving_def)
  show ?thesis
  proof (cases "int (length (concat ds)) \<le> lu_size j")
    case True
    with j' sz receiving_more [OF assms(2), of "concat ds"] run show ?thesis by simp
  next
    case False
    with j' sz have "overrun j j'" by simp
    with False run show ?thesis by (simp add: finish_overrun overrun_def)
  qed
qed

definition mem_os :: "mem osapi" where
  "mem_os = \<lparr>os_open_tmpfile = (\<lambda>w p. 9),
     os_mkstemp = (\<lambda>t w. (Raise 22, w)),
     os_dup = (\<lambda>w fd. Ok 10),
     os_unlink = (\<lambda>p w. filter (\<lambda>(q, node). \<not> (q = p \<and> node \<noteq> Mem_dir)) w),
     os_linkat = (\<lambda>s p w. if map_of w p = None then (Ok (), w @ [(p, Mem_file s)]) else (Raise 17, w)),
     os_rename = (\<lambda>s q p w. (Ok (), filter (\<lambda>(r, _). r \<noteq> p) w @ [(p, Mem_file s)])),
     qf_write = (\<lambda>w b. Ok (int (length b))),
     qf_flush = (\<lambda>w. Ok ())\<rparr>"

definition item_impl :: "provider_item job_impl" where
  "item_impl = \<lparr>ji_id = ''1'', ji_read_socket = 4, ji_write_socket = 5, ji_closed = [], ji_locked = False,
     ji_completed = False, ji_promise = None, ji_future_taken = False\<rparr>"

text \<open>A new file \<open>/r/n\<close> of 3 bytes.\<close>

definition sample_upload :: "mem local_upload" where
  "sample_upload = (LocalUploadJob_base item_impl sample_mem 3 ''create_file()'')
     \<lparr>lu_parent_id := ''/r'', lu_item_id := ''/r/n'', lu_use_linkat := True, lu_tmp_fd := 9,
      lu_file_open := True, lu_connected := True\<rparr>"

lemma sample_upload_sel [simp]:
  "lu_fs sample_upload = sample_mem" "lu_size sample_upload = 3" "lu_bytes_to_write sample_upload = 3"
  "lu_method sample_upload = ''create_file()''" "lu_parent_id sample_upload = ''/r''"
  "lu_item_id sample_upload = ''/r/n''" "lu_use_linkat sample_upload" "\<not> lu_allow_overwrite sample_upload"
  "lu_old_etag sample_upload = ''''"
  by (simp_all add: sample_upload_def LocalUploadJob_base_def job_impl.defs)

lemma sample_upload_receiving: "receiving '''' sample_upload"
  by (simp add: receiving_def sample_upload_def LocalUploadJob_base_def item_impl_def job_impl.defs)

lemma sample_upload_created:
  "LocalProvider_create_file mem_fs mem_os ''/r'' item_impl ''/r'' ''n'' 3 False sample_mem = (Ok (), sample_upload)"
  unfolding LocalProvider_create_file_def LocalUploadJob_create_def
  by (simp add: run_simps Let_def up_fs_def throw_if_not_valid_def sanitize_def
      fs_exists_def fsq_def prepare_channels_def open_tmpfile_def mem_os_def mem_defs is_reserved_path_def
      starts_with_def TMPFILE_PREFIX_def LocalUploadJob_base_def item_impl_def job_impl.defs sample_upload_def)

lemma mem_os_writes_all: "writes_all mem_os"
  by (simp add: writes_all_def mem_os_def)

theorem upload_receives_witness:
  "\<exists>j'. sx_for [''a'', ''bc''] (bytes_arrive mem_os) sample_upload = (Ok (), j') \<and> receiving ''abc'' j'"
  using upload_receives [OF mem_os_writes_all sample_upload_receiving, of "[''a'', ''bc'']"] by auto

section \<open>Committing\<close>

lemma on_bytes_ready_idle:
  "lu_pending j = '''' \<Longrightarrow> 0 \<le> lu_bytes_to_write j \<Longrightarrow> on_bytes_ready A j = (Ok (), j)"
  by (cases j) (simp add: on_bytes_ready_def sx_catch_def store_bytes_def)

lemma up_fs_keeps: "(\<And>w. snd (m w) = w) \<Longrightarrow> up_fs m j = (fst (m (lu_fs j)), j)"
  by (cases j) (simp add: up_fs_def case_prod_unfold)

lemma snd_recheck [simp]: "snd (recheck_target F j w) = w"
proof -
  have "keeps (\<lambda>x. x = w) (recheck_target F j)"
    by (auto simp: recheck_target_def Let_def etag_check_def intro!: keeps_intros)
  from keepsD [OF this, of w] show ?thesis by simp
qed

text \<open>The finish call on an upload in progress, without the lock.\<close>

lemma finish_receiving:
  assumes "receiving rcv j"
  shows "FinishUpload_job F A root j =
    (case local_upload_finish F A root (j\<lparr>ji_locked := True\<rparr>) of (r, j') \<Rightarrow> (r, j'\<lparr>ji_locked := False\<rparr>))"
  using assms by (simp add: receiving_def FinishUpload_job_def upload_finish_def with_lock_def)

lemma commit_Ok:
  assumes "commit_upload F A root j = (Ok item, j')" and "lu_use_linkat j"
  obtains w where "os_linkat A (lu_written j) (lu_item_id j) (os_unlink A (lu_item_id j) (lu_fs j)) = (Ok (), w)"
    and "fst (item_at F root (lu_method j) (lu_item_id j) w) = Ok item" and "lu_fs j' = w"
proof -
  obtain r where r: "up_fs (recheck_target F j) j = (r, j)" by (simp add: up_fs_keeps)
  have ok: "r = Ok ()" "flush_file A j = (Ok (), j)"
    using assms(1) r unfolding commit_upload_def
    by (cases r; simp add: sx_bind_def flush_file_def file_error_exception_def
        split: outcome.splits prod.splits if_splits)+
  obtain l w where l: "os_linkat A (lu_written j) (lu_item_id j) (os_unlink A (lu_item_id j) (lu_fs j)) = (l, w)"
    by force
  with assms r ok have lok: "l = Ok ()" unfolding commit_upload_def
    by (cases l) (simp_all add: sx_bind_def link_file_def Let_def)
  have "up_fs (item_at F root (lu_method j) (lu_item_id j)) s =
      (fst (item_at F root (lu_method j) (lu_item_id j) (lu_fs s)), s)" for s
    by (rule up_fs_keeps) simp
  with assms r ok l lok have "fst (item_at F root (lu_method j) (lu_item_id j) w) = Ok item" and "lu_fs j' = w"
    unfolding commit_upload_def by (auto simp: sx_bind_def link_file_def Let_def)
  with l lok that show thesis by blast
qed

lemma finish_commits:
  assumes "receiving rcv j" and "FinishUpload_job F A root j = (Ok (Some (Fut_value item)), j')"
  shows "int (length rcv) = lu_size j \<and>
    (\<exists>w. os_linkat A rcv (lu_item_id j) (os_unlink A (lu_item_id j) (lu_fs j)) = (Ok (), w) \<and>
         fst (item_at F root (lu_method j) (lu_item_id j) w) = Ok item \<and> lu_fs j' = w)"
proof -
  let ?l = "j\<lparr>ji_locked := True\<rparr>"
  have idle: "on_bytes_ready A ?l = (Ok (), ?l)"
    using assms(1) by (intro on_bytes_ready_idle) (simp_all add: receiving_def)
  obtain r t where c: "commit_upload F A root (?l\<lparr>lu_state := US_finished\<rparr>) = (r, t)" by force
  have size: "\<not> lu_bytes_to_write j > 0" and r: "r = Ok item" and t: "j' = t\<lparr>ji_locked := False\<rparr>"
    using assms idle c
    by (cases r; auto simp: finish_receiving local_upload_finish_def sx_bind_def split: if_splits)+
  show ?thesis
    by (rule commit_Ok [of F A root "?l\<lparr>lu_state := US_finished\<rparr>" item t])
      (use c r t size assms(1) in \<open>auto simp: receiving_def\<close>)
qed



section \<open>Refusing\<close>

lemma finish_refused:
  assumes "receiving rcv j" and "lu_bytes_to_write j = 0"
    and "fst (recheck_target F j (lu_fs j)) = Raise e"
  shows "\<exists>j'. FinishUpload_job F A root j = (Ok (Some (Fut_error (finish_error F e))), j') \<and> lu_fs j' = lu_fs j"
proof -
  let ?l = "j\<lparr>ji_locked := True\<rparr>"
  have idle: "on_bytes_ready A ?l = (Ok (), ?l)"
    using assms(1) by (intro on_bytes_ready_idle) (simp_all add: receiving_def)
  have rc: "recheck_target F (?l\<lparr>lu_state := US_finished\<rparr>) = recheck_target F j"
    by (simp add: recheck_target_def Let_def cong: if_cong)
  have "commit_upload F A root (?l\<lparr>lu_state := US_finished\<rparr>) = (Raise e, ?l\<lparr>lu_state := US_finished\<rparr>)"
    unfolding commit_upload_def using assms(3) by (simp add: sx_bind_def rc up_fs_keeps)
  with assms idle show ?thesis
    by (simp add: finish_receiving local_upload_finish_def sx_bind_def)
qed

text \<open>
  Finishing is refused, and the file system is left as it was, when fewer bytes than
  announced have arrived (the upload goes on), when a new file would replace one that appeared
  meanwhile, and when the file to be updated was changed since the client saw it.
\<close>

theorem finish_refusals:
  assumes j: "receiving rcv j"
    and st: "fs_status F (lu_fs j) (lu_item_id j) = Ok st"
    and mtime: "get_mtime_nsecs F (lu_method j) (lu_item_id j) (lu_fs j) = (Ok mtime, lu_fs j)"
  shows "if int (length rcv) < lu_size j then
           FinishUpload_job F A root j = (Ok (Some (Fut_error (copy_exception (LogicException (too_early j))))), j)
         else (if lu_parent_id j \<noteq> '''' \<and> \<not> lu_allow_overwrite j \<and> st_type st \<noteq> file_not_found then
           \<exists>msg j'. FinishUpload_job F A root j = (Ok (Some (Fut_error (current_exception (TStorage
              (ExistsException msg (lu_item_id j) (path_filename F (lu_item_id j))))))), j') \<and> lu_fs j' = lu_fs j
         else if lu_parent_id j = '''' \<and> lu_old_etag j \<noteq> '''' \<and> st_type st = regular_file \<and>
                 int_to_string mtime \<noteq> lu_old_etag j then
           \<exists>j'. FinishUpload_job F A root j = (Ok (Some (Fut_error (current_exception (TStorage
              (ConflictException (lu_method j @ '': ETag mismatch'')))))), j') \<and> lu_fs j' = lu_fs j
         else True)"
proof (cases "int (length rcv) < lu_size j")
  case True
  let ?l = "j\<lparr>ji_locked := True\<rparr>"
  have idle: "on_bytes_ready A ?l = (Ok (), ?l)"
    using j by (intro on_bytes_ready_idle) (simp_all add: receiving_def)
  have unlock: "?l\<lparr>ji_locked := False\<rparr> = j" using j by (cases j) (simp add: receiving_def)
  have "lu_bytes_to_write j > 0" using j True by (simp add: receiving_def)
  then have "local_upload_finish F A root ?l =
      (Ok (Some (Fut_error (copy_exception (LogicException (too_early j))))), ?l)"
    using idle by (simp add: local_upload_finish_def sx_bind_def too_early_def)
  with True unlock show ?thesis by (simp add: finish_receiving [OF j])
next
  case False
  then have sz: "lu_bytes_to_write j = 0" using j by (simp add: receiving_def)
  note refused = finish_refused [OF j sz, where F = F and A = A and root = root]
  have new: "\<exists>msg. fst (recheck_target F j (lu_fs j)) = Raise (LP_storage
      (ExistsException msg (lu_item_id j) (path_filename F (lu_item_id j))))"
    if "lu_parent_id j \<noteq> []" "\<not> lu_allow_overwrite j" "st_type st \<noteq> file_not_found"
    using that st by (simp add: recheck_target_def Let_def run_simps fs_exists_def fsq_def)
  have old: "fst (recheck_target F j (lu_fs j)) = Raise (LP_storage
      (ConflictException (lu_method j @ [CHR 0x3A, CHR 0x20] @ ''ETag mismatch'')))"
    if "lu_parent_id j = []" "lu_old_etag j \<noteq> []" "st_type st = regular_file"
      "int_to_string mtime \<noteq> lu_old_etag j"
    using that st mtime
    by (simp add: recheck_target_def Let_def run_simps fs_exists_def fsq_def etag_check_def)
  show ?thesis
    using False new old refused by (auto split: if_splits)
qed

theorem finish_refusals_witness:
  "FinishUpload_job mem_fs mem_os ''/r'' sample_upload =
     (Ok (Some (Fut_error (copy_exception (LogicException
       ''finish() method called too early, size was given as 3 but only 0 bytes were received'')))), sample_upload)"
proof -
  have st: "fs_status mem_fs (lu_fs sample_upload) (lu_item_id sample_upload) =
      Ok \<lparr>st_type = file_not_found, st_owner_write = False, st_owner_exe = False\<rparr>"
    by (simp add: mem_status_def sample_mem_def)
  have mtime: "get_mtime_nsecs mem_fs (lu_method sample_upload) (lu_item_id sample_upload) (lu_fs sample_upload) =
      (Ok 5, lu_fs sample_upload)"
    by (simp add: get_mtime_nsecs_def run_simps INT64_MIN_def INT64_MAX_def)
  have "too_early sample_upload = ''finish() method called too early, size was given as 3 but only 0 bytes were received''"
    by code_simp
  with finish_refusals [OF sample_upload_receiving st mtime, of mem_os "''/r''"] show ?thesis by simp
qed

section \<open>Surplus bytes that are still unread when the client finishes\<close>

text \<open>
  \<open>UploadJobImpl::finish\<close> holds the mutex while the job reads the rest of the data; when that
  is too much, \<open>report_error\<close> locks the mutex again in the same thread.
\<close>

lemma finish_with_unread_surplus_deadlocks:
  assumes "receiving rcv j" and "lu_bytes_to_write j < int (length d)"
  shows "fst (FinishUpload_job F A root (j\<lparr>lu_pending := d\<rparr>)) = Abort"
proof -
  have d: "d \<noteq> ''''" using assms by (auto simp: receiving_def)
  with assms show ?thesis
    by (simp add: receiving_def FinishUpload_job_def upload_finish_def with_lock_def local_upload_finish_def
        on_bytes_ready_def store_bytes_def Let_def run_simps abort_upload_def upload_report_error_def
        close_read_socket_def complete_with_locked)
qed

text \<open>The fallback without \<open>O_TMPFILE\<close> cannot work: \<open>mkstemp\<close> refuses a template that does not
  end in \<open>XXXXXX\<close>.\<close>

lemma tmpfile_fallback_fails:
  assumes mkstemp: "\<And>t w. drop (length t - 6) t \<noteq> ''XXXXXX'' \<Longrightarrow> os_mkstemp A t w = (Raise 22, w)"
    and "os_open_tmpfile A (lu_fs j) (path_parent F (lu_item_id j)) = -1"
  shows "\<exists>msg. fst (prepare_channels F A j) = Raise (LP_storage (ResourceException msg 22))"
proof -
  have "drop (length (tmpfile_template p) - 6) (tmpfile_template p) = ''%-%%%%''" for p
    by (simp add: tmpfile_template_def TMPFILE_PREFIX_def)
  then have "os_mkstemp A (tmpfile_template p) w = (Raise 22, w)" for p w
    using mkstemp by simp
  with assms(2) show ?thesis by (simp add: prepare_channels_def sx_bind_def open_tmpfile_def Let_def)
qed

end
