(* ===== verification/LocalDownload.thy ===== *)
theory LocalDownload
  imports LocalUpload
begin

text \<open>
  The local provider's download (\<open>src/local-provider/LocalDownloadJob.cpp\<close>): the file is read
  in chunks that are handed to a socket; every time the socket reports that the peer took
  some bytes, the next chunk follows. \<open>QFile\<close> and \<open>QLocalSocket\<close> are the parameter \<open>dlapi\<close>;
  \<open>ld_sent\<close> is what was written to the socket, \<open>ld_acked\<close> how much of it \<open>bytesWritten\<close> has
  reported.
\<close>

text \<open>Opening gives the size; reading takes the offset and the most bytes to read; all fail
  with an error code and an error string.\<close>

record 'w dlapi =
  qf_open :: "'w \<Rightarrow> string \<Rightarrow> (int \<times> string, int) outcome"
  qf_size :: "'w \<Rightarrow> string \<Rightarrow> int"
  qf_read :: "'w \<Rightarrow> string \<Rightarrow> nat \<Rightarrow> nat \<Rightarrow> (int \<times> string, string) outcome"
  ls_write :: "'w \<Rightarrow> string \<Rightarrow> (int \<times> string, int) outcome"
  dl_dup :: "'w \<Rightarrow> int \<Rightarrow> (int, int) outcome"

record 'w local_download = "unit job_impl" +
  ld_fs :: 'w
  ld_item_id :: string
  ld_offset :: nat
  ld_file_open :: bool
  ld_bytes_to_write :: int
  ld_sent :: string
  ld_acked :: int
  ld_connected :: bool

section \<open>Construction\<close>

text \<open>Opening the file and duplicating the socket; the rest of the constructor.\<close>

definition open_channels ::
  "'w fsapi \<Rightarrow> 'w dlapi \<Rightarrow> unit job_impl \<Rightarrow> string \<Rightarrow> ('w, 'w local_download) lp" where
  "open_channels F D impl item_id w =
     (case qf_open D w item_id of
        Raise (err, msg) \<Rightarrow>
          (map_raise LP_storage (file_error_exception ''download()''
             ('': cannot open \"'' @ item_id @ ''\": '' @ msg) err), w)
      | Abort \<Rightarrow> (Abort, w)
      | Ok sz \<Rightarrow>
          (case dl_dup D w (ji_write_socket impl) of
             Raise err \<Rightarrow>
               (Raise (LP_storage (ResourceException
                  (''LocalDownloadJob(): dup() failed: '' @ fs_strerror F err) err)), w)
           | Abort \<Rightarrow> (Abort, w)
           | Ok _ \<Rightarrow>
               (Ok (job_impl.extend impl
                  \<lparr>ld_fs = w, ld_item_id = item_id, ld_offset = 0, ld_file_open = True, ld_bytes_to_write = sz,
                   ld_sent = '''', ld_acked = 0, ld_connected = True\<rparr>), w)))"

definition LocalProvider_download ::
  "'w fsapi \<Rightarrow> 'w dlapi \<Rightarrow> string \<Rightarrow> unit job_impl \<Rightarrow> string \<Rightarrow> string \<Rightarrow> ('w, 'w local_download) lp" where
  "LocalProvider_download F D root impl item_id match_etag =
     sx_bind (throw_if_not_valid F root ''download()'' item_id) (\<lambda>_.
     sx_bind (sx_query (\<lambda>w. map_raise (\<lambda>e. LP_storage (storage_exception_of F ''download()'' e))
                (fs_status F w item_id))) (\<lambda>st.
     sx_bind (sx_throw_if (st_type st \<noteq> regular_file)
       (LP_storage (LogicException (''download(): \"'' @ item_id @ ''\" is not a file'')))) (\<lambda>_.
     sx_bind (if match_etag \<noteq> '''' then etag_check F ''download()'' item_id match_etag else sx_return ()) (\<lambda>_.
     open_channels F D impl item_id))))"

section \<open>The transfer\<close>

definition READ_SIZE :: nat where "READ_SIZE = 64 * 1024"

definition UnknownSocketError :: int where "UnknownSocketError = -1"

text \<open>The \<open>try\<close> block: read a chunk and write it to the socket.\<close>

definition transfer_chunk :: "'w dlapi \<Rightarrow> ('w local_download, StorageException, unit) sx" where
  "transfer_chunk D j =
     (let prefix = ''\"'' @ ld_item_id j @ ''\": '' in
      case qf_read D (ld_fs j) (ld_item_id j) (ld_offset j) READ_SIZE of
        Raise (err, msg) \<Rightarrow> (file_error_exception ''download()'' (prefix @ ''read error: '' @ msg) err, j)
      | Abort \<Rightarrow> (Abort, j)
      | Ok buf \<Rightarrow>
          let j = j\<lparr>ld_offset := ld_offset j + length buf\<rparr> in
          (case ls_write D (ld_fs j) buf of
             Raise (err, msg) \<Rightarrow>
               (Raise (socket_error_exception ''download()'' (prefix @ ''socket error: '' @ msg) err), j)
           | Abort \<Rightarrow> (Abort, j)
           | Ok n \<Rightarrow>
               let j = j\<lparr>ld_sent := ld_sent j @ take (nat n) buf\<rparr> in
               if n \<noteq> int (length buf) then
                 (Raise (socket_error_exception ''download()''
                    (prefix @ ''socket write error, requested '' @ int_to_string (int (length buf))
                     @ '' B, but wrote only '' @ int_to_string n @ '' B.'') UnknownSocketError), j)
               else (Ok (), j)))"

definition read_and_write_chunk :: "'w dlapi \<Rightarrow> ('w local_download, thrown, unit) sx" where
  "read_and_write_chunk D j =
     (if ld_bytes_to_write j = 0 then
        download_report_complete (j\<lparr>ld_file_open := False, ld_connected := False\<rparr>)
      else sx_catch (transfer_chunk D)
        (\<lambda>e. sx_bind (\<lambda>j. (Ok (), j\<lparr>ld_connected := False, ld_file_open := False\<rparr>)) (\<lambda>_.
             download_report_error (TStorage e))) j)"

definition on_bytes_written :: "'w dlapi \<Rightarrow> int \<Rightarrow> ('w local_download, thrown, unit) sx" where
  "on_bytes_written D bytes j =
     (let j = j\<lparr>ld_bytes_to_write := ld_bytes_to_write j - bytes\<rparr> in
      if ld_bytes_to_write j \<ge> 0 then read_and_write_chunk D j else (Abort, j))"

text \<open>The socket reports \<open>n\<close> bytes as taken by the peer.\<close>

definition bytes_acknowledged :: "'w dlapi \<Rightarrow> int \<Rightarrow> ('w local_download, thrown, unit) sx" where
  "bytes_acknowledged D n j =
     (if ld_connected j then on_bytes_written D n (j\<lparr>ld_acked := ld_acked j + n\<rparr>) else (Ok (), j))"

section \<open>Ending\<close>

definition local_download_cancel :: "('w local_download, thrown, unit future option) sx" where
  "local_download_cancel j =
     (Ok (Some (Fut_value ())), j\<lparr>ld_connected := False, ld_file_open := False\<rparr>)"

definition download_too_early :: "'w dlapi \<Rightarrow> 'w local_download \<Rightarrow> string" where
  "download_too_early D j =
     (let file_size = qf_size D (ld_fs j) (ld_item_id j) in
      ''finish() method called too early, file \"'' @ ld_item_id j @ ''\" has size '' @ int_to_string file_size
      @ '' but only '' @ int_to_string (file_size - ld_bytes_to_write j) @ '' bytes were consumed'')"

definition local_download_finish :: "'w dlapi \<Rightarrow> ('w local_download, thrown, unit future option) sx" where
  "local_download_finish D j =
     (if ld_bytes_to_write j > 0 then
        (Ok (Some (Fut_error (copy_exception (LogicException (download_too_early D j))))),
         snd (local_download_cancel j))
      else (Ok (Some (Fut_value ())), j))"

definition FinishDownload_job :: "'w dlapi \<Rightarrow> ('w local_download, thrown, unit future option) sx" where
  "FinishDownload_job D = download_finish (local_download_finish D)"

section \<open>Correctness of the transfer\<close>

text \<open>The file keeps its contents \<open>C\<close> during the transfer, and the socket takes what it is given.\<close>

definition serves :: "'w dlapi \<Rightarrow> 'w \<Rightarrow> string \<Rightarrow> string \<Rightarrow> bool" where
  "serves D w item_id C \<longleftrightarrow>
     qf_open D w item_id = Ok (int (length C)) \<and>
     (\<forall>off n. qf_read D w item_id off n = Ok (take n (drop off C))) \<and>
     (\<forall>b. ls_write D w b = Ok (int (length b)))"

text \<open>A run: the first, queued, call of \<open>read_and_write_chunk\<close>, then acknowledgements of
  bytes that are in flight.\<close>

inductive download_run :: "'w dlapi \<Rightarrow> 'w local_download \<Rightarrow> 'w local_download \<Rightarrow> bool" for D j0 where
  kick: "read_and_write_chunk D j0 = (Ok (), j) \<Longrightarrow> download_run D j0 j"
| ack: "download_run D j0 j \<Longrightarrow> 0 < n \<Longrightarrow> ld_acked j + n \<le> int (length (ld_sent j)) \<Longrightarrow>
    bytes_acknowledged D n j = (Ok (), j') \<Longrightarrow> download_run D j0 j'"

definition sending :: "string \<Rightarrow> 'w \<Rightarrow> string \<Rightarrow> 'w local_download \<Rightarrow> bool" where
  "sending C w item_id j \<longleftrightarrow>
     \<not> ji_locked j \<and> \<not> ji_future_taken j \<and> ld_fs j = w \<and> ld_item_id j = item_id \<and>
     ld_sent j = take (ld_offset j) C \<and> ld_offset j \<le> length C \<and> 0 \<le> ld_acked j \<and>
     ld_acked j \<le> int (length (ld_sent j)) \<and>
     ld_acked j + ld_bytes_to_write j = int (length C) \<and>
     (if ji_completed j then ji_promise j = Some (Fut_value ()) \<and> ld_acked j = int (length C) \<and> \<not> ld_connected j
      else ji_promise j = None \<and> ld_connected j)"

lemma chunk_complete:
  assumes "sending C w item_id j" and "\<not> ji_completed j" and "ld_bytes_to_write j = 0"
  shows "\<exists>j'. read_and_write_chunk D j = (Ok (), j') \<and> sending C w item_id j' \<and> ji_completed j'"
  using assms
  by (auto simp: sending_def read_and_write_chunk_def download_report_complete_def complete_with_def
      with_lock_def set_promise_def close_write_socket_def)

lemma take_more: "take (a + length (take n (drop a C))) C = take a C @ take n (drop a C)"
  by (simp add: take_add min_def)

lemma take_min_drop: "take (min (length C - a) n) (drop a C) = take n (drop a C)"
  by (simp add: min_def)

lemma chunk_more:
  assumes D: "serves D w item_id C" and j: "sending C w item_id j" and "\<not> ji_completed j"
    and "ld_bytes_to_write j \<noteq> 0"
  shows "read_and_write_chunk D j =
     (Ok (), j\<lparr>ld_offset := ld_offset j + length (take READ_SIZE (drop (ld_offset j) C)),
               ld_sent := ld_sent j @ take READ_SIZE (drop (ld_offset j) C)\<rparr>)"
  using assms
  by (simp add: serves_def sending_def read_and_write_chunk_def sx_catch_def transfer_chunk_def Let_def
      take_min_drop)

lemma chunk_step:
  assumes D: "serves D w item_id C" and j: "sending C w item_id j" and nc: "\<not> ji_completed j"
  shows "\<exists>j'. read_and_write_chunk D j = (Ok (), j') \<and> sending C w item_id j' \<and>
     (ji_completed j' \<or> ld_acked j' < int (length (ld_sent j')))"
proof (cases "ld_bytes_to_write j = 0")
  case True
  with chunk_complete [OF j nc] show ?thesis by blast
next
  case False
  let ?b = "take READ_SIZE (drop (ld_offset j) C)"
  let ?j = "j\<lparr>ld_offset := ld_offset j + length ?b, ld_sent := ld_sent j @ ?b\<rparr>"
  have run: "read_and_write_chunk D j = (Ok (), ?j)" by (rule chunk_more [OF D j nc False])
  have "sending C w item_id ?j"
    using j nc take_more [of "ld_offset j" READ_SIZE C] by (auto simp: sending_def min_def)
  moreover have "ld_acked ?j < int (length (ld_sent ?j))"
  proof (cases "ld_offset j < length C")
    case True
    then have "0 < length ?b" by (simp add: READ_SIZE_def)
    moreover have "ld_acked j \<le> int (length (ld_sent j))" using j unfolding sending_def by blast
    moreover have "int (length (ld_sent ?j)) = int (length (ld_sent j)) + int (length ?b)"
      by (simp del: length_take)
    ultimately have "ld_acked j < int (length (ld_sent ?j))" by linarith
    then show ?thesis by simp
  next
    case False
    with j \<open>ld_bytes_to_write j \<noteq> 0\<close> show ?thesis by (auto simp: sending_def)
  qed
  ultimately show ?thesis using run by blast
qed

lemma ack_step:
  assumes D: "serves D w item_id C" and j: "sending C w item_id j" and nc: "\<not> ji_completed j"
    and n: "0 < n" "ld_acked j + n \<le> int (length (ld_sent j))"
  shows "\<exists>j'. bytes_acknowledged D n j = (Ok (), j') \<and> sending C w item_id j' \<and>
     (ji_completed j' \<or> ld_acked j' < int (length (ld_sent j')))"
proof -
  let ?j = "j\<lparr>ld_acked := ld_acked j + n, ld_bytes_to_write := ld_bytes_to_write j - n\<rparr>"
  have s: "sending C w item_id ?j" using j nc n by (auto simp: sending_def)
  have "bytes_acknowledged D n j = read_and_write_chunk D ?j"
    using j nc n by (simp add: sending_def bytes_acknowledged_def on_bytes_written_def Let_def)
  with chunk_step [OF D s] nc show ?thesis by simp
qed

lemma run_sending:
  assumes D: "serves D w item_id C" and j0: "sending C w item_id j0" "\<not> ji_completed j0"
    and "download_run D j0 j"
  shows "sending C w item_id j \<and> (ji_completed j \<or> ld_acked j < int (length (ld_sent j)))"
  using assms(4)
proof (induction rule: download_run.induct)
  case (kick j)
  with chunk_step [OF D j0] show ?case by auto
next
  case (ack j n j')
  show ?case
  proof (cases "ji_completed j")
    case True
    with ack show ?thesis by (simp add: sending_def bytes_acknowledged_def)
  next
    case False
    with ack_step [OF D _ False ack.hyps(2,3)] ack show ?thesis by auto
  qed
qed

lemma finish_sending:
  assumes "sending C w item_id j" and "ji_completed j"
  shows "fst (FinishDownload_job D j) = Ok (Some (Fut_value ()))"
  using assms by (simp add: sending_def FinishDownload_job_def download_finish_def with_lock_def get_future_def)

text \<open>
  C12. While the file keeps its contents, a download delivers it: at every moment the bytes
  given to the socket are a prefix of the file; no assertion fails; as long as the transfer
  has not completed there are bytes in flight whose acknowledgement moves it on, so it does
  not stall; and it completes exactly when the peer has taken the whole file, after which
  the client's finish call succeeds.
\<close>

theorem download_delivers_file:
  assumes "serves D w item_id C" and "sending C w item_id j0" and "\<not> ji_completed j0"
    and "download_run D j0 j"
  shows "ld_sent j = take (length (ld_sent j)) C \<and>
     (if ji_completed j
      then ld_sent j = C \<and> ld_acked j = int (length C) \<and> fst (FinishDownload_job D j) = Ok (Some (Fut_value ()))
      else ld_acked j < int (length (ld_sent j)) \<and>
        (\<forall>n. 0 < n \<and> ld_acked j + n \<le> int (length (ld_sent j)) \<longrightarrow>
           (\<exists>j'. bytes_acknowledged D n j = (Ok (), j'))))"
proof -
  have s: "sending C w item_id j" and live: "ji_completed j \<or> ld_acked j < int (length (ld_sent j))"
    using run_sending [OF assms] by simp_all
  have "ld_sent j = take (length (ld_sent j)) C" using s by (auto simp: sending_def min_def)
  moreover have "ld_sent j = C \<and> ld_acked j = int (length C)" if "ji_completed j"
    using s that by (auto simp: sending_def)
  ultimately show ?thesis
    using live finish_sending [OF s] ack_step [OF assms(1) s] by auto
qed

definition mem_dl :: "string \<Rightarrow> mem dlapi" where
  "mem_dl C = \<lparr>qf_open = (\<lambda>w p. Ok (int (length C))), qf_size = (\<lambda>w p. int (length C)),
     qf_read = (\<lambda>w p off n. Ok (take n (drop off C))), ls_write = (\<lambda>w b. Ok (int (length b))),
     dl_dup = (\<lambda>w fd. Ok 11)\<rparr>"

definition sample_download :: "mem local_download" where
  "sample_download = job_impl.extend sample_impl
     \<lparr>ld_fs = sample_mem, ld_item_id = ''/r/a'', ld_offset = 0, ld_file_open = True, ld_bytes_to_write = 5,
      ld_sent = '''', ld_acked = 0, ld_connected = True\<rparr>"

theorem download_delivers_file_witness:
  "\<exists>j. download_run (mem_dl ''hello'') sample_download j \<and> ji_completed j \<and> ld_sent j = ''hello''"
proof -
  let ?j1 = "sample_download\<lparr>ld_offset := 5, ld_sent := ''hello''\<rparr>"
  have k: "read_and_write_chunk (mem_dl ''hello'') sample_download = (Ok (), ?j1)"
    by (simp add: read_and_write_chunk_def sample_download_def job_impl.defs sx_catch_def transfer_chunk_def
        mem_dl_def Let_def READ_SIZE_def)
  obtain j2 where a: "bytes_acknowledged (mem_dl ''hello'') 5 ?j1 = (Ok (), j2)" and c: "ji_completed j2"
    by (simp add: bytes_acknowledged_def on_bytes_written_def Let_def read_and_write_chunk_def
        download_report_complete_def complete_with_def with_lock_def set_promise_def close_write_socket_def
        sample_download_def sample_impl_def job_impl.defs)
  have run: "download_run (mem_dl ''hello'') sample_download j2"
    by (rule download_run.ack [OF download_run.kick [OF k] _ _ a])
      (simp_all add: sample_download_def job_impl.defs)
  have "serves (mem_dl ''hello'') sample_mem ''/r/a'' ''hello''" by (simp add: serves_def mem_dl_def)
  moreover have "sending ''hello'' sample_mem ''/r/a'' sample_download" "\<not> ji_completed sample_download"
    by (simp_all add: sending_def sample_download_def sample_impl_def job_impl.defs)
  ultimately show ?thesis using download_delivers_file [OF _ _ _ run] run c by auto
qed

text \<open>A file that has grown since it was opened: the peer may take more bytes than the size
  that was recorded, and the assertion in \<open>on_bytes_written\<close> fails.\<close>

lemma grown_file_fails_assert:
  assumes "ld_connected j" and "ld_bytes_to_write j < n"
  shows "fst (bytes_acknowledged D n j) = Abort"
  using assms by (simp add: bytes_acknowledged_def on_bytes_written_def Let_def)

end
