(* ===== verification/PendingJobs.thy ===== *)
theory PendingJobs
  imports Errors "HOL-Library.Product_Lexorder"
begin

text \<open>
  The table of uploads and downloads in progress
  (\<open>src/provider/internal/PendingJobs.cpp\<close>). A job is filed under the bus name of the client
  that started it and its own id; a client is watched on the bus as long as it has a job, and
  when it disconnects its jobs are cancelled. Every operation runs under the lock of the
  table, so operations are atomic steps. A job is its id and the object it stands for
  (\<open>shared_ptr\<close>); the calls of \<open>job->p_->cancel(*job)\<close> made by \<open>cancel_job\<close> are recorded in
  \<open>pj_cancelled\<close>, with the identifier that names the job in messages.
\<close>

type_synonym job = "string \<times> nat"
type_synonym job_table = "((string \<times> string) \<times> job) list"

record PendingJobs =
  pj_downloads :: job_table
  pj_uploads :: job_table
  pj_services :: "(string \<times> int) list"
  pj_watched :: "string list"
  pj_cancelled :: "(string \<times> job) list"

definition PendingJobs_init :: PendingJobs where
  "PendingJobs_init = \<lparr>pj_downloads = [], pj_uploads = [], pj_services = [], pj_watched = [],
     pj_cancelled = []\<rparr>"

definition job_id :: "job \<Rightarrow> string" where
  "job_id j = fst j"

section \<open>Operations\<close>

definition watch_peer :: "string \<Rightarrow> PendingJobs \<Rightarrow> PendingJobs" where
  "watch_peer bus_name s =
     (case map_of (pj_services s) bus_name of
        Some n \<Rightarrow> s\<lparr>pj_services := map_insert bus_name (n + 1) (pj_services s)\<rparr>
      | None \<Rightarrow> s\<lparr>pj_watched := bus_name # pj_watched s,
                 pj_services := map_insert bus_name 1 (pj_services s)\<rparr>)"

definition unwatch_peer :: "string \<Rightarrow> PendingJobs \<Rightarrow> PendingJobs" where
  "unwatch_peer bus_name s =
     (case map_of (pj_services s) bus_name of
        None \<Rightarrow> s
      | Some n \<Rightarrow>
          if n - 1 = 0
          then s\<lparr>pj_services := map_erase bus_name (pj_services s),
                 pj_watched := filter (\<lambda>b. b \<noteq> bus_name) (pj_watched s)\<rparr>
          else s\<lparr>pj_services := map_insert bus_name (n - 1) (pj_services s)\<rparr>)"

text \<open>The asserted precondition of \<open>add_download\<close> and \<open>add_upload\<close>.\<close>

definition may_add :: "job_table \<Rightarrow> string \<Rightarrow> job \<Rightarrow> bool" where
  "may_add m client j \<longleftrightarrow> client \<noteq> [] \<and> hd client = CHR '':'' \<and> map_of m (client, job_id j) = None"

definition add_download :: "string \<Rightarrow> job \<Rightarrow> (PendingJobs, StorageException, unit) sx" where
  "add_download client j = (\<lambda>s.
     if \<not> may_add (pj_downloads s) client j then (Abort, s)
     else (Ok (), watch_peer client
       (s\<lparr>pj_downloads := map_emplace (client, job_id j) j (pj_downloads s)\<rparr>)))"

definition remove_download :: "string \<Rightarrow> string \<Rightarrow> (PendingJobs, StorageException, job) sx" where
  "remove_download client download_id = (\<lambda>s.
     case map_of (pj_downloads s) (client, download_id) of
       None \<Rightarrow> (Raise (LogicException (''No such download: '' @ download_id)), s)
     | Some j \<Rightarrow> (Ok j, unwatch_peer client
         (s\<lparr>pj_downloads := map_erase (client, download_id) (pj_downloads s)\<rparr>)))"

definition add_upload :: "string \<Rightarrow> job \<Rightarrow> (PendingJobs, StorageException, unit) sx" where
  "add_upload client j = (\<lambda>s.
     if \<not> may_add (pj_uploads s) client j then (Abort, s)
     else (Ok (), watch_peer client
       (s\<lparr>pj_uploads := map_emplace (client, job_id j) j (pj_uploads s)\<rparr>)))"

definition remove_upload :: "string \<Rightarrow> string \<Rightarrow> (PendingJobs, StorageException, job) sx" where
  "remove_upload client upload_id = (\<lambda>s.
     case map_of (pj_uploads s) (client, upload_id) of
       None \<Rightarrow> (Raise (LogicException (''No such upload: '' @ upload_id)), s)
     | Some j \<Rightarrow> (Ok j, unwatch_peer client
         (s\<lparr>pj_uploads := map_erase (client, upload_id) (pj_uploads s)\<rparr>)))"

definition cancel_job :: "string \<Rightarrow> job \<Rightarrow> PendingJobs \<Rightarrow> PendingJobs" where
  "cancel_job identifier j s = s\<lparr>pj_cancelled := pj_cancelled s @ [(identifier, j)]\<rparr>"

text \<open>
  The loop of \<open>service_disconnected\<close>: from the first key that is not below
  \<open>(service_name, "")\<close>, erase entries as long as they belong to the client. The result is
  the erased jobs in order and the table that is left.
\<close>

definition erase_client :: "string \<Rightarrow> job_table \<Rightarrow> job list \<times> job_table" where
  "erase_client client m =
     (let below = (\<lambda>(k, _). k < (client, '''')); mine = (\<lambda>(k, _). fst k = client);
          start = dropWhile below m
      in (map snd (takeWhile mine start), takeWhile below m @ dropWhile mine start))"

definition service_disconnected :: "string \<Rightarrow> PendingJobs \<Rightarrow> PendingJobs" where
  "service_disconnected service_name s =
     (let s1 = s\<lparr>pj_services := map_erase service_name (pj_services s),
                 pj_watched := filter (\<lambda>b. b \<noteq> service_name) (pj_watched s)\<rparr>;
          (djobs, downloads) = erase_client service_name (pj_downloads s1);
          s2 = fold (\<lambda>j. cancel_job (''download '' @ job_id j) j) djobs
                 (s1\<lparr>pj_downloads := downloads\<rparr>);
          (ujobs, uploads) = erase_client service_name (pj_uploads s2)
      in fold (\<lambda>j. cancel_job (''upload '' @ job_id j) j) ujobs (s2\<lparr>pj_uploads := uploads\<rparr>))"

text \<open>The destructor cancels whatever is left.\<close>

definition PendingJobs_destroy :: "PendingJobs \<Rightarrow> PendingJobs" where
  "PendingJobs_destroy s =
     fold (\<lambda>(_, j). cancel_job (''upload '' @ job_id j) j) (pj_uploads s)
       (fold (\<lambda>(_, j). cancel_job (''download '' @ job_id j) j) (pj_downloads s) s)"

section \<open>The invariant\<close>

definition jobs_of :: "string \<Rightarrow> job_table \<Rightarrow> nat" where
  "jobs_of client m = length (filter (\<lambda>(k, _). fst k = client) m)"

definition client_jobs :: "PendingJobs \<Rightarrow> string \<Rightarrow> nat" where
  "client_jobs s client = jobs_of client (pj_downloads s) + jobs_of client (pj_uploads s)"

definition table_wf :: "job_table \<Rightarrow> bool" where
  "table_wf m \<longleftrightarrow> ordered_map m \<and> (\<forall>((c, i), j) \<in> set m. i = job_id j)"

definition pj_inv :: "PendingJobs \<Rightarrow> bool" where
  "pj_inv s \<longleftrightarrow> table_wf (pj_downloads s) \<and> table_wf (pj_uploads s) \<and> ordered_map (pj_services s) \<and>
     (\<forall>c. map_of (pj_services s) c =
        (if client_jobs s c = 0 then None else Some (int (client_jobs s c)))) \<and>
     set (pj_watched s) = {c. client_jobs s c \<noteq> 0}"

lemma jobs_of_insert:
  "map_of m k = None \<Longrightarrow> jobs_of c (map_insert k j m) = jobs_of c m + (if fst k = c then 1 else 0)"
  by (induction k j m rule: map_insert.induct) (auto simp: jobs_of_def split: if_splits)

lemma jobs_of_erase:
  "distinct (map fst m) \<Longrightarrow> map_of m k = Some j \<Longrightarrow>
     jobs_of c m = jobs_of c (map_erase k m) + (if fst k = c then 1 else 0)"
proof (induction m)
  case (Cons e m)
  obtain k' j' where e: "e = (k', j')" by (cases e)
  show ?case
  proof (cases "k' = k")
    case True
    with Cons.prems(1) e have "map_erase k m = m"
      by (intro map_erase_absent) simp
    with True e show ?thesis by (simp add: jobs_of_def map_erase_def)
  next
    case False
    with Cons e show ?thesis by (auto simp: jobs_of_def map_erase_def)
  qed
qed simp

lemma table_wf_insert:
  assumes "table_wf m"
  shows "table_wf (map_insert (c, job_id j) j m)"
  using assms set_map_insert [of "(c, job_id j)" j m]
  by (auto simp: table_wf_def dest!: subsetD)

lemma table_wf_filter: "table_wf m \<Longrightarrow> table_wf (filter P m)"
  by (auto simp: table_wf_def ordered_map_filter)

lemma table_wf_erase: "table_wf m \<Longrightarrow> table_wf (map_erase k m)"
  by (simp add: map_erase_def table_wf_filter)

subsection \<open>Reference counts\<close>

text \<open>What \<open>watch_peer\<close> and \<open>unwatch_peer\<close> promise: the watch list and the counts follow one
  more, or one fewer, job of the client.\<close>

definition counts :: "(string \<Rightarrow> nat) \<Rightarrow> PendingJobs \<Rightarrow> bool" where
  "counts n s \<longleftrightarrow> ordered_map (pj_services s) \<and>
     (\<forall>c. map_of (pj_services s) c = (if n c = 0 then None else Some (int (n c)))) \<and>
     set (pj_watched s) = {c. n c \<noteq> 0}"

lemma watch_peer_counts: "counts n s \<Longrightarrow> counts (n(c := n c + 1)) (watch_peer c s)"
  by (auto simp: counts_def watch_peer_def map_of_insert split: option.splits if_splits)

lemma unwatch_peer_counts: "counts n s \<Longrightarrow> 0 < n c \<Longrightarrow> counts (n(c := n c - 1)) (unwatch_peer c s)"
  by (auto simp: counts_def unwatch_peer_def map_of_insert of_nat_diff split: option.splits if_splits)

lemma watch_peer_tables [simp]:
  "pj_downloads (watch_peer c s) = pj_downloads s" "pj_uploads (watch_peer c s) = pj_uploads s"
  "pj_cancelled (watch_peer c s) = pj_cancelled s"
  by (simp_all add: watch_peer_def split: option.splits)

lemma unwatch_peer_tables [simp]:
  "pj_downloads (unwatch_peer c s) = pj_downloads s" "pj_uploads (unwatch_peer c s) = pj_uploads s"
  "pj_cancelled (unwatch_peer c s) = pj_cancelled s"
  by (simp_all add: unwatch_peer_def split: option.splits)

lemma pj_inv_counts:
  "pj_inv s \<longleftrightarrow> table_wf (pj_downloads s) \<and> table_wf (pj_uploads s) \<and> counts (client_jobs s) s"
  by (auto simp: pj_inv_def counts_def)

lemma counts_tables [simp]:
  "counts n (s\<lparr>pj_downloads := d\<rparr>) = counts n s" "counts n (s\<lparr>pj_uploads := u\<rparr>) = counts n s"
  "counts n (s\<lparr>pj_cancelled := x\<rparr>) = counts n s"
  by (simp_all add: counts_def)

section \<open>Every operation keeps the invariant\<close>

lemma pj_inv_init: "pj_inv PendingJobs_init"
  by (simp add: pj_inv_def PendingJobs_init_def table_wf_def client_jobs_def jobs_of_def)

lemma table_wf_distinct: "table_wf m \<Longrightarrow> distinct (map fst m)"
  by (simp add: table_wf_def ordered_map_distinct)

lemma may_add_emplace: "may_add m c j \<Longrightarrow> map_emplace (c, job_id j) j m = map_insert (c, job_id j) j m"
  by (simp add: may_add_def map_emplace_def)

lemma add_download_inv: "pj_inv s \<Longrightarrow> pj_inv (snd (add_download c j s))"
proof -
  assume inv: "pj_inv s"
  let ?t = "s\<lparr>pj_downloads := map_insert (c, job_id j) j (pj_downloads s)\<rparr>"
  have "pj_inv (watch_peer c ?t)" if "may_add (pj_downloads s) c j"
  proof -
    from that have n: "client_jobs (watch_peer c ?t) = (client_jobs s)(c := client_jobs s c + 1)"
      by (auto simp: client_jobs_def may_add_def jobs_of_insert)
    from inv have "counts (client_jobs s) ?t" by (simp add: pj_inv_counts)
    from watch_peer_counts [OF this, of c] inv n show ?thesis
      by (simp add: pj_inv_counts table_wf_insert)
  qed
  with inv show ?thesis by (simp add: add_download_def may_add_emplace)
qed

lemma add_upload_inv: "pj_inv s \<Longrightarrow> pj_inv (snd (add_upload c j s))"
proof -
  assume inv: "pj_inv s"
  let ?t = "s\<lparr>pj_uploads := map_insert (c, job_id j) j (pj_uploads s)\<rparr>"
  have "pj_inv (watch_peer c ?t)" if "may_add (pj_uploads s) c j"
  proof -
    from that have n: "client_jobs (watch_peer c ?t) = (client_jobs s)(c := client_jobs s c + 1)"
      by (auto simp: client_jobs_def may_add_def jobs_of_insert)
    from inv have "counts (client_jobs s) ?t" by (simp add: pj_inv_counts)
    from watch_peer_counts [OF this, of c] inv n show ?thesis
      by (simp add: pj_inv_counts table_wf_insert)
  qed
  with inv show ?thesis by (simp add: add_upload_def may_add_emplace)
qed

lemma remove_download_inv: "pj_inv s \<Longrightarrow> pj_inv (snd (remove_download c i s))"
proof (cases "map_of (pj_downloads s) (c, i)")
  case (Some j)
  assume inv: "pj_inv s"
  let ?t = "s\<lparr>pj_downloads := map_erase (c, i) (pj_downloads s)\<rparr>"
  have jobs: "jobs_of d (pj_downloads s) =
      jobs_of d (map_erase (c, i) (pj_downloads s)) + (if c = d then 1 else 0)" for d
    using inv Some by (subst jobs_of_erase [of _ "(c, i)" j]) (simp_all add: pj_inv_def table_wf_distinct)
  then have n: "client_jobs (unwatch_peer c ?t) = (client_jobs s)(c := client_jobs s c - 1)"
    and pos: "0 < client_jobs s c"
    by (auto simp: client_jobs_def)
  from inv have "counts (client_jobs s) ?t" by (simp add: pj_inv_counts)
  from unwatch_peer_counts [OF this pos] inv n Some show ?thesis
    by (simp add: pj_inv_counts table_wf_erase remove_download_def)
qed (simp add: remove_download_def)

lemma remove_upload_inv: "pj_inv s \<Longrightarrow> pj_inv (snd (remove_upload c i s))"
proof (cases "map_of (pj_uploads s) (c, i)")
  case (Some j)
  assume inv: "pj_inv s"
  let ?t = "s\<lparr>pj_uploads := map_erase (c, i) (pj_uploads s)\<rparr>"
  have jobs: "jobs_of d (pj_uploads s) =
      jobs_of d (map_erase (c, i) (pj_uploads s)) + (if c = d then 1 else 0)" for d
    using inv Some by (subst jobs_of_erase [of _ "(c, i)" j]) (simp_all add: pj_inv_def table_wf_distinct)
  then have n: "client_jobs (unwatch_peer c ?t) = (client_jobs s)(c := client_jobs s c - 1)"
    and pos: "0 < client_jobs s c"
    by (auto simp: client_jobs_def)
  from inv have "counts (client_jobs s) ?t" by (simp add: pj_inv_counts)
  from unwatch_peer_counts [OF this pos] inv n Some show ?thesis
    by (simp add: pj_inv_counts table_wf_erase remove_upload_def)
qed (simp add: remove_upload_def)

subsection \<open>The range erase of a client's jobs\<close>

lemma key_not_below: "\<not> (k :: string \<times> string) < (c, '''') \<longleftrightarrow> c \<le> fst k"
  by (cases k) (auto simp: less_prod_def' not_less)

lemma erase_client_upper:
  assumes "ordered_map m" and "\<forall>k \<in> fst ` set m. c \<le> fst k"
  shows "takeWhile (\<lambda>(k, _). fst k = c) m = filter (\<lambda>(k, _). fst k = c) m \<and>
         dropWhile (\<lambda>(k, _). fst k = c) m = filter (\<lambda>(k, _). fst k \<noteq> c) (m :: job_table)"
  using assms
proof (induction m)
  case (Cons e m)
  obtain k j where e: "e = (k, j)" by (cases e)
  show ?case
  proof (cases "fst k = c")
    case True
    with Cons e show ?thesis by simp
  next
    case False
    have above: "\<forall>k' \<in> fst ` set m. fst k' \<noteq> c"
    proof
      fix k' assume k': "k' \<in> fst ` set m"
      with Cons.prems(1) e have "k < k'" by auto
      then have "fst k \<le> fst k'" by (auto simp: less_prod_def' less_eq_prod_def)
      moreover from False Cons.prems(2) e have "c < fst k" by auto
      ultimately show "fst k' \<noteq> c" by auto
    qed
    then have "filter (\<lambda>(k, _). fst k = c) m = []" and "filter (\<lambda>(k, _). fst k \<noteq> c) m = m"
      by (force simp: filter_empty_conv, force simp: filter_id_conv)
    with False e show ?thesis by simp
  qed
qed simp

text \<open>Reference definition: erase exactly the entries of the client, wherever they are.\<close>

lemma erase_client_eq:
  assumes "ordered_map m"
  shows "erase_client c m =
     (map snd (filter (\<lambda>(k, _). fst k = c) m), filter (\<lambda>(k, _). fst k \<noteq> c) m)"
  using assms
proof (induction m)
  case (Cons e m)
  obtain k j where e: "e = (k, j)" by (cases e)
  show ?case
  proof (cases "k < (c, '''')")
    case True
    then have "fst k \<noteq> c" by (cases k) (auto simp: less_prod_def')
    with True Cons e show ?thesis by (simp add: erase_client_def Let_def)
  next
    case False
    then have ck: "c \<le> fst k" by (simp add: key_not_below)
    have "\<forall>k' \<in> fst ` set (e # m). c \<le> fst k'"
    proof
      fix k' assume "k' \<in> fst ` set (e # m)"
      then consider "k' = k" | "k < k'" using Cons.prems e by auto
      then show "c \<le> fst k'"
        by cases (use ck in \<open>auto simp: less_prod_def'\<close>)
    qed
    from erase_client_upper [OF Cons.prems this] False e show ?thesis
      by (simp add: erase_client_def Let_def)
  qed
qed (simp add: erase_client_def)

lemma fold_cancel_job:
  "fold (\<lambda>j. cancel_job (f j) j) js s = s\<lparr>pj_cancelled := pj_cancelled s @ map (\<lambda>j. (f j, j)) js\<rparr>"
  by (induction js arbitrary: s) (simp_all add: cancel_job_def)

lemma service_disconnected_eq:
  assumes "pj_inv s"
  shows "service_disconnected c s =
    s\<lparr>pj_services := map_erase c (pj_services s),
      pj_watched := filter (\<lambda>b. b \<noteq> c) (pj_watched s),
      pj_downloads := filter (\<lambda>(k, _). fst k \<noteq> c) (pj_downloads s),
      pj_uploads := filter (\<lambda>(k, _). fst k \<noteq> c) (pj_uploads s),
      pj_cancelled := pj_cancelled s
        @ map (\<lambda>(_, j). (''download '' @ job_id j, j)) (filter (\<lambda>(k, _). fst k = c) (pj_downloads s))
        @ map (\<lambda>(_, j). (''upload '' @ job_id j, j)) (filter (\<lambda>(k, _). fst k = c) (pj_uploads s))\<rparr>"
  using assms
  by (simp add: service_disconnected_def Let_def erase_client_eq fold_cancel_job pj_inv_def
      table_wf_def o_def case_prod_unfold)

lemma jobs_of_filter:
  "jobs_of d (filter (\<lambda>(k, _). fst k \<noteq> c) m) = (if d = c then 0 else jobs_of d m)"
  by (induction m) (auto simp: jobs_of_def)

lemma service_disconnected_inv: "pj_inv s \<Longrightarrow> pj_inv (service_disconnected c s)"
  by (auto simp: service_disconnected_eq pj_inv_def client_jobs_def jobs_of_filter table_wf_filter
      split: if_splits)

subsection \<open>Runs\<close>

datatype pj_event =
    Add_download string job | Remove_download string string
  | Add_upload string job | Remove_upload string string | Disconnected string

fun pj_step :: "PendingJobs \<Rightarrow> pj_event \<Rightarrow> PendingJobs" where
  "pj_step s (Add_download c j) = snd (add_download c j s)"
| "pj_step s (Remove_download c i) = snd (remove_download c i s)"
| "pj_step s (Add_upload c j) = snd (add_upload c j s)"
| "pj_step s (Remove_upload c i) = snd (remove_upload c i s)"
| "pj_step s (Disconnected c) = service_disconnected c s"

interpretation pj_machine: invariant_machine pj_step pj_inv
proof unfold_locales
  fix s e
  assume "pj_inv s"
  then show "pj_inv (pj_step s e)"
    by (cases e) (simp_all add: add_download_inv remove_download_inv add_upload_inv
        remove_upload_inv service_disconnected_inv)
qed

section \<open>Properties\<close>

text \<open>
  C16. In every state the job table can reach, the reference count of a client is the number of
  its pending uploads and downloads, a client without jobs has no count, and exactly the
  clients with a job are watched on the bus.
\<close>

theorem pending_jobs_invariant: "pj_inv (run_events pj_step PendingJobs_init es)"
  by (rule pj_machine.inv_run) (rule pj_inv_init)

text \<open>
  When a client disconnects, every job of that client and no other is removed and
  cancelled exactly once, downloads first, and the client is no longer watched; the jobs of
  the other clients stay.
\<close>

theorem disconnect_cancels_exactly:
  assumes "pj_inv s"
  shows "pj_downloads (service_disconnected c s) = filter (\<lambda>(k, _). fst k \<noteq> c) (pj_downloads s) \<and>
    pj_uploads (service_disconnected c s) = filter (\<lambda>(k, _). fst k \<noteq> c) (pj_uploads s) \<and>
    map snd (pj_cancelled (service_disconnected c s)) = map snd (pj_cancelled s)
      @ map snd (filter (\<lambda>(k, _). fst k = c) (pj_downloads s))
      @ map snd (filter (\<lambda>(k, _). fst k = c) (pj_uploads s)) \<and>
    c \<notin> set (pj_watched (service_disconnected c s))"
  using assms by (simp add: service_disconnected_eq o_def case_prod_unfold)

text \<open>Three jobs of two clients.\<close>

definition sample_jobs :: PendingJobs where
  "sample_jobs = run_events pj_step PendingJobs_init
     [Add_download '':1'' (''1'', 0), Add_upload '':2'' (''1'', 1), Add_upload '':1'' (''2'', 2)]"

theorem disconnect_cancels_exactly_witness:
  "pj_downloads (service_disconnected '':1'' sample_jobs) = [] \<and>
   pj_uploads (service_disconnected '':1'' sample_jobs) = [(('':2'', ''1''), (''1'', 1))] \<and>
   map snd (pj_cancelled (service_disconnected '':1'' sample_jobs)) = [(''1'', 0), (''2'', 2)]"
proof -
  have "pj_inv sample_jobs"
    unfolding sample_jobs_def by (rule pj_machine.inv_run) (rule pj_inv_init)
  note d = disconnect_cancels_exactly [OF this, of "'':1''"]
  have "pj_downloads sample_jobs = [(('':1'', ''1''), (''1'', 0))]"
    and "pj_uploads sample_jobs = [(('':1'', ''2''), (''2'', 2)), (('':2'', ''1''), (''1'', 1))]"
    and "pj_cancelled sample_jobs = []"
    by (simp_all add: sample_jobs_def PendingJobs_init_def add_download_def add_upload_def
        may_add_def job_id_def map_emplace_def watch_peer_def less_prod_def')
  with d show ?thesis by simp
qed

text \<open>
  A job that was added is the one that the same client gets restored by its id, the tables
  are then as before, and no other client can take it: for another client the request fails
  with a \<open>LogicException\<close> and changes nothing.
\<close>

theorem add_remove_download:
  assumes "pj_inv s" and "may_add (pj_downloads s) c j" and "d \<noteq> c"
    and "map_of (pj_downloads s) (d, job_id j) = None"
  shows "let s' = snd (add_download c j s) in
    fst (remove_download c (job_id j) s') = Ok j \<and>
    pj_downloads (snd (remove_download c (job_id j) s')) = pj_downloads s \<and>
    set (pj_watched (snd (remove_download c (job_id j) s'))) = set (pj_watched s) \<and>
    remove_download d (job_id j) s' = (Raise (LogicException (''No such download: '' @ job_id j)), s')"
proof -
  let ?k = "(c, job_id j)"
  let ?s' = "snd (add_download c j s)"
  let ?t = "snd (remove_download c (job_id j) ?s')"
  from assms(2) have none: "map_of (pj_downloads s) ?k = None" by (simp add: may_add_def)
  then have absent: "?k \<notin> fst ` set (pj_downloads s)" by (simp add: map_of_eq_None_iff)
  have dl: "pj_downloads ?s' = map_insert ?k j (pj_downloads s)"
    using assms(2) by (simp add: add_download_def may_add_emplace)
  have look: "map_of (pj_downloads ?s') = (map_of (pj_downloads s))(?k \<mapsto> j)"
    using assms(1) dl by (simp add: map_of_insert pj_inv_def table_wf_def)
  have restored: "pj_downloads ?t = pj_downloads s" "pj_uploads ?t = pj_uploads s"
    using look dl absent assms(2)
    by (simp_all add: remove_download_def map_erase_insert add_download_def may_add_emplace)
  have "pj_inv ?t" by (intro remove_download_inv add_download_inv assms)
  then have "set (pj_watched ?t) = set (pj_watched s)"
    using assms(1) restored by (simp add: pj_inv_def client_jobs_def)
  with look restored assms(3,4) show ?thesis
    by (simp add: remove_download_def Let_def)
qed

theorem add_remove_download_witness:
  "fst (remove_download '':1'' ''7'' (snd (add_download '':1'' (''7'', 3) PendingJobs_init))) = Ok (''7'', 3)"
  using add_remove_download [OF pj_inv_init, of "'':1''" "(''7'', 3)" "'':2''"]
  by (simp add: may_add_def PendingJobs_init_def job_id_def Let_def)

end
