(* ===== verification/Provider.thy ===== *)
theory Provider
  imports PendingJobs Client "HOL-Library.Multiset"
begin

text \<open>
  The D-Bus object of an account (\<open>src/provider/internal/ProviderInterface.cpp\<close>): each method
  queues a request whose callback calls the provider and attaches a continuation to the future
  that it gets; the continuation builds the reply. Requests of several clients are in flight
  at the same time, so a request is two steps: the callback (\<open>call_provider\<close>) and the
  continuation (\<open>continue_call\<close>). What happens to a request before its callback runs is
  \<open>ReqHandler\<close>.

  The provider is the parameter \<open>P\<close>, the virtual functions of \<open>ProviderBase\<close>, \<open>UploadJob\<close> and
  \<open>DownloadJob\<close> with a state of their own; a function throws at once or returns a future, which
  is a value or an exception. Job objects are numbered in the order in which they are made.
\<close>

section \<open>The provider\<close>

type_synonym ('w, 'a) async = "('w, thrown, thrown + 'a) sx"

record 'w provider =
  pr_roots :: "keys \<Rightarrow> ('w, provider_item list) async"
  pr_list :: "string \<Rightarrow> string \<Rightarrow> keys \<Rightarrow> ('w, provider_item list \<times> string) async"
  pr_lookup :: "string \<Rightarrow> string \<Rightarrow> keys \<Rightarrow> ('w, provider_item list) async"
  pr_metadata :: "string \<Rightarrow> keys \<Rightarrow> ('w, provider_item) async"
  pr_create_folder :: "string \<Rightarrow> string \<Rightarrow> keys \<Rightarrow> ('w, provider_item) async"
  pr_create_file :: "nat \<Rightarrow> string \<Rightarrow> string \<Rightarrow> int \<Rightarrow> string \<Rightarrow> bool \<Rightarrow> keys \<Rightarrow> ('w, string) async"
  pr_update :: "nat \<Rightarrow> string \<Rightarrow> int \<Rightarrow> string \<Rightarrow> keys \<Rightarrow> ('w, string) async"
  pr_download :: "nat \<Rightarrow> string \<Rightarrow> string \<Rightarrow> ('w, string) async"
  pr_delete_item :: "string \<Rightarrow> ('w, unit) async"
  pr_move :: "string \<Rightarrow> string \<Rightarrow> string \<Rightarrow> keys \<Rightarrow> ('w, provider_item) async"
  pr_copy :: "string \<Rightarrow> string \<Rightarrow> string \<Rightarrow> keys \<Rightarrow> ('w, provider_item) async"
  pr_finish_upload :: "nat \<Rightarrow> ('w, provider_item) async"
  pr_cancel_upload :: "nat \<Rightarrow> ('w, unit) async"
  pr_finish_download :: "nat \<Rightarrow> ('w, unit) async"
  pr_cancel_download :: "nat \<Rightarrow> ('w, unit) async"
  pr_take_write_socket :: "nat \<Rightarrow> ('w, thrown, int) sx"
  pr_take_read_socket :: "nat \<Rightarrow> ('w, thrown, int) sx"

section \<open>State\<close>

text \<open>What a future holds when it is ready, and what goes into the reply message.\<close>

datatype future_value =
    FV_items "provider_item list"
  | FV_page "provider_item list" string
  | FV_item provider_item
  | FV_unit
  | FV_upload job
  | FV_download job

datatype reply_value =
    R_items "provider_item list"
  | R_page "provider_item list" string
  | R_item provider_item
  | R_unit
  | R_transfer string int

text \<open>A request whose continuation has not run: the sender, the future, and the job that the
  continuation has captured.\<close>

record pending_call =
  pc_client :: string
  pc_future :: "thrown + future_value"
  pc_job :: "job option"

text \<open>
  \<open>if_holding\<close> lists the job objects with an \<open>ActivityNotifier\<close>; \<open>if_ended\<close> those on which
  \<open>finish\<close> or \<open>cancel\<close> was called here; \<open>if_cancelling\<close> those that are kept by the continuation
  of a \<open>cancel\<close> that the job table called.
\<close>

record 'w iface =
  if_world :: 'w
  if_jobs :: PendingJobs
  if_next :: nat
  if_count :: nat
  if_pending :: "(nat \<times> pending_call) list"
  if_replies :: "(nat \<times> (thrown + reply_value)) list"
  if_holding :: "nat list"
  if_ended :: "nat list"
  if_cancelling :: "nat list"
  if_aborted :: bool

definition iface_init :: "'w \<Rightarrow> 'w iface" where
  "iface_init w = \<lparr>if_world = w, if_jobs = PendingJobs_init, if_next = 0, if_count = 0, if_pending = [],
     if_replies = [], if_holding = [], if_ended = [], if_cancelling = [], if_aborted = False\<rparr>"

section \<open>The callbacks\<close>

definition on_world :: "('w, thrown, 'a) sx \<Rightarrow> ('w iface, thrown, 'a) sx" where
  "on_world m s = (case m (if_world s) of (r, w) \<Rightarrow> (r, s\<lparr>if_world := w\<rparr>))"

definition on_jobs :: "(PendingJobs, StorageException, 'a) sx \<Rightarrow> ('w iface, thrown, 'a) sx" where
  "on_jobs m s = (case m (if_jobs s) of
      (Ok a, t) \<Rightarrow> (Ok a, s\<lparr>if_jobs := t\<rparr>)
    | (Raise e, t) \<Rightarrow> (Raise (TStorage e), s\<lparr>if_jobs := t\<rparr>)
    | (Abort, t) \<Rightarrow> (Abort, s\<lparr>if_jobs := t\<rparr>))"

text \<open>A call of the provider: the future, its value in the form \<open>f\<close>, and no job captured.\<close>

definition calls :: "('a \<Rightarrow> future_value) \<Rightarrow> ('w, 'a) async \<Rightarrow>
    ('w iface, thrown, (thrown + future_value) \<times> job option) sx" where
  "calls f m = sx_bind (on_world m) (\<lambda>r. sx_return (map_sum id f r, None))"

definition makes_job :: "(job \<Rightarrow> future_value) \<Rightarrow> (nat \<Rightarrow> ('w, string) async) \<Rightarrow>
    ('w iface, thrown, (thrown + future_value) \<times> job option) sx" where
  "makes_job f mk s =
     (let n = if_next s in calls (\<lambda>i. f (i, n)) (mk n) (s\<lparr>if_next := n + 1\<rparr>))"

text \<open>The last reference to a job goes away.\<close>

definition release_job :: "job \<Rightarrow> 'w iface \<Rightarrow> 'w iface" where
  "release_job j s = s\<lparr>if_holding := filter (\<lambda>n. n \<noteq> snd j) (if_holding s)\<rparr>"

text \<open>Code that holds a job: the job is released when the code throws.\<close>

definition with_job :: "job \<Rightarrow> ('w iface, thrown, 'a) sx \<Rightarrow> ('w iface, thrown, 'a) sx" where
  "with_job j m s = (case m s of
      (Raise e, t) \<Rightarrow> (Raise e, release_job j t)
    | rt \<Rightarrow> rt)"

definition ends_job :: "(PendingJobs, StorageException, job) sx \<Rightarrow> ('a \<Rightarrow> future_value) \<Rightarrow>
    (nat \<Rightarrow> ('w, 'a) async) \<Rightarrow> ('w iface, thrown, (thrown + future_value) \<times> job option) sx" where
  "ends_job remove f end = sx_bind (on_jobs remove) (\<lambda>j. with_job j (\<lambda>s.
     sx_bind (on_world (end (snd j))) (\<lambda>r. sx_return (map_sum id f r, Some j))
       (s\<lparr>if_ended := if_ended s @ [snd j]\<rparr>)))"

fun call_provider :: "'w provider \<Rightarrow> string \<Rightarrow> dbus_call \<Rightarrow>
    ('w iface, thrown, (thrown + future_value) \<times> job option) sx" where
  "call_provider P c (Roots keys) = calls FV_items (pr_roots P keys)"
| "call_provider P c (List item_id page_token keys) =
     calls (\<lambda>(items, token). FV_page items token) (pr_list P item_id page_token keys)"
| "call_provider P c (Lookup parent_id name keys) = calls FV_items (pr_lookup P parent_id name keys)"
| "call_provider P c (Metadata item_id keys) = calls FV_item (pr_metadata P item_id keys)"
| "call_provider P c (CreateFolder parent_id name keys) =
     calls FV_item (pr_create_folder P parent_id name keys)"
| "call_provider P c (CreateFile parent_id name sz content_type allow_overwrite keys) =
     makes_job FV_upload (\<lambda>n. pr_create_file P n parent_id name sz content_type allow_overwrite keys)"
| "call_provider P c (Update item_id sz old_etag keys) =
     makes_job FV_upload (\<lambda>n. pr_update P n item_id sz old_etag keys)"
| "call_provider P c (FinishUpload upload_id) =
     ends_job (remove_upload c upload_id) FV_item (pr_finish_upload P)"
| "call_provider P c (CancelUpload upload_id) =
     ends_job (remove_upload c upload_id) (\<lambda>_. FV_unit) (pr_cancel_upload P)"
| "call_provider P c (Download item_id match_etag) =
     makes_job FV_download (\<lambda>n. pr_download P n item_id match_etag)"
| "call_provider P c (FinishDownload download_id) =
     ends_job (remove_download c download_id) (\<lambda>_. FV_unit) (pr_finish_download P)"
| "call_provider P c (Delete item_id) = calls (\<lambda>_. FV_unit) (pr_delete_item P item_id)"
| "call_provider P c (Move item_id new_parent_id new_name keys) =
     calls FV_item (pr_move P item_id new_parent_id new_name keys)"
| "call_provider P c (Copy item_id new_parent_id new_name keys) =
     calls FV_item (pr_copy P item_id new_parent_id new_name keys)"

section \<open>The continuations\<close>

text \<open>\<open>set_activity\<close>, the id, the descriptor, and the entry in the job table.\<close>

definition register_job :: "(job \<Rightarrow> (PendingJobs, StorageException, unit) sx) \<Rightarrow>
    (nat \<Rightarrow> ('w, thrown, int) sx) \<Rightarrow> job \<Rightarrow> ('w iface, thrown, reply_value) sx" where
  "register_job add take_socket j = with_job j (\<lambda>s.
     sx_bind (on_world (take_socket (snd j))) (\<lambda>fd.
     sx_bind (on_jobs (add j)) (\<lambda>_.
     sx_return (R_transfer (job_id j) fd))) (s\<lparr>if_holding := snd j # if_holding s\<rparr>))"

fun continue_call :: "'w provider \<Rightarrow> string \<Rightarrow> thrown + future_value \<Rightarrow> ('w iface, thrown, reply_value) sx" where
  "continue_call P c (Inl e) = sx_throw e"
| "continue_call P c (Inr (FV_items items)) = sx_return (R_items items)"
| "continue_call P c (Inr (FV_page items token)) = sx_return (R_page items token)"
| "continue_call P c (Inr (FV_item item)) = sx_return (R_item item)"
| "continue_call P c (Inr FV_unit) = sx_return R_unit"
| "continue_call P c (Inr (FV_upload j)) = register_job (add_upload c) (pr_take_write_socket P) j"
| "continue_call P c (Inr (FV_download j)) = register_job (add_download c) (pr_take_read_socket P) j"

section \<open>Requests\<close>

text \<open>A failed assertion ends the process: its state stays as the event found it.\<close>

definition add_reply :: "nat \<Rightarrow> thrown + reply_value \<Rightarrow> 'w iface \<Rightarrow> 'w iface" where
  "add_reply r m s = s\<lparr>if_replies := if_replies s @ [(r, m)]\<rparr>"

definition run_callback :: "'w provider \<Rightarrow> string \<Rightarrow> dbus_call \<Rightarrow> 'w iface \<Rightarrow> 'w iface" where
  "run_callback P c call s =
     (let r = if_count s in
      case call_provider P c call (s\<lparr>if_count := r + 1\<rparr>) of
        (Ok (f, j), t) \<Rightarrow>
          t\<lparr>if_pending := if_pending t @ [(r, \<lparr>pc_client = c, pc_future = f, pc_job = j\<rparr>)]\<rparr>
      | (Raise e, t) \<Rightarrow> add_reply r (Inl e) t
      | (Abort, t) \<Rightarrow> s\<lparr>if_aborted := True\<rparr>)"

definition run_continuation :: "'w provider \<Rightarrow> nat \<Rightarrow> 'w iface \<Rightarrow> 'w iface" where
  "run_continuation P r s =
     (case map_of (if_pending s) r of
        None \<Rightarrow> s
      | Some pc \<Rightarrow>
          (case continue_call P (pc_client pc) (pc_future pc)
                  (s\<lparr>if_pending := filter (\<lambda>(r', _). r' \<noteq> r) (if_pending s)\<rparr>) of
             (Ok m, t) \<Rightarrow> add_reply r (Inr m) (case pc_job pc of None \<Rightarrow> t | Some j \<Rightarrow> release_job j t)
           | (Raise e, t) \<Rightarrow> add_reply r (Inl e) (case pc_job pc of None \<Rightarrow> t | Some j \<Rightarrow> release_job j t)
           | (Abort, t) \<Rightarrow> s\<lparr>if_aborted := True\<rparr>))"

text \<open>A client leaves the bus: its jobs are cancelled, and each is kept until that is done. What the
  future of \<open>cancel\<close> holds is ignored, but an exception that \<open>cancel\<close> throws at once leaves the
  slot and ends the process.\<close>

definition cancels_jobs :: "(nat \<Rightarrow> ('w, unit) async) \<Rightarrow> job list \<Rightarrow> ('w, thrown, unit) sx" where
  "cancels_jobs cancel js = sx_for js (\<lambda>j. sx_bind (cancel (snd j)) (\<lambda>_. sx_return ()))"

definition table_objects :: "job_table \<Rightarrow> nat list" where
  "table_objects m = map (\<lambda>(_, j). snd j) m"

definition client_leaves :: "'w provider \<Rightarrow> string \<Rightarrow> 'w iface \<Rightarrow> 'w iface" where
  "client_leaves P c s =
     (let downloads = fst (erase_client c (pj_downloads (if_jobs s)));
          uploads = fst (erase_client c (pj_uploads (if_jobs s)))
      in case sx_bind (cancels_jobs (pr_cancel_download P) downloads)
                (\<lambda>_. cancels_jobs (pr_cancel_upload P) uploads) (if_world s) of
           (Ok _, w) \<Rightarrow> s\<lparr>if_world := w, if_jobs := service_disconnected c (if_jobs s),
              if_cancelling := if_cancelling s @ map snd (downloads @ uploads)\<rparr>
         | _ \<Rightarrow> s\<lparr>if_aborted := True\<rparr>)"

definition cancel_done :: "nat \<Rightarrow> 'w iface \<Rightarrow> 'w iface" where
  "cancel_done n s =
     (if n \<in> set (if_cancelling s)
      then release_job ('''', n) (s\<lparr>if_cancelling := filter (\<lambda>m. m \<noteq> n) (if_cancelling s)\<rparr>) else s)"

datatype iface_event =
    Request string dbus_call
  | Future_ready nat
  | Client_leaves string
  | Cancel_done nat

fun iface_step :: "'w provider \<Rightarrow> 'w iface \<Rightarrow> iface_event \<Rightarrow> 'w iface" where
  "iface_step P s (Request c call) = (if if_aborted s then s else run_callback P c call s)"
| "iface_step P s (Future_ready r) = (if if_aborted s then s else run_continuation P r s)"
| "iface_step P s (Client_leaves c) = (if if_aborted s then s else client_leaves P c s)"
| "iface_step P s (Cancel_done n) = (if if_aborted s then s else cancel_done n s)"

section \<open>Where the job objects are\<close>

text \<open>
  A job object is in a future, in one of the two tables, or it has been ended: by a call here,
  or because its client left. \<open>census\<close> counts the places of each object.
\<close>

definition made :: "thrown + future_value \<Rightarrow> nat multiset" where
  "made f = (case f of Inr (FV_upload j) \<Rightarrow> {#snd j#} | Inr (FV_download j) \<Rightarrow> {#snd j#} | _ \<Rightarrow> {#})"

definition tables :: "PendingJobs \<Rightarrow> nat list" where
  "tables t = table_objects (pj_downloads t) @ table_objects (pj_uploads t)"

definition cancelled_objects :: "PendingJobs \<Rightarrow> nat list" where
  "cancelled_objects t = map (\<lambda>(_, j). snd j) (pj_cancelled t)"

definition census :: "'w iface \<Rightarrow> nat multiset" where
  "census s = mset (tables (if_jobs s)) + (\<Sum>(_, pc) \<leftarrow> if_pending s. made (pc_future pc)) + mset (if_ended s)
     + mset (cancelled_objects (if_jobs s))"

definition captured :: "(nat \<times> pending_call) list \<Rightarrow> nat list" where
  "captured ps = concat (map (\<lambda>(_, pc). case pc_job pc of None \<Rightarrow> [] | Some j \<Rightarrow> [snd j]) ps)"

text \<open>The invariant, with the objects \<open>M\<close> in a future and the objects \<open>H\<close> captured by a
  continuation that are in hand while a request is processed.\<close>

definition owns :: "nat multiset \<Rightarrow> nat list \<Rightarrow> 'w iface \<Rightarrow> bool" where
  "owns M H s \<longleftrightarrow> pj_inv (if_jobs s) \<and> census s + M \<subseteq># mset_set {..<if_next s} \<and>
     distinct (map fst (if_pending s)) \<and> (\<forall>r \<in> fst ` set (if_pending s). r < if_count s) \<and>
     distinct (H @ captured (if_pending s)) \<and> set (H @ captured (if_pending s)) \<subseteq> set (if_ended s) \<and>
     set (if_cancelling s) \<subseteq> set (cancelled_objects (if_jobs s)) \<and>
     set (if_holding s) = set (tables (if_jobs s)) \<union> set (H @ captured (if_pending s)) \<union> set (if_cancelling s)"

lemma table_objects_insert:
  "map_of m k = None \<Longrightarrow> mset (table_objects (map_insert k j m)) = add_mset (snd j) (mset (table_objects m))"
  by (induction k j m rule: map_insert.induct) (auto simp: table_objects_def split: if_splits)

lemma table_objects_erase:
  "distinct (map fst m) \<Longrightarrow> map_of m k = Some j \<Longrightarrow>
     mset (table_objects m) = add_mset (snd j) (mset (table_objects (map_erase k m)))"
proof (induction m)
  case (Cons e m)
  obtain k' j' where e: "e = (k', j')" by (cases e)
  show ?case
  proof (cases "k' = k")
    case True
    with Cons.prems(1) e have "map_erase k m = m" by (intro map_erase_absent) simp
    with True e Cons.prems(2) show ?thesis by (simp add: table_objects_def map_erase_def)
  next
    case False
    with Cons e show ?thesis by (simp add: table_objects_def map_erase_def)
  qed
qed simp

lemma table_objects_split:
  "mset (table_objects m) = mset (table_objects (filter Q m)) + mset (table_objects (filter (\<lambda>e. \<not> Q e) m))"
  by (induction m) (auto simp: table_objects_def)

lemma disjoint_mset:
  assumes "A + B \<subseteq># mset_set F"
  shows "set_mset A \<inter> set_mset B = {}"
proof (rule ccontr)
  assume "set_mset A \<inter> set_mset B \<noteq> {}"
  then obtain x where "0 < count A x" and "0 < count B x" by auto
  then have "2 \<le> count A x + count B x" by linarith
  also have "\<dots> \<le> count (mset_set F) x"
    using mset_subset_eq_count [OF assms, of x] by simp
  finally have "2 \<le> count (mset_set F) x" .
  then show False by (cases "finite F"; cases "x \<in> F") simp_all
qed

lemma distinct_mset_set: "mset xs \<subseteq># mset_set F \<Longrightarrow> distinct xs"
proof -
  assume "mset xs \<subseteq># mset_set F"
  then have "count (mset xs) x \<le> count (mset_set F) x" for x by (rule mset_subset_eq_count)
  moreover have "count (mset_set F) x \<le> 1" for x by (cases "finite F"; cases "x \<in> F") simp_all
  ultimately have "count (mset xs) x \<le> 1" for x by (metis le_trans)
  then show "distinct xs"
    by (simp add: distinct_count_atmost_1 le_antisym Suc_leI count_greater_zero_iff)
qed

section \<open>One request\<close>

lemmas iface_runs = on_world_def on_jobs_def release_job_def with_job_def sx_bind_def sx_return_def

lemma census_frame [simp]:
  "census (s\<lparr>if_world := w\<rparr>) = census s" "census (s\<lparr>if_next := n\<rparr>) = census s"
  "census (s\<lparr>if_count := n\<rparr>) = census s" "census (s\<lparr>if_replies := r\<rparr>) = census s"
  "census (s\<lparr>if_holding := h\<rparr>) = census s" "census (s\<lparr>if_cancelling := h\<rparr>) = census s"
  "census (s\<lparr>if_aborted := b\<rparr>) = census s"
  by (simp_all add: census_def)

lemma owns_frame [simp]:
  "owns M H (s\<lparr>if_world := w\<rparr>) = owns M H s" "owns M H (s\<lparr>if_replies := r\<rparr>) = owns M H s"
  "owns M H (s\<lparr>if_aborted := b\<rparr>) = owns M H s"
  by (simp_all add: owns_def)

lemma calls_keeps:
  assumes "owns {#} [] s" and "calls f m s = (Ok (r, j), t)" and "\<And>a. made (Inr (f a)) = {#}"
  shows "owns (made r) [] t \<and> j = None \<and> (if_count t, if_pending t) = (if_count s, if_pending s)"
proof -
  obtain x w where "m (if_world s) = (Ok x, w)" "r = map_sum id f x" "j = None" "t = s\<lparr>if_world := w\<rparr>"
    using assms(2) by (auto simp: calls_def iface_runs split: prod.splits outcome.splits)
  with assms(1,3) show ?thesis by (cases x) (simp_all add: made_def)
qed

lemma calls_fails:
  assumes "calls f m s = (Raise e, t)"
  shows "\<exists>w. t = s\<lparr>if_world := w\<rparr>"
  using assms by (auto simp: calls_def iface_runs split: prod.splits outcome.splits)

lemma owns_next:
  assumes "owns {#} [] s"
  shows "owns {#if_next s#} [] (s\<lparr>if_next := if_next s + 1\<rparr>)"
  using assms by (simp add: owns_def lessThan_Suc)

lemma owns_weaken: "owns M H s \<Longrightarrow> N \<subseteq># M \<Longrightarrow> owns N H s"
  unfolding owns_def by (meson mset_subset_eq_mono_add_left_cancel subset_mset.trans)

lemma makes_job_keeps:
  assumes "owns {#} [] s" and "makes_job f mk s = (Ok (r, j), t)" and "\<And>i. made (Inr (f (i, if_next s))) = {#if_next s#}"
  shows "owns (made r) [] t \<and> j = None \<and> (if_count t, if_pending t) = (if_count s, if_pending s)"
proof -
  let ?n = "if_next s"
  obtain x w where x: "mk ?n (if_world s) = (Ok x, w)" "r = map_sum id (\<lambda>i. f (i, ?n)) x" "j = None"
      "t = s\<lparr>if_next := ?n + 1, if_world := w\<rparr>"
    using assms(2) by (auto simp: makes_job_def calls_def iface_runs Let_def split: prod.splits outcome.splits)
  have "owns {#?n#} [] (s\<lparr>if_next := ?n + 1, if_world := w\<rparr>)"
    using owns_next [OF assms(1)] owns_frame(1) by fastforce
  moreover have "made r \<subseteq># {#?n#}"
    using assms(3) x(2) by (cases x) (simp_all add: made_def)
  ultimately show ?thesis using x by (simp add: owns_weaken)
qed

lemma makes_job_fails:
  assumes "owns {#} [] s" and "makes_job f mk s = (Raise e, t)"
  shows "owns {#} [] t \<and> (if_count t, if_pending t) = (if_count s, if_pending s)"
proof -
  obtain w where "t = s\<lparr>if_next := if_next s + 1, if_world := w\<rparr>"
    using assms(2) calls_fails unfolding makes_job_def Let_def by fastforce
  then show ?thesis using owns_weaken [OF owns_next [OF assms(1)], of "{#}"] owns_frame(1) by fastforce
qed

lemma owns_count:
  assumes "owns M H s"
  shows "count (mset (tables (if_jobs s))) x + count (mset (if_ended s)) x
    + count (mset (cancelled_objects (if_jobs s))) x + count M x \<le> 1"
proof -
  have "count (census s + M) x \<le> count (mset_set {..<if_next s}) x"
    using assms by (intro mset_subset_eq_count) (simp add: owns_def)
  also have "\<dots> \<le> 1" by (cases "x < if_next s") simp_all
  finally show ?thesis by (simp add: census_def)
qed

lemma owns_disjoint:
  assumes "owns M H s"
  shows "set (tables (if_jobs s)) \<inter> set (if_ended s) = {}"
    "set (tables (if_jobs s)) \<inter> set (cancelled_objects (if_jobs s)) = {}"
    "set (if_ended s) \<inter> set (cancelled_objects (if_jobs s)) = {}"
    "set_mset M \<inter> (set (tables (if_jobs s)) \<union> set (if_ended s) \<union> set (cancelled_objects (if_jobs s))) = {}"
proof -
  have m: "x \<in> set xs \<longleftrightarrow> 0 < count (mset xs) x" "x \<in># A \<longleftrightarrow> 0 < count A x" for x :: nat and xs A by simp_all
  have 1: "x \<in> set (tables (if_jobs s)) \<Longrightarrow> x \<notin> set (if_ended s)"
    and 2: "x \<in> set (tables (if_jobs s)) \<Longrightarrow> x \<notin> set (cancelled_objects (if_jobs s))"
    and 3: "x \<in> set (if_ended s) \<Longrightarrow> x \<notin> set (cancelled_objects (if_jobs s))"
    and 4: "x \<in># M \<Longrightarrow> x \<notin> set (tables (if_jobs s)) \<and> x \<notin> set (if_ended s) \<and> x \<notin> set (cancelled_objects (if_jobs s))"
    for x
    using owns_count [OF assms, of x] unfolding m by linarith+
  from 1 show "set (tables (if_jobs s)) \<inter> set (if_ended s) = {}" by blast
  from 2 show "set (tables (if_jobs s)) \<inter> set (cancelled_objects (if_jobs s)) = {}" by blast
  from 3 show "set (if_ended s) \<inter> set (cancelled_objects (if_jobs s)) = {}" by blast
  from 4 show "set_mset M \<inter> (set (tables (if_jobs s)) \<union> set (if_ended s) \<union> set (cancelled_objects (if_jobs s))) = {}"
    by blast
qed

lemma owns_release:
  assumes "owns M (n # H) s"
  shows "owns M H (release_job (i, n) s)"
proof -
  have "n \<notin> set (tables (if_jobs s))" "n \<notin> set (if_cancelling s)" "n \<notin> set (H @ captured (if_pending s))"
    using assms owns_disjoint(1,3) [OF assms] by (auto simp: owns_def)
  with assms show ?thesis by (auto simp: owns_def release_job_def)
qed

text \<open>What removing a job from a table and adding one promise.\<close>

definition removes :: "(PendingJobs, StorageException, job) sx \<Rightarrow> bool" where
  "removes rm \<longleftrightarrow> (\<forall>u. pj_inv u \<longrightarrow> (case rm u of
      (Ok j, v) \<Rightarrow> pj_inv v \<and> mset (tables u) = add_mset (snd j) (mset (tables v)) \<and> pj_cancelled v = pj_cancelled u
    | (Raise _, v) \<Rightarrow> v = u
    | (Abort, v) \<Rightarrow> False))"

definition adds :: "(job \<Rightarrow> (PendingJobs, StorageException, unit) sx) \<Rightarrow> bool" where
  "adds ad \<longleftrightarrow> (\<forall>u j. pj_inv u \<longrightarrow> (case ad j u of
      (Ok _, v) \<Rightarrow> pj_inv v \<and> mset (tables v) = add_mset (snd j) (mset (tables u)) \<and> pj_cancelled v = pj_cancelled u
    | (Raise _, v) \<Rightarrow> False
    | (Abort, v) \<Rightarrow> True))"

lemma removes_upload: "removes (remove_upload c i)"
  unfolding removes_def
proof (intro allI impI)
  fix u assume u: "pj_inv u"
  have "distinct (map fst (pj_uploads u))" using u by (simp add: pj_inv_def table_wf_distinct)
  then show "case remove_upload c i u of
      (Ok j, v) \<Rightarrow> pj_inv v \<and> mset (tables u) = add_mset (snd j) (mset (tables v)) \<and> pj_cancelled v = pj_cancelled u
    | (Raise _, v) \<Rightarrow> v = u | (Abort, v) \<Rightarrow> False"
    using remove_upload_inv [OF u, of c i]
    by (auto simp: remove_upload_def tables_def table_objects_erase split: option.splits)
qed

lemma removes_download: "removes (remove_download c i)"
  unfolding removes_def
proof (intro allI impI)
  fix u assume u: "pj_inv u"
  have "distinct (map fst (pj_downloads u))" using u by (simp add: pj_inv_def table_wf_distinct)
  then show "case remove_download c i u of
      (Ok j, v) \<Rightarrow> pj_inv v \<and> mset (tables u) = add_mset (snd j) (mset (tables v)) \<and> pj_cancelled v = pj_cancelled u
    | (Raise _, v) \<Rightarrow> v = u | (Abort, v) \<Rightarrow> False"
    using remove_download_inv [OF u, of c i]
    by (auto simp: remove_download_def tables_def table_objects_erase split: option.splits)
qed

lemma adds_upload: "adds (add_upload c)"
  unfolding adds_def
proof (intro allI impI)
  fix u and j :: job
  assume u: "pj_inv u"
  show "case add_upload c j u of
      (Ok _, v) \<Rightarrow> pj_inv v \<and> mset (tables v) = add_mset (snd j) (mset (tables u)) \<and> pj_cancelled v = pj_cancelled u
    | (Raise _, v) \<Rightarrow> False | (Abort, v) \<Rightarrow> True"
  proof (cases "may_add (pj_uploads u) c j")
    case True
    then have "map_of (pj_uploads u) (c, job_id j) = None" by (simp add: may_add_def)
    with True add_upload_inv [OF u, of c j] show ?thesis
      by (simp add: add_upload_def tables_def may_add_emplace table_objects_insert)
  qed (simp add: add_upload_def)
qed

lemma adds_download: "adds (add_download c)"
  unfolding adds_def
proof (intro allI impI)
  fix u and j :: job
  assume u: "pj_inv u"
  show "case add_download c j u of
      (Ok _, v) \<Rightarrow> pj_inv v \<and> mset (tables v) = add_mset (snd j) (mset (tables u)) \<and> pj_cancelled v = pj_cancelled u
    | (Raise _, v) \<Rightarrow> False | (Abort, v) \<Rightarrow> True"
  proof (cases "may_add (pj_downloads u) c j")
    case True
    then have "map_of (pj_downloads u) (c, job_id j) = None" by (simp add: may_add_def)
    with True add_download_inv [OF u, of c j] show ?thesis
      by (simp add: add_download_def tables_def may_add_emplace table_objects_insert)
  qed (simp add: add_download_def)
qed

lemma ends_job_keeps:
  assumes "owns {#} [] s" and "removes rm" and "\<And>a. made (Inr (f a)) = {#}"
  shows "case ends_job rm f end s of
      (Ok (r, j), t) \<Rightarrow> owns (made r) (case j of None \<Rightarrow> [] | Some j \<Rightarrow> [snd j]) t \<and> (if_count t, if_pending t) = (if_count s, if_pending s)
    | (Raise e, t) \<Rightarrow> owns {#} [] t \<and> (if_count t, if_pending t) = (if_count s, if_pending s)
    | (Abort, t) \<Rightarrow> True"
proof (cases "rm (if_jobs s)")
  case (Pair r v)
  have inv: "pj_inv (if_jobs s)" using assms(1) by (simp add: owns_def)
  note rm = assms(2) [unfolded removes_def, rule_format, OF inv, unfolded Pair]
  show ?thesis
  proof (cases r)
    case (Ok j)
    let ?n = "snd j"
    let ?t = "s\<lparr>if_jobs := v, if_ended := if_ended s @ [?n]\<rparr>"
    have v: "pj_inv v" "mset (tables (if_jobs s)) = add_mset ?n (mset (tables v))"
        "pj_cancelled v = pj_cancelled (if_jobs s)"
      using rm Ok by simp_all
    have tab: "set (tables (if_jobs s)) = insert ?n (set (tables v))"
      using arg_cong [OF v(2), of set_mset] by simp
    have "?n \<notin> set (if_ended s)" using owns_disjoint(1) [OF assms(1)] tab by blast
    moreover have "census ?t = census s"
      using v by (simp add: census_def cancelled_objects_def)
    ultimately have own: "owns {#} [?n] ?t"
      using assms(1) v(1,3) tab by (auto simp: owns_def cancelled_objects_def)
    have rel: "owns {#} [] (release_job j (?t\<lparr>if_world := w\<rparr>))" for w
      using owns_release [of "{#}" ?n "[]" "?t\<lparr>if_world := w\<rparr>" "fst j"] own by simp
    show ?thesis
    proof (cases "end ?n (if_world s)")
      case p: (Pair x w)
      show ?thesis
      proof (cases x)
        case o: (Ok y)
        have "made (map_sum id f y) = {#}" using assms(3) by (cases y) (simp_all add: made_def)
        with Pair Ok p o own owns_frame(1) [of "{#}" "[?n]" w ?t] show ?thesis
          by (simp add: ends_job_def iface_runs)
      next
        case (Raise e)
        with Pair Ok p rel [of w] show ?thesis by (simp add: ends_job_def iface_runs)
      qed (use Pair Ok p in \<open>simp add: ends_job_def iface_runs\<close>)
    qed
  next
    case (Raise e)
    then have "v = if_jobs s"
      using rm by simp
    with Raise Pair assms(1) show ?thesis by (simp add: ends_job_def iface_runs)
  next
    case Abort
    with Pair show ?thesis by (simp add: ends_job_def iface_runs)
  qed
qed

text \<open>The callback of a request leaves its objects in the future and in the captured job.\<close>

definition answers :: "'w iface \<Rightarrow> (thrown, (thrown + future_value) \<times> job option) outcome \<times> 'w iface \<Rightarrow> bool" where
  "answers s rt \<longleftrightarrow> (case rt of
      (Ok (r, j), t) \<Rightarrow> owns (made r) (case j of None \<Rightarrow> [] | Some j \<Rightarrow> [snd j]) t \<and> (if_count t, if_pending t) = (if_count s, if_pending s)
    | (Raise e, t) \<Rightarrow> owns {#} [] t \<and> (if_count t, if_pending t) = (if_count s, if_pending s)
    | (Abort, t) \<Rightarrow> True)"

lemma calls_answers:
  assumes "owns {#} [] s" and "\<And>a. made (Inr (f a)) = {#}"
  shows "answers s (calls f m s)"
  using calls_keeps [where f = f, OF assms(1) _ assms(2)] calls_fails [of f m s] assms(1)
  by (auto simp: answers_def split: outcome.splits prod.splits option.splits)

lemma makes_job_answers:
  assumes "owns {#} [] s" and "\<And>i. made (Inr (f (i, if_next s))) = {#if_next s#}"
  shows "answers s (makes_job f mk s)"
  using makes_job_keeps [where f = f, OF assms(1) _ assms(2)] makes_job_fails [OF assms(1), of f mk]
  by (auto simp: answers_def split: outcome.splits prod.splits option.splits)

lemma ends_job_answers:
  assumes "owns {#} [] s" and "removes rm" and "\<And>a. made (Inr (f a)) = {#}"
  shows "answers s (ends_job rm f end s)"
  unfolding answers_def using assms by (rule ends_job_keeps)

lemma call_provider_answers: "owns {#} [] s \<Longrightarrow> answers s (call_provider P c call s)"
  by (cases call)
    (auto simp: made_def intro!: calls_answers makes_job_answers ends_job_answers removes_upload removes_download)

lemma register_job_keeps:
  assumes own: "owns {#snd j#} H s" and "adds ad"
  shows "case register_job ad take_socket j s of
      (Ok m, t) \<Rightarrow> owns {#} H t | (Raise e, t) \<Rightarrow> owns {#} H t | (Abort, t) \<Rightarrow> True"
proof -
  let ?n = "snd j"
  obtain x w where x: "take_socket ?n (if_world s) = (x, w)" by fastforce
  obtain y v where y: "ad j (if_jobs s) = (y, v)" by fastforce
  have inv: "pj_inv (if_jobs s)" using own by (simp add: owns_def)
  note ad = assms(2) [unfolded adds_def, rule_format, OF inv, of j, unfolded y]
  have new: "?n \<notin> set (if_holding s)"
    using own owns_disjoint(4) [OF own] by (auto simp: owns_def)
  have fail: "owns {#} H (release_job j (s\<lparr>if_holding := ?n # if_holding s, if_world := w\<rparr>))"
    using owns_weaken [OF own, of "{#}"] new by (auto simp: owns_def release_job_def)
  have ok: "owns {#} H (s\<lparr>if_holding := ?n # if_holding s, if_world := w, if_jobs := v\<rparr>)" if "y = Ok u" for u
  proof -
    have v: "pj_inv v" "mset (tables v) = add_mset ?n (mset (tables (if_jobs s)))" "pj_cancelled v = pj_cancelled (if_jobs s)"
      using ad that by simp_all
    have "set (tables v) = insert ?n (set (tables (if_jobs s)))"
      using arg_cong [OF v(2), of set_mset] by simp
    moreover have "census (s\<lparr>if_holding := ?n # if_holding s, if_world := w, if_jobs := v\<rparr>) = census s + {#?n#}"
      using v by (simp add: census_def cancelled_objects_def)
    ultimately show ?thesis using own v by (auto simp: owns_def cancelled_objects_def)
  qed
  show ?thesis
  proof (cases x)
    case (Ok fd)
    show ?thesis
    proof (cases y)
      case o: (Ok u)
      with Ok x y ok [OF o] show ?thesis by (simp add: register_job_def iface_runs)
    next
      case (Raise e)
      with ad show ?thesis by simp
    qed (use Ok x y in \<open>simp add: register_job_def iface_runs\<close>)
  next
    case (Raise e)
    with x fail show ?thesis by (simp add: register_job_def iface_runs)
  qed (use x in \<open>simp add: register_job_def iface_runs\<close>)
qed

lemma continue_call_keeps:
  assumes "owns (made f) H s"
  shows "case continue_call P c f s of
      (Ok m, t) \<Rightarrow> owns {#} H t | (Raise e, t) \<Rightarrow> owns {#} H t | (Abort, t) \<Rightarrow> True"
proof (cases f)
  case (Inl e)
  with assms show ?thesis by (simp add: sx_throw_def made_def)
next
  case (Inr v)
  show ?thesis
  proof (cases v)
    case (FV_upload j)
    with Inr assms register_job_keeps [OF _ adds_upload, of j H s] show ?thesis by (simp add: made_def)
  next
    case (FV_download j)
    with Inr assms register_job_keeps [OF _ adds_download, of j H s] show ?thesis by (simp add: made_def)
  qed (use Inr assms in \<open>simp_all add: made_def sx_return_def\<close>)
qed

section \<open>Every event\<close>

lemma run_callback_owns:
  assumes "owns {#} [] s"
  shows "owns {#} [] (run_callback P c call s)"
proof -
  let ?r = "if_count s"
  let ?s = "s\<lparr>if_count := ?r + 1\<rparr>"
  have "owns {#} [] ?s" using assms by (auto simp: owns_def intro: less_SucI)
  then have a: "answers ?s (call_provider P c call ?s)" by (rule call_provider_answers)
  obtain x t where x: "call_provider P c call ?s = (x, t)" by fastforce
  show ?thesis
  proof (cases x)
    case (Ok fj)
    obtain f j where fj: "fj = (f, j)" by (cases fj)
    with a x Ok have t: "owns (made f) (case j of None \<Rightarrow> [] | Some j \<Rightarrow> [snd j]) t" "if_count t = ?r + 1"
        "if_pending t = if_pending s"
      by (simp_all add: answers_def)
    have fresh: "?r \<notin> fst ` set (if_pending t)" using assms t(3) by (auto simp: owns_def)
    show ?thesis
      using t fresh x Ok fj
      by (cases j) (auto simp: run_callback_def owns_def census_def captured_def add.assoc add.commute add.left_commute)
  next
    case (Raise e)
    with a x show ?thesis by (simp add: answers_def run_callback_def add_reply_def)
  next
    case Abort
    with assms x show ?thesis by (simp add: run_callback_def)
  qed
qed

lemma pending_split:
  assumes "distinct (map fst ps)" and "map_of ps r = Some pc"
  shows "(\<Sum>(_, pc) \<leftarrow> ps. made (pc_future pc)) =
      made (pc_future pc) + (\<Sum>(_, pc) \<leftarrow> filter (\<lambda>(r', _). r' \<noteq> r) ps. made (pc_future pc))"
    "mset (captured ps) = mset (case pc_job pc of None \<Rightarrow> [] | Some j \<Rightarrow> [snd j])
       + mset (captured (filter (\<lambda>(r', _). r' \<noteq> r) ps))"
proof -
  have "(\<Sum>(_, pc) \<leftarrow> ps. made (pc_future pc)) =
      made (pc_future pc) + (\<Sum>(_, pc) \<leftarrow> filter (\<lambda>(r', _). r' \<noteq> r) ps. made (pc_future pc)) \<and>
      mset (captured ps) = mset (case pc_job pc of None \<Rightarrow> [] | Some j \<Rightarrow> [snd j])
        + mset (captured (filter (\<lambda>(r', _). r' \<noteq> r) ps))"
    using assms
  proof (induction ps)
    case (Cons p ps)
    obtain r' pc' where p: "p = (r', pc')" by (cases p)
    show ?case
    proof (cases "r' = r")
      case True
      with Cons.prems p have "filter (\<lambda>(r', _). r' \<noteq> r) ps = ps"
        by (auto simp: filter_id_conv image_iff)
      with True Cons.prems p show ?thesis by (simp add: captured_def)
    next
      case False
      with Cons p show ?thesis by (simp add: captured_def add.left_commute)
    qed
  qed simp
  then show "(\<Sum>(_, pc) \<leftarrow> ps. made (pc_future pc)) =
      made (pc_future pc) + (\<Sum>(_, pc) \<leftarrow> filter (\<lambda>(r', _). r' \<noteq> r) ps. made (pc_future pc))"
    "mset (captured ps) = mset (case pc_job pc of None \<Rightarrow> [] | Some j \<Rightarrow> [snd j])
       + mset (captured (filter (\<lambda>(r', _). r' \<noteq> r) ps))" by simp_all
qed

lemma run_continuation_owns:
  assumes "owns {#} [] s"
  shows "owns {#} [] (run_continuation P r s)"
proof (cases "map_of (if_pending s) r")
  case None
  with assms show ?thesis by (simp add: run_continuation_def)
next
  case (Some pc)
  let ?ps = "filter (\<lambda>(r', _). r' \<noteq> r) (if_pending s)"
  let ?s = "s\<lparr>if_pending := ?ps\<rparr>"
  let ?H = "case pc_job pc of None \<Rightarrow> [] | Some j \<Rightarrow> [snd j]"
  have d: "distinct (map fst (if_pending s))" using assms by (simp add: owns_def)
  note sp = pending_split [OF d Some]
  have "mset (?H @ captured ?ps) = mset (captured (if_pending s))" using sp(2) by simp
  then have cap: "distinct (?H @ captured ?ps) = distinct (captured (if_pending s))"
      "set (?H @ captured ?ps) = set (captured (if_pending s))"
    by (rule mset_eq_imp_distinct_iff, rule mset_eq_setD)
  have "census ?s + made (pc_future pc) = census s"
    unfolding census_def using sp(1) by (simp add: ac_simps)
  moreover have "distinct (map fst ?ps)" using d by (rule distinct_map_filter)
  ultimately have "owns (made (pc_future pc)) ?H ?s"
    using assms cap unfolding owns_def by auto
  then have c: "case continue_call P (pc_client pc) (pc_future pc) ?s of
      (Ok m, t) \<Rightarrow> owns {#} ?H t | (Raise e, t) \<Rightarrow> owns {#} ?H t | (Abort, t) \<Rightarrow> True"
    by (rule continue_call_keeps)
  have rel: "owns {#} [] (add_reply r m (case pc_job pc of None \<Rightarrow> t | Some j \<Rightarrow> release_job j t))"
    if "owns {#} ?H t" for t :: "'a iface" and m
    using that owns_release [of "{#}" _ "[]" t]
    by (cases "pc_job pc") (auto simp: add_reply_def)
  show ?thesis using c rel assms Some
    by (auto simp: run_continuation_def split: prod.splits outcome.splits)
qed

lemma client_leaves_owns:
  assumes "owns {#} [] s"
  shows "owns {#} [] (client_leaves P c s)"
proof -
  let ?j = "if_jobs s"
  let ?t = "service_disconnected c ?j"
  have inv: "pj_inv ?j" using assms by (simp add: owns_def)
  let ?new = "table_objects (filter (\<lambda>(k, _). fst k = c) (pj_downloads ?j))
    @ table_objects (filter (\<lambda>(k, _). fst k = c) (pj_uploads ?j))"
  have can: "cancelled_objects ?t = cancelled_objects ?j @ ?new"
    by (simp add: service_disconnected_eq [OF inv] cancelled_objects_def table_objects_def o_def case_prod_unfold)
  have wf: "ordered_map (pj_downloads ?j)" "ordered_map (pj_uploads ?j)" using inv by (simp_all add: pj_inv_def table_wf_def)
  have new: "map snd (fst (erase_client c (pj_downloads ?j)) @ fst (erase_client c (pj_uploads ?j))) = ?new"
    using wf by (simp add: erase_client_eq table_objects_def o_def case_prod_unfold)
  have tab: "mset (tables ?j) = mset (tables ?t) + mset ?new"
    using table_objects_split [of "pj_downloads ?j" "\<lambda>(k, _). fst k = c"]
      table_objects_split [of "pj_uploads ?j" "\<lambda>(k, _). fst k = c"]
    by (simp add: tables_def service_disconnected_eq [OF inv] case_prod_unfold)
  then have set: "set (tables ?j) = set (tables ?t) \<union> set ?new"
    by (metis set_mset_mset set_mset_union)
  have "census (s\<lparr>if_world := w, if_jobs := ?t, if_cancelling := if_cancelling s @ ?new\<rparr>) = census s" for w
    by (simp add: census_def can tab ac_simps)
  then have "owns {#} [] (s\<lparr>if_world := w, if_jobs := ?t, if_cancelling := if_cancelling s @ ?new\<rparr>)" for w
    using assms set service_disconnected_inv [OF inv, of c] can by (auto simp: owns_def)
  then show ?thesis
    using assms new by (auto simp: client_leaves_def Let_def split: prod.splits outcome.splits)
qed

lemma cancel_done_owns:
  assumes "owns {#} [] s"
  shows "owns {#} [] (cancel_done n s)"
proof (cases "n \<in> set (if_cancelling s)")
  case True
  have "n \<notin> set (tables (if_jobs s))" "n \<notin> set (captured (if_pending s))"
    using assms True owns_disjoint(2,3) [OF assms] by (auto simp: owns_def)
  with assms show ?thesis by (auto simp: cancel_done_def release_job_def owns_def)
qed (use assms in \<open>simp add: cancel_done_def\<close>)

interpretation iface_machine: invariant_machine "iface_step P" "owns {#} []" for P
proof unfold_locales
  fix s :: "'a iface" and e
  assume "owns {#} [] s"
  then show "owns {#} [] (iface_step P s e)"
    by (cases e) (simp_all add: run_callback_owns run_continuation_owns client_leaves_owns cancel_done_owns)
qed

lemma init_owns: "owns {#} [] (iface_init w)"
  using pj_inv_init
  by (simp add: owns_def iface_init_def census_def captured_def tables_def table_objects_def cancelled_objects_def
      PendingJobs_init_def)

section \<open>Properties\<close>

text \<open>
  C4. Whatever the provider does, and however the requests of the clients, their departures and the
  completion of futures interleave: every upload and download object is finished or cancelled
  at most once, by a request or because its client left the bus, and an object that has been
  ended is in neither table of the account any more.
\<close>

theorem jobs_end_once:
  "(let s = run_events (iface_step P) (iface_init w) es in
    distinct (if_ended s @ cancelled_objects (if_jobs s)) \<and>
    set (if_ended s @ cancelled_objects (if_jobs s)) \<inter> set (tables (if_jobs s)) = {} \<and>
    distinct (tables (if_jobs s)))"
proof -
  let ?s = "run_events (iface_step P) (iface_init w) es"
  have own: "owns {#} [] ?s" by (rule iface_machine.inv_run [OF init_owns])
  have "mset (tables (if_jobs ?s) @ if_ended ?s @ cancelled_objects (if_jobs ?s)) \<subseteq># census ?s"
    by (simp add: census_def)
  also have "census ?s \<subseteq># mset_set {..<if_next ?s}" using own by (simp add: owns_def)
  finally have "distinct (tables (if_jobs ?s) @ if_ended ?s @ cancelled_objects (if_jobs ?s))"
    by (rule distinct_mset_set)
  then show ?thesis by (auto simp: Let_def)
qed


subsection \<open>One reply per request\<close>

definition replied :: "'w iface \<Rightarrow> bool" where
  "replied s \<longleftrightarrow> mset (map fst (if_replies s)) + mset (map fst (if_pending s)) = mset_set {..<if_count s}"

lemma request_frame:
  "if_replies (snd (call_provider P c call s)) = if_replies s \<and>
   if_pending (snd (call_provider P c call s)) = if_pending s \<and>
   if_count (snd (call_provider P c call s)) = if_count s"
  by (cases call)
    (auto simp: calls_def makes_job_def ends_job_def iface_runs Let_def split: prod.splits outcome.splits)

lemma continuation_frame:
  "if_replies (snd (continue_call P c f s)) = if_replies s \<and>
   if_pending (snd (continue_call P c f s)) = if_pending s \<and>
   if_count (snd (continue_call P c f s)) = if_count s"
  by (cases "(P, c, f)" rule: continue_call.cases)
    (auto simp: register_job_def iface_runs sx_throw_def split: prod.splits outcome.splits)

lemma run_callback_replied:
  assumes "replied s" and "\<not> if_aborted (run_callback P c call s)"
  shows "replied (run_callback P c call s)"
proof -
  obtain x t where x: "call_provider P c call (s\<lparr>if_count := if_count s + 1\<rparr>) = (x, t)" by fastforce
  with request_frame [of P c call "s\<lparr>if_count := if_count s + 1\<rparr>"]
  have t: "if_replies t = if_replies s" "if_pending t = if_pending s" "if_count t = if_count s + 1" by simp_all
  with assms x show ?thesis
    by (cases x) (auto simp: run_callback_def replied_def add_reply_def lessThan_Suc)
qed

lemma pending_ids:
  assumes "distinct (map fst ps)" and "map_of ps r = Some pc"
  shows "mset (map fst ps) = add_mset r (mset (map fst (filter (\<lambda>(r', _). r' \<noteq> r) ps)))"
  using assms
proof (induction ps)
  case (Cons p ps)
  obtain r' pc' where p: "p = (r', pc')" by (cases p)
  show ?case
  proof (cases "r' = r")
    case True
    with Cons.prems p have "filter (\<lambda>(r', _). r' \<noteq> r) ps = ps" by (auto simp: filter_id_conv image_iff)
    with True p show ?thesis by simp
  qed (use Cons p in simp)
qed simp

lemma run_continuation_replied:
  assumes "replied s" and "distinct (map fst (if_pending s))" and "\<not> if_aborted (run_continuation P r s)"
  shows "replied (run_continuation P r s)"
proof (cases "map_of (if_pending s) r")
  case None
  with assms show ?thesis by (simp add: run_continuation_def)
next
  case (Some pc)
  let ?s = "s\<lparr>if_pending := filter (\<lambda>(r', _). r' \<noteq> r) (if_pending s)\<rparr>"
  obtain x t where x: "continue_call P (pc_client pc) (pc_future pc) ?s = (x, t)" by fastforce
  with continuation_frame [of P "pc_client pc" "pc_future pc" ?s]
  have "if_replies t = if_replies s" "if_pending t = if_pending ?s" "if_count t = if_count s" by simp_all
  with assms x Some pending_ids [OF assms(2) Some] show ?thesis
    by (cases x) (auto simp: run_continuation_def replied_def add_reply_def release_job_def split: option.split)
qed

interpretation replies_machine: invariant_machine "iface_step P"
  "\<lambda>s. owns {#} [] s \<and> (if_aborted s \<or> replied s)" for P
proof unfold_locales
  fix s :: "'a iface" and e
  assume s: "owns {#} [] s \<and> (if_aborted s \<or> replied s)"
  then have "distinct (map fst (if_pending s))" by (simp add: owns_def)
  with s have "if_aborted (iface_step P s e) \<or> replied (iface_step P s e)"
    using run_callback_replied [of s P] run_continuation_replied [of s P]
    by (cases e) (auto simp: client_leaves_def cancel_done_def release_job_def Let_def replied_def
        split: prod.splits outcome.splits)
  with s show "owns {#} [] (iface_step P s e) \<and> (if_aborted (iface_step P s e) \<or> replied (iface_step P s e))"
    using iface_machine.inv_step by blast
qed


text \<open>
  C18. Jobs are private to the client that started them: a request to finish or cancel an upload, or
  to finish a download, whose id is not filed under the sender's bus name is answered with a
  \<open>LogicException\<close> that names the id, and has no other effect; the provider is not called.
\<close>

theorem foreign_jobs_refused:
  assumes "\<not> if_aborted s" and "map_of (pj_uploads (if_jobs s)) (c, i) = None"
    and "map_of (pj_downloads (if_jobs s)) (c, i') = None"
  shows "(\<forall>call \<in> {FinishUpload i, CancelUpload i}. iface_step P s (Request c call) =
       s\<lparr>if_count := if_count s + 1, if_replies := if_replies s @
         [(if_count s, Inl (TStorage (LogicException (''No such upload: '' @ i))))]\<rparr>) \<and>
     iface_step P s (Request c (FinishDownload i')) =
       s\<lparr>if_count := if_count s + 1, if_replies := if_replies s @
         [(if_count s, Inl (TStorage (LogicException (''No such download: '' @ i'))))]\<rparr>"
  using assms
  by (simp add: run_callback_def ends_job_def remove_upload_def remove_download_def iface_runs add_reply_def Let_def)

text \<open>A provider whose uploads have the id \<open>7\<close>; its state counts the calls of \<open>finish\<close>.\<close>

definition no_call :: "('w, 'a) async" where
  "no_call = sx_return (Inl (TStd ''none''))"

definition sample_provider :: "nat provider" where
  "sample_provider =
     \<lparr>pr_roots = (\<lambda>_. no_call), pr_list = (\<lambda>_ _ _. no_call), pr_lookup = (\<lambda>_ _ _. no_call),
      pr_metadata = (\<lambda>_ _. no_call), pr_create_folder = (\<lambda>_ _ _. no_call),
      pr_create_file = (\<lambda>_ _ _ _ _ _ _. sx_return (Inr ''7'')), pr_update = (\<lambda>_ _ _ _ _. no_call),
      pr_download = (\<lambda>_ _ _. no_call), pr_delete_item = (\<lambda>_. no_call), pr_move = (\<lambda>_ _ _ _. no_call),
      pr_copy = (\<lambda>_ _ _ _. no_call), pr_finish_upload = (\<lambda>n w. (Ok (Inl (TStd ''none'')), w + 1)),
      pr_cancel_upload = (\<lambda>_. no_call), pr_finish_download = (\<lambda>_. no_call),
      pr_cancel_download = (\<lambda>_. no_call),
      pr_take_write_socket = (\<lambda>_. sx_return 5), pr_take_read_socket = (\<lambda>_. sx_return 5)\<rparr>"

definition sample_iface :: "nat iface" where
  "sample_iface = run_events (iface_step sample_provider) (iface_init 0)
     [Request '':1'' (CreateFile ''/'' ''f'' 3 '''' True []), Future_ready 0]"

lemmas sample_iface_runs = sample_iface_def sample_provider_def run_callback_def run_continuation_def makes_job_def
  calls_def ends_job_def register_job_def iface_runs add_reply_def iface_init_def PendingJobs_init_def
  add_upload_def remove_upload_def may_add_def watch_peer_def map_emplace_def job_id_def Let_def

theorem foreign_jobs_refused_witness:
  "if_replies (iface_step sample_provider sample_iface (Request '':2'' (FinishUpload ''7''))) =
     [(0, Inr (R_transfer ''7'' 5)), (1, Inl (TStorage (LogicException ''No such upload: 7'')))] \<and>
   if_world (iface_step sample_provider sample_iface (Request '':2'' (FinishUpload ''7''))) = 0"
proof -
  have s: "\<not> if_aborted sample_iface" "map_of (pj_uploads (if_jobs sample_iface)) ('':2'', ''7'') = None"
      "map_of (pj_downloads (if_jobs sample_iface)) ('':2'', '''') = None"
      "if_replies sample_iface = [(0, Inr (R_transfer ''7'' 5))]" "if_count sample_iface = 1"
      "if_world sample_iface = 0"
    by (simp_all add: sample_iface_runs)
  show ?thesis using foreign_jobs_refused [OF s(1-3), of sample_provider] s(4-6) by simp
qed

section \<open>Invariants of the provider's state\<close>

text \<open>What every function of the provider keeps, the interface keeps, whatever the clients do.\<close>

locale world_invariant =
  fixes P :: "'w provider" and I :: "'w \<Rightarrow> bool"
  assumes roots: "keeps I (pr_roots P keys)"
    and list: "keeps I (pr_list P item_id page_token keys)"
    and lookup: "keeps I (pr_lookup P parent_id name keys)"
    and metadata: "keeps I (pr_metadata P item_id keys)"
    and create_folder: "keeps I (pr_create_folder P parent_id name keys)"
    and create_file: "keeps I (pr_create_file P n parent_id name sz content_type allow_overwrite keys)"
    and update: "keeps I (pr_update P n item_id sz old_etag keys)"
    and download: "keeps I (pr_download P n item_id match_etag)"
    and delete_item: "keeps I (pr_delete_item P item_id)"
    and move: "keeps I (pr_move P item_id new_parent_id new_name keys)"
    and copy: "keeps I (pr_copy P item_id new_parent_id new_name keys)"
    and finish_upload: "keeps I (pr_finish_upload P n)"
    and cancel_upload: "keeps I (pr_cancel_upload P n)"
    and finish_download: "keeps I (pr_finish_download P n)"
    and cancel_download: "keeps I (pr_cancel_download P n)"
    and take_write_socket: "keeps I (pr_take_write_socket P n)"
    and take_read_socket: "keeps I (pr_take_read_socket P n)"
begin

lemmas provider_functions = roots list lookup metadata create_folder create_file update download delete_item move copy
  finish_upload cancel_upload finish_download cancel_download take_write_socket take_read_socket

lemma on_world_keeps: "keeps I m \<Longrightarrow> keeps (\<lambda>s. I (if_world s)) (on_world m)"
  by (auto simp: keeps_def on_world_def split: prod.splits)

lemma on_jobs_keeps: "keeps (\<lambda>s. I (if_world s)) (on_jobs m)"
  by (auto simp: keeps_def on_jobs_def split: prod.splits outcome.splits)

lemma calls_world: "keeps I m \<Longrightarrow> keeps (\<lambda>s. I (if_world s)) (calls f m)"
  by (auto simp: calls_def intro!: keeps_intros on_world_keeps)

lemma makes_job_world:
  assumes "\<And>n. keeps I (mk n)"
  shows "keeps (\<lambda>s. I (if_world s)) (makes_job f mk)"
  unfolding keeps_def
proof (intro allI impI)
  fix s :: "'w iface"
  assume "I (if_world s)"
  with keepsD [OF calls_world [OF assms, of "\<lambda>i. f (i, if_next s)" "if_next s"], of "s\<lparr>if_next := if_next s + 1\<rparr>"]
  show "I (if_world (snd (makes_job f mk s)))" by (simp add: makes_job_def Let_def)
qed

lemma with_job_world: "keeps (\<lambda>s. I (if_world s)) m \<Longrightarrow> keeps (\<lambda>s. I (if_world s)) (with_job j m)"
  by (auto simp: keeps_def with_job_def release_job_def split: prod.splits outcome.splits)

lemma changed_world:
  assumes "keeps (\<lambda>s. I (if_world s)) m"
  shows "keeps (\<lambda>s. I (if_world s)) (\<lambda>s. m (s\<lparr>if_ended := e s\<rparr>))"
    "keeps (\<lambda>s. I (if_world s)) (\<lambda>s. m (s\<lparr>if_holding := e s\<rparr>))"
  using assms by (simp_all add: keeps_def)

lemma ends_job_world: "(\<And>n. keeps I (end n)) \<Longrightarrow> keeps (\<lambda>s. I (if_world s)) (ends_job rm f end)"
  unfolding ends_job_def
  by (intro keeps_bind on_jobs_keeps with_job_world changed_world(1) on_world_keeps keeps_return)

lemma register_job_world: "(\<And>n. keeps I (take_socket n)) \<Longrightarrow> keeps (\<lambda>s. I (if_world s)) (register_job ad take_socket j)"
  unfolding register_job_def
  by (intro with_job_world changed_world(2) keeps_bind on_jobs_keeps on_world_keeps keeps_return)

lemma call_provider_world: "keeps (\<lambda>s. I (if_world s)) (call_provider P c call)"
  by (cases call) (auto intro!: calls_world makes_job_world ends_job_world provider_functions)

lemma continue_call_world: "keeps (\<lambda>s. I (if_world s)) (continue_call P c f)"
  by (cases "(P, c, f)" rule: continue_call.cases) (auto intro!: keeps_intros register_job_world provider_functions)

lemma cancels_world: "(\<And>n. keeps I (cancel n)) \<Longrightarrow> keeps I (cancels_jobs cancel js)"
  by (auto simp: cancels_jobs_def intro!: keeps_intros)

lemma step_world: "I (if_world s) \<Longrightarrow> I (if_world (iface_step P s e))"
proof (cases e)
  case (Request c call)
  assume "I (if_world s)"
  with keepsD [OF call_provider_world [of c call], of "s\<lparr>if_count := if_count s + 1\<rparr>"] Request show ?thesis
    by (auto simp: run_callback_def add_reply_def Let_def split: prod.splits outcome.splits)
next
  case (Future_ready r)
  assume I: "I (if_world s)"
  show ?thesis
  proof (cases "map_of (if_pending s) r")
    case (Some pc)
    with I Future_ready keepsD [OF continue_call_world [of "pc_client pc" "pc_future pc"],
        of "s\<lparr>if_pending := filter (\<lambda>(r', _). r' \<noteq> r) (if_pending s)\<rparr>"]
    show ?thesis
      by (auto simp: run_continuation_def add_reply_def release_job_def split: prod.splits outcome.splits option.splits)
  qed (use I Future_ready in \<open>simp add: run_continuation_def\<close>)
next
  case (Client_leaves c)
  assume "I (if_world s)"
  moreover have "keeps I (sx_bind (cancels_jobs (pr_cancel_download P) ds) (\<lambda>_. cancels_jobs (pr_cancel_upload P) us))"
    for ds us by (intro keeps_intros cancels_world provider_functions)
  ultimately show ?thesis using Client_leaves
    by (auto simp: client_leaves_def Let_def split: prod.splits outcome.splits) (metis keepsD snd_conv)
qed (simp add: cancel_done_def release_job_def)

end

end
