(* ===== verification/LocalService.thy ===== *)
theory LocalService
  imports LocalDownload Provider
begin

text \<open>
  The local provider behind its D-Bus interface: \<open>LocalProvider\<close> with its upload and download jobs
  (\<open>src/local-provider/\<close>) as the provider that \<open>ProviderInterface\<close> calls, and the data that arrives
  on the sockets. One world holds the file system and the job objects; an operation of a job works
  on the file system as it is at that moment. The parameters are those of the parts: \<open>F\<close> for
  Boost.Filesystem, \<open>A\<close> and \<open>D\<close> for the calls of the upload and of the download, \<open>impl\<close> and \<open>dimpl\<close>
  for the base object that the n-th job gets (its id and its socket pair).
\<close>

section \<open>The provider\<close>

record 'w service_world =
  sw_fs :: 'w
  sw_uploads :: "nat \<Rightarrow> 'w local_upload option"
  sw_downloads :: "nat \<Rightarrow> 'w local_download option"

text \<open>What \<open>get()\<close> throws for an exception pointer; a promise that is never set is broken.\<close>

fun rethrown :: "boost_exception_ptr \<Rightarrow> thrown" where
  "rethrown (copy_exception e) = TStorage e"
| "rethrown (current_exception t) = t"

fun future_result :: "'a future option \<Rightarrow> thrown + 'a" where
  "future_result None = Inl (TStd ''broken_promise'')"
| "future_result (Some (Fut_value v)) = Inr v"
| "future_result (Some (Fut_error p)) = Inl (rethrown p)"

fun lp_thrown :: "lp_exn \<Rightarrow> thrown" where
  "lp_thrown (LP_storage e) = TStorage e"
| "lp_thrown (LP_fs e) = TStd (fe_what e)"
| "lp_thrown (LP_std what) = TStd what"

text \<open>A method that runs in another thread, and one that runs in the caller's.\<close>

definition async_op :: "('w, StorageException, 'a) sx \<Rightarrow> ('w service_world, 'a) async" where
  "async_op m s = (case m (sw_fs s) of
      (Ok a, w) \<Rightarrow> (Ok (Inr a), s\<lparr>sw_fs := w\<rparr>)
    | (Raise e, w) \<Rightarrow> (Ok (Inl (TStorage e)), s\<lparr>sw_fs := w\<rparr>)
    | (Abort, w) \<Rightarrow> (Abort, s\<lparr>sw_fs := w\<rparr>))"

definition sync_op :: "('w, 'a) lp \<Rightarrow> ('w service_world, 'a) async" where
  "sync_op m s = (case m (sw_fs s) of
      (Ok a, w) \<Rightarrow> (Ok (Inr a), s\<lparr>sw_fs := w\<rparr>)
    | (Raise e, w) \<Rightarrow> (Raise (lp_thrown e), s\<lparr>sw_fs := w\<rparr>)
    | (Abort, w) \<Rightarrow> (Abort, s\<lparr>sw_fs := w\<rparr>))"

text \<open>A new upload: the constructor ran, or threw.\<close>

definition start_upload :: "nat \<Rightarrow> ('w \<Rightarrow> (lp_exn, unit) outcome \<times> 'w local_upload) \<Rightarrow>
    ('w service_world, string) async" where
  "start_upload n mk s = (case mk (sw_fs s) of
      (Ok _, j) \<Rightarrow> (Ok (Inr (ji_id j)), s\<lparr>sw_fs := lu_fs j, sw_uploads := (sw_uploads s)(n \<mapsto> j)\<rparr>)
    | (Raise e, j) \<Rightarrow> (Raise (lp_thrown e), s\<lparr>sw_fs := lu_fs j\<rparr>)
    | (Abort, j) \<Rightarrow> (Abort, s\<lparr>sw_fs := lu_fs j\<rparr>))"

definition start_download :: "nat \<Rightarrow> ('w, 'w local_download) lp \<Rightarrow> ('w service_world, string) async" where
  "start_download n mk s = (case mk (sw_fs s) of
      (Ok j, w) \<Rightarrow> (Ok (Inr (ji_id j)), s\<lparr>sw_fs := w, sw_downloads := (sw_downloads s)(n \<mapsto> j)\<rparr>)
    | (Raise e, w) \<Rightarrow> (Raise (lp_thrown e), s\<lparr>sw_fs := w\<rparr>)
    | (Abort, w) \<Rightarrow> (Abort, s\<lparr>sw_fs := w\<rparr>))"

text \<open>A method of the n-th job.\<close>

definition on_upload :: "nat \<Rightarrow> ('w local_upload, thrown, 'a) sx \<Rightarrow> ('w service_world, thrown, 'a) sx" where
  "on_upload n m s = (case sw_uploads s n of
      None \<Rightarrow> (Abort, s)
    | Some j \<Rightarrow> (case m (j\<lparr>lu_fs := sw_fs s\<rparr>) of
        (r, j') \<Rightarrow> (r, s\<lparr>sw_fs := lu_fs j', sw_uploads := (sw_uploads s)(n \<mapsto> j')\<rparr>)))"

definition on_download :: "nat \<Rightarrow> ('w local_download, thrown, 'a) sx \<Rightarrow> ('w service_world, thrown, 'a) sx" where
  "on_download n m s = (case sw_downloads s n of
      None \<Rightarrow> (Abort, s)
    | Some j \<Rightarrow> (case m (j\<lparr>ld_fs := sw_fs s\<rparr>) of
        (r, j') \<Rightarrow> (r, s\<lparr>sw_downloads := (sw_downloads s)(n \<mapsto> j')\<rparr>)))"

definition CancelDownload_job :: "('w local_download, thrown, unit future option) sx" where
  "CancelDownload_job = download_cancel local_download_cancel"

definition local_provider :: "'w fsapi \<Rightarrow> 'w osapi \<Rightarrow> 'w dlapi \<Rightarrow> string \<Rightarrow> (nat \<Rightarrow> provider_item job_impl) \<Rightarrow>
    (nat \<Rightarrow> unit job_impl) \<Rightarrow> 'w service_world provider" where
  "local_provider F A D root impl dimpl =
     \<lparr>pr_roots = (\<lambda>keys. sync_op (LocalProvider_roots F root)),
      pr_list = (\<lambda>item_id page_token keys. async_op (LocalProvider_list F root item_id page_token)),
      pr_lookup = (\<lambda>parent_id name keys. async_op (LocalProvider_lookup F root parent_id name)),
      pr_metadata = (\<lambda>item_id keys. async_op (LocalProvider_metadata F root item_id)),
      pr_create_folder = (\<lambda>parent_id name keys. async_op (LocalProvider_create_folder F root parent_id name)),
      pr_create_file = (\<lambda>n parent_id name sz content_type allow_overwrite keys. start_upload n
        (LocalProvider_create_file F A root (impl n) parent_id name sz allow_overwrite)),
      pr_update = (\<lambda>n item_id sz old_etag keys. start_upload n
        (LocalProvider_update F A root (impl n) item_id sz old_etag)),
      pr_download = (\<lambda>n item_id match_etag. start_download n
        (LocalProvider_download F D root (dimpl n) item_id match_etag)),
      pr_delete_item = (\<lambda>item_id. async_op (LocalProvider_delete_item F root item_id)),
      pr_move = (\<lambda>item_id new_parent_id new_name keys.
        async_op (LocalProvider_move F root item_id new_parent_id new_name)),
      pr_copy = (\<lambda>item_id new_parent_id new_name keys.
        async_op (LocalProvider_copy F root item_id new_parent_id new_name)),
      pr_finish_upload = (\<lambda>n. sx_bind (on_upload n (FinishUpload_job F A root)) (\<lambda>f. sx_return (future_result f))),
      pr_cancel_upload = (\<lambda>n. sx_bind (on_upload n (CancelUpload_job A)) (\<lambda>f. sx_return (future_result f))),
      pr_finish_download = (\<lambda>n. sx_bind (on_download n (FinishDownload_job D)) (\<lambda>f. sx_return (future_result f))),
      pr_cancel_download = (\<lambda>n. sx_bind (on_download n CancelDownload_job) (\<lambda>f. sx_return (future_result f))),
      pr_take_write_socket = (\<lambda>n. on_upload n take_write_socket),
      pr_take_read_socket = (\<lambda>n. on_download n take_read_socket)\<rparr>"

section \<open>The service\<close>

text \<open>Data for an upload, the queued start of a download, and the progress of its socket. Data
  reaches an upload as long as its object exists.\<close>

datatype service_event =
    Bus iface_event
  | Upload_data nat string
  | Download_start nat
  | Download_acked nat int

definition socket_event :: "('w service_world, thrown, unit) sx \<Rightarrow> 'w service_world iface \<Rightarrow> 'w service_world iface" where
  "socket_event m s = (case m (if_world s) of
      (Ok _, w) \<Rightarrow> s\<lparr>if_world := w\<rparr>
    | (_, w) \<Rightarrow> s\<lparr>if_aborted := True\<rparr>)"

fun service_step :: "'w fsapi \<Rightarrow> 'w osapi \<Rightarrow> 'w dlapi \<Rightarrow> string \<Rightarrow> (nat \<Rightarrow> provider_item job_impl) \<Rightarrow>
    (nat \<Rightarrow> unit job_impl) \<Rightarrow> 'w service_world iface \<Rightarrow> service_event \<Rightarrow> 'w service_world iface" where
  "service_step F A D root impl dimpl s (Bus e) = iface_step (local_provider F A D root impl dimpl) s e"
| "service_step F A D root impl dimpl s (Upload_data n d) =
     (if if_aborted s \<or> n \<notin> set (if_holding s) \<or> sw_uploads (if_world s) n = None then s
      else socket_event (on_upload n (bytes_arrive A d)) s)"
| "service_step F A D root impl dimpl s (Download_start n) =
     (if if_aborted s \<or> sw_downloads (if_world s) n = None then s
      else socket_event (on_download n (read_and_write_chunk D)) s)"
| "service_step F A D root impl dimpl s (Download_acked n k) =
     (if if_aborted s \<or> sw_downloads (if_world s) n = None then s
      else socket_event (on_download n (bytes_acknowledged D k)) s)"

section \<open>Confinement of the service\<close>

text \<open>
  What an upload relies on. Lexically, an entry of a folder of the provider is inside the root. Unlinking
  and linking a path inside the root touches nothing outside (no symbolic link below the root leads
  out of it), and \<open>mkstemp\<close> fails for a template that does not end in \<open>XXXXXX\<close>, as it documents.
\<close>

definition os_confines :: "'w fsapi \<Rightarrow> 'w osapi \<Rightarrow> string \<Rightarrow> ('w \<Rightarrow> bool) \<Rightarrow> bool" where
  "os_confines F A root P \<longleftrightarrow>
     (\<forall>d n. inside root d \<longrightarrow> proper_name F n \<longrightarrow> inside root (path_append F d n)) \<and>
     (\<forall>p w. P w \<longrightarrow> inside root p \<longrightarrow> P (os_unlink A p w)) \<and>
     (\<forall>c p w. P w \<longrightarrow> inside root p \<longrightarrow> P (snd (os_linkat A c p w))) \<and>
     (\<forall>t w. drop (length t - 6) t \<noteq> ''XXXXXX'' \<longrightarrow> os_mkstemp A t w = (Raise 22, w))"

definition up_ok :: "string \<Rightarrow> ('w \<Rightarrow> bool) \<Rightarrow> 'w local_upload \<Rightarrow> bool" where
  "up_ok root P j \<longleftrightarrow> P (lu_fs j) \<and> inside root (lu_item_id j) \<and> lu_use_linkat j"

lemma up_ok_sockets [simp]:
  "up_ok root P (close_read_socket j) = up_ok root P j" "up_ok root P (close_write_socket j) = up_ok root P j"
  by (simp_all add: up_ok_def close_read_socket_def close_write_socket_def)

lemma keeps_with_lock:
  assumes "keeps (up_ok root P) m"
  shows "keeps (up_ok root P) (with_lock m)"
  unfolding keeps_def
proof (intro allI impI)
  fix j assume j: "up_ok root P j"
  obtain r t where m: "m (j\<lparr>ji_locked := True\<rparr>) = (r, t)" by fastforce
  have "up_ok root P (j\<lparr>ji_locked := True\<rparr>)" using j by (simp add: up_ok_def)
  then have "up_ok root P t" using keepsD [OF assms] m by fastforce
  with j m show "up_ok root P (snd (with_lock m j))" by (simp add: with_lock_def up_ok_def)
qed

lemma keeps_set_promise: "keeps (up_ok root P) (\<lambda>j. set_promise v (j\<lparr>ji_completed := True\<rparr>))"
  by (simp add: keeps_def set_promise_def up_ok_def)

lemma keeps_get_future: "keeps (up_ok root P) get_future"
  by (simp add: keeps_def get_future_def up_ok_def)

lemma keeps_report: "keeps (up_ok root P) (upload_report_error t)"
proof -
  have c: "keeps (up_ok root P) (complete_with v)" for v
    unfolding complete_with_def by (rule keeps_with_lock [OF keeps_set_promise])
  have "up_ok root P (snd (upload_report_error t j))" if "up_ok root P j" for j
    using keepsD [OF c, of "close_read_socket j"] that by (simp add: upload_report_error_def)
  then show ?thesis by (simp add: keeps_def)
qed

lemma keeps_finish_cancel:
  assumes "keeps (up_ok root P) m"
  shows "keeps (up_ok root P) (upload_finish m)"
  unfolding upload_finish_def
  using assms keeps_get_future [of root P] by (intro keeps_with_lock) (simp add: keeps_def)

lemma keeps_upload_cancel:
  assumes "keeps (up_ok root P) m"
  shows "keeps (up_ok root P) (upload_cancel m)"
  unfolding upload_cancel_def using assms by (intro keeps_with_lock) (simp add: keeps_def)

lemma abort_upload_ok: "up_ok root P j \<Longrightarrow> up_ok root P (abort_upload A j)"
  by (simp add: up_ok_def abort_upload_def)

lemma keeps_store_bytes: "keeps (up_ok root P) (store_bytes A)"
  by (auto simp: keeps_def store_bytes_def up_ok_def Let_def split: outcome.splits)

lemma keeps_on_bytes_ready: "keeps (up_ok root P) (on_bytes_ready A)"
proof -
  have "keeps (up_ok root P) (\<lambda>j. (Ok (), abort_upload A j))" by (simp add: keeps_def abort_upload_ok)
  then have "keeps (up_ok root P) (sx_catch (store_bytes A)
      (\<lambda>e. sx_bind (\<lambda>j. (Ok (), abort_upload A j)) (\<lambda>_. upload_report_error (TStorage e))))"
    by (intro keeps_intros keeps_store_bytes keeps_report)
  then show ?thesis by (simp add: keeps_def on_bytes_ready_def)
qed

lemma keeps_bytes_arrive: "keeps (up_ok root P) (bytes_arrive A d)"
  using keepsD [OF keeps_on_bytes_ready, of root P _ A]
  by (auto simp: keeps_def bytes_arrive_def up_ok_def)

lemma keeps_CancelUpload: "keeps (up_ok root P) (CancelUpload_job A)"
  unfolding CancelUpload_job_def
  by (rule keeps_upload_cancel) (simp add: keeps_def local_upload_cancel_def abort_upload_ok)

lemma up_fs_up_ok:
  assumes "keeps P m"
  shows "keeps (up_ok root P) (up_fs m)"
  using assms by (auto simp: keeps_def up_fs_def up_ok_def split: prod.splits)

lemma keeps_etag_check: "keeps P (etag_check F meth item_id etag)"
  unfolding etag_check_def by (intro keeps_intros)

lemma keeps_recheck_target: "keeps P (recheck_target F j)"
  unfolding recheck_target_def Let_def by (intro keeps_intros keeps_etag_check | simp)+

lemma keeps_link_file:
  assumes "os_confines F A root P"
  shows "keeps (up_ok root P) (link_file F A)"
  unfolding keeps_def
proof (intro allI impI)
  fix j assume j: "up_ok root P j"
  let ?w = "os_unlink A (lu_item_id j) (lu_fs j)"
  have "P (snd (os_linkat A (lu_written j) (lu_item_id j) ?w))"
    using assms j by (simp add: os_confines_def up_ok_def)
  with j show "up_ok root P (snd (link_file F A j))"
    by (auto simp: link_file_def up_ok_def Let_def split: prod.splits outcome.splits)
qed

lemma keeps_commit_upload:
  assumes "os_confines F A root P"
  shows "keeps (up_ok root P) (commit_upload F A root)"
proof -
  have 1: "keeps (up_ok root P) (\<lambda>j. up_fs (recheck_target F j) j)"
    using keepsD [OF up_fs_up_ok [OF keeps_recheck_target]] by (auto simp: keeps_def)
  have 2: "keeps (up_ok root P) (flush_file A)"
    by (auto simp: keeps_def flush_file_def up_ok_def split: outcome.splits)
  have 3: "keeps (up_ok root P) (\<lambda>j. (Ok (), j\<lparr>lu_file_open := False, lu_pending := '''', lu_connected := False\<rparr>))"
    by (simp add: keeps_def up_ok_def)
  have 4: "keeps (up_ok root P) (\<lambda>j. up_fs (item_at F root (lu_method j) (lu_item_id j)) j)"
    using keepsD [OF up_fs_up_ok [OF keeps_item_at]] by (auto simp: keeps_def)
  show ?thesis unfolding commit_upload_def
    by (intro keeps_bind 1 2 3 4 keeps_link_file [OF assms])
qed

lemma keeps_FinishUpload:
  assumes "os_confines F A root P"
  shows "keeps (up_ok root P) (FinishUpload_job F A root)"
proof -
  have "up_ok root P (snd (if lu_bytes_to_write j > 0 then
         (Ok (Some (Fut_error (copy_exception (LogicException (too_early j))))), j)
       else case commit_upload F A root (j\<lparr>lu_state := US_finished\<rparr>) of
           (Ok item, j) \<Rightarrow> (Ok (Some (Fut_value item)), j)
         | (Raise e, j) \<Rightarrow> (Ok (Some (Fut_error (finish_error F e))), j)
         | (Abort, j) \<Rightarrow> (Abort, j)))" if "up_ok root P j" for j :: "'a local_upload"
  proof -
    have "up_ok root P (j\<lparr>lu_state := US_finished\<rparr>)" using that by (simp add: up_ok_def)
    from keepsD [OF keeps_commit_upload [OF assms] this] that show ?thesis
      by (auto split: prod.splits outcome.splits)
  qed
  then have "keeps (up_ok root P) (local_upload_finish F A root)"
    unfolding local_upload_finish_def by (intro keeps_bind keeps_on_bytes_ready) (unfold keeps_def, blast)
  then show ?thesis unfolding FinishUpload_job_def by (rule keeps_finish_cancel)
qed

subsection \<open>New uploads\<close>

lemma hoare_up_query:
  assumes "\<And>w. snd (m w) = w" and "\<And>w a. fst (m w) = Ok a \<Longrightarrow> G a" and "\<And>j. Q j \<Longrightarrow> E j"
  shows "hoare E Q (up_fs m) (\<lambda>a j. Q j \<and> G a)"
proof (rule hoareI)
  fix j a t
  assume "Q j" and "up_fs m j = (Ok a, t)"
  with assms(1) [of "lu_fs j"] assms(2) [of "lu_fs j" a] show "Q t \<and> G a"
    by (auto simp: up_fs_def split: prod.splits)
next
  fix j r t
  assume "Q j" and "up_fs m j = (r, t)"
  with assms(1) [of "lu_fs j"] assms(3) show "E t" by (auto simp: up_fs_def split: prod.splits)
qed

lemma query_state: "keeps (\<lambda>w'. w' = w) m \<Longrightarrow> snd (m w) = w"
  by (simp add: keeps_def)

lemma hoare_prepare:
  assumes "os_confines F A root P"
  shows "hoare (\<lambda>j. P (lu_fs j)) (\<lambda>j. P (lu_fs j) \<and> inside root (lu_item_id j)) (prepare_channels F A)
    (\<lambda>_. up_ok root P)"
proof -
  have "drop (length (tmpfile_template p) - 6) (tmpfile_template p) = ''%-%%%%''" for p
    by (simp add: tmpfile_template_def TMPFILE_PREFIX_def)
  then have "os_mkstemp A (tmpfile_template p) w = (Raise 22, w)" for p w
    using assms by (simp add: os_confines_def)
  then show ?thesis
    by (auto simp: hoare_def prepare_channels_def open_tmpfile_def sx_bind_def up_ok_def Let_def
        split: outcome.splits if_splits)
qed

lemma hoare_set:
  assumes "\<And>j. Q j \<Longrightarrow> R (f j)"
  shows "hoare E Q (\<lambda>j. (Ok (), f j)) (\<lambda>_. R)"
  using assms by (simp add: hoare_def)

lemma hoare_up_reads:
  assumes "\<And>w. keeps (\<lambda>w'. w' = w) m" and "\<And>j. Q j \<Longrightarrow> E j"
  shows "hoare E Q (up_fs m) (\<lambda>_. Q)"
  using hoare_up_query [of m "\<lambda>_. True" Q E] assms query_state [of _ m] by simp

lemma valid_inside: "fst (throw_if_not_valid F root meth p w) = Ok u \<Longrightarrow> inside root p"
  by (cases "throw_if_not_valid F root meth p w") (auto simp: throw_if_not_valid_Ok)

lemma sanitized_proper: "fst (sanitize F meth name w) = Ok n \<Longrightarrow> proper_name F n"
  by (cases "sanitize F meth name w") (auto simp: sanitize_Ok proper_name_def)

lemma hoare_create:
  assumes "os_confines F A root P"
  shows "hoare (\<lambda>j. P (lu_fs j)) (\<lambda>j. P (lu_fs j)) (LocalUploadJob_create F A root parent_id name allow_overwrite)
    (\<lambda>_. up_ok root P)"
proof -
  let ?E = "\<lambda>j. P (lu_fs j)"
  let ?I = "\<lambda>j. P (lu_fs j) \<and> inside root (lu_item_id j)"
  have valid: "hoare ?E ?E (up_fs (throw_if_not_valid F root meth parent_id)) (\<lambda>_ j. ?E j \<and> inside root parent_id)" for meth
    by (rule hoare_up_query) (auto simp: query_state keeps_throw_if_not_valid dest: valid_inside)
  have name: "hoare ?E (\<lambda>j. ?E j \<and> inside root parent_id) (up_fs (sanitize F meth name))
      (\<lambda>n j. (?E j \<and> inside root parent_id) \<and> proper_name F n)" for meth
    by (rule hoare_up_query) (auto simp: query_state keeps_sanitize dest: sanitized_proper)
  show ?thesis
    unfolding LocalUploadJob_create_def Let_def
  proof (rule hoare_bind [where R = "\<lambda>_. ?E"], goal_cases)
    case 1 show ?case by (rule hoare_set) simp
  next
    case 2 show ?case
    proof (rule hoare_bind [OF valid], rule hoare_bind [OF name], rule hoare_bind [where R = "\<lambda>_. ?I"], goal_cases)
      case (1 u n)
      have "inside root (path_append F parent_id n)" if "inside root parent_id" "proper_name F n"
        using that assms by (simp add: os_confines_def)
      then show ?case by (intro hoare_set) simp
    next
      case 2
      show ?case
        by (rule hoare_bind [where R = "\<lambda>_. ?I"], rule hoare_if)
          (auto intro!: hoare_return hoare_up_reads keeps_fs_exists hoare_bind [OF hoare_throw_if]
            hoare_conseq [OF hoare_prepare [OF assms]])
    qed
  qed
qed

lemma hoare_update:
  assumes "os_confines F A root P"
  shows "hoare (\<lambda>j. P (lu_fs j)) (\<lambda>j. P (lu_fs j)) (LocalUploadJob_update F A root item_id old_etag)
    (\<lambda>_. up_ok root P)"
proof -
  let ?E = "\<lambda>j. P (lu_fs j)"
  let ?J = "\<lambda>j. P (lu_fs j) \<and> lu_item_id j = item_id"
  let ?I = "\<lambda>j. P (lu_fs j) \<and> inside root (lu_item_id j)"
  have valid: "hoare ?E ?J (up_fs (throw_if_not_valid F root meth item_id)) (\<lambda>_ j. ?J j \<and> inside root item_id)" for meth
    by (rule hoare_up_query) (auto simp: query_state keeps_throw_if_not_valid dest: valid_inside)
  have valid': "hoare ?E ?J (up_fs (throw_if_not_valid F root meth item_id)) (\<lambda>_. ?I)" for meth
    by (rule hoare_conseq [OF valid]) auto
  have stat: "hoare ?E ?I (up_fs (sx_query q)) (\<lambda>_. ?I)" for q
    by (rule hoare_up_reads) (simp_all add: keeps_query)
  have etag: "hoare ?E ?I (if c then up_fs (etag_check F meth item_id old_etag) else sx_return ()) (\<lambda>_. ?I)" for c meth
    by (auto intro!: hoare_if hoare_up_reads keeps_etag_check hoare_return)
  have set: "hoare ?E ?I (\<lambda>j. (Ok (), j\<lparr>lu_old_etag := old_etag\<rparr>)) (\<lambda>_. ?I)"
    by (rule hoare_set) simp
  show ?thesis
    unfolding LocalUploadJob_update_def
  proof (rule hoare_bind [where R = "\<lambda>_. ?J"], goal_cases)
    case 1 show ?case by (rule hoare_set) simp
  next
    case 2
    have throw: "hoare ?E ?I (sx_throw_if c e) (\<lambda>_. ?I)" for c e
      by (simp add: hoare_def sx_throw_if_def sx_throw_def sx_return_def)
    show ?case
      by (rule hoare_bind [OF valid'], rule hoare_bind [OF stat], rule hoare_bind [OF throw],
          rule hoare_bind [OF etag], rule hoare_bind [OF set], rule hoare_prepare [OF assms])
  qed
qed

definition world_ok :: "string \<Rightarrow> ('w \<Rightarrow> bool) \<Rightarrow> 'w service_world \<Rightarrow> bool" where
  "world_ok root P s \<longleftrightarrow> P (sw_fs s) \<and>
     (\<forall>n j. sw_uploads s n = Some j \<longrightarrow> inside root (lu_item_id j) \<and> lu_use_linkat j)"

lemma keeps_async_op: "keeps P m \<Longrightarrow> keeps (world_ok root P) (async_op m)"
  by (auto simp: keeps_def async_op_def world_ok_def split: prod.splits outcome.splits)

lemma keeps_sync_op: "keeps P m \<Longrightarrow> keeps (world_ok root P) (sync_op m)"
  by (auto simp: keeps_def sync_op_def world_ok_def split: prod.splits outcome.splits)

lemma keeps_start_download: "keeps P mk \<Longrightarrow> keeps (world_ok root P) (start_download n mk)"
  by (auto simp: keeps_def start_download_def world_ok_def split: prod.splits outcome.splits)

lemma keeps_start_upload:
  assumes "hoare (\<lambda>j. P (lu_fs j)) (\<lambda>j. P (lu_fs j)) m (\<lambda>_. up_ok root P)"
    and "\<And>w. mk w = m (LocalUploadJob_base b w sz meth)"
  shows "keeps (world_ok root P) (start_upload n mk)"
  unfolding keeps_def
proof (intro allI impI)
  fix s assume s: "world_ok root P s"
  let ?j = "LocalUploadJob_base b (sw_fs s) sz meth"
  have j: "P (lu_fs ?j)" using s by (simp add: world_ok_def LocalUploadJob_base_def local_upload.defs job_impl.defs)
  obtain r t where m: "m ?j = (r, t)" by fastforce
  show "world_ok root P (snd (start_upload n mk s))"
  proof (cases r)
    case (Ok u)
    with hoareD(1) [OF assms(1) j, of u t] m have "up_ok root P t" by simp
    with s m Ok show ?thesis by (auto simp: start_upload_def assms(2) world_ok_def up_ok_def)
  next
    case (Raise e)
    with hoareD(2) [OF assms(1) j, of e t] m s show ?thesis by (simp add: start_upload_def assms(2) world_ok_def)
  next
    case Abort
    with hoareD(3) [OF assms(1) j, of t] m s show ?thesis by (simp add: start_upload_def assms(2) world_ok_def)
  qed
qed

lemma keeps_on_upload:
  assumes "keeps (up_ok root P) m"
  shows "keeps (world_ok root P) (on_upload n m)"
  unfolding keeps_def
proof (intro allI impI)
  fix s assume s: "world_ok root P s"
  show "world_ok root P (snd (on_upload n m s))"
  proof (cases "sw_uploads s n")
    case (Some j)
    obtain r t where m: "m (j\<lparr>lu_fs := sw_fs s\<rparr>) = (r, t)" by fastforce
    have "up_ok root P (j\<lparr>lu_fs := sw_fs s\<rparr>)" using s Some by (simp add: world_ok_def up_ok_def)
    from keepsD [OF assms this] m s Some show ?thesis by (auto simp: on_upload_def world_ok_def up_ok_def)
  qed (use s in \<open>simp add: on_upload_def\<close>)
qed

lemma keeps_on_download: "keeps (world_ok root P) (on_download n m)"
  by (auto simp: keeps_def on_download_def world_ok_def split: option.splits prod.splits)

lemma keeps_take_socket: "keeps (up_ok root P) take_write_socket"
  by (simp add: keeps_def take_write_socket_def up_ok_def)

text \<open>The local provider keeps its world in order, under the laws of its two interfaces.\<close>

definition confines :: "'w fsapi \<Rightarrow> 'w osapi \<Rightarrow> string \<Rightarrow> ('w \<Rightarrow> bool) \<Rightarrow> bool" where
  "confines F A root P \<longleftrightarrow> fs_confines F root P \<and> fs_names F \<and> os_confines F A root P"

lemma keeps_list_entries: "keeps P (list_entries F root meth ps)"
  by (induction ps) (auto intro!: keeps_intros)

lemma keeps_open_channels: "keeps P (open_channels F D b i)"
  by (auto simp: keeps_def open_channels_def split: outcome.splits)

lemma keeps_imp: "(H \<Longrightarrow> keeps I m) \<Longrightarrow> keeps (\<lambda>s. H \<longrightarrow> I s) m"
  by (auto simp: keeps_def)

lemma local_provider_keeps:
  assumes "confines F A root P"
  shows "world_invariant (local_provider F A D root impl dimpl) (world_ok root P)"
proof -
  have fs: "fs_confines F root P" "fs_names F" and os: "os_confines F A root P" using assms by (simp_all add: confines_def)
  note lp = confined_create_folder [OF fs(1)] confined_delete_item [OF fs(1)] confined_move [OF fs(1)]
    confined_copy [OF fs]
  note up = keeps_on_upload [OF keeps_FinishUpload [OF os]] keeps_on_upload [OF keeps_CancelUpload]
    keeps_on_upload [OF keeps_take_socket]
  have reads: "keeps P (LocalProvider_roots F root)" "keeps P (LocalProvider_list F root i t)"
      "keeps P (LocalProvider_lookup F root i n)" "keeps P (LocalProvider_metadata F root i)"
      "keeps P (LocalProvider_download F D root b i t)" for i t n b
    by (auto simp: LocalProvider_roots_def LocalProvider_list_def LocalProvider_lookup_def LocalProvider_metadata_def
        LocalProvider_download_def Let_def keeps_list_entries keeps_etag_check
        intro!: keeps_intros keeps_open_channels)
  have new: "keeps (world_ok root P) (start_upload n (LocalProvider_create_file F A root b p nm sz ow))"
      "keeps (world_ok root P) (start_upload n (LocalProvider_update F A root b i sz et))" for n b p nm sz ow i et
    by (rule keeps_start_upload [OF hoare_create [OF os]], rule LocalProvider_create_file_def)
      (rule keeps_start_upload [OF hoare_update [OF os]], rule LocalProvider_update_def)
  show ?thesis
    by unfold_locales
      (auto simp: local_provider_def intro!: keeps_intros keeps_async_op keeps_sync_op keeps_start_download new
        lp up reads keeps_on_download)
qed

interpretation local_world: world_invariant "local_provider F A D root impl dimpl"
  "\<lambda>s. confines F A root P \<longrightarrow> world_ok root P s" for F A D root impl dimpl P
  by unfold_locales (rule keeps_imp, erule world_invariant.provider_functions [OF local_provider_keeps])+

lemma service_step_world:
  assumes "confines F A root P" and "world_ok root P (if_world s)"
  shows "world_ok root P (if_world (service_step F A D root impl dimpl s e))"
proof (cases e)
  case (Bus b)
  with local_world.step_world [of F A root P s D impl dimpl b] assms show ?thesis by simp
next
  case (Upload_data n d)
  have "keeps (world_ok root P) (on_upload n (bytes_arrive A d))" by (rule keeps_on_upload [OF keeps_bytes_arrive])
  from keepsD [OF this assms(2)] Upload_data assms(2) show ?thesis
    by (auto simp: socket_event_def split: prod.splits outcome.splits)
next
  case (Download_start n)
  with keepsD [OF keeps_on_download assms(2), of n "read_and_write_chunk D"] assms(2) show ?thesis
    by (auto simp: socket_event_def split: prod.splits outcome.splits)
next
  case (Download_acked n k)
  with keepsD [OF keeps_on_download assms(2), of n "bytes_acknowledged D k"] assms(2) show ?thesis
    by (auto simp: socket_event_def split: prod.splits outcome.splits)
qed

interpretation service: invariant_machine "service_step F A D root impl dimpl"
  "\<lambda>s. confines F A root P \<longrightarrow> world_ok root P (if_world s)" for F A D root impl dimpl P
  by unfold_locales (simp add: service_step_world)

definition new_service :: "'w \<Rightarrow> 'w service_world iface" where
  "new_service fs = iface_init \<lparr>sw_fs = fs, sw_uploads = (\<lambda>_. None), sw_downloads = (\<lambda>_. None)\<rparr>"


lemma mem_os_confines: "os_confines mem_fs mem_os root (\<lambda>w. mem_outside root w = w0)"
proof -
  have "mem_outside root (filter (\<lambda>(q, node). \<not> (q = p \<and> node \<noteq> Mem_dir)) w) = mem_outside root w"
    if "inside root p" for p w
    unfolding mem_outside_def filter_filter using that by (intro filter_cong) auto
  then show ?thesis
    by (auto simp: os_confines_def mem_os_def inside_append mem_outside_add)
qed

lemma mem_confines: "confines mem_fs mem_os root (\<lambda>w. mem_outside root w = w0)"
  by (simp add: confines_def mem_fs_confines mem_fs_names mem_os_confines)


end
