(* ===== verification/Transfers.thy ===== *)
theory Transfers
  imports ClientJobs
begin

text \<open>
  The client's transfers: \<open>UploaderImpl\<close> and \<open>DownloaderImpl\<close> (\<open>src/qt/internal/\<close>). Both wait for
  the provider to return the id of the transfer and a socket, move data while they are
  \<open>Ready\<close>, and end by \<open>close\<close> or \<open>cancel\<close>. The members of the two classes are held in one record;
  \<open>tr_accepted\<close> is not a member: it collects the data for which the application's write
  succeeded. The socket is the parameter \<open>accept\<close>: for the data of a write, and whether the socket
  is connected, the number of bytes taken, or -1.
\<close>

section \<open>State\<close>

record transfer =
  tr_status :: job_status
  tr_error :: StorageError
  tr_signals :: "job_status list"
  tr_error_string :: string
  tr_method :: string
  tr_item :: ItemImpl
  tr_policy :: ConflictPolicy
  tr_size :: int
  tr_id :: string              \<comment> \<open>upload_id_ or download_id_\<close>
  tr_fd :: int
  tr_buffer :: string          \<comment> \<open>written while Loading\<close>
  tr_sent :: string            \<comment> \<open>given to the socket\<close>
  tr_connected :: bool
  tr_finalizing :: bool
  tr_calls :: "dbus_call list"
  tr_open_pending :: bool      \<comment> \<open>the reply to the first call is still to come\<close>
  tr_finish_pending :: bool    \<comment> \<open>the reply to the finishing call is still to come\<close>
  tr_accepted :: string

definition transfer_init :: "ItemImpl \<Rightarrow> string \<Rightarrow> ConflictPolicy \<Rightarrow> int \<Rightarrow> transfer" where
  "transfer_init item meth policy sz =
     \<lparr>tr_status = JS_Loading, tr_error = StorageErrorImpl_default, tr_signals = [], tr_error_string = '''',
      tr_method = meth, tr_item = item, tr_policy = policy, tr_size = sz, tr_id = '''', tr_fd = -1,
      tr_buffer = '''', tr_sent = '''', tr_connected = False, tr_finalizing = False, tr_calls = [],
      tr_open_pending = True, tr_finish_pending = False, tr_accepted = ''''\<rparr>"

definition set_status :: "job_status \<Rightarrow> transfer \<Rightarrow> transfer" where
  "set_status st t = t\<lparr>tr_status := st, tr_signals := tr_signals t @ [st]\<rparr>"

text \<open>\<open>error_ = e; socket_.abort(); setErrorString(msg); status_ = st; statusChanged\<close>\<close>

definition stop :: "job_status \<Rightarrow> StorageError \<Rightarrow> string \<Rightarrow> transfer \<Rightarrow> transfer" where
  "stop st e msg t = set_status st (t\<lparr>tr_error := e, tr_connected := False, tr_error_string := msg\<rparr>)"

definition stop_destroyed :: "string \<Rightarrow> transfer \<Rightarrow> transfer" where
  "stop_destroyed meth t =
     stop JS_Error (destroyed meth) (meth @ '': Runtime was destroyed previously'') t"

text \<open>The same without touching the socket, as in \<open>cancel\<close> and \<open>close\<close>.\<close>

definition fail_destroyed :: "string \<Rightarrow> transfer \<Rightarrow> transfer" where
  "fail_destroyed meth t = set_status JS_Error (t\<lparr>tr_error := destroyed meth\<rparr>)"

section \<open>The uploader\<close>

type_synonym socket = "bool \<Rightarrow> string \<Rightarrow> int"

definition socket_write :: "socket \<Rightarrow> string \<Rightarrow> transfer \<Rightarrow> int \<times> transfer" where
  "socket_write accept d t =
     (let n = accept (tr_connected t) d in (n, t\<lparr>tr_sent := tr_sent t @ take (nat n) d\<rparr>))"

text \<open>\<open>flush_buffer\<close>: the outer \<open>bytes_written\<close> stays 0, the inner variable shadows it.\<close>

definition flush_buffer :: "socket \<Rightarrow> transfer \<Rightarrow> int \<times> transfer" where
  "flush_buffer accept t =
     (if tr_buffer t \<noteq> '''' then
        (case socket_write accept (tr_buffer t) t of (n, t) \<Rightarrow>
           if n \<noteq> int (length (tr_buffer t)) then (-1, t) else (0, t\<lparr>tr_buffer := ''''\<rparr>))
      else (0, t))"

definition uploader_reply :: "socket \<Rightarrow> RuntimeImpl option \<Rightarrow> string \<Rightarrow> int \<Rightarrow> transfer \<Rightarrow> transfer" where
  "uploader_reply accept rt upload_id fd t =
     (if tr_status t \<noteq> JS_Loading then t
      else if \<not> runtime_alive rt then stop_destroyed (tr_method t) t
      else let t = t\<lparr>tr_id := upload_id, tr_fd := fd\<rparr> in
        if fd < 0 then
          (let msg = tr_method t @ '': invalid file descriptor returned by provider'' in
           stop JS_Error (local_comms_error msg) msg t)
        else set_status JS_Ready (snd (flush_buffer accept (t\<lparr>tr_connected := True\<rparr>))))"

text \<open>\<open>process_error\<close> of the constructor has no test of the status.\<close>

definition transfer_open_error :: "StorageError \<Rightarrow> transfer \<Rightarrow> transfer" where
  "transfer_open_error e t = stop JS_Error e (errorString e) t"

definition uploader_cancel :: "RuntimeImpl option \<Rightarrow> transfer \<Rightarrow> transfer" where
  "uploader_cancel rt t =
     (if final_status (tr_status t) then t
      else if \<not> runtime_alive rt then fail_destroyed ''Uploader::cancel()'' t
      else let t = (if tr_id t \<noteq> '''' then t\<lparr>tr_calls := tr_calls t @ [CancelUpload (tr_id t)]\<rparr> else t);
               msg = ''Uploader::cancel(): upload was cancelled''
           in stop JS_Cancelled (cancelled_error msg) msg t)"

definition uploader_close :: "socket \<Rightarrow> RuntimeImpl option \<Rightarrow> transfer \<Rightarrow> transfer" where
  "uploader_close accept rt t =
     (if tr_status t = JS_Error \<or> tr_status t = JS_Cancelled \<or> tr_finalizing t then t
      else if tr_status t \<noteq> JS_Ready then
        (let msg = ''Uploader::close(): cannot finalize while Uploader is not in the Ready state'' in
         stop JS_Error (logic_error msg) msg t)
      else if \<not> runtime_alive rt then fail_destroyed ''Uploader::close()'' t
      else let t = snd (flush_buffer accept (t\<lparr>tr_finalizing := True\<rparr>)) in
        t\<lparr>tr_connected := False, tr_calls := tr_calls t @ [FinishUpload (tr_id t)], tr_finish_pending := True\<rparr>)"

definition uploader_finish_reply :: "validator \<Rightarrow> RuntimeImpl option \<Rightarrow> ItemMetadata \<Rightarrow> transfer \<Rightarrow> transfer" where
  "uploader_finish_reply check rt md t =
     (if tr_status t = JS_Cancelled \<or> tr_status t = JS_Error then t
      else if \<not> runtime_alive rt then stop_destroyed ''Uploader::close()'' t
      else case check md of
          None \<Rightarrow> set_status JS_Finished (t\<lparr>tr_item := ItemImpl_init md (it_account (tr_item t))\<rparr>)
        | Some e \<Rightarrow> set_status JS_Error (t\<lparr>tr_error := e\<rparr>))"

definition transfer_finish_error :: "StorageError \<Rightarrow> transfer \<Rightarrow> transfer" where
  "transfer_finish_error e t = (if tr_status t \<noteq> JS_Ready then t else stop JS_Error e (errorString e) t)"

text \<open>\<open>writeData\<close>; a successful write is added to \<open>tr_accepted\<close>.\<close>

definition uploader_write :: "socket \<Rightarrow> string \<Rightarrow> transfer \<Rightarrow> int \<times> transfer" where
  "uploader_write accept d t =
     (case tr_status t of
        JS_Loading \<Rightarrow>
          (int (length d), t\<lparr>tr_buffer := tr_buffer t @ d, tr_accepted := tr_accepted t @ d\<rparr>)
      | JS_Ready \<Rightarrow>
          (case flush_buffer accept t of (r, t) \<Rightarrow>
             if r = -1 then (-1, t)
             else case socket_write accept d t of (n, t) \<Rightarrow>
               (n, t\<lparr>tr_accepted := tr_accepted t @ take (nat n) d\<rparr>))
      | _ \<Rightarrow> (-1, t))"

text \<open>
  What the first call ends with. \<open>wait_and_process_now\<close> of the handler blocks until it is there
  and processes it at once; the handler then disconnects, so it is not processed again.
\<close>

datatype open_result = Opened "RuntimeImpl option" string int | Open_failed StorageError

definition uploader_opened :: "socket \<Rightarrow> open_result \<Rightarrow> transfer \<Rightarrow> transfer" where
  "uploader_opened accept r t =
     (if \<not> tr_open_pending t then t
      else let t = t\<lparr>tr_open_pending := False\<rparr> in
        case r of Opened rt upload_id fd \<Rightarrow> uploader_reply accept rt upload_id fd t
        | Open_failed e \<Rightarrow> transfer_open_error e t)"

text \<open>\<open>waitForBytesWritten\<close>; \<open>written\<close> is what the socket's own wait returns.\<close>

definition uploader_waitForBytesWritten :: "socket \<Rightarrow> bool \<Rightarrow> open_result \<Rightarrow> transfer \<Rightarrow> bool \<times> transfer" where
  "uploader_waitForBytesWritten accept written r t =
     (let t = (if tr_status t = JS_Loading then uploader_opened accept r t else t) in
      case flush_buffer accept t of (n, t) \<Rightarrow> (if n = -1 then False else written, t))"

definition uploader_destroy :: "RuntimeImpl option \<Rightarrow> transfer \<Rightarrow> transfer" where
  "uploader_destroy rt t = (if tr_status t = JS_Ready then uploader_cancel rt t else t)"

definition uploader_item :: "transfer \<Rightarrow> ItemImpl" where
  "uploader_item t = (if tr_status t \<noteq> JS_Finished then ItemImpl_default else tr_item t)"

definition transfer_isValid :: "transfer \<Rightarrow> bool" where
  "transfer_isValid t \<longleftrightarrow> tr_status t \<noteq> JS_Error \<and> tr_status t \<noteq> JS_Cancelled"

section \<open>The downloader\<close>

definition downloader_reply :: "RuntimeImpl option \<Rightarrow> string \<Rightarrow> int \<Rightarrow> transfer \<Rightarrow> transfer" where
  "downloader_reply rt download_id fd t =
     (if tr_status t \<noteq> JS_Loading then t
      else if \<not> runtime_alive rt then stop_destroyed (tr_method t) t
      else let t = t\<lparr>tr_id := download_id, tr_fd := fd\<rparr> in
        if fd < 0 then
          (let msg = tr_method t @ '': invalid file descriptor returned by provider'' in
           stop JS_Error (local_comms_error msg) msg t)
        else set_status JS_Ready (t\<lparr>tr_connected := True\<rparr>))"

definition downloader_opened :: "open_result \<Rightarrow> transfer \<Rightarrow> transfer" where
  "downloader_opened r t =
     (if \<not> tr_open_pending t then t
      else let t = t\<lparr>tr_open_pending := False\<rparr> in
        case r of Opened rt download_id fd \<Rightarrow> downloader_reply rt download_id fd t
        | Open_failed e \<Rightarrow> transfer_open_error e t)"

definition downloader_cancel :: "RuntimeImpl option \<Rightarrow> transfer \<Rightarrow> transfer" where
  "downloader_cancel rt t =
     (if final_status (tr_status t) then t
      else if \<not> runtime_alive rt then fail_destroyed ''Downloader::cancel()'' t
      else let msg = ''Downloader::cancel(): download was cancelled''
           in stop JS_Cancelled (cancelled_error msg) msg t)"

definition downloader_close :: "RuntimeImpl option \<Rightarrow> transfer \<Rightarrow> transfer" where
  "downloader_close rt t =
     (if tr_status t = JS_Error \<or> tr_status t = JS_Cancelled \<or> tr_finalizing t then t
      else if tr_status t \<noteq> JS_Ready then
        (let msg = ''Downloader::close(): cannot finalize while Downloader is not in the Ready state'' in
         stop JS_Error (logic_error msg) msg t)
      else if \<not> runtime_alive rt then fail_destroyed ''Downloader::close()'' t
      else t\<lparr>tr_finalizing := True, tr_calls := tr_calls t @ [FinishDownload (tr_id t)],
             tr_finish_pending := True\<rparr>)"

definition downloader_finish_reply :: "RuntimeImpl option \<Rightarrow> transfer \<Rightarrow> transfer" where
  "downloader_finish_reply rt t =
     (if tr_status t = JS_Cancelled \<or> tr_status t = JS_Error then t
      else if \<not> runtime_alive rt then stop_destroyed ''Downloader::close()'' t
      else set_status JS_Finished t)"

definition downloader_destroy :: "RuntimeImpl option \<Rightarrow> transfer \<Rightarrow> transfer" where
  "downloader_destroy rt t = (if tr_status t = JS_Ready then downloader_cancel rt t else t)"

definition downloader_item :: "transfer \<Rightarrow> ItemImpl" where
  "downloader_item t = (if tr_status t = JS_Error then ItemImpl_default else tr_item t)"

section \<open>Events\<close>

datatype upload_event =
    UE_opened open_result
  | UE_write string
  | UE_wait bool open_result
  | UE_cancel "RuntimeImpl option"
  | UE_close "RuntimeImpl option"
  | UE_finish_reply "RuntimeImpl option" ItemMetadata
  | UE_finish_error StorageError

text \<open>Each pending call is answered once.\<close>

fun upload_step :: "socket \<Rightarrow> validator \<Rightarrow> transfer \<Rightarrow> upload_event \<Rightarrow> transfer" where
  "upload_step accept check t (UE_opened r) = uploader_opened accept r t"
| "upload_step accept check t (UE_write d) = snd (uploader_write accept d t)"
| "upload_step accept check t (UE_wait written r) = snd (uploader_waitForBytesWritten accept written r t)"
| "upload_step accept check t (UE_cancel rt) = uploader_cancel rt t"
| "upload_step accept check t (UE_close rt) = uploader_close accept rt t"
| "upload_step accept check t (UE_finish_reply rt md) =
     (if tr_finish_pending t then uploader_finish_reply check rt md (t\<lparr>tr_finish_pending := False\<rparr>) else t)"
| "upload_step accept check t (UE_finish_error e) =
     (if tr_finish_pending t then transfer_finish_error e (t\<lparr>tr_finish_pending := False\<rparr>) else t)"

datatype download_event =
    DE_opened open_result
  | DE_cancel "RuntimeImpl option"
  | DE_close "RuntimeImpl option"
  | DE_finish_reply "RuntimeImpl option"
  | DE_finish_error StorageError

fun download_step :: "transfer \<Rightarrow> download_event \<Rightarrow> transfer" where
  "download_step t (DE_opened r) = downloader_opened r t"
| "download_step t (DE_cancel rt) = downloader_cancel rt t"
| "download_step t (DE_close rt) = downloader_close rt t"
| "download_step t (DE_finish_reply rt) =
     (if tr_finish_pending t then downloader_finish_reply rt (t\<lparr>tr_finish_pending := False\<rparr>) else t)"
| "download_step t (DE_finish_error e) =
     (if tr_finish_pending t then transfer_finish_error e (t\<lparr>tr_finish_pending := False\<rparr>) else t)"

lemmas transfer_defs = uploader_opened_def downloader_opened_def uploader_waitForBytesWritten_def uploader_reply_def transfer_open_error_def uploader_cancel_def uploader_close_def
  uploader_finish_reply_def transfer_finish_error_def uploader_write_def downloader_reply_def
  downloader_cancel_def downloader_close_def downloader_finish_reply_def stop_destroyed_def fail_destroyed_def
  stop_def set_status_def Let_def

section \<open>What every transfer keeps\<close>

definition tr_wf :: "transfer \<Rightarrow> bool" where
  "tr_wf t \<longleftrightarrow>
     (tr_status t = JS_Loading \<longrightarrow> \<not> tr_finalizing t \<and> tr_open_pending t) \<and>
     (tr_status t = JS_Ready \<longrightarrow> \<not> tr_open_pending t) \<and>
     (tr_status t = JS_Finished \<longrightarrow> tr_finalizing t \<and> \<not> tr_finish_pending t \<and> \<not> tr_open_pending t) \<and>
     (tr_finish_pending t \<longrightarrow> tr_finalizing t \<and> \<not> tr_open_pending t)"

lemma flush_fields [simp]:
  "tr_status (snd (flush_buffer accept t)) = tr_status t"
  "tr_signals (snd (flush_buffer accept t)) = tr_signals t"
  "tr_finalizing (snd (flush_buffer accept t)) = tr_finalizing t"
  "tr_open_pending (snd (flush_buffer accept t)) = tr_open_pending t"
  "tr_finish_pending (snd (flush_buffer accept t)) = tr_finish_pending t"
  "tr_accepted (snd (flush_buffer accept t)) = tr_accepted t"
  "tr_id (snd (flush_buffer accept t)) = tr_id t"
  "tr_calls (snd (flush_buffer accept t)) = tr_calls t"
  by (simp_all add: flush_buffer_def socket_write_def Let_def)

lemma flush_empty [simp]: "tr_buffer t = '''' \<Longrightarrow> flush_buffer accept t = (0, t)"
  by (simp add: flush_buffer_def)

lemma flush_all:
  assumes "\<forall>d. accept True d = int (length d)" and "tr_connected t"
  shows "flush_buffer accept t = (0, t\<lparr>tr_sent := tr_sent t @ tr_buffer t, tr_buffer := ''''\<rparr>)"
  using assms by (simp add: flush_buffer_def socket_write_def Let_def)

lemma write_fields [simp]:
  "tr_status (snd (uploader_write accept d t)) = tr_status t"
  "tr_signals (snd (uploader_write accept d t)) = tr_signals t"
  "tr_finalizing (snd (uploader_write accept d t)) = tr_finalizing t"
  "tr_open_pending (snd (uploader_write accept d t)) = tr_open_pending t"
  "tr_finish_pending (snd (uploader_write accept d t)) = tr_finish_pending t"
  using flush_fields [of accept t]
  by (cases "flush_buffer accept t",
      simp_all add: uploader_write_def socket_write_def Let_def split: job_status.split)+

lemma wait_snd:
  "snd (uploader_waitForBytesWritten accept written r t) =
     snd (flush_buffer accept (if tr_status t = JS_Loading then uploader_opened accept r t else t))"
  by (simp add: uploader_waitForBytesWritten_def Let_def split: prod.split)

lemma uploader_opened_wf:
  assumes "tr_wf t"
  shows "tr_wf (uploader_opened accept r t)"
  using assms by (cases r) (auto simp: tr_wf_def transfer_defs)

lemma flush_wf [simp]: "tr_wf (snd (flush_buffer accept t)) = tr_wf t"
  by (simp add: tr_wf_def)

lemma upload_step_wf:
  assumes "tr_wf t"
  shows "tr_wf (upload_step accept check t e)"
proof (cases e)
  case (UE_opened r)
  with assms show ?thesis by (simp add: uploader_opened_wf)
next
  case (UE_wait w r)
  with assms show ?thesis by (simp add: wait_snd uploader_opened_wf)
next
  case (UE_cancel rt)
  with assms show ?thesis by (simp add: tr_wf_def transfer_defs final_status_def)
next
  case (UE_close rt)
  with assms show ?thesis by (auto simp: tr_wf_def transfer_defs)
next
  case (UE_finish_reply rt md)
  with assms show ?thesis by (auto simp: tr_wf_def transfer_defs split: option.split)
qed (use assms in \<open>simp_all add: tr_wf_def transfer_finish_error_def stop_def set_status_def\<close>)

lemma download_step_wf:
  assumes "tr_wf t"
  shows "tr_wf (download_step t e)"
  using assms
  by (cases e) (auto simp: tr_wf_def transfer_defs final_status_def split: open_result.split)

interpretation upload_wf: invariant_machine "upload_step accept check" tr_wf for accept check
  by unfold_locales (rule upload_step_wf)

interpretation download_wf: invariant_machine download_step tr_wf
  by unfold_locales (rule download_step_wf)

lemma init_wf: "tr_wf (transfer_init item meth policy sz)"
  by (simp add: tr_wf_def transfer_init_def)

section \<open>Final states are final\<close>

text \<open>
  The exception is the failure of the first call: its handler does not test the status. An event
  is \<open>upload_quiet\<close> (\<open>download_quiet\<close>) when it is not such a failure.
\<close>

fun upload_open_failure :: "upload_event \<Rightarrow> bool" where
  "upload_open_failure (UE_opened (Open_failed e)) = True"
| "upload_open_failure _ = False"

fun download_open_failure :: "download_event \<Rightarrow> bool" where
  "download_open_failure (DE_opened (Open_failed e)) = True"
| "download_open_failure _ = False"

definition upload_quiet :: "transfer \<Rightarrow> upload_event \<Rightarrow> bool" where
  "upload_quiet t e \<longleftrightarrow> tr_wf t \<and> \<not> upload_open_failure e"

definition download_quiet :: "transfer \<Rightarrow> download_event \<Rightarrow> bool" where
  "download_quiet t e \<longleftrightarrow> tr_wf t \<and> \<not> download_open_failure e"

lemma upload_final_step:
  assumes "final_status (tr_status t)" and "upload_quiet t e"
  shows "tr_status (upload_step accept check t e) = tr_status t \<and>
         tr_signals (upload_step accept check t e) = tr_signals t"
proof (cases e)
  case (UE_opened r)
  with assms show ?thesis
    by (cases r) (auto simp: upload_quiet_def final_status_def transfer_defs)
next
  case (UE_wait w r)
  with assms show ?thesis by (auto simp: wait_snd final_status_def)
qed (use assms in \<open>auto simp: upload_quiet_def tr_wf_def final_status_def transfer_finish_error_def
       uploader_cancel_def uploader_close_def uploader_finish_reply_def\<close>)

lemma download_final_step:
  assumes "final_status (tr_status t)" and "download_quiet t e"
  shows "tr_status (download_step t e) = tr_status t \<and> tr_signals (download_step t e) = tr_signals t"
proof (cases e)
  case (DE_opened r)
  with assms show ?thesis
    by (cases r) (auto simp: download_quiet_def final_status_def transfer_defs)
qed (use assms in \<open>auto simp: download_quiet_def tr_wf_def final_status_def transfer_finish_error_def
       downloader_cancel_def downloader_close_def downloader_finish_reply_def\<close>)

interpretation uploads: final_machine "upload_step accept check" tr_status final_status tr_signals upload_quiet
  for accept check
  by unfold_locales (simp_all add: upload_final_step)

interpretation downloads: final_machine download_step tr_status final_status tr_signals download_quiet
  by unfold_locales (simp_all add: download_final_step)

lemma uploads_legal:
  "tr_wf t \<Longrightarrow> list_all (\<lambda>e. \<not> upload_open_failure e) es \<Longrightarrow> uploads.legal_run accept check t es"
  by (induction es arbitrary: t) (simp_all add: upload_quiet_def upload_step_wf)

lemma downloads_legal:
  "tr_wf t \<Longrightarrow> list_all (\<lambda>e. \<not> download_open_failure e) es \<Longrightarrow> downloads.legal_run t es"
  by (induction es arbitrary: t) (simp_all add: download_quiet_def download_step_wf)

text \<open>
  A transfer enters a final state once: after any sequence of replies, writes, waits, cancels and
  closes that leaves an upload (a download) \<open>Finished\<close>, \<open>Cancelled\<close> or \<open>Error\<close>, no further events
  change its status or emit another \<open>statusChanged\<close>, unless the first D-Bus call fails afterwards.
\<close>

theorem transfers_end_once:
  assumes "final_status (tr_status (run_events (upload_step accept check) (transfer_init i m p n) es))"
    and "list_all (\<lambda>e. \<not> upload_open_failure e) es'"
    and "final_status (tr_status (run_events download_step (transfer_init i' m' p' n') ds))"
    and "list_all (\<lambda>e. \<not> download_open_failure e) ds'"
  shows "(let u = run_events (upload_step accept check) (transfer_init i m p n) es;
              u' = run_events (upload_step accept check) u es';
              d = run_events download_step (transfer_init i' m' p' n') ds;
              d' = run_events download_step d ds'
          in (tr_status u', tr_signals u') = (tr_status u, tr_signals u) \<and>
             (tr_status d', tr_signals d') = (tr_status d, tr_signals d))"
  using uploads.final_run [OF assms(1) uploads_legal [OF upload_wf.inv_run [OF init_wf] assms(2)]]
    downloads.final_run [OF assms(3) downloads_legal [OF download_wf.inv_run [OF init_wf] assms(4)]]
  by (simp add: Let_def)

definition alive :: "RuntimeImpl option" where
  "alive = Some RuntimeImpl_init"

lemma runtime_alive_alive [simp]: "runtime_alive alive"
  by (simp add: alive_def runtime_alive_def RuntimeImpl_init_def)

theorem transfers_end_once_witness:
  "(let u = run_events (upload_step (\<lambda>c d. int (length d)) (\<lambda>_. None)) (transfer_init sample_file ''m'' ignore_conflict 3)
              [UE_cancel alive];
        u' = run_events (upload_step (\<lambda>c d. int (length d)) (\<lambda>_. None)) u [UE_opened (Opened alive ''7'' 5), UE_close alive];
        d = run_events download_step (transfer_init sample_file ''m'' ignore_conflict 0)
              [DE_opened (Opened alive ''8'' 5), DE_close alive, DE_finish_reply alive];
        d' = run_events download_step d [DE_cancel alive]
    in (tr_status u', tr_signals u') = (tr_status u, tr_signals u) \<and>
       (tr_status d', tr_signals d') = (tr_status d, tr_signals d)) \<and>
   tr_status (run_events download_step (transfer_init sample_file ''m'' ignore_conflict 0)
     [DE_opened (Opened alive ''8'' 5), DE_close alive, DE_finish_reply alive]) = JS_Finished"
proof -
  let ?t = "transfer_init sample_file ''m'' ignore_conflict"
  have u: "final_status (tr_status (run_events (upload_step (\<lambda>c d. int (length d)) (\<lambda>_. None)) (?t 3) [UE_cancel alive]))"
    by (simp add: transfer_init_def final_status_def transfer_defs)
  have d: "tr_status (run_events download_step (?t 0)
      [DE_opened (Opened alive ''8'' 5), DE_close alive, DE_finish_reply alive]) = JS_Finished"
    by (simp add: transfer_init_def transfer_defs)
  show ?thesis
    using transfers_end_once [OF u, of "[UE_opened (Opened alive ''7'' 5), UE_close alive]" sample_file "''m''" ignore_conflict 0
       "[DE_opened (Opened alive ''8'' 5), DE_close alive, DE_finish_reply alive]" "[DE_cancel alive]"] d
    by (simp add: final_status_def)
qed

text \<open>
  The exception is real: an upload that is cancelled before the provider has answered goes from
  \<open>Cancelled\<close> to \<open>Error\<close>, with a second signal, when the provider's answer is an error.
\<close>

lemma cancelled_then_failed:
  "tr_signals (run_events (upload_step accept check) (transfer_init item meth policy sz)
     [UE_cancel alive, UE_opened (Open_failed e)]) = [JS_Cancelled, JS_Error]"
  by (simp add: transfer_init_def transfer_defs)

section \<open>The data of an upload\<close>

text \<open>
  The invariant of an upload on a socket that takes all of a write while it is connected, as
  \<open>QLocalSocket\<close> does (it has a buffer of its own, with no bound).
\<close>

definition up_inv :: "transfer \<Rightarrow> bool" where
  "up_inv t \<longleftrightarrow> tr_wf t \<and>
     (case tr_status t of
        JS_Loading \<Rightarrow> tr_sent t = '''' \<and> tr_buffer t = tr_accepted t \<and> tr_calls t = []
      | JS_Ready \<Rightarrow> tr_sent t = tr_accepted t \<and> tr_buffer t = '''' \<and>
          tr_calls t = (if tr_finalizing t then [FinishUpload (tr_id t)] else [])
      | JS_Finished \<Rightarrow> tr_sent t = tr_accepted t \<and> tr_buffer t = '''' \<and> tr_calls t = [FinishUpload (tr_id t)]
      | _ \<Rightarrow> True)"

lemma uploader_opened_inv:
  assumes "\<forall>d. accept True d = int (length d)" and "up_inv t"
  shows "up_inv (uploader_opened accept r t)"
proof -
  have "tr_wf (uploader_opened accept r t)"
    using assms(2) by (simp add: uploader_opened_wf up_inv_def)
  with assms show ?thesis
    by (cases r) (auto simp: up_inv_def transfer_defs flush_all tr_wf_def split: job_status.splits)
qed

lemma uploader_write_inv:
  assumes "up_inv t"
  shows "up_inv (snd (uploader_write accept d t))"
  using assms
  by (cases "tr_status t") (auto simp: up_inv_def tr_wf_def uploader_write_def socket_write_def Let_def)

lemma uploader_wait_inv:
  assumes "\<forall>d. accept True d = int (length d)" and "up_inv t"
  shows "up_inv (snd (uploader_waitForBytesWritten accept written r t))"
proof -
  let ?t = "if tr_status t = JS_Loading then uploader_opened accept r t else t"
  have "up_inv ?t" using assms by (simp add: uploader_opened_inv)
  moreover have "tr_status ?t \<noteq> JS_Loading"
    using assms(2) by (cases r) (auto simp: up_inv_def tr_wf_def transfer_defs)
  ultimately have "up_inv (snd (flush_buffer accept ?t))"
    by (cases "tr_status ?t") (auto simp: up_inv_def)
  then show ?thesis by (simp add: wait_snd)
qed

lemma upload_step_inv:
  assumes "\<forall>d. accept True d = int (length d)" and "up_inv t"
  shows "up_inv (upload_step accept check t e)"
proof (cases e)
  case (UE_cancel rt)
  with assms(2) show ?thesis
    by (auto simp: up_inv_def tr_wf_def uploader_cancel_def final_status_def stop_def fail_destroyed_def set_status_def Let_def
        split: job_status.splits)
next
  case (UE_close rt)
  with assms upload_step_wf [of t accept check e] show ?thesis
    by (auto simp: up_inv_def tr_wf_def uploader_close_def stop_def fail_destroyed_def set_status_def Let_def
        split: job_status.splits)
next
  case (UE_finish_reply rt md)
  with assms(2) upload_step_wf [of t accept check e] show ?thesis
    by (auto simp: up_inv_def tr_wf_def uploader_finish_reply_def stop_def stop_destroyed_def set_status_def
        split: job_status.splits option.splits)
next
  case (UE_finish_error err)
  with assms(2) show ?thesis
    by (auto simp: up_inv_def tr_wf_def transfer_finish_error_def stop_def set_status_def split: job_status.splits)
qed (use assms in \<open>simp_all add: uploader_opened_inv uploader_write_inv uploader_wait_inv\<close>)

interpretation upload_data: invariant_machine "upload_step accept check"
  "\<lambda>t. (\<forall>d. accept True d = int (length d)) \<longrightarrow> up_inv t" for accept check
  by unfold_locales (simp add: upload_step_inv)

lemma init_up_inv: "up_inv (transfer_init item meth policy sz)"
  by (simp add: up_inv_def tr_wf_def transfer_init_def)

text \<open>
  C10. No written byte is lost, doubled or reordered: on a socket that takes all of a write while it is
  connected, whatever events an upload has seen, once it is \<open>Finished\<close> the socket has been given
  exactly the data of the successful writes, in order, those written before the
  provider answered included; nothing is left in the buffer, and the only call to the
  provider was one \<open>FinishUpload\<close> with the id the provider gave.
\<close>

theorem finished_upload_sent_all:
  assumes "\<forall>d. accept True d = int (length d)"
    and "tr_status (run_events (upload_step accept check) (transfer_init item meth policy sz) es) = JS_Finished"
  shows "(let t = run_events (upload_step accept check) (transfer_init item meth policy sz) es in
          tr_sent t = tr_accepted t \<and> tr_buffer t = '''' \<and> tr_calls t = [FinishUpload (tr_id t)])"
proof -
  have "up_inv (run_events (upload_step accept check) (transfer_init item meth policy sz) es)"
    using upload_data.inv_run [of accept] init_up_inv assms(1) by blast
  with assms(2) show ?thesis by (simp add: up_inv_def Let_def)
qed

definition sample_writes :: "upload_event list" where
  "sample_writes = [UE_write ''ab'', UE_opened (Opened alive ''7'' 5), UE_write ''c'', UE_close alive,
     UE_finish_reply alive no_metadata]"

theorem finished_upload_sent_all_witness:
  "(let t = run_events (upload_step (\<lambda>c d. if c then int (length d) else -1) (\<lambda>_. None))
              (transfer_init sample_file ''m'' ignore_conflict 3) sample_writes in
    tr_status t = JS_Finished \<and> tr_sent t = ''abc'' \<and> tr_sent t = tr_accepted t \<and> tr_calls t = [FinishUpload ''7''])"
proof -
  let ?a = "\<lambda>c d. if c then int (length (d :: string)) else -1"
  let ?t = "run_events (upload_step ?a (\<lambda>_. None)) (transfer_init sample_file ''m'' ignore_conflict 3) sample_writes"
  have t: "tr_status ?t = JS_Finished" "tr_accepted ?t = ''abc''" "tr_id ?t = ''7''"
    by (simp_all add: sample_writes_def transfer_init_def transfer_defs flush_buffer_def socket_write_def)
  show ?thesis
    using finished_upload_sent_all [OF _ t(1)] t by (simp add: Let_def)
qed

end
