(* ===== verification/V1Base.thy ===== *)
theory V1Base
  imports Errors
begin

text \<open>
  What the two back ends of the version 1 client library share: its exceptions
  (\<open>src/qt/client/Exceptions.cpp\<close>), the futures (\<open>internal/make_future.h\<close>) and the object graph
  of \<open>RuntimeBase\<close>, \<open>AccountBase\<close>, \<open>RootBase\<close> and \<open>ItemBase\<close>. The objects refer to each other by weak
  pointers, so the graph is a store: accounts and items have addresses, and an address is
  lockable as long as somebody owns the object. The runtime owns the accounts that it handed out,
  an account owns its roots; everything else is owned by the application alone.
\<close>

section \<open>Exceptions\<close>

datatype v1_exception =
    V1_LocalCommsException string
  | V1_RemoteCommsException string
  | V1_DeletedException string string
  | V1_RuntimeDestroyedException string   \<comment> \<open>the method\<close>
  | V1_NotExistsException string string
  | V1_ExistsException string string string
  | V1_ConflictException string
  | V1_PermissionException string
  | V1_QuotaException string
  | V1_CancelledException string
  | V1_LogicException string
  | V1_InvalidArgumentException string
  | V1_ResourceException string int

fun v1_exception_name :: "v1_exception \<Rightarrow> string" where
  "v1_exception_name (V1_LocalCommsException m) = ''LocalCommsException''"
| "v1_exception_name (V1_RemoteCommsException m) = ''RemoteCommsException''"
| "v1_exception_name (V1_DeletedException m i) = ''DeletedException''"
| "v1_exception_name (V1_RuntimeDestroyedException meth) = ''RuntimeDestroyedException''"
| "v1_exception_name (V1_NotExistsException m k) = ''NotExistsException''"
| "v1_exception_name (V1_ExistsException m i n) = ''ExistsException''"
| "v1_exception_name (V1_ConflictException m) = ''ConflictException''"
| "v1_exception_name (V1_PermissionException m) = ''PermissionException''"
| "v1_exception_name (V1_QuotaException m) = ''QuotaException''"
| "v1_exception_name (V1_CancelledException m) = ''CancelledException''"
| "v1_exception_name (V1_LogicException m) = ''LogicException''"
| "v1_exception_name (V1_InvalidArgumentException m) = ''InvalidArgumentException''"
| "v1_exception_name (V1_ResourceException m c) = ''ResourceException''"

fun v1_error_message :: "v1_exception \<Rightarrow> string" where
  "v1_error_message (V1_LocalCommsException m) = m"
| "v1_error_message (V1_RemoteCommsException m) = m"
| "v1_error_message (V1_DeletedException m i) = m"
| "v1_error_message (V1_RuntimeDestroyedException meth) = meth @ '': runtime was destroyed previously''"
| "v1_error_message (V1_NotExistsException m k) = m"
| "v1_error_message (V1_ExistsException m i n) = m"
| "v1_error_message (V1_ConflictException m) = m"
| "v1_error_message (V1_PermissionException m) = m"
| "v1_error_message (V1_QuotaException m) = m"
| "v1_error_message (V1_CancelledException m) = m"
| "v1_error_message (V1_LogicException m) = m"
| "v1_error_message (V1_InvalidArgumentException m) = m"
| "v1_error_message (V1_ResourceException m c) = m"

definition v1_what :: "v1_exception \<Rightarrow> string" where
  "v1_what e = v1_exception_name e @ '': '' @ v1_error_message e"

section \<open>Futures\<close>

text \<open>
  \<open>QFutureInterface\<close>: results accumulate until an exception or \<open>reportFinished\<close>; Qt ignores what is
  reported to a future that is finished, and a result or exception after an exception.
\<close>

record 'a v1_future =
  fu_results :: "'a list"
  fu_exception :: "v1_exception option"
  fu_finished :: bool

definition v1_future_init :: "'a v1_future" where
  "v1_future_init = \<lparr>fu_results = [], fu_exception = None, fu_finished = False\<rparr>"

definition reportResult :: "'a \<Rightarrow> 'a v1_future \<Rightarrow> 'a v1_future" where
  "reportResult a f =
     (if fu_finished f \<or> fu_exception f \<noteq> None then f else f\<lparr>fu_results := fu_results f @ [a]\<rparr>)"

definition reportException :: "v1_exception \<Rightarrow> 'a v1_future \<Rightarrow> 'a v1_future" where
  "reportException e f =
     (if fu_finished f \<or> fu_exception f \<noteq> None then f else f\<lparr>fu_exception := Some e\<rparr>)"

definition reportFinished :: "'a v1_future \<Rightarrow> 'a v1_future" where
  "reportFinished f = f\<lparr>fu_finished := True\<rparr>"

definition v1_ready_future :: "'a \<Rightarrow> 'a v1_future" where
  "v1_ready_future a = reportFinished (reportResult a v1_future_init)"

definition v1_exceptional_future :: "v1_exception \<Rightarrow> 'a v1_future" where
  "v1_exceptional_future e = reportFinished (reportException e v1_future_init)"

lemma finished_future_frozen [simp]:
  "fu_finished f \<Longrightarrow> reportResult a f = f" "fu_finished f \<Longrightarrow> reportException e f = f"
  "fu_finished f \<Longrightarrow> reportFinished f = f" "fu_finished (reportFinished f)"
  "fu_finished (reportResult a f) = fu_finished f" "fu_finished (reportException e f) = fu_finished f"
  by (simp_all add: reportResult_def reportException_def reportFinished_def)

section \<open>The object graph\<close>

record v1_item =
  vi_identity :: string
  vi_type :: ItemType
  vi_deleted :: bool
  vi_root :: nat                 \<comment> \<open>\<open>root_\<close>, of a root its own address\<close>
  vi_account :: nat              \<comment> \<open>\<open>RootBase::account_\<close>, of a root only\<close>

record v1_account =
  va_owner :: string
  va_owner_id :: string
  va_description :: string
  va_provider :: "string \<times> string"   \<comment> \<open>bus name and object path, of the remote client\<close>
  va_roots :: "nat list"

record 'o v1_world =
  vw_runtime :: bool             \<comment> \<open>somebody owns the runtime\<close>
  vw_destroyed :: bool
  vw_accounts :: "nat list"      \<comment> \<open>\<open>accounts_\<close> of the runtime\<close>
  vw_account_store :: "v1_account list"
  vw_account_freed :: "nat list" \<comment> \<open>accounts that the application released\<close>
  vw_items :: "'o list"
  vw_freed :: "nat list"         \<comment> \<open>items that the application released\<close>

definition v1_new_world :: "'o v1_world" where
  "v1_new_world = \<lparr>vw_runtime = True, vw_destroyed = False, vw_accounts = [], vw_account_store = [],
     vw_account_freed = [], vw_items = [], vw_freed = []\<rparr>"

definition account_lockable :: "('o, 'z) v1_world_scheme \<Rightarrow> nat \<Rightarrow> bool" where
  "account_lockable w a \<longleftrightarrow> a < length (vw_account_store w) \<and>
     (a \<notin> set (vw_account_freed w) \<or> vw_runtime w \<and> a \<in> set (vw_accounts w))"

definition item_lockable :: "('o, 'z) v1_world_scheme \<Rightarrow> nat \<Rightarrow> bool" where
  "item_lockable w n \<longleftrightarrow> n < length (vw_items w) \<and>
     (n \<notin> set (vw_freed w) \<or>
      (\<exists>a \<in> set [0..<length (vw_account_store w)]. account_lockable w a \<and> n \<in> set (va_roots (vw_account_store w ! a))))"

text \<open>\<open>AccountBase::runtime\<close>, \<open>RootBase::account\<close>\<close>

definition runtime_ok :: "('o, 'z) v1_world_scheme \<Rightarrow> bool" where
  "runtime_ok w \<longleftrightarrow> vw_runtime w \<and> \<not> vw_destroyed w"

definition account_runtime :: "('o, 'z) v1_world_scheme \<Rightarrow> (v1_exception, unit) outcome" where
  "account_runtime w = throw_if (\<not> runtime_ok w) (V1_RuntimeDestroyedException ''Account::runtime()'')"

definition root_account :: "('i v1_item_scheme, 'z) v1_world_scheme \<Rightarrow> nat \<Rightarrow> (v1_exception, nat) outcome" where
  "root_account w r =
     (let a = vi_account (vw_items w ! r) in
      if account_lockable w a then
        (case account_runtime w of
           Raise _ \<Rightarrow> Raise (V1_RuntimeDestroyedException ''Root::account()'')
         | Abort \<Rightarrow> Abort
         | Ok _ \<Rightarrow> Ok a)
      else Raise (V1_RuntimeDestroyedException ''Root::account()''))"

text \<open>\<open>ItemBase::get_root\<close>, \<open>root\<close> and \<open>throw_if_destroyed\<close>\<close>

definition get_root :: "('i v1_item_scheme, 'z) v1_world_scheme \<Rightarrow> nat \<Rightarrow> nat option" where
  "get_root w n =
     (let r = vi_root (vw_items w ! n) in
      if item_lockable w r then (case root_account w r of Ok _ \<Rightarrow> Some r | _ \<Rightarrow> None) else None)"

definition item_root :: "('i v1_item_scheme, 'z) v1_world_scheme \<Rightarrow> nat \<Rightarrow> (v1_exception, nat) outcome" where
  "item_root w n = (case get_root w n of
      None \<Rightarrow> Raise (V1_RuntimeDestroyedException ''Item::root()'')
    | Some r \<Rightarrow> Ok r)"

definition throw_if_destroyed ::
  "string \<Rightarrow> nat \<Rightarrow> ('i v1_item_scheme, 'z) v1_world_scheme \<Rightarrow> (v1_exception, unit) outcome" where
  "throw_if_destroyed meth n w =
     (let i = vw_items w ! n in
      if vi_deleted i then
        Raise (V1_DeletedException (meth @ '': \"'' @ vi_identity i @ ''\" was deleted previously'') (vi_identity i))
      else if get_root w n = None then Raise (V1_RuntimeDestroyedException meth)
      else Ok ())"

definition native_identity ::
  "nat \<Rightarrow> ('i v1_item_scheme, 'z) v1_world_scheme \<Rightarrow> (v1_exception, string) outcome" where
  "native_identity n w =
     bindR (throw_if_destroyed ''Item::native_identity()'' n w) (\<lambda>_. Ok (vi_identity (vw_items w ! n)))"

definition v1_item_type ::
  "nat \<Rightarrow> ('i v1_item_scheme, 'z) v1_world_scheme \<Rightarrow> (v1_exception, ItemType) outcome" where
  "v1_item_type n w =
     bindR (throw_if_destroyed ''Item::type()'' n w) (\<lambda>_. Ok (vi_type (vw_items w ! n)))"

text \<open>\<open>equal_to\<close>, the same in both back ends; items are compared by address first.\<close>

definition v1_equal_to :: "('i v1_item_scheme, 'z) v1_world_scheme \<Rightarrow> nat \<Rightarrow> nat \<Rightarrow> bool" where
  "v1_equal_to w m n =
     (if m = n then True
      else if vi_deleted (vw_items w ! m) \<or> vi_deleted (vw_items w ! n) then False
      else vi_identity (vw_items w ! m) = vi_identity (vw_items w ! n))"

text \<open>The owner of the runtime: \<open>shutdown\<close> and its destructor; the application lets go of objects.\<close>

definition v1_shutdown :: "('o, 'z) v1_world_scheme \<Rightarrow> ('o, 'z) v1_world_scheme" where
  "v1_shutdown w = (if vw_destroyed w then w else w\<lparr>vw_destroyed := True\<rparr>)"

definition v1_destroy_runtime :: "('o, 'z) v1_world_scheme \<Rightarrow> ('o, 'z) v1_world_scheme" where
  "v1_destroy_runtime w = (v1_shutdown w)\<lparr>vw_runtime := False\<rparr>"

definition v1_release_item :: "nat \<Rightarrow> ('o, 'z) v1_world_scheme \<Rightarrow> ('o, 'z) v1_world_scheme" where
  "v1_release_item n w = w\<lparr>vw_freed := n # vw_freed w\<rparr>"

definition v1_release_account :: "nat \<Rightarrow> ('o, 'z) v1_world_scheme \<Rightarrow> ('o, 'z) v1_world_scheme" where
  "v1_release_account a w = w\<lparr>vw_account_freed := a # vw_account_freed w\<rparr>"

section \<open>Once unusable, always unusable\<close>

lemma throw_if_destroyed_runtime:
  assumes "\<not> runtime_ok w"
  shows "\<exists>e. throw_if_destroyed meth n w = Raise e"
  using assms
  by (simp add: throw_if_destroyed_def get_root_def root_account_def account_runtime_def Let_def)

lemma throw_if_destroyed_Ok:
  "throw_if_destroyed meth n w = Ok u \<longleftrightarrow> \<not> vi_deleted (vw_items w ! n) \<and> get_root w n \<noteq> None"
  by (simp add: throw_if_destroyed_def Let_def)

lemma throw_if_destroyed_not_Abort [simp]: "throw_if_destroyed meth n w \<noteq> Abort"
  by (simp add: throw_if_destroyed_def Let_def)

lemma throw_if_destroyed_Raise:
  "throw_if_destroyed meth n w = Raise e \<Longrightarrow>
     e = V1_DeletedException (meth @ '': \"'' @ vi_identity (vw_items w ! n) @ ''\" was deleted previously'')
           (vi_identity (vw_items w ! n)) \<or> e = V1_RuntimeDestroyedException meth"
  by (auto simp: throw_if_destroyed_def Let_def split: if_splits)

lemma get_root_Some: "get_root w n = Some r \<Longrightarrow> r = vi_root (vw_items w ! n) \<and> item_lockable w r"
  by (auto simp: get_root_def Let_def split: if_splits outcome.splits)

text \<open>
  An equivalence on the objects that exist: \<open>equal_to\<close> is symmetric, and transitive on items that are
  not deleted; a deleted item equals itself only.
\<close>

lemma v1_equal_to_sym: "v1_equal_to w m n = v1_equal_to w n m"
  by (auto simp: v1_equal_to_def)

lemma v1_equal_to_trans: "v1_equal_to w l m \<Longrightarrow> v1_equal_to w m n \<Longrightarrow> v1_equal_to w l n"
  by (auto simp: v1_equal_to_def split: if_splits)

end
