(* ===== verification/V1Local.thy ===== *)
theory V1Local
  imports V1Base LocalProviderProps
begin

text \<open>
  The local back end of the version 1 client library
  (\<open>src/qt/client/internal/local_client\<close>, without the transfers): the application works on objects
  for the runtime, its account, the root, folders and files; an object holds a path. An operation
  that touches the disk checks its objects and queues a task for the thread pool; the task checks
  again and runs with the objects locked (the mutexes are recursive), so it is one step. The file
  system is the parameter \<open>fsapi\<close>; Boost's path iteration is \<open>lp_elements\<close>.
\<close>

section \<open>Paths and exceptions\<close>

record path_api =
  lp_elements :: "string \<Rightarrow> string list"     \<comment> \<open>\<open>path::begin\<close> to \<open>path::end\<close>\<close>
  lp_is_absolute :: "string \<Rightarrow> bool"

definition V1_TMPFILE_PREFIX :: string where
  "V1_TMPFILE_PREFIX = ''.storage-framework-''"

datatype l1_exn = L1_storage v1_exception | L1_fs fs_error

text \<open>\<open>throw_storage_exception\<close>, without and with a key. The errno values are EACCES, EPERM, EDQUOT,
  ENOSPC and ENOENT.\<close>

fun v1_storage_exception :: "string \<Rightarrow> l1_exn \<Rightarrow> v1_exception" where
  "v1_storage_exception meth (L1_storage e) = e"
| "v1_storage_exception meth (L1_fs e) =
     (let msg = meth @ '': '' @ fe_what e; code = errc_value (fe_code e) in
      if code = 13 \<or> code = 1 then V1_PermissionException msg
      else if code = 122 \<or> code = 28 then V1_QuotaException msg
      else V1_ResourceException msg code)"

fun v1_storage_exception_key :: "string \<Rightarrow> string \<Rightarrow> l1_exn \<Rightarrow> v1_exception" where
  "v1_storage_exception_key meth key (L1_storage e) = e"
| "v1_storage_exception_key meth key (L1_fs e) =
     (if errc_value (fe_code e) = 2 then V1_NotExistsException (meth @ '': '' @ fe_what e) key
      else v1_storage_exception meth (L1_fs e))"

definition v1_is_reserved_path :: "'w fsapi \<Rightarrow> string \<Rightarrow> bool" where
  "v1_is_reserved_path F path = starts_with (path_filename F path) V1_TMPFILE_PREFIX"

definition v1_sanitize :: "'w fsapi \<Rightarrow> string \<Rightarrow> string \<Rightarrow> (v1_exception, string) outcome" where
  "v1_sanitize F name meth =
     (if path_parent F name \<noteq> '''' then
        Raise (V1_InvalidArgumentException
          (meth @ '': name \"'' @ name @ ''\" contains more than one path component''))
      else let filename = path_filename F name in
        if filename = '''' \<or> filename = ''.'' \<or> filename = ''..'' then
          Raise (V1_InvalidArgumentException (meth @ '': invalid name: \"'' @ name @ ''\"''))
        else Ok name)"

section \<open>Objects\<close>

record local_object = v1_item +
  li_name :: string
  li_etag :: string
  li_mtime :: int                \<comment> \<open>milliseconds since the epoch\<close>

record 'w local_client = "local_object v1_world" +
  lw_fs :: 'w

type_synonym ('w, 'a) l1 = "('w local_client, l1_exn, 'a) sx"

text \<open>Queries and calls of the file system, and the checks of \<open>V1Base\<close>.\<close>

definition l1_query :: "('w \<Rightarrow> (fs_error, 'a) outcome) \<Rightarrow> ('w, 'a) l1" where
  "l1_query q = sx_query (\<lambda>s. map_raise L1_fs (q (lw_fs s)))"

definition l1_call :: "('w, fs_error, 'a) sx \<Rightarrow> ('w, 'a) l1" where
  "l1_call m s = (case m (lw_fs s) of (r, f) \<Rightarrow> (map_raise L1_fs r, s\<lparr>lw_fs := f\<rparr>))"

definition l1_check :: "('w local_client \<Rightarrow> (v1_exception, 'a) outcome) \<Rightarrow> ('w, 'a) l1" where
  "l1_check q = sx_query (\<lambda>s. map_raise L1_storage (q s))"

definition item_field :: "(local_object \<Rightarrow> 'a) \<Rightarrow> nat \<Rightarrow> ('w, 'a) l1" where
  "item_field f n = sx_query (\<lambda>s. Ok (f (vw_items s ! n)))"

definition l1_pure :: "(v1_exception, 'a) outcome \<Rightarrow> ('w, 'a) l1" where
  "l1_pure r = sx_lift (map_raise L1_storage r)"

text \<open>\<open>try { ... } catch (std::exception const&) { throw_storage_exception(method, ...); }\<close>\<close>

definition l1_try :: "string \<Rightarrow> ('w, 'a) l1 \<Rightarrow> ('w, 'a) l1" where
  "l1_try meth m = sx_catch m (\<lambda>e. sx_throw (L1_storage (v1_storage_exception meth e)))"

definition l1_exists :: "'w fsapi \<Rightarrow> string \<Rightarrow> ('w, bool) l1" where
  "l1_exists F p =
     sx_bind (l1_query (\<lambda>f. fs_status F f p)) (\<lambda>st. sx_return (st_type st \<noteq> file_not_found))"

text \<open>\<open>set_timestamps\<close>: when \<open>stat\<close> fails, the function goes on with an uninitialised buffer. The
  nanoseconds must fit an \<open>int64_t\<close>.\<close>

definition v1_etag :: "'w fsapi \<Rightarrow> string \<Rightarrow> 'w \<Rightarrow> (int, string \<times> int) outcome" where
  "v1_etag F path f =
     (case fs_mtime F f path of
        Ok (sec, nsec) \<Rightarrow>
          (let r = sec * 1000000000 + nsec in
           if INT64_MIN \<le> sec * 1000000000 \<and> sec * 1000000000 \<le> INT64_MAX \<and>
              INT64_MIN \<le> r \<and> r \<le> INT64_MAX
           then Ok (int_to_string r, sec * 1000 + nsec div 1000000) else Abort)
      | Raise err \<Rightarrow> Raise err
      | Abort \<Rightarrow> Abort)"

definition v1_timestamps :: "'w fsapi \<Rightarrow> string \<Rightarrow> 'w \<Rightarrow> (l1_exn, string \<times> int) outcome" where
  "v1_timestamps F path f = (case v1_etag F path f of Ok r \<Rightarrow> Ok r | _ \<Rightarrow> Abort)"

definition v1_set_timestamps :: "'w fsapi \<Rightarrow> nat \<Rightarrow> ('w, unit) l1" where
  "v1_set_timestamps F n s =
     (case v1_timestamps F (vi_identity (vw_items s ! n)) (lw_fs s) of
        Ok (etag, mtime) \<Rightarrow>
          (Ok (), s\<lparr>vw_items := (vw_items s)[n := (vw_items s ! n)\<lparr>li_etag := etag, li_mtime := mtime\<rparr>]\<rparr>)
      | _ \<Rightarrow> (Abort, s))"

definition v1_has_conflict :: "'w fsapi \<Rightarrow> nat \<Rightarrow> 'w local_client \<Rightarrow> (l1_exn, bool) outcome" where
  "v1_has_conflict F n s =
     (let i = vw_items s ! n in
      case v1_etag F (vi_identity i) (lw_fs s) of
        Ok (etag, _) \<Rightarrow> Ok (li_etag i \<noteq> etag)
      | Raise _ \<Rightarrow> Ok True
      | Abort \<Rightarrow> Abort)"

text \<open>The constructor \<open>ItemImpl(identity, type)\<close>; the object in the store. For a root, \<open>r\<close> is the
  address of the object itself.\<close>

definition v1_item_init :: "'w fsapi \<Rightarrow> string \<Rightarrow> ItemType \<Rightarrow> nat \<Rightarrow> nat \<Rightarrow> ('w, local_object) l1" where
  "v1_item_init F path type r a =
     sx_bind (sx_lift (assertR (path \<noteq> ''''))) (\<lambda>_.
     sx_bind (l1_query (\<lambda>f. fs_canonical F f path)) (\<lambda>c.
     sx_bind (sx_query (\<lambda>s. v1_timestamps F path (lw_fs s))) (\<lambda>(etag, mtime).
     sx_return \<lparr>vi_identity = path, vi_type = type, vi_deleted = False, vi_root = r, vi_account = a,
       li_name = path_filename F c, li_etag = etag, li_mtime = mtime\<rparr>)))"

definition v1_alloc :: "local_object \<Rightarrow> ('w, nat) l1" where
  "v1_alloc i s = (Ok (length (vw_items s)), s\<lparr>vw_items := vw_items s @ [i]\<rparr>)"

definition v1_make_item :: "'w fsapi \<Rightarrow> ItemType \<Rightarrow> string \<Rightarrow> nat \<Rightarrow> ('w, nat) l1" where
  "v1_make_item F type path r =
     sx_bind (v1_item_init F path type r 0) (\<lambda>i.
     sx_bind (sx_query (\<lambda>s. assertR (item_lockable s r))) (\<lambda>_. v1_alloc i))"

definition v1_make_folder :: "'w fsapi \<Rightarrow> string \<Rightarrow> nat \<Rightarrow> ('w, nat) l1" where
  "v1_make_folder F = v1_make_item F IT_folder"

definition v1_make_file :: "'w fsapi \<Rightarrow> string \<Rightarrow> nat \<Rightarrow> ('w, nat) l1" where
  "v1_make_file F = v1_make_item F IT_file"

text \<open>\<open>RootImpl\<close>: the path must be absolute and have as many components as its canonical path.\<close>

definition v1_make_root :: "'w fsapi \<Rightarrow> path_api \<Rightarrow> string \<Rightarrow> nat \<Rightarrow> ('w, nat) l1" where
  "v1_make_root F L path a =
     sx_bind (sx_query (\<lambda>s. assertR (account_lockable s a))) (\<lambda>_.
     sx_bind (sx_query (\<lambda>s. Ok (length (vw_items s)))) (\<lambda>n.
     sx_bind (v1_item_init F path IT_root n a) (\<lambda>i.
     sx_bind (sx_throw_if (\<not> lp_is_absolute L path)
       (L1_storage (V1_InvalidArgumentException (''Root: root path \"'' @ path @ ''\" must be absolute'')))) (\<lambda>_.
     sx_bind (l1_query (\<lambda>f. fs_canonical F f path)) (\<lambda>can_path.
     sx_bind (sx_throw_if (length (lp_elements L path) \<noteq> length (lp_elements L can_path))
       (L1_storage (V1_InvalidArgumentException (''Root: root path \"'' @ path
         @ ''\" cannot contain \".\" or \"..\" components'')))) (\<lambda>_.
     v1_alloc i))))))"

section \<open>Reading an object\<close>

text \<open>The methods that only look at the object; \<open>name\<close> by the class of the object.\<close>

definition v1_get :: "string \<Rightarrow> (local_object \<Rightarrow> 'a) \<Rightarrow> nat \<Rightarrow> ('w, 'a) l1" where
  "v1_get meth f n = l1_check (\<lambda>s. bindR (throw_if_destroyed meth n s) (\<lambda>_. Ok (f (vw_items s ! n))))"

definition local_etag :: "nat \<Rightarrow> ('w, string) l1" where
  "local_etag = v1_get ''Item::etag()'' li_etag"

definition local_last_modified_time :: "nat \<Rightarrow> ('w, int) l1" where
  "local_last_modified_time = v1_get ''Item::last_modified_time()'' li_mtime"

text \<open>\<open>metadata_\<close> is never filled; the creation time is a \<open>QDateTime\<close> that is not valid.\<close>

definition local_metadata :: "nat \<Rightarrow> ('w, (string \<times> QVariant) list) l1" where
  "local_metadata = v1_get ''Item::metadata()'' (\<lambda>_. [])"

definition local_creation_time :: "nat \<Rightarrow> ('w, int option) l1" where
  "local_creation_time = v1_get ''Item::creation_time()'' (\<lambda>_. None)"

definition local_native_metadata :: "nat \<Rightarrow> ('w, (string \<times> QVariant) list) l1" where
  "local_native_metadata = v1_get ''Item::native_metadata()'' (\<lambda>_. [])"

definition local_name :: "nat \<Rightarrow> ('w, string) l1" where
  "local_name n = sx_bind (item_field vi_type n) (\<lambda>type.
     case type of
       IT_file \<Rightarrow> v1_get ''File::name()'' li_name n
     | IT_folder \<Rightarrow> v1_get ''Item::name()'' li_name n
     | IT_root \<Rightarrow> v1_get ''Item::name()'' (\<lambda>_. '''') n)"

definition local_size :: "'w fsapi \<Rightarrow> nat \<Rightarrow> ('w, int) l1" where
  "local_size F n =
     sx_bind (v1_get ''File::size()'' vi_identity n) (\<lambda>p.
     l1_try ''File::size()'' (l1_query (\<lambda>f. fs_file_size F f p)))"

definition local_parent_ids :: "'w fsapi \<Rightarrow> nat \<Rightarrow> ('w, string list) l1" where
  "local_parent_ids F n =
     sx_bind (v1_get ''Item::parent_ids()'' id n) (\<lambda>i.
     sx_return (if vi_type i = IT_root then [] else [path_parent F (vi_identity i)]))"

text \<open>\<open>parents\<close> compares the path of the parent with the root's.\<close>

definition local_parents :: "'w fsapi \<Rightarrow> nat \<Rightarrow> ('w, nat list) l1" where
  "local_parents F n =
     sx_bind (v1_get ''Item::parents()'' id n) (\<lambda>i.
     if vi_type i = IT_root then sx_return []
     else
       let parent_path = path_parent F (vi_identity i); root = vi_root i in
       sx_bind (l1_check (native_identity root)) (\<lambda>root_path.
       if parent_path \<noteq> root_path then
         sx_bind (v1_make_folder F parent_path root) (\<lambda>p. sx_return [p])
       else sx_return [root]))"

section \<open>Operations on items\<close>

text \<open>\<open>This->root()->account() != new_parent->root()->account()\<close>\<close>

definition same_account :: "nat \<Rightarrow> nat \<Rightarrow> 'w local_client \<Rightarrow> (v1_exception, bool) outcome" where
  "same_account m n s =
     bindR (item_root s m) (\<lambda>r. bindR (root_account s r) (\<lambda>a.
     bindR (item_root s n) (\<lambda>r'. bindR (root_account s r') (\<lambda>b. Ok (a = b)))))"

definition require_same_account :: "string \<Rightarrow> nat \<Rightarrow> nat \<Rightarrow> string \<Rightarrow> ('w, unit) l1" where
  "require_same_account meth n p new_name =
     sx_bind (l1_check (same_account n p)) (\<lambda>same.
     sx_bind (item_field li_name n) (\<lambda>name.
     sx_throw_if (\<not> same) (L1_storage (V1_LogicException (meth @ '': source ('' @ name
       @ '') and target ('' @ new_name @ '') must belong to the same account'')))))"

text \<open>The recursion and its depth are those of the local provider, with another reserved prefix.\<close>

fun v1_copy_recursively :: "'w fsapi \<Rightarrow> nat \<Rightarrow> string \<Rightarrow> string \<Rightarrow> ('w, fs_error, unit) sx" where
  "v1_copy_recursively F 0 source target = (\<lambda>w. (Abort, w))"
| "v1_copy_recursively F (Suc depth) source target =
     (if v1_is_reserved_path F source then sx_return ()
      else sx_bind (sx_query (\<lambda>w. fs_status F w source)) (\<lambda>s.
        if st_type s = regular_file then fs_copy_file F source target
        else if st_type s = directory_file then
          sx_bind (fs_copy_directory F source target) (\<lambda>_.
          sx_bind (sx_query (\<lambda>w. fs_entries F w source)) (\<lambda>entries.
          sx_for entries (\<lambda>source_entry.
            v1_copy_recursively F depth source_entry
              (path_append F target (path_filename F source_entry)))))
        else sx_return ()))"

definition v1_copy_entry :: "'w fsapi \<Rightarrow> nat \<Rightarrow> string \<Rightarrow> string \<Rightarrow> ('w, fs_error, unit) sx" where
  "v1_copy_entry F depth tmp_path source_entry =
     (if v1_is_reserved_path F source_entry then sx_return ()
      else sx_bind (sx_query (\<lambda>w. fs_status F w source_entry)) (\<lambda>s.
        if st_type s = directory_file \<or> st_type s = regular_file then
          v1_copy_recursively F depth source_entry (path_append F tmp_path (path_filename F source_entry))
        else sx_return ()))"

definition V1_TMP_PATTERN :: string where
  "V1_TMP_PATTERN = V1_TMPFILE_PREFIX @ ''%%%%-%%%%-%%%%-%%%%''"

definition v1_copy_folder :: "'w fsapi \<Rightarrow> nat \<Rightarrow> string \<Rightarrow> string \<Rightarrow> string \<Rightarrow> ('w, fs_error, unit) sx" where
  "v1_copy_folder F depth source_path parent_path target_path =
     sx_bind (sx_query (\<lambda>w. fs_canonical F w parent_path)) (\<lambda>parent.
     sx_bind (sx_query (\<lambda>w. Ok (path_append F parent (fs_unique_path F w V1_TMP_PATTERN)))) (\<lambda>tmp_path.
     sx_bind (fs_create_directories F tmp_path) (\<lambda>_.
     sx_bind (sx_query (\<lambda>w. fs_entries F w source_path)) (\<lambda>entries.
     sx_bind (sx_for entries (v1_copy_entry F depth tmp_path)) (\<lambda>_.
     fs_rename F tmp_path target_path)))))"

definition reserved_name :: "string \<Rightarrow> v1_exception" where
  "reserved_name meth =
     V1_InvalidArgumentException (meth @ '': names beginning with \"'' @ V1_TMPFILE_PREFIX @ ''\" are reserved'')"

text \<open>The exception carries the identity and the name of the item that is copied or moved, \<open>n\<close>.\<close>

definition refuse_taken :: "'w fsapi \<Rightarrow> string \<Rightarrow> string \<Rightarrow> string \<Rightarrow> nat \<Rightarrow> ('w, unit) l1" where
  "refuse_taken F meth target_path new_name n =
     sx_bind (l1_exists F target_path) (\<lambda>there.
     sx_bind (item_field id n) (\<lambda>i.
     sx_throw_if there (L1_storage (V1_ExistsException
       (meth @ '': item with name \"'' @ new_name @ ''\" exists already'') (vi_identity i) (li_name i)))))"

subsection \<open>The tasks\<close>

definition copy_task :: "'w fsapi \<Rightarrow> nat \<Rightarrow> nat \<Rightarrow> nat \<Rightarrow> string \<Rightarrow> ('w, nat) l1" where
  "copy_task F depth n p new_name =
     sx_bind (l1_check (throw_if_destroyed ''Item::copy()'' n)) (\<lambda>_.
     sx_bind (l1_check (throw_if_destroyed ''Item::copy()'' p)) (\<lambda>_.
     sx_bind (require_same_account ''Item::copy()'' n p new_name) (\<lambda>_.
     l1_try ''Item::copy()'' (
       sx_bind (l1_check (native_identity n)) (\<lambda>source_path.
       sx_bind (l1_check (native_identity p)) (\<lambda>parent_path.
       sx_bind (l1_pure (v1_sanitize F new_name ''Item::copy()'')) (\<lambda>sanitized_name.
       let target_path = path_append F parent_path sanitized_name in
       sx_bind (sx_throw_if (v1_is_reserved_path F target_path) (L1_storage (reserved_name ''Item::copy()''))) (\<lambda>_.
       sx_bind (refuse_taken F ''Item::copy()'' target_path new_name n) (\<lambda>_.
       sx_bind (item_field vi_type n) (\<lambda>type.
       sx_bind (item_field vi_root p) (\<lambda>root.
       if type = IT_file then
         sx_bind (l1_call (fs_copy_file F source_path target_path)) (\<lambda>_. v1_make_file F target_path root)
       else
         sx_bind (l1_call (v1_copy_folder F depth source_path parent_path target_path)) (\<lambda>_.
         v1_make_folder F target_path root))))))))))))"

definition mark_deleted :: "nat \<Rightarrow> ('w, unit) l1" where
  "mark_deleted n s = (Ok (), s\<lparr>vw_items := (vw_items s)[n := (vw_items s ! n)\<lparr>vi_deleted := True\<rparr>]\<rparr>)"

definition move_task :: "'w fsapi \<Rightarrow> nat \<Rightarrow> nat \<Rightarrow> string \<Rightarrow> ('w, nat) l1" where
  "move_task F n p new_name =
     sx_bind (l1_check (throw_if_destroyed ''Item::move()'' n)) (\<lambda>_.
     sx_bind (l1_check (throw_if_destroyed ''Item::move()'' p)) (\<lambda>_.
     sx_bind (require_same_account ''Item::move()'' n p new_name) (\<lambda>_.
     sx_bind (item_field vi_type n) (\<lambda>type.
     sx_bind (sx_throw_if (type = IT_root)
       (L1_storage (V1_LogicException ''Item::move(): cannot move root folder''))) (\<lambda>_.
     l1_try ''Item::move(): '' (
       sx_bind (l1_check (native_identity p)) (\<lambda>parent_path.
       sx_bind (l1_pure (v1_sanitize F new_name ''Item::move()'')) (\<lambda>sanitized_name.
       let target_path = path_append F parent_path sanitized_name in
       sx_bind (refuse_taken F ''Item::move()'' target_path new_name n) (\<lambda>_.
       sx_bind (sx_throw_if (v1_is_reserved_path F target_path) (L1_storage (reserved_name ''Item::move()''))) (\<lambda>_.
       sx_bind (l1_check (native_identity n)) (\<lambda>source_path.
       sx_bind (l1_call (fs_rename F source_path target_path)) (\<lambda>_.
       sx_bind (mark_deleted n) (\<lambda>_.
       sx_bind (item_field vi_root p) (\<lambda>root.
       if type = IT_folder then v1_make_folder F target_path root
       else v1_make_file F target_path root))))))))))))))"

definition delete_task :: "'w fsapi \<Rightarrow> nat \<Rightarrow> ('w, unit) l1" where
  "delete_task F n =
     sx_bind (l1_check (throw_if_destroyed ''Item::delete_item()'' n)) (\<lambda>_.
     l1_try ''Item::delete_item()'' (
       sx_bind (l1_check (native_identity n)) (\<lambda>path.
       sx_bind (l1_call (fs_remove_all F path)) (\<lambda>_. mark_deleted n))))"

text \<open>The loop over the entries of a folder: the status is read before the name is looked at.\<close>

primrec list_loop :: "'w fsapi \<Rightarrow> nat \<Rightarrow> string list \<Rightarrow> ('w, nat list) l1" where
  "list_loop F root [] = sx_return []"
| "list_loop F root (path # paths) =
     sx_bind (l1_query (\<lambda>f. fs_status F f path)) (\<lambda>s.
     sx_bind
       (if v1_is_reserved_path F path then sx_return []
        else if st_type s = directory_file then sx_bind (v1_make_folder F path root) (\<lambda>n. sx_return [n])
        else if st_type s = regular_file then sx_bind (v1_make_file F path root) (\<lambda>n. sx_return [n])
        else sx_return []) (\<lambda>here.
     sx_bind (list_loop F root paths) (\<lambda>items. sx_return (here @ items))))"

definition list_task :: "'w fsapi \<Rightarrow> nat \<Rightarrow> ('w, nat list) l1" where
  "list_task F n =
     sx_bind (l1_check (throw_if_destroyed ''Folder::list()'' n)) (\<lambda>_.
     l1_try ''Folder::list()'' (
       sx_bind (l1_check (native_identity n)) (\<lambda>path.
       sx_bind (item_field vi_root n) (\<lambda>root.
       sx_bind (l1_query (\<lambda>f. fs_entries F f path)) (\<lambda>entries.
       list_loop F root entries)))))"

definition lookup_task :: "'w fsapi \<Rightarrow> nat \<Rightarrow> string \<Rightarrow> ('w, nat list) l1" where
  "lookup_task F n name =
     (let no_item = L1_storage (V1_NotExistsException (''Folder::lookup(): no such item: \"'' @ name @ ''\"'') name) in
     sx_bind (l1_check (throw_if_destroyed ''Folder::lookup()'' n)) (\<lambda>_.
     l1_try ''Folder::lookup()'' (
       sx_bind (l1_check (native_identity n)) (\<lambda>parent.
       sx_bind (l1_pure (v1_sanitize F name ''Folder::lookup()'')) (\<lambda>sanitized_name.
       sx_bind (sx_throw_if (v1_is_reserved_path F sanitized_name) no_item) (\<lambda>_.
       let path = path_append F parent sanitized_name in
       sx_bind (item_field vi_root n) (\<lambda>root.
       sx_bind (l1_query (\<lambda>f. fs_status F f path)) (\<lambda>st.
       if st_type st = directory_file then
         sx_bind (v1_make_folder F path root) (\<lambda>m. sx_return [m])
       else if st_type st = regular_file then
         sx_bind (v1_make_file F path root) (\<lambda>m. sx_return [m])
       else sx_throw no_item))))))))"

subsection \<open>Operations of folders and roots that run in the caller\<close>

definition check_new_name :: "'w fsapi \<Rightarrow> string \<Rightarrow> nat \<Rightarrow> string \<Rightarrow> ('w, string) l1" where
  "check_new_name F meth n name =
     sx_bind (l1_check (native_identity n)) (\<lambda>parent.
     sx_bind (l1_pure (v1_sanitize F name meth)) (\<lambda>sanitized_name.
     sx_bind (sx_throw_if (v1_is_reserved_path F sanitized_name) (L1_storage (reserved_name meth))) (\<lambda>_.
     let path = path_append F parent sanitized_name in
     sx_bind (l1_exists F path) (\<lambda>there.
     sx_bind (sx_throw_if there (L1_storage (V1_ExistsException
       (meth @ '': item with name \"'' @ name @ ''\" exists already'') (parent @ ''/'' @ name) name))) (\<lambda>_.
     sx_return path)))))"

definition local_create_folder :: "'w fsapi \<Rightarrow> nat \<Rightarrow> string \<Rightarrow> ('w, nat) l1" where
  "local_create_folder F n name =
     sx_bind (l1_check (throw_if_destroyed ''Folder::create_folder()'' n)) (\<lambda>_.
     l1_try ''Folder::create_folder()'' (
       sx_bind (check_new_name F ''Folder::create_folder()'' n name) (\<lambda>path.
       sx_bind (l1_call (fs_create_directory F path)) (\<lambda>_.
       sx_bind (item_field vi_root n) (\<lambda>root.
       v1_make_folder F path root)))))"

text \<open>What the constructor of an uploader gets: the file, the size, the path, the policy.\<close>

type_synonym upload_args = "nat option \<times> int \<times> string \<times> ConflictPolicy"

definition local_create_file :: "'w fsapi \<Rightarrow> nat \<Rightarrow> string \<Rightarrow> int \<Rightarrow> ('w, upload_args) l1" where
  "local_create_file F n name sz =
     sx_bind (l1_check (throw_if_destroyed ''Folder::create_file()'' n)) (\<lambda>_.
     sx_bind (sx_throw_if (sz < 0)
       (L1_storage (V1_InvalidArgumentException ''Folder::create_file(): size must be >= 0''))) (\<lambda>_.
     l1_try ''Folder::create_file()'' (
       sx_bind (check_new_name F ''Folder::create_file()'' n name) (\<lambda>path.
       sx_return (None, sz, path, error_if_conflict)))))"

definition local_create_uploader :: "nat \<Rightarrow> ConflictPolicy \<Rightarrow> int \<Rightarrow> ('w, upload_args) l1" where
  "local_create_uploader n policy sz =
     sx_bind (v1_get ''File::create_uploader()'' vi_identity n) (\<lambda>path.
     sx_bind (sx_throw_if (sz < 0)
       (L1_storage (V1_InvalidArgumentException ''File::create_uploader(): size must be >= 0''))) (\<lambda>_.
     sx_return (Some n, sz, path, policy)))"

text \<open>The downloader is made for the path of the file.\<close>

definition local_create_downloader :: "nat \<Rightarrow> ('w, string) l1" where
  "local_create_downloader n =
     sx_bind (l1_check (throw_if_destroyed ''File::create_downloader()'' n)) (\<lambda>_.
     l1_check (native_identity n))"

definition local_space :: "'w fsapi \<Rightarrow> string \<Rightarrow> (int \<times> int \<Rightarrow> int) \<Rightarrow> nat \<Rightarrow> ('w, int) l1" where
  "local_space F meth f n =
     sx_bind (v1_get meth vi_identity n) (\<lambda>path.
     l1_try meth (sx_bind (l1_query (\<lambda>w. fs_space F w path)) (\<lambda>si. sx_return (f si))))"

definition local_free_space_bytes :: "'w fsapi \<Rightarrow> nat \<Rightarrow> ('w, int) l1" where
  "local_free_space_bytes F = local_space F ''Root::free_space_bytes()'' (\<lambda>(available, capacity). to_int64 available)"

definition local_used_space_bytes :: "'w fsapi \<Rightarrow> nat \<Rightarrow> ('w, int) l1" where
  "local_used_space_bytes F =
     local_space F ''Root::used_space_bytes()'' (\<lambda>(available, capacity). to_int64 (capacity - available))"

text \<open>\<open>Root::get\<close>: \<open>r\<close> is what \<open>get_root\<close> gives, the root itself.\<close>

definition local_get :: "'w fsapi \<Rightarrow> path_api \<Rightarrow> nat \<Rightarrow> string \<Rightarrow> ('w, nat) l1" where
  "local_get F L n identity =
     (let no_item = L1_storage (V1_NotExistsException (''Root::get(): no such item: \"'' @ identity @ ''\"'') identity) in
     sx_bind (l1_check (throw_if_destroyed ''Root::get()'' n)) (\<lambda>_.
     sx_bind (l1_check (\<lambda>s. case get_root s n of None \<Rightarrow> Raise (V1_RuntimeDestroyedException ''Root::get()'')
       | Some r \<Rightarrow> Ok r)) (\<lambda>root.
     sx_catch (
       sx_bind (sx_throw_if (\<not> lp_is_absolute L identity) (L1_storage (V1_InvalidArgumentException
         (''Root::get(): identity \"'' @ identity @ ''\" must be an absolute path'')))) (\<lambda>_.
       sx_bind (l1_query (\<lambda>f. fs_canonical F f identity)) (\<lambda>id_path.
       sx_bind (l1_check (native_identity root)) (\<lambda>root_path.
       sx_bind (sx_throw_if (length (lp_elements L id_path) < length (lp_elements L root_path) \<or>
           take (length (lp_elements L root_path)) (lp_elements L id_path) \<noteq> lp_elements L root_path)
         (L1_storage (V1_InvalidArgumentException
           (''Root::get(): identity \"'' @ identity @ ''\" points outside the root folder'')))) (\<lambda>_.
       sx_bind (sx_throw_if (v1_is_reserved_path F id_path) no_item) (\<lambda>_.
       sx_bind (l1_query (\<lambda>f. fs_status F f id_path)) (\<lambda>st.
       if st_type st = directory_file then
         if id_path = root_path then
           sx_bind (l1_check (\<lambda>s. root_account s n)) (\<lambda>a. v1_make_root F L id_path a)
         else v1_make_folder F id_path root
       else if st_type st = regular_file then v1_make_file F id_path root
       else sx_throw no_item)))))))
       (\<lambda>e. sx_throw (L1_storage (v1_storage_exception_key ''Root::get()'' identity e))))))"

section \<open>Accounts and the runtime\<close>

text \<open>\<open>get_data_dir\<close>. With an \<open>error_code\<close> argument, \<open>is_directory\<close> sets the code also for a path that
  does not exist (ENOENT), and the code throws.\<close>

definition get_data_dir ::
  "'w fsapi \<Rightarrow> (string \<Rightarrow> string option) \<Rightarrow> string \<Rightarrow> ('w, string) l1" where
  "get_data_dir F getenv user_data_dir =
     (let dir = (case getenv ''STORAGE_FRAMEWORK_ROOT'' of Some (c # cs) \<Rightarrow> c # cs | _ \<Rightarrow> user_data_dir);
          cannot_stat = (\<lambda>code. L1_storage (V1_ResourceException
            (''Account::roots(): Cannot stat '' @ dir @ '': '' @ fs_strerror F code) code));
          data_dir = dir @ ''/storage-framework'' in
      sx_bind (sx_query (\<lambda>s. case fs_status F (lw_fs s) dir of
          Raise e \<Rightarrow> Raise (cannot_stat (errc_value (fe_code e)))
        | Abort \<Rightarrow> Abort
        | Ok st \<Rightarrow>
            if st_type st = file_not_found then Raise (cannot_stat 2)
            else if st_type st \<noteq> directory_file then Raise (L1_storage (V1_InvalidArgumentException
              ''Account::roots(): Environment variable STORAGE_FRAMEWORK_ROOT must denote a directory''))
            else Ok ())) (\<lambda>_.
      sx_bind (l1_exists F data_dir) (\<lambda>there.
      if there then sx_return data_dir
      else sx_bind (sx_catch (l1_call (fs_create_directories F data_dir)) (\<lambda>e. sx_throw (case e of
          L1_fs e \<Rightarrow> L1_storage (V1_ResourceException (''Account::roots(): Cannot create '' @ dir @ '': ''
            @ fs_strerror F (errc_value (fe_code e))) (errc_value (fe_code e)))
        | L1_storage e \<Rightarrow> L1_storage e))) (\<lambda>_. sx_return data_dir))))"

text \<open>\<open>owner\<close>, \<open>owner_id\<close> and \<open>description\<close>\<close>

definition account_field :: "(v1_account \<Rightarrow> 'a) \<Rightarrow> nat \<Rightarrow> ('w, 'a) l1" where
  "account_field f a =
     l1_check (\<lambda>s. bindR (account_runtime s) (\<lambda>_. Ok (f (vw_account_store s ! a))))"

text \<open>The root is made on the first call; what goes wrong there is thrown to the caller and not
  put into the future.\<close>

definition local_roots ::
  "'w fsapi \<Rightarrow> path_api \<Rightarrow> (string \<Rightarrow> string option) \<Rightarrow> string \<Rightarrow> nat \<Rightarrow> ('w, nat list) l1" where
  "local_roots F L getenv user_data_dir a =
     sx_bind (l1_check account_runtime) (\<lambda>_ s.
     (if va_roots (vw_account_store s ! a) \<noteq> [] then sx_return (va_roots (vw_account_store s ! a))
      else
        sx_bind (get_data_dir F getenv user_data_dir) (\<lambda>dir.
        sx_bind (l1_query (\<lambda>f. fs_canonical F f dir)) (\<lambda>rpath.
        sx_bind (v1_make_root F L rpath a) (\<lambda>r s.
        (Ok [r], s\<lparr>vw_account_store := (vw_account_store s)[a := (vw_account_store s ! a)\<lparr>va_roots := [r]\<rparr>]\<rparr>))))) s)"

definition local_accounts :: "string \<Rightarrow> nat \<Rightarrow> ('w, nat list) l1" where
  "local_accounts user uid s =
     (if vw_destroyed s then (Raise (L1_storage (V1_RuntimeDestroyedException ''Runtime::accounts()'')), s)
      else if user = '''' then (Abort, s)
      else if vw_accounts s \<noteq> [] then (Ok (vw_accounts s), s)
      else if \<not> vw_runtime s then (Abort, s)
      else
        let a = length (vw_account_store s); owner_id = nat_to_string uid in
        (Ok [a], s\<lparr>vw_accounts := [a], vw_account_store := vw_account_store s @
           [\<lparr>va_owner = user, va_owner_id = owner_id,
             va_description = ''Account for '' @ user @ '' ('' @ owner_id @ '')'',
             va_provider = ('''', ''''), va_roots = []\<rparr>]\<rparr>))"

definition local_make_test_account :: "string \<Rightarrow> string \<Rightarrow> ('w, nat) l1" where
  "local_make_test_account bus_name object_path =
     sx_throw (L1_storage (V1_LocalCommsException ''Can not create test account with local client''))"

section \<open>The application, the objects and the thread pool\<close>

datatype l1_op =
    OP_copy nat "nat option" string
  | OP_move nat "nat option" string
  | OP_delete nat
  | OP_list nat
  | OP_lookup nat string
  | OP_parents nat
  | OP_create_folder nat string
  | OP_get nat string
  | OP_roots nat
  | OP_accounts

datatype l1_result = R1_item nat | R1_items "nat list" | R1_unit | R1_accounts "nat list"

text \<open>The environment of the library: the directories and the user.\<close>

record l1_env =
  le_paths :: path_api
  le_getenv :: "string \<Rightarrow> string option"
  le_user_data_dir :: string
  le_user :: string
  le_uid :: nat
  le_depth :: nat                \<comment> \<open>bound of the recursive copy\<close>

definition start_copy :: "string \<Rightarrow> nat \<Rightarrow> nat option \<Rightarrow> 'w local_client \<Rightarrow> (v1_exception, unit) outcome" where
  "start_copy meth n p s =
     (case p of
        None \<Rightarrow> Raise (V1_InvalidArgumentException (meth @ '': new_parent cannot be nullptr''))
      | Some p \<Rightarrow> bindR (throw_if_destroyed meth n s) (\<lambda>_. throw_if_destroyed meth p s))"

text \<open>What a method checks before it queues its task; the others do all their work at once.\<close>

fun start_op :: "l1_op \<Rightarrow> 'w local_client \<Rightarrow> (v1_exception, unit) outcome" where
  "start_op (OP_copy n p name) s = start_copy ''Item::copy()'' n p s"
| "start_op (OP_move n p name) s = start_copy ''Item::move()'' n p s"
| "start_op (OP_delete n) s =
     bindR (throw_if_destroyed ''Item::delete_item()'' n s) (\<lambda>_.
     throw_if (vi_type (vw_items s ! n) = IT_root)
       (V1_LogicException ''Item::delete_item(): cannot delete root folder''))"
| "start_op (OP_list n) s = throw_if_destroyed ''Folder::list()'' n s"
| "start_op (OP_lookup n name) s = throw_if_destroyed ''Folder::lookup()'' n s"
| "start_op _ s = Ok ()"

fun queued :: "l1_op \<Rightarrow> bool" where
  "queued (OP_copy _ _ _) = True"
| "queued (OP_move _ _ _) = True"
| "queued (OP_delete _) = True"
| "queued (OP_list _) = True"
| "queued (OP_lookup _ _) = True"
| "queued _ = False"

definition l1_map :: "('a \<Rightarrow> 'b) \<Rightarrow> ('w, 'a) l1 \<Rightarrow> ('w, 'b) l1" where
  "l1_map f m = sx_bind m (\<lambda>a. sx_return (f a))"

fun run_op :: "'w fsapi \<Rightarrow> l1_env \<Rightarrow> l1_op \<Rightarrow> ('w, l1_result) l1" where
  "run_op F E (OP_copy n p name) =
     (case p of None \<Rightarrow> (\<lambda>s. (Abort, s)) | Some p \<Rightarrow> l1_map R1_item (copy_task F (le_depth E) n p name))"
| "run_op F E (OP_move n p name) =
     (case p of None \<Rightarrow> (\<lambda>s. (Abort, s)) | Some p \<Rightarrow> l1_map R1_item (move_task F n p name))"
| "run_op F E (OP_delete n) = l1_map (\<lambda>_. R1_unit) (delete_task F n)"
| "run_op F E (OP_list n) = l1_map R1_items (list_task F n)"
| "run_op F E (OP_lookup n name) = l1_map R1_items (lookup_task F n name)"
| "run_op F E (OP_parents n) = l1_map R1_items (local_parents F n)"
| "run_op F E (OP_create_folder n name) = l1_map R1_item (local_create_folder F n name)"
| "run_op F E (OP_get n identity) = l1_map R1_item (local_get F (le_paths E) n identity)"
| "run_op F E (OP_roots a) = l1_map R1_items (local_roots F (le_paths E) (le_getenv E) (le_user_data_dir E) a)"
| "run_op F E OP_accounts = l1_map R1_accounts (local_accounts (le_user E) (le_uid E))"

text \<open>An application calls methods of objects that it holds, of the right class.\<close>

definition is_folder :: "'w local_client \<Rightarrow> nat \<Rightarrow> bool" where
  "is_folder s n \<longleftrightarrow> item_lockable s n \<and> vi_type (vw_items s ! n) \<noteq> IT_file"

fun op_ok :: "l1_op \<Rightarrow> 'w local_client \<Rightarrow> bool" where
  "op_ok (OP_copy n p name) s = (item_lockable s n \<and> (case p of None \<Rightarrow> True | Some p \<Rightarrow> is_folder s p))"
| "op_ok (OP_move n p name) s = (item_lockable s n \<and> (case p of None \<Rightarrow> True | Some p \<Rightarrow> is_folder s p))"
| "op_ok (OP_delete n) s = item_lockable s n"
| "op_ok (OP_list n) s = is_folder s n"
| "op_ok (OP_lookup n name) s = is_folder s n"
| "op_ok (OP_parents n) s = item_lockable s n"
| "op_ok (OP_create_folder n name) s = is_folder s n"
| "op_ok (OP_get n identity) s = (item_lockable s n \<and> vi_type (vw_items s ! n) = IT_root)"
| "op_ok (OP_roots a) s = account_lockable s a"
| "op_ok OP_accounts s = vw_runtime s"

record 'w l1_app =
  la_client :: "'w local_client"
  la_queue :: "l1_op list"
  la_done :: "(l1_op \<times> (l1_exn + l1_result)) list"
  la_aborted :: bool

definition perform :: "'w fsapi \<Rightarrow> l1_env \<Rightarrow> l1_op \<Rightarrow> 'w l1_app \<Rightarrow> 'w l1_app" where
  "perform F E op s =
     (case run_op F E op (la_client s) of
        (Ok r, c) \<Rightarrow> s\<lparr>la_client := c, la_done := la_done s @ [(op, Inr r)]\<rparr>
      | (Raise e, c) \<Rightarrow> s\<lparr>la_client := c, la_done := la_done s @ [(op, Inl e)]\<rparr>
      | (Abort, c) \<Rightarrow> s\<lparr>la_aborted := True\<rparr>)"

definition call_op :: "'w fsapi \<Rightarrow> l1_env \<Rightarrow> l1_op \<Rightarrow> 'w l1_app \<Rightarrow> 'w l1_app" where
  "call_op F E op s =
     (if \<not> queued op then perform F E op s
      else case start_op op (la_client s) of
          Ok _ \<Rightarrow> s\<lparr>la_queue := la_queue s @ [op]\<rparr>
        | Raise e \<Rightarrow> s\<lparr>la_done := la_done s @ [(op, Inl (L1_storage e))]\<rparr>
        | Abort \<Rightarrow> s\<lparr>la_aborted := True\<rparr>)"

text \<open>A new runtime on the file system \<open>w\<close>.\<close>

definition l1_new :: "'w \<Rightarrow> 'w l1_app" where
  "l1_new w = \<lparr>la_client = \<lparr>vw_runtime = True, vw_destroyed = False, vw_accounts = [], vw_account_store = [],
       vw_account_freed = [], vw_items = [], vw_freed = [], lw_fs = w\<rparr>,
     la_queue = [], la_done = [], la_aborted = False\<rparr>"

datatype l1_event =
    App_calls l1_op
  | Pool_runs nat
  | App_shuts_down
  | App_drops_runtime
  | App_drops_item nat
  | App_drops_account nat

fun l1_step :: "'w fsapi \<Rightarrow> l1_env \<Rightarrow> 'w l1_app \<Rightarrow> l1_event \<Rightarrow> 'w l1_app" where
  "l1_step F E s (App_calls op) =
     (if la_aborted s \<or> \<not> op_ok op (la_client s) then s else call_op F E op s)"
| "l1_step F E s (Pool_runs k) =
     (if la_aborted s \<or> length (la_queue s) \<le> k then s
      else perform F E (la_queue s ! k) (s\<lparr>la_queue := take k (la_queue s) @ drop (Suc k) (la_queue s)\<rparr>))"
| "l1_step F E s App_shuts_down = s\<lparr>la_client := v1_shutdown (la_client s)\<rparr>"
| "l1_step F E s App_drops_runtime = s\<lparr>la_client := v1_destroy_runtime (la_client s)\<rparr>"
| "l1_step F E s (App_drops_item n) = s\<lparr>la_client := v1_release_item n (la_client s)\<rparr>"
| "l1_step F E s (App_drops_account a) = s\<lparr>la_client := v1_release_account a (la_client s)\<rparr>"

text \<open>The first calls of every application: the account, and its root.\<close>

definition l1_start :: "'w fsapi \<Rightarrow> l1_env \<Rightarrow> 'w \<Rightarrow> 'w l1_app" where
  "l1_start F E w = run_events (l1_step F E) (l1_new w) [App_calls OP_accounts, App_calls (OP_roots 0)]"

end
