(* ===== verification/V1LocalProps.thy ===== *)
theory V1LocalProps
  imports V1Local
begin

text \<open>
  Properties of the local back end of the version 1 client: the objects keep what they are, a
  deleted object stays deleted, and everything the library does on the disk happens under the
  root.
\<close>

section \<open>Objects keep what they are\<close>

definition grows :: "'w local_client \<Rightarrow> 'w local_client \<Rightarrow> bool" where
  "grows s t \<longleftrightarrow> length (vw_items s) \<le> length (vw_items t) \<and>
     (\<forall>n < length (vw_items s).
        vi_identity (vw_items t ! n) = vi_identity (vw_items s ! n) \<and>
        vi_type (vw_items t ! n) = vi_type (vw_items s ! n) \<and>
        vi_root (vw_items t ! n) = vi_root (vw_items s ! n) \<and>
        (vi_deleted (vw_items s ! n) \<longrightarrow> vi_deleted (vw_items t ! n)))"

lemma grows_refl [simp]: "grows s s"
  by (simp add: grows_def)

lemma grows_trans: "grows s t \<Longrightarrow> grows t u \<Longrightarrow> grows s u"
  by (auto simp: grows_def)

lemma grows_same_items: "grows s t \<Longrightarrow> vw_items t = vw_items u \<Longrightarrow> grows s u"
  by (simp add: grows_def)

lemma grows_alloc: "grows s t \<Longrightarrow> grows s (t\<lparr>vw_items := vw_items t @ [i]\<rparr>)"
  by (auto simp: grows_def nth_append)

lemma grows_update:
  assumes "grows s t"
    and "vi_identity i = vi_identity (vw_items t ! n) \<and> vi_type i = vi_type (vw_items t ! n) \<and>
      vi_root i = vi_root (vw_items t ! n) \<and> (vi_deleted (vw_items t ! n) \<longrightarrow> vi_deleted i)"
  shows "grows s (t\<lparr>vw_items := (vw_items t)[n := i]\<rparr>)"
  using assms by (cases "n < length (vw_items t)") (auto simp: grows_def nth_list_update)

section \<open>Under the root\<close>

definition below :: "string \<Rightarrow> string \<Rightarrow> bool" where
  "below R p \<longleftrightarrow> starts_with p (R @ ''/'')"

lemma inside_below: "inside R p \<longleftrightarrow> p = R \<or> below R p"
  by (simp add: inside_def below_def)

text \<open>
  What the library relies on. Lexically: an entry \<open>d/n\<close> of a folder under the root is below the root,
  so is what the directory iterator yields, the parent of a path below the root is the root or
  below it, and a canonical path that begins with the components of the root is the root or below it.
\<close>

definition v1_lexical :: "'w fsapi \<Rightarrow> path_api \<Rightarrow> string \<Rightarrow> bool" where
  "v1_lexical F L R \<longleftrightarrow>
     (\<forall>d n. inside R d \<longrightarrow> proper_name F n \<longrightarrow> below R (path_append F d n)) \<and>
     (\<forall>p. below R p \<longrightarrow> inside R (path_parent F p)) \<and>
     (\<forall>w d es e. fs_entries F w d = Ok es \<longrightarrow> e \<in> set es \<longrightarrow>
        proper_name F (path_filename F e) \<and> (inside R d \<longrightarrow> below R e)) \<and>
     (\<forall>w. proper_name F (fs_unique_path F w V1_TMP_PATTERN)) \<and>
     (\<forall>w p c. fs_canonical F w p = Ok c \<longrightarrow>
        take (length (lp_elements L R)) (lp_elements L c) = lp_elements L R \<longrightarrow> inside R c)"

text \<open>
  On the disk: no symbolic link below the root leads out of it and the root is not replaced by a file, so
  calls whose target is below the root touch nothing outside. \<open>P\<close> stands for what is outside.
\<close>

definition v1_stays_inside :: "'w fsapi \<Rightarrow> string \<Rightarrow> ('w \<Rightarrow> bool) \<Rightarrow> bool" where
  "v1_stays_inside F R P \<longleftrightarrow>
     (\<forall>w p c. P w \<longrightarrow> inside R p \<longrightarrow> fs_canonical F w p = Ok c \<longrightarrow> inside R c) \<and>
     (\<forall>w st. P w \<longrightarrow> fs_status F w R = Ok st \<longrightarrow> st_type st \<noteq> regular_file) \<and>
     (\<forall>w p. P w \<longrightarrow> below R p \<longrightarrow>
        P (snd (fs_create_directory F p w)) \<and> P (snd (fs_create_directories F p w)) \<and>
        P (snd (fs_remove_all F p w)) \<and>
        (\<forall>src. P (snd (fs_copy_file F src p w)) \<and> P (snd (fs_copy_directory F src p w)) \<and>
           (below R src \<longrightarrow> P (snd (fs_rename F src p w)))))"

definition v1_confines :: "'w fsapi \<Rightarrow> path_api \<Rightarrow> string \<Rightarrow> ('w \<Rightarrow> bool) \<Rightarrow> bool" where
  "v1_confines F L R P \<longleftrightarrow> v1_lexical F L R \<and> v1_stays_inside F R P"

definition object_ok :: "string \<Rightarrow> 'w local_client \<Rightarrow> local_object \<Rightarrow> bool" where
  "object_ok R s i \<longleftrightarrow>
     vi_root i < length (vw_items s) \<and> vi_type (vw_items s ! vi_root i) = IT_root \<and>
     (if vi_type i = IT_root then vi_identity i = R else below R (vi_identity i))"

definition client_ok :: "string \<Rightarrow> ('w \<Rightarrow> bool) \<Rightarrow> 'w local_client \<Rightarrow> bool" where
  "client_ok R P s \<longleftrightarrow> P (lw_fs s) \<and> vw_accounts s \<noteq> [] \<and>
     (\<forall>a \<in> set (vw_account_store s). va_roots a \<noteq> []) \<and> (\<forall>i \<in> set (vw_items s). object_ok R s i)"

text \<open>The invariant of a run of one operation that started in \<open>s0\<close>.\<close>

definition since :: "string \<Rightarrow> ('w \<Rightarrow> bool) \<Rightarrow> 'w local_client \<Rightarrow> 'w local_client \<Rightarrow> bool" where
  "since R P s0 s \<longleftrightarrow> client_ok R P s \<and> grows s0 s"

lemma object_ok_grows: "object_ok R s i \<Longrightarrow> grows s t \<Longrightarrow> object_ok R t i"
  by (auto simp: object_ok_def grows_def)

lemma since_item:
  assumes "since R P s0 s" and "n < length (vw_items s0)"
  shows "vi_identity (vw_items s ! n) = vi_identity (vw_items s0 ! n)"
    and "vi_type (vw_items s ! n) = vi_type (vw_items s0 ! n)"
    and "vi_root (vw_items s ! n) = vi_root (vw_items s0 ! n)"
    and "object_ok R s (vw_items s ! n)"
  using assms by (auto simp: since_def grows_def client_ok_def)

text \<open>An address that holds a root; it does so for ever.\<close>

definition root_at :: "'w local_client \<Rightarrow> nat \<Rightarrow> bool" where
  "root_at s r \<longleftrightarrow> r < length (vw_items s) \<and> vi_type (vw_items s ! r) = IT_root"

lemma root_at_since: "root_at s0 r \<Longrightarrow> since R P s0 s \<Longrightarrow> root_at s r \<and> vi_identity (vw_items s ! r) = R"
  by (auto simp: root_at_def since_def grows_def client_ok_def object_ok_def dest: nth_mem)

lemma since_root: "since R P s0 s0 \<Longrightarrow> n < length (vw_items s0) \<Longrightarrow> root_at s0 (vi_root (vw_items s0 ! n))"
  using since_item(4) by (fastforce simp: root_at_def object_ok_def)

section \<open>Steps that keep the invariant\<close>

lemma since_fs: "since R P s0 s \<Longrightarrow> P f \<Longrightarrow> since R P s0 (s\<lparr>lw_fs := f\<rparr>)"
  by (auto simp: since_def client_ok_def object_ok_def intro: grows_same_items)

lemma keeps_l1_call:
  assumes "\<And>f. P f \<Longrightarrow> P (snd (m f))"
  shows "keeps (since R P s0) (l1_call m)"
  unfolding keeps_def l1_call_def
proof (intro allI impI)
  fix s
  assume s: "since R P s0 s"
  then have "P (snd (m (lw_fs s)))" using assms by (simp add: since_def client_ok_def)
  with s show "since R P s0 (snd (case m (lw_fs s) of (r, f) \<Rightarrow> (map_raise L1_fs r, s\<lparr>lw_fs := f\<rparr>)))"
    by (auto simp: split_beta intro: since_fs)
qed

lemma keeps_alloc:
  assumes "root_at s0 r" and "vi_root i = r" and "vi_type i \<noteq> IT_root" and "below R (vi_identity i)"
  shows "keeps (since R P s0) (v1_alloc i)"
  unfolding keeps_def v1_alloc_def
proof (intro allI impI)
  fix s
  assume s: "since R P s0 s"
  let ?t = "s\<lparr>vw_items := vw_items s @ [i]\<rparr>"
  have g: "grows s ?t" by (simp add: grows_alloc)
  have "object_ok R ?t j" if "j \<in> set (vw_items s)" for j
    using s that object_ok_grows [OF _ g] by (simp add: since_def client_ok_def)
  moreover have "object_ok R ?t i"
    using assms root_at_since [OF assms(1) s] by (auto simp: object_ok_def root_at_def nth_append)
  ultimately show "since R P s0 (snd (Ok (length (vw_items s)), ?t))"
    using s grows_trans [OF _ g] by (auto simp: since_def client_ok_def)
qed

lemma keeps_update:
  assumes "\<And>i. vi_identity (f i) = vi_identity i \<and> vi_type (f i) = vi_type i \<and> vi_root (f i) = vi_root i \<and>
    (vi_deleted i \<longrightarrow> vi_deleted (f i))"
  shows "keeps (since R P s0) (\<lambda>s. (r, s\<lparr>vw_items := (vw_items s)[n := f (vw_items s ! n)]\<rparr>))"
  unfolding keeps_def
proof (intro allI impI)
  fix s
  assume s: "since R P s0 s"
  let ?t = "s\<lparr>vw_items := (vw_items s)[n := f (vw_items s ! n)]\<rparr>"
  have g: "grows s ?t" using assms by (intro grows_update) auto
  have old: "object_ok R ?t j" if "j \<in> set (vw_items s)" for j
    using s that object_ok_grows [OF _ g] by (simp add: since_def client_ok_def)
  have changed: "object_ok R ?t (f j)" if "object_ok R ?t j" for j
    using that assms [of j] by (simp add: object_ok_def)
  have cases: "j \<in> set (vw_items s) \<or> (n < length (vw_items s) \<and> j = f (vw_items s ! n))"
    if "j \<in> set (vw_items ?t)" for j
    using that set_update_subset_insert [of "vw_items s" n]
    by (cases "n < length (vw_items s)") (auto simp: list_update_beyond)
  have "\<forall>j \<in> set (vw_items ?t). object_ok R ?t j"
    using cases old changed nth_mem by blast
  then have "client_ok R P ?t" using s by (simp add: since_def client_ok_def)
  moreover have "grows s0 ?t" using s grows_trans [OF _ g] by (simp add: since_def)
  ultimately show "since R P s0 (snd (r, ?t))" by (simp add: since_def)
qed

lemma keeps_mark_deleted: "keeps (since R P s0) (mark_deleted n)"
  unfolding mark_deleted_def by (rule keeps_update) simp

text \<open>Queries, and what the continuation may assume of their results.\<close>

lemma keeps_l1_query: "keeps Q (l1_query q)" "keeps Q (l1_check c)" "keeps Q (l1_pure r)" "keeps Q (item_field f n)"
  "keeps Q (l1_exists F p)" "keeps Q (v1_get meth g n)"
  by (simp_all add: l1_query_def l1_check_def l1_pure_def item_field_def l1_exists_def v1_get_def keeps_intros)

lemma keeps_l1_try: "keeps Q m \<Longrightarrow> keeps Q (l1_try meth m)"
  by (simp add: l1_try_def keeps_intros)

lemma map_raise_Ok [simp]: "map_raise f r = Ok a \<longleftrightarrow> r = Ok a"
  by (cases r) simp_all

lemma keeps_l1_query_bind:
  assumes "\<And>s a. since R P s0 s \<Longrightarrow> q (lw_fs s) = Ok a \<Longrightarrow> keeps (since R P s0) (f a)"
  shows "keeps (since R P s0) (sx_bind (l1_query q) f)"
  unfolding l1_query_def by (rule keeps_query_bind) (use assms in auto)

lemma keeps_native_identity_bind:
  assumes "n < length (vw_items s0)" and "keeps (since R P s0) (f (vi_identity (vw_items s0 ! n)))"
  shows "keeps (since R P s0) (sx_bind (l1_check (native_identity n)) f)"
  unfolding l1_check_def
  by (rule keeps_query_bind) (use assms in \<open>auto simp: native_identity_def since_item\<close>)

lemma keeps_sanitize_bind:
  assumes "proper_name F name \<Longrightarrow> keeps Q (f name)"
  shows "keeps Q (sx_bind (l1_pure (v1_sanitize F name meth)) f)"
  unfolding l1_pure_def
  by (rule keeps_lift_bind)
    (use assms in \<open>auto simp: v1_sanitize_def proper_name_def Let_def split: if_splits\<close>)

lemma keeps_field_root_bind:
  assumes "n < length (vw_items s0)" and "keeps (since R P s0) (f (vi_root (vw_items s0 ! n)))"
  shows "keeps (since R P s0) (sx_bind (item_field vi_root n) f)"
  unfolding item_field_def by (rule keeps_query_bind) (use assms in \<open>auto simp: since_item\<close>)

lemma keeps_field_type_bind:
  assumes "n < length (vw_items s0)" and "keeps (since R P s0) (f (vi_type (vw_items s0 ! n)))"
  shows "keeps (since R P s0) (sx_bind (item_field vi_type n) f)"
  unfolding item_field_def by (rule keeps_query_bind) (use assms in \<open>auto simp: since_item\<close>)

lemma keeps_make_item:
  assumes "root_at s0 r" and "type \<noteq> IT_root" and "below R path"
  shows "keeps (since R P s0) (v1_make_item F type path r)"
proof -
  have alloc: "keeps (since R P s0) (v1_alloc \<lparr>vi_identity = path, vi_type = type, vi_deleted = False, vi_root = r,
      vi_account = 0, li_name = n, li_etag = e, li_mtime = t\<rparr>)" for n e t
    using assms by (intro keeps_alloc) auto
  show ?thesis
    unfolding v1_make_item_def v1_item_init_def sx_bind_assoc
    by (auto simp: split_beta sx_bind_assoc sx_bind_return intro!: keeps_bind [OF keeps_lift] keeps_bind [OF keeps_l1_query(1)]
        keeps_bind [OF keeps_query] alloc)
qed

lemmas keeps_make = keeps_make_item [of _ _ IT_folder, folded v1_make_folder_def, simplified]
  keeps_make_item [of _ _ IT_file, folded v1_make_file_def, simplified]

section \<open>The operations\<close>

lemma confines_paths:
  assumes "v1_confines F L R P"
  shows "inside R d \<Longrightarrow> proper_name F n \<Longrightarrow> below R (path_append F d n)"
    and "below R p \<Longrightarrow> inside R (path_parent F p)"
    and "fs_entries F w d = Ok es \<Longrightarrow> e \<in> set es \<Longrightarrow> proper_name F (path_filename F e)"
    and "fs_entries F w d = Ok es \<Longrightarrow> e \<in> set es \<Longrightarrow> inside R d \<Longrightarrow> below R e"
    and "proper_name F (fs_unique_path F w V1_TMP_PATTERN)"
    and "fs_canonical F w p = Ok c \<Longrightarrow>
      take (length (lp_elements L R)) (lp_elements L c) = lp_elements L R \<Longrightarrow> inside R c"
    and "P w \<Longrightarrow> inside R p \<Longrightarrow> fs_canonical F w p = Ok c \<Longrightarrow> inside R c"
    and "P w \<Longrightarrow> fs_status F w R = Ok st \<Longrightarrow> st_type st \<noteq> regular_file"
  using assms unfolding v1_confines_def v1_lexical_def v1_stays_inside_def by meson+

lemma confines_calls:
  assumes "v1_confines F L R P" and "below R p"
  shows "keeps P (fs_create_directory F p)" "keeps P (fs_create_directories F p)" "keeps P (fs_remove_all F p)"
    "keeps P (fs_copy_file F src p)" "keeps P (fs_copy_directory F src p)"
    "below R src \<Longrightarrow> keeps P (fs_rename F src p)"
  using assms unfolding v1_confines_def v1_stays_inside_def keeps_def by blast+

lemma keeps_copy_recursively:
  assumes "v1_confines F L R P"
  shows "below R target \<Longrightarrow> keeps P (v1_copy_recursively F depth source target)"
proof (induction depth arbitrary: source target)
  case 0
  then show ?case by (simp add: keeps_def)
next
  case (Suc depth)
  have entry: "keeps P (v1_copy_recursively F depth e (path_append F target (path_filename F e)))"
    if "fs_entries F w source = Ok es" "e \<in> set es" for w es e
    using Suc confines_paths(1,3) [OF assms] that by (simp add: inside_below)
  show ?case
    by (auto intro!: keeps_intros keeps_query_bind keeps_for confines_calls [OF assms Suc.prems]
        intro: entry)
qed

lemma keeps_copy_folder:
  assumes conf: "v1_confines F L R P" and "below R target_path" and "inside R parent_path"
  shows "keeps P (v1_copy_folder F depth source_path parent_path target_path)"
proof -
  have tmp: "below R (path_append F parent (fs_unique_path F u V1_TMP_PATTERN))"
    if "P w" "fs_canonical F w parent_path = Ok parent" for w u parent
    using confines_paths(1,5,7) [OF conf] that assms(3) by blast
  have entry: "keeps P (v1_copy_entry F depth tmp_path e)"
    if "below R tmp_path" "fs_entries F w d = Ok es" "e \<in> set es" for tmp_path w d es e
    using confines_paths(1,3) [OF conf] that
    by (auto simp: v1_copy_entry_def inside_below intro!: keeps_intros keeps_copy_recursively [OF conf])
  show ?thesis
    unfolding v1_copy_folder_def
    by (rule keeps_query_bind, rule keeps_query_bind)
      (auto intro!: keeps_bind keeps_query_bind keeps_for confines_calls [OF conf] assms(2) intro: tmp entry)
qed

lemma keeps_require_same_account: "keeps Q (require_same_account meth n p name)"
  by (auto simp: require_same_account_def intro!: keeps_bind keeps_l1_query keeps_throw_if)

lemma keeps_refuse_taken: "keeps Q (refuse_taken F meth path name n)"
  by (auto simp: refuse_taken_def intro!: keeps_bind keeps_l1_query keeps_throw_if)

lemma keeps_call: "keeps P m \<Longrightarrow> keeps (since R P s0) (l1_call m)"
  by (rule keeps_l1_call) (simp add: keeps_def)

lemma item_inside:
  assumes "since R P s0 s0" and "n < length (vw_items s0)"
  shows "inside R (vi_identity (vw_items s0 ! n))"
    and "vi_type (vw_items s0 ! n) \<noteq> IT_root \<Longrightarrow> below R (vi_identity (vw_items s0 ! n))"
  using since_item(4) [OF assms] by (auto simp: object_ok_def inside_below split: if_splits)

lemmas check_bind = keeps_bind [OF keeps_l1_query(2)]

lemma keeps_copy_task:
  assumes conf: "v1_confines F L R P" and s0: "since R P s0 s0"
    and n: "n < length (vw_items s0)" and p: "p < length (vw_items s0)"
  shows "keeps (since R P s0) (copy_task F depth n p name)"
proof -
  let ?parent = "vi_identity (vw_items s0 ! p)"
  have target: "below R (path_append F ?parent name)" if "proper_name F name"
    using confines_paths(1) [OF conf item_inside(1) [OF s0 p] that] .
  show ?thesis
    unfolding copy_task_def Let_def
    by (intro check_bind keeps_bind [OF keeps_require_same_account] keeps_l1_try keeps_native_identity_bind n p
        keeps_sanitize_bind keeps_throw_if_bind keeps_bind [OF keeps_refuse_taken] keeps_field_type_bind
        keeps_field_root_bind keeps_if keeps_bind [OF keeps_call] keeps_make since_root [OF s0] target
        confines_calls(4) [OF conf] keeps_copy_folder [OF conf] item_inside(1) [OF s0])
qed

lemma keeps_move_task:
  assumes conf: "v1_confines F L R P" and s0: "since R P s0 s0"
    and n: "n < length (vw_items s0)" and p: "p < length (vw_items s0)"
  shows "keeps (since R P s0) (move_task F n p name)"
proof -
  let ?parent = "vi_identity (vw_items s0 ! p)"
  have target: "below R (path_append F ?parent name)" if "proper_name F name"
    using confines_paths(1) [OF conf item_inside(1) [OF s0 p] that] .
  show ?thesis
    unfolding move_task_def Let_def
    by (intro check_bind keeps_bind [OF keeps_require_same_account] keeps_l1_try keeps_native_identity_bind n p
        keeps_sanitize_bind keeps_throw_if_bind keeps_bind [OF keeps_refuse_taken] keeps_field_type_bind
        keeps_field_root_bind keeps_if keeps_bind [OF keeps_call] keeps_make since_root [OF s0] target
        confines_calls(6) [OF conf] keeps_bind [OF keeps_mark_deleted] item_inside(2) [OF s0])
qed

lemma keeps_delete_task:
  assumes conf: "v1_confines F L R P" and s0: "since R P s0 s0"
    and n: "n < length (vw_items s0)" and "vi_type (vw_items s0 ! n) \<noteq> IT_root"
  shows "keeps (since R P s0) (delete_task F n)"
  unfolding delete_task_def
  by (intro check_bind keeps_l1_try keeps_native_identity_bind n keeps_bind [OF keeps_call] keeps_mark_deleted
      confines_calls(3) [OF conf] item_inside(2) [OF s0] assms(4))

lemma keeps_list_loop:
  assumes "root_at s0 r" and "\<And>p. p \<in> set ps \<Longrightarrow> below R p"
  shows "keeps (since R P s0) (list_loop F r ps)"
  using assms(2)
proof (induction ps)
  case (Cons p ps)
  then show ?case
    by (auto intro!: keeps_bind [OF keeps_l1_query(1)] keeps_bind keeps_if keeps_return keeps_make assms(1))
qed (simp add: keeps_return)

lemma keeps_list_task:
  assumes conf: "v1_confines F L R P" and s0: "since R P s0 s0" and n: "n < length (vw_items s0)"
  shows "keeps (since R P s0) (list_task F n)"
  unfolding list_task_def
  by (intro check_bind keeps_l1_try keeps_native_identity_bind n keeps_field_root_bind keeps_l1_query_bind
      keeps_list_loop since_root [OF s0])
    (rule confines_paths(4) [OF conf _ _ item_inside(1) [OF s0 n]])

lemma keeps_lookup_task:
  assumes conf: "v1_confines F L R P" and s0: "since R P s0 s0" and n: "n < length (vw_items s0)"
  shows "keeps (since R P s0) (lookup_task F n name)"
proof -
  have target: "below R (path_append F (vi_identity (vw_items s0 ! n)) name)" if "proper_name F name"
    using confines_paths(1) [OF conf item_inside(1) [OF s0 n] that] .
  show ?thesis
    unfolding lookup_task_def Let_def
    by (intro check_bind keeps_l1_try keeps_native_identity_bind n keeps_sanitize_bind keeps_throw_if_bind
        keeps_field_root_bind keeps_l1_query_bind keeps_if keeps_bind [OF keeps_make(1)] keeps_bind [OF keeps_make(2)]
        keeps_return keeps_throw since_root [OF s0] target)
qed

lemma keeps_parents:
  assumes conf: "v1_confines F L R P" and s0: "since R P s0 s0" and n: "n < length (vw_items s0)"
  shows "keeps (since R P s0) (local_parents F n)"
proof -
  let ?i = "vw_items s0 ! n"
  have root: "root_at s0 (vi_root ?i)" using since_root [OF s0 n] .
  have "keeps (since R P s0)
      (if vi_type i = IT_root then sx_return []
       else let parent_path = path_parent F (vi_identity i); root = vi_root i in
         sx_bind (l1_check (native_identity root)) (\<lambda>root_path.
         if parent_path \<noteq> root_path then
           sx_bind (v1_make_folder F parent_path root) (\<lambda>p. sx_return [p])
         else sx_return [root]))"
    if i: "vi_identity i = vi_identity ?i" "vi_type i = vi_type ?i" "vi_root i = vi_root ?i" for i :: local_object
  proof -
    have R: "vi_identity (vw_items s0 ! vi_root ?i) = R" using root_at_since [OF root s0] by simp
    have "below R (path_parent F (vi_identity ?i))"
      if "vi_type ?i \<noteq> IT_root" "path_parent F (vi_identity ?i) \<noteq> R"
      using confines_paths(2) [OF conf item_inside(2) [OF s0 n that(1)]] that(2) by (simp add: inside_below)
    then show ?thesis
      using root R unfolding Let_def i
      by (intro keeps_if keeps_return keeps_native_identity_bind keeps_bind [OF keeps_make(1)])
        (auto simp: root_at_def)
  qed
  then show ?thesis
    unfolding local_parents_def v1_get_def l1_check_def id_def
    by (intro keeps_query_bind) (auto simp: since_item [OF _ n])
qed

lemma keeps_create_folder:
  assumes conf: "v1_confines F L R P" and s0: "since R P s0 s0" and n: "n < length (vw_items s0)"
  shows "keeps (since R P s0) (local_create_folder F n name)"
proof -
  have target: "below R (path_append F (vi_identity (vw_items s0 ! n)) name)" if "proper_name F name"
    using confines_paths(1) [OF conf item_inside(1) [OF s0 n] that] .
  show ?thesis
    unfolding local_create_folder_def check_new_name_def Let_def sx_bind_assoc sx_bind_return
    by (intro check_bind keeps_l1_try keeps_native_identity_bind n keeps_sanitize_bind keeps_throw_if_bind
        keeps_bind [OF keeps_l1_query(5)] keeps_bind [OF keeps_call] keeps_field_root_bind keeps_make
        since_root [OF s0] target confines_calls(1) [OF conf])
qed

lemma make_root_effect:
  "snd (v1_make_root F L path a s) = s \<and> \<not> is_ok (fst (v1_make_root F L path a s)) \<or>
   (\<exists>i. v1_make_root F L path a s = (Ok (length (vw_items s)), s\<lparr>vw_items := vw_items s @ [i]\<rparr>) \<and>
      vi_root i = length (vw_items s) \<and> vi_type i = IT_root \<and> vi_identity i = path)"
  by (auto simp: v1_make_root_def v1_item_init_def v1_alloc_def l1_query_def run_simps split_beta
      split: outcome.splits)

lemma keeps_make_root: "keeps (since R P s0) (v1_make_root F L R a)"
  unfolding keeps_def
proof (intro allI impI)
  fix s
  assume s: "since R P s0 s"
  consider "snd (v1_make_root F L R a s) = s"
    | i where "snd (v1_make_root F L R a s) = s\<lparr>vw_items := vw_items s @ [i]\<rparr>"
        "vi_root i = length (vw_items s)" "vi_type i = IT_root" "vi_identity i = R"
    using make_root_effect [of F L R a s] by fastforce
  then show "since R P s0 (snd (v1_make_root F L R a s))"
  proof cases
    case 1
    with s show ?thesis by simp
  next
    case (2 i)
    let ?t = "s\<lparr>vw_items := vw_items s @ [i]\<rparr>"
    have g: "grows s ?t" by (simp add: grows_alloc)
    have "object_ok R ?t j" if "j \<in> set (vw_items s)" for j
      using s that object_ok_grows [OF _ g] by (simp add: since_def client_ok_def)
    moreover have "object_ok R ?t i" using 2 by (simp add: object_ok_def nth_append)
    ultimately have "since R P s0 ?t"
      using s grows_trans [OF _ g] by (auto simp: since_def client_ok_def)
    with 2(1) show ?thesis by simp
  qed
qed

lemma keeps_found:
  assumes conf: "v1_confines F L R P" and s: "since R P s0 s" and st: "fs_status F (lw_fs s) id_path = Ok st"
    and id: "Rp = R" "inside R id_path" and r: "root_at s0 r"
  shows "keeps (since R P s0) (if st_type st = directory_file then
         if id_path = Rp then sx_bind (l1_check (\<lambda>s. root_account s n)) (\<lambda>a. v1_make_root F L id_path a)
         else v1_make_folder F id_path r
       else if st_type st = regular_file then v1_make_file F id_path r
       else sx_throw no_item)"
proof -
  have "P (lw_fs s)" using s by (simp add: since_def client_ok_def)
  then have "st_type st = regular_file \<Longrightarrow> below R id_path"
    using confines_paths(8) [OF conf] st id by (auto simp: inside_below)
  with id r show ?thesis
    by (auto simp: inside_below intro!: check_bind keeps_make_root keeps_make keeps_throw)
qed

lemma keeps_get_root_bind:
  assumes s0: "since R P s0 s0" and n: "n < length (vw_items s0)"
    and f: "\<And>r. root_at s0 r \<Longrightarrow> vi_identity (vw_items s0 ! r) = R \<Longrightarrow> keeps (since R P s0) (f r)"
  shows "keeps (since R P s0) (sx_bind (l1_check (\<lambda>s. case get_root s n of None \<Rightarrow> Raise e | Some r \<Rightarrow> Ok r)) f)"
  unfolding l1_check_def
proof (rule keeps_query_bind)
  fix s r
  assume s: "since R P s0 s" and "map_raise L1_storage (case get_root s n of None \<Rightarrow> Raise e | Some r \<Rightarrow> Ok r) = Ok r"
  then have "get_root s n = Some r" by (auto split: option.splits)
  then have "r = vi_root (vw_items s0 ! n)" using get_root_Some since_item(3) [OF s n] by fastforce
  then show "keeps (since R P s0) (f r)" using f since_root [OF s0 n] root_at_since [OF _ s0] by blast
qed

lemma keeps_get:
  assumes conf: "v1_confines F L R P" and s0: "since R P s0 s0" and n: "n < length (vw_items s0)"
  shows "keeps (since R P s0) (local_get F L n identity)"
proof -
  have prefix: "inside R c" if "fs_canonical F w identity = Ok c" and "Rp = R" and
    "\<not> (length (lp_elements L c) < length (lp_elements L Rp) \<or>
       take (length (lp_elements L Rp)) (lp_elements L c) \<noteq> lp_elements L Rp)" for w c Rp
    using confines_paths(6) [OF conf] that by blast
  show ?thesis
    unfolding local_get_def Let_def
    apply (rule check_bind, rule keeps_get_root_bind [OF s0 n], rule keeps_catch [OF _ keeps_throw])
    apply (rule keeps_throw_if_bind, rule keeps_l1_query_bind, rule keeps_native_identity_bind)
     apply (simp add: root_at_def)
    apply (intro keeps_throw_if_bind keeps_l1_query_bind)
    apply (rule keeps_found [OF conf], assumption+, erule (2) prefix, assumption)
    done
qed

section \<open>Runs\<close>

fun op_range :: "l1_op \<Rightarrow> 'w local_client \<Rightarrow> bool" where
  "op_range (OP_copy n p name) s \<longleftrightarrow> n < length (vw_items s) \<and> (\<forall>q. p = Some q \<longrightarrow> q < length (vw_items s))"
| "op_range (OP_move n p name) s \<longleftrightarrow> n < length (vw_items s) \<and> (\<forall>q. p = Some q \<longrightarrow> q < length (vw_items s))"
| "op_range (OP_delete n) s \<longleftrightarrow> n < length (vw_items s) \<and> vi_type (vw_items s ! n) \<noteq> IT_root"
| "op_range (OP_list n) s \<longleftrightarrow> n < length (vw_items s)"
| "op_range (OP_lookup n name) s \<longleftrightarrow> n < length (vw_items s)"
| "op_range (OP_parents n) s \<longleftrightarrow> n < length (vw_items s)"
| "op_range (OP_create_folder n name) s \<longleftrightarrow> n < length (vw_items s)"
| "op_range (OP_get n identity) s \<longleftrightarrow> n < length (vw_items s)"
| "op_range (OP_roots a) s \<longleftrightarrow> a < length (vw_account_store s)"
| "op_range OP_accounts s \<longleftrightarrow> True"

lemma op_range_grows: "op_range op s \<Longrightarrow> queued op \<Longrightarrow> grows s t \<Longrightarrow> op_range op t"
  by (cases op) (auto simp: grows_def)

lemma op_ok_range:
  "op_ok op s \<Longrightarrow> start_op op s = Ok () \<Longrightarrow> op_range op s"
  by (cases op) (auto simp: item_lockable_def account_lockable_def is_folder_def start_copy_def split: option.splits)

lemma keeps_l1_map: "keeps Q m \<Longrightarrow> keeps Q (l1_map f m)"
  by (simp add: l1_map_def keeps_intros)

lemma roots_cached:
  assumes "client_ok R P s" and "a < length (vw_account_store s)"
  shows "snd (local_roots F L getenv dir a s) = s"
proof -
  have "va_roots (vw_account_store s ! a) \<noteq> []" using assms by (auto simp: client_ok_def)
  then show ?thesis
    by (auto simp: local_roots_def l1_check_def run_simps split: outcome.splits)
qed

lemma accounts_cached: "client_ok R P s \<Longrightarrow> snd (local_accounts user uid s) = s"
  by (auto simp: local_accounts_def client_ok_def)

lemma snd_l1_map: "snd (l1_map f m s) = snd (m s)"
  by (auto simp: l1_map_def run_simps split: prod.splits outcome.splits)

lemma run_op_since:
  assumes conf: "v1_confines F (le_paths E) R P" and s: "client_ok R P s" and op: "op_range op s"
  shows "since R P s (snd (run_op F E op s))"
proof -
  have s0: "since R P s s" using s by (simp add: since_def)
  have keep: "since R P s (snd (l1_map f m s))" if "keeps (since R P s) m" for f :: "'b \<Rightarrow> l1_result" and m
    using keepsD [OF keeps_l1_map [OF that]] s0 by blast
  show ?thesis
  proof (cases op)
    case (OP_copy n p name)
    with op s0 show ?thesis by (auto intro!: keep keeps_copy_task [OF conf s0] split: option.splits)
  next
    case (OP_move n p name)
    with op s0 show ?thesis by (auto intro!: keep keeps_move_task [OF conf s0] split: option.splits)
  next
    case (OP_roots a)
    with op s s0 show ?thesis by (simp add: snd_l1_map roots_cached)
  next
    case OP_accounts
    with s s0 show ?thesis by (simp add: snd_l1_map accounts_cached)
  qed (use op in \<open>auto intro!: keep keeps_delete_task [OF conf s0] keeps_list_task [OF conf s0]
      keeps_lookup_task [OF conf s0] keeps_parents [OF conf s0] keeps_create_folder [OF conf s0] keeps_get [OF conf s0]\<close>)
qed

definition app_ok :: "'w fsapi \<Rightarrow> l1_env \<Rightarrow> string \<Rightarrow> ('w \<Rightarrow> bool) \<Rightarrow> 'w l1_app \<Rightarrow> bool" where
  "app_ok F E R P s \<longleftrightarrow> v1_confines F (le_paths E) R P \<and> client_ok R P (la_client s) \<and>
     (\<forall>op \<in> set (la_queue s). queued op \<and> op_range op (la_client s))"

lemma app_ok_grows:
  assumes "app_ok F E R P s" and "client_ok R P (la_client t)" and "grows (la_client s) (la_client t)"
    and "set (la_queue t) \<subseteq> set (la_queue s)"
  shows "app_ok F E R P t"
  using assms op_range_grows unfolding app_ok_def by blast

lemma perform_effect:
  "la_client (perform F E op s) = snd (run_op F E op (la_client s)) \<or> la_client (perform F E op s) = la_client s"
  "la_queue (perform F E op s) = la_queue s"
  by (auto simp: perform_def split: prod.splits outcome.splits)

lemma perform_ok:
  assumes "app_ok F E R P s" and "op_range op (la_client s)"
  shows "app_ok F E R P (perform F E op s)"
proof -
  have "since R P (la_client s) (snd (run_op F E op (la_client s)))"
    using assms run_op_since by (auto simp: app_ok_def)
  then have "client_ok R P (la_client (perform F E op s)) \<and> grows (la_client s) (la_client (perform F E op s))"
    using perform_effect(1) [of F E op s] assms(1) by (auto simp: since_def app_ok_def)
  then show ?thesis using assms(1) perform_effect(2) [of F E op s] by (intro app_ok_grows [OF assms(1)]) auto
qed

lemma client_ok_flags:
  "client_ok R P s \<Longrightarrow> client_ok R P (v1_shutdown s) \<and> grows s (v1_shutdown s)"
  "client_ok R P s \<Longrightarrow> client_ok R P (v1_destroy_runtime s) \<and> grows s (v1_destroy_runtime s)"
  "client_ok R P s \<Longrightarrow> client_ok R P (v1_release_item n s) \<and> grows s (v1_release_item n s)"
  "client_ok R P s \<Longrightarrow> client_ok R P (v1_release_account a s) \<and> grows s (v1_release_account a s)"
  by (auto simp: client_ok_def object_ok_def grows_def v1_shutdown_def v1_destroy_runtime_def v1_release_item_def
      v1_release_account_def)

lemma call_op_ok:
  assumes ok: "app_ok F E R P s" and op: "op_ok op (la_client s)"
  shows "app_ok F E R P (call_op F E op s)"
proof (cases "queued op")
  case True
  with assms show ?thesis
    by (auto simp: call_op_def app_ok_def dest: op_ok_range split: outcome.splits)
next
  case False
  then have "start_op op (la_client s) = Ok ()" by (cases op) auto
  with False assms show ?thesis by (simp add: call_op_def perform_ok op_ok_range)
qed

lemma pool_run_ok:
  assumes ok: "app_ok F E R P s" and k: "k < length (la_queue s)"
  shows "app_ok F E R P (perform F E (la_queue s ! k) (s\<lparr>la_queue := take k (la_queue s) @ drop (Suc k) (la_queue s)\<rparr>))"
proof (rule perform_ok)
  have "set (take k (la_queue s) @ drop (Suc k) (la_queue s)) \<subseteq> set (la_queue s)"
    using set_take_subset set_drop_subset by fastforce
  then show "app_ok F E R P (s\<lparr>la_queue := take k (la_queue s) @ drop (Suc k) (la_queue s)\<rparr>)"
    using ok unfolding app_ok_def by auto
  show "op_range (la_queue s ! k) (la_client (s\<lparr>la_queue := take k (la_queue s) @ drop (Suc k) (la_queue s)\<rparr>))"
    using ok k by (auto simp: app_ok_def)
qed

interpretation v1_app: invariant_machine "l1_step F E" "app_ok F E R P" for F E R P
proof unfold_locales
  fix s e
  assume ok: "app_ok F E R P s"
  then have c: "client_ok R P (la_client s)" by (simp add: app_ok_def)
  show "app_ok F E R P (l1_step F E s e)"
    by (cases e) (use ok c client_ok_flags [OF c] in \<open>auto intro!: call_op_ok pool_run_ok intro: app_ok_grows [OF ok]\<close>)
qed

subsection \<open>The start\<close>

lemma get_data_dir_effect: "\<exists>f. snd (get_data_dir F getenv dir s) = s\<lparr>lw_fs := f\<rparr>"
proof -
  let ?Q = "\<lambda>t. \<exists>f. t = s\<lparr>lw_fs := f\<rparr>"
  have call: "keeps ?Q (l1_call m)" for m
    by (auto simp: keeps_def l1_call_def split_beta)
  have "keeps ?Q (get_data_dir F getenv dir)"
    unfolding get_data_dir_def Let_def
    by (intro keeps_bind keeps_query keeps_l1_query keeps_if keeps_return keeps_catch keeps_throw call)
  then show ?thesis by (rule keepsD) (rule exI [of _ "lw_fs s"], simp)
qed

lemma first_root:
  assumes "va_roots (vw_account_store s ! 0) = []" and "vw_account_store s = [a]" and "vw_items s = []"
    and "vw_items (snd (local_roots F L getenv dir 0 s)) = [i]"
  shows "vi_root i = 0 \<and> vi_type i = IT_root \<and> (\<exists>f. snd (local_roots F L getenv dir 0 s) =
    s\<lparr>vw_items := [i], vw_account_store := [a\<lparr>va_roots := [0]\<rparr>], lw_fs := f\<rparr>)"
proof (cases "get_data_dir F getenv dir s")
  case (Pair r t)
  obtain f where t: "t = s\<lparr>lw_fs := f\<rparr>" using get_data_dir_effect [of F getenv dir s] Pair by auto
  have items: "vw_items t = []" "vw_account_store t = [a]" using t assms by simp_all
  show ?thesis
  proof (cases "\<exists>d c. r = Ok d \<and> fs_canonical F (lw_fs t) d = Ok c \<and> account_runtime s = Ok ()")
    case True
    then obtain d c where d: "r = Ok d" "fs_canonical F (lw_fs t) d = Ok c" "account_runtime s = Ok ()" by blast
    let ?m = "v1_make_root F L c 0 t"
    have run: "snd (local_roots F L getenv dir 0 s) = (case ?m of
        (Ok r, u) \<Rightarrow> u\<lparr>vw_account_store := (vw_account_store u)[0 := (vw_account_store u ! 0)\<lparr>va_roots := [r]\<rparr>]\<rparr>
      | (_, u) \<Rightarrow> u)"
      using d Pair assms(1)
      by (auto simp: local_roots_def l1_check_def l1_query_def run_simps split: outcome.splits prod.splits)
    consider "snd ?m = t" "\<not> is_ok (fst ?m)"
      | j where "?m = (Ok 0, t\<lparr>vw_items := [j]\<rparr>)" "vi_root j = 0" "vi_type j = IT_root"
      using make_root_effect [of F L c 0 t] items by auto
    then show ?thesis
    proof cases
      case 1
      then have "snd (local_roots F L getenv dir 0 s) = t"
        unfolding run by (cases ?m; cases "fst ?m") auto
      with assms(4) items show ?thesis by simp
    next
      case (2 j)
      with run assms(4) items t have "j = i" and
        "snd (local_roots F L getenv dir 0 s) = s\<lparr>vw_items := [i], vw_account_store := [a\<lparr>va_roots := [0]\<rparr>], lw_fs := f\<rparr>"
        by (auto intro: local_client.equality)
      with 2 show ?thesis by blast
    qed
  next
    case False
    then have "vw_items (snd (local_roots F L getenv dir 0 s)) = []"
      using Pair items assms(1,3)
      by (auto simp: local_roots_def l1_check_def l1_query_def run_simps split: outcome.splits)
    with assms(4) show ?thesis by simp
  qed
qed

lemma start_ok:
  assumes conf: "v1_confines F (le_paths E) R P"
    and root: "vw_items (la_client (l1_start F E w)) = [i]" "vi_identity i = R"
    and "P (lw_fs (la_client (l1_start F E w)))"
  shows "app_ok F E R P (l1_start F E w)"
proof -
  have user: "le_user E \<noteq> ''''"
    using root(1) by (auto simp: l1_start_def l1_new_def call_op_def perform_def l1_map_def local_accounts_def run_simps)
  define s where "s = la_client (perform F E OP_accounts (l1_new w))"
  obtain a where a: "vw_account_store s = [a]" "va_roots a = []" "vw_accounts s = [0]" "vw_items s = []"
    and ok: "op_ok (OP_roots 0) s" and la: "perform F E OP_accounts (l1_new w) =
      \<lparr>la_client = s, la_queue = [], la_done = [(OP_accounts, Inr (R1_accounts [0]))], la_aborted = False\<rparr>"
    using user by (auto simp: s_def l1_new_def perform_def l1_map_def local_accounts_def run_simps Let_def
        account_lockable_def)
  have start: "l1_start F E w = perform F E (OP_roots 0)
      \<lparr>la_client = s, la_queue = [], la_done = [(OP_accounts, Inr (R1_accounts [0]))], la_aborted = False\<rparr>"
    using ok la by (simp add: l1_start_def l1_new_def call_op_def)
  let ?r = "local_roots F (le_paths E) (le_getenv E) (le_user_data_dir E) 0 s"
  have c: "la_client (l1_start F E w) = snd ?r"
    using root(1) a(4) perform_effect(1) [of F E "OP_roots 0"] start
    by (metis l1_app.select_convs(1) list.distinct(1) run_op.simps(9) snd_l1_map)
  obtain f where f: "snd ?r = s\<lparr>vw_items := [i], vw_account_store := [a\<lparr>va_roots := [0]\<rparr>], lw_fs := f\<rparr>"
    and i: "vi_root i = 0" "vi_type i = IT_root"
    using first_root [OF _ a(1,4), of F "le_paths E" "le_getenv E" "le_user_data_dir E" i] a(1,2) root(1)
    unfolding c by auto
  have "client_ok R P (snd ?r)" using f i a root(2) assms(4) c by (simp add: client_ok_def object_ok_def)
  moreover have "la_queue (l1_start F E w) = []" using start by (simp add: perform_effect(2))
  ultimately show ?thesis using conf c by (simp add: app_ok_def)
qed


section \<open>A deleted object stays deleted\<close>

lemma keeps_grows_alloc: "keeps (grows s0) (v1_alloc i)"
  by (simp add: keeps_def v1_alloc_def grows_alloc)

lemma keeps_grows_call: "keeps (grows s0) (l1_call m)"
  by (auto simp: keeps_def l1_call_def split_beta intro: grows_same_items)

lemma keeps_grows_deleted: "keeps (grows s0) (mark_deleted n)"
  by (auto simp: keeps_def mark_deleted_def intro!: grows_update)

lemma keeps_grows_make:
  "keeps (grows s0) (v1_make_folder F p r)" "keeps (grows s0) (v1_make_file F p r)"
  "keeps (grows s0) (v1_make_root F L p a)"
  by (auto simp: v1_make_folder_def v1_make_file_def v1_make_item_def v1_make_root_def v1_item_init_def split_beta
      intro!: keeps_bind keeps_lift keeps_query keeps_l1_query keeps_return keeps_throw_if keeps_grows_alloc)

lemmas keeps_grows_intros = keeps_bind keeps_lift keeps_query keeps_l1_query keeps_return keeps_throw_if keeps_throw
  keeps_if keeps_catch keeps_l1_try keeps_grows_call keeps_grows_deleted keeps_grows_make
  keeps_require_same_account keeps_refuse_taken

lemma keeps_grows_loop: "keeps (grows s0) (list_loop F r ps)"
  by (induction ps) (simp_all, intro keeps_grows_intros, intro keeps_grows_intros)

lemma keeps_grows_roots: "keeps (grows s0) (local_roots F L getenv dir a)"
proof -
  have "grows s0 (snd (local_roots F L getenv dir a s))" if s: "grows s0 s" for s
  proof -
    have dir: "keeps (grows s0) (get_data_dir F getenv dir)"
      unfolding get_data_dir_def Let_def by (intro keeps_grows_intros)
    have reg: "keeps (grows s0) (\<lambda>s. (Ok [r], s\<lparr>vw_account_store := f s\<rparr>))" for r f
      by (auto simp: keeps_def intro: grows_same_items)
    have "keeps (grows s0) (sx_bind (get_data_dir F getenv dir) (\<lambda>dir.
        sx_bind (l1_query (\<lambda>f. fs_canonical F f dir)) (\<lambda>rpath.
        sx_bind (v1_make_root F L rpath a) (\<lambda>r s.
        (Ok [r], s\<lparr>vw_account_store := (vw_account_store s)[a := (vw_account_store s ! a)\<lparr>va_roots := [r]\<rparr>]\<rparr>)))))"
      by (intro keeps_bind dir keeps_l1_query keeps_grows_make reg)
    with s show ?thesis
      unfolding local_roots_def by (auto simp: l1_check_def run_simps keeps_def split: outcome.splits)
  qed
  then show ?thesis by (simp add: keeps_def)
qed

lemma run_op_grows: "grows s (snd (run_op F E op s))"
proof -
  have k: "keeps (grows s) (local_accounts user uid)" for user uid
    by (auto simp: keeps_def local_accounts_def Let_def intro: grows_same_items)
  have "keeps (grows s) (run_op F E op)"
  proof (cases op)
    case (OP_parents n)
    then show ?thesis
      by (auto simp: local_parents_def Let_def intro!: keeps_l1_map keeps_grows_intros)
  next
    case (OP_copy n p name)
    then show ?thesis
      by (cases p) (simp add: keeps_def,
        auto simp: copy_task_def Let_def intro!: keeps_l1_map keeps_grows_intros)
  next
    case (OP_move n p name)
    then show ?thesis
      by (cases p) (simp add: keeps_def,
        auto simp: move_task_def Let_def intro!: keeps_l1_map keeps_grows_intros)
  qed (auto simp: delete_task_def list_task_def lookup_task_def local_create_folder_def check_new_name_def
      local_get_def Let_def intro!: keeps_l1_map keeps_grows_intros keeps_grows_loop keeps_grows_roots k)
  then show ?thesis by (rule keepsD) simp
qed

lemma l1_step_grows: "grows (la_client s) (la_client (l1_step F E s e))"
proof (cases e)
  case (App_calls op)
  then show ?thesis
    using perform_effect(1) [of F E op s] run_op_grows [of "la_client s" F E op]
    by (auto simp: call_op_def split: outcome.splits)
next
  case (Pool_runs k)
  then show ?thesis
    using perform_effect(1) [of F E "la_queue s ! k" "s\<lparr>la_queue := take k (la_queue s) @ drop (Suc k) (la_queue s)\<rparr>"]
      run_op_grows [of "la_client s" F E "la_queue s ! k"]
    by auto
qed (auto simp: grows_def v1_shutdown_def v1_destroy_runtime_def v1_release_item_def v1_release_account_def)

interpretation v1_objects: invariant_machine "l1_step F E" "\<lambda>s. grows c (la_client s)" for F E c
  by unfold_locales (blast intro: grows_trans l1_step_grows)

text \<open>The object that an operation is called on.\<close>

fun op_item :: "l1_op \<Rightarrow> nat option" where
  "op_item (OP_copy n _ _) = Some n"
| "op_item (OP_move n _ _) = Some n"
| "op_item (OP_delete n) = Some n"
| "op_item (OP_list n) = Some n"
| "op_item (OP_lookup n _) = Some n"
| "op_item (OP_parents n) = Some n"
| "op_item (OP_create_folder n _) = Some n"
| "op_item (OP_get n _) = Some n"
| "op_item _ = None"

definition refused_deleted :: "string \<Rightarrow> (l1_exn, 'a) outcome \<times> 's \<Rightarrow> 's \<Rightarrow> bool" where
  "refused_deleted identity r s \<longleftrightarrow> (\<exists>m. r = (Raise (L1_storage (V1_DeletedException m identity)), s))"

lemma deleted_refused:
  assumes "vi_deleted (vw_items s ! n)" and "op_item op = Some n" and "case op of OP_copy _ None _ \<Rightarrow> False | OP_move _ None _ \<Rightarrow> False | _ \<Rightarrow> True"
  shows "refused_deleted (vi_identity (vw_items s ! n)) (run_op F E op s) s"
proof -
  have d: "throw_if_destroyed meth n s = Raise (V1_DeletedException
      (meth @ '': \"'' @ vi_identity (vw_items s ! n) @ ''\" was deleted previously'') (vi_identity (vw_items s ! n)))" for meth
    using assms(1) by (simp add: throw_if_destroyed_def Let_def)
  show ?thesis
    using assms(2,3)
    by (cases op) (auto simp: refused_deleted_def l1_map_def copy_task_def move_task_def delete_task_def list_task_def
        lookup_task_def local_parents_def v1_get_def local_create_folder_def local_get_def l1_check_def run_simps d Let_def
        split: option.splits)
qed

text \<open>
  An object whose item was deleted or moved away refuses every operation from then on, whatever else
  happens: the operation throws \<open>DeletedException\<close> with the object's identity and leaves the world as
  it was, also when it was queued before the deletion and runs after it.
\<close>

theorem v1_deleted_refuses:
  assumes "vi_deleted (vw_items (la_client s) ! n)" and "n < length (vw_items (la_client s))"
    and "op_item op = Some n" and "case op of OP_copy _ None _ \<Rightarrow> False | OP_move _ None _ \<Rightarrow> False | _ \<Rightarrow> True"
  shows "(let c = la_client (run_events (l1_step F E) s es) in
    refused_deleted (vi_identity (vw_items (la_client s) ! n)) (run_op F E op c) c)"
proof -
  have "grows (la_client s) (la_client (run_events (l1_step F E) s es))"
    by (rule v1_objects.inv_run) simp
  then show ?thesis
    using deleted_refused [OF _ assms(3,4), of "la_client (run_events (l1_step F E) s es)" F E] assms(1,2)
    by (auto simp: Let_def grows_def)
qed

section \<open>On the file system in memory\<close>

fun split_slash :: "string \<Rightarrow> string list" where
  "split_slash [] = ['''']"
| "split_slash (c # cs) =
     (if c = CHR ''/'' then [] # split_slash cs
      else case split_slash cs of [] \<Rightarrow> [[c]] | x # xs \<Rightarrow> (c # x) # xs)"

fun join_slash :: "string list \<Rightarrow> string" where
  "join_slash [] = ''''"
| "join_slash [x] = x"
| "join_slash (x # xs) = x @ ''/'' @ join_slash xs"

lemma split_slash_nonempty [simp]: "split_slash p \<noteq> []"
  by (induction p) (auto split: list.splits)

lemma join_split [simp]: "join_slash (split_slash p) = p"
proof (induction p)
  case (Cons c cs)
  obtain x xs where x: "split_slash cs = x # xs" using split_slash_nonempty [of cs] by (cases "split_slash cs") auto
  then have "join_slash ((c # x) # xs) = c # join_slash (x # xs)" by (cases xs) auto
  with Cons x show ?case by (cases xs) auto
qed simp

lemma join_append: "xs \<noteq> [] \<Longrightarrow> ys \<noteq> [] \<Longrightarrow> join_slash (xs @ ys) = join_slash xs @ ''/'' @ join_slash ys"
proof (induction xs rule: join_slash.induct)
  case (2 x)
  then show ?case by (cases ys) auto
qed auto

definition mem_paths :: path_api where
  "mem_paths = \<lparr>lp_elements = split_slash, lp_is_absolute = (\<lambda>p. take 1 p = ''/'')\<rparr>"

lemma elements_prefix:
  assumes "take (length (split_slash R)) (split_slash c) = split_slash R"
  shows "inside R c"
proof -
  obtain ys where "split_slash c = split_slash R @ ys"
    using assms append_take_drop_id by metis
  then have "c = join_slash (split_slash R @ ys)" by (metis join_split)
  then show ?thesis
    using join_append [of "split_slash R" ys] by (cases "ys = []") (auto simp: inside_def starts_with_iff)
qed

lemma mem_parent_below:
  assumes "below R p"
  shows "inside R (mem_parent p)"
proof -
  obtain x where p: "p = R @ ''/'' @ x" using assms by (auto simp: below_def starts_with_iff)
  show ?thesis
  proof (cases "CHR ''/'' \<in> set x")
    case True
    then obtain y z where x: "x = y @ CHR ''/'' # z" "CHR ''/'' \<notin> set z" by (meson split_list_last)
    have "\<forall>c \<in> set (rev z). c \<noteq> CHR ''/''" using x(2) by auto
    then have "dropWhile (\<lambda>c. c \<noteq> CHR ''/'') (rev p) = CHR ''/'' # rev (R @ ''/'' @ y)"
      using dropWhile_append2 [of "rev z" "\<lambda>c. c \<noteq> CHR ''/''" "CHR ''/'' # rev (R @ ''/'' @ y)"]
      unfolding p x(1) by simp
    moreover have "p \<noteq> ''/''" using p x by auto
    moreover obtain c cs where c: "rev (R @ ''/'' @ y) = c # cs" by (cases "rev (R @ ''/'' @ y)") auto
    moreover have "R @ ''/'' @ y = rev (c # cs)" using c by (metis rev_rev_ident)
    ultimately have "mem_parent p = R @ ''/'' @ y" by (simp add: mem_parent_def)
    then show ?thesis by (auto simp: inside_def starts_with_iff)
  next
    case False
    then have "\<forall>c \<in> set (rev x). c \<noteq> CHR ''/''" by auto
    then have "dropWhile (\<lambda>c. c \<noteq> CHR ''/'') (rev p) = CHR ''/'' # rev R"
      using dropWhile_append2 [of "rev x" "\<lambda>c. c \<noteq> CHR ''/''" "CHR ''/'' # rev R"] unfolding p by simp
    then show ?thesis
      by (auto simp: mem_parent_def inside_def starts_with_iff split: list.splits)
  qed
qed

lemma below_append: "inside R d \<Longrightarrow> below R (mem_append d n)"
proof -
  assume d: "inside R d"
  have "\<exists>y. mem_append d n = d @ ''/'' @ y"
    by (cases n) (auto simp: mem_append_def)
  with d show ?thesis by (auto simp: inside_def below_def starts_with_iff)
qed

lemma mem_v1_lexical: "v1_lexical mem_fs mem_paths R"
proof -
  have "proper_name mem_fs (mem_unique w V1_TMP_PATTERN)" for w
    by (rule proper_no_slash) (auto simp: mem_unique_def V1_TMP_PATTERN_def V1_TMPFILE_PREFIX_def)
  then show ?thesis
    unfolding v1_lexical_def mem_paths_def
    by (auto simp: mem_entries_def split: if_splits intro: below_append mem_parent_below elements_prefix mem_filename_proper)
      (metis below_append)
qed

definition mem_root_safe :: "string \<Rightarrow> mem \<Rightarrow> mem \<Rightarrow> bool" where
  "mem_root_safe R w0 w \<longleftrightarrow> mem_outside R w = w0 \<and> (\<forall>c. map_of w R \<noteq> Some (Mem_file c))"

lemma below_not_root: "below R p \<Longrightarrow> p \<noteq> R \<and> \<not> inside p R"
  by (auto simp: below_def inside_def starts_with_iff)

lemma mem_safe_add: "mem_root_safe R w0 w \<Longrightarrow> below R p \<Longrightarrow> mem_root_safe R w0 (w @ [(p, node)])"
  using below_not_root [of R p]
  by (auto simp: mem_root_safe_def mem_outside_add inside_below map_add_def split: option.splits)

lemma mem_safe_remove: "mem_root_safe R w0 w \<Longrightarrow> below R p \<Longrightarrow> mem_root_safe R w0 (snd (mem_remove_all p w))"
proof -
  assume safe: "mem_root_safe R w0 w" and p: "below R p"
  have "map_of (filter (\<lambda>(q, _). \<not> inside p q) w) R = map_of w R"
    using below_not_root [OF p] by (induction w) auto
  with safe p show ?thesis
    using mem_remove_outside [of R p w] by (simp add: mem_root_safe_def inside_below mem_remove_all_def)
qed

lemma mem_safe_rename:
  assumes safe: "mem_root_safe R w0 w" and p: "below R p" and q: "below R q"
  shows "mem_root_safe R w0 (snd (mem_rename p q w))"
proof -
  have other: "q @ drop (length p) r \<noteq> R" "R \<noteq> q @ drop (length p) r" for r
    using q by (auto simp: below_def starts_with_iff)
  have "map_of (map (\<lambda>(r, node). (if inside p r then q @ drop (length p) r else r, node)) w) R = map_of w R"
  proof (induction w)
    case (Cons x w)
    then show ?case using other [of "fst x"] below_not_root [OF p] by (cases x; cases "inside p (fst x)") auto
  qed simp
  with safe p q show ?thesis
    using mem_rename_outside [of R p q w] by (auto simp: mem_root_safe_def inside_below mem_rename_def)
qed

lemma mem_v1_confines: "v1_confines mem_fs mem_paths R (mem_root_safe R w0)"
proof -
  have made: "mem_root_safe R w0 (snd (m w))"
    if "mem_root_safe R w0 w" "below R p" "snd (m w) = w \<or> (\<exists>node. snd (m w) = w @ [(p, node)])"
    for m :: "(mem, fs_error, unit) sx" and w p
    using that mem_safe_add by auto
  have "v1_stays_inside mem_fs R (mem_root_safe R w0)"
    unfolding v1_stays_inside_def
  proof (intro conjI allI impI)
    fix w p c
    assume "inside R p" "fs_canonical mem_fs w p = Ok c"
    then show "inside R c" by (simp add: mem_canonical_def split: if_splits)
  next
    fix w st
    assume "mem_root_safe R w0 w" "fs_status mem_fs w R = Ok st"
    then show "st_type st \<noteq> regular_file"
      by (auto simp: mem_status_def mem_root_safe_def split: option.splits mem_node.splits)
  qed (simp_all add: mem_safe_remove mem_safe_rename made mem_ops_shape)
  then show ?thesis using mem_v1_lexical by (simp add: v1_confines_def)
qed

definition sample_env :: l1_env where
  "sample_env = \<lparr>le_paths = mem_paths, le_getenv = (\<lambda>_. Some ''/x''), le_user_data_dir = ''/home'', le_user = ''u'',
     le_uid = 5, le_depth = 3\<rparr>"

definition sample_disk :: mem where
  "sample_disk = [(''/x'', Mem_dir), (''/x/storage-framework'', Mem_dir), (''/x/storage-framework/a'', Mem_file ''1'')]"

definition sample_start :: "mem l1_app" where
  "sample_start = l1_start mem_fs sample_env sample_disk"


theorem v1_deleted_refuses_witness:
  "(let s = run_events (l1_step mem_fs sample_env) sample_start
        [App_calls (OP_lookup 0 ''a''), Pool_runs 0, App_calls (OP_delete 1), App_calls (OP_parents 1), Pool_runs 0];
        c = la_client (run_events (l1_step mem_fs sample_env) s [App_shuts_down]) in
    vi_deleted (vw_items (la_client s) ! 1) \<and>
    refused_deleted ''/x/storage-framework/a'' (run_op mem_fs sample_env (OP_parents 1) c) c)"
proof -
  let ?s = "run_events (l1_step mem_fs sample_env) sample_start
        [App_calls (OP_lookup 0 ''a''), Pool_runs 0, App_calls (OP_delete 1), App_calls (OP_parents 1), Pool_runs 0]"
  have "vi_deleted (vw_items (la_client ?s) ! 1) \<and> 1 < length (vw_items (la_client ?s)) \<and>
      vi_identity (vw_items (la_client ?s) ! 1) = ''/x/storage-framework/a''"
    by code_simp
  moreover from this have "refused_deleted (vi_identity (vw_items (la_client ?s) ! 1)) (run_op mem_fs sample_env (OP_parents 1)
      (la_client (run_events (l1_step mem_fs sample_env) ?s [App_shuts_down])))
      (la_client (run_events (l1_step mem_fs sample_env) ?s [App_shuts_down]))"
    using v1_deleted_refuses [of ?s 1 "OP_parents 1" mem_fs sample_env "[App_shuts_down]"] unfolding Let_def by fastforce
  ultimately show ?thesis unfolding Let_def by metis
qed

end
