(* ===== verification/V1LocalTransfers.thy ===== *)
theory V1LocalTransfers
  imports V1LocalProps LocalDownload
begin

text \<open>
  The transfers of the local back end (\<open>local_client/UploaderImpl.cpp\<close>, \<open>DownloaderImpl.cpp\<close>): a worker
  object in a thread of its own moves the bytes between a socket and a file, and makes the future
  of the transfer ready. The worker is a machine on the events that its thread delivers: data on
  the socket, the end of the channel, the signals of the client. What Qt and the operating system do
  is a parameter, among it whether \<open>abort()\<close> and \<open>disconnectFromServer()\<close> of the socket emit the signal of the
  closed channel before they return. Events may be delivered until the thread has left its loop. An exception that leaves a slot ends the process.
\<close>

section \<open>Uploads\<close>

datatype worker_state = W_in_progress | W_finalized | W_cancelled | W_error

text \<open>\<open>open(path, O_WRONLY | O_CREAT | O_EXCL)\<close> and \<open>close\<close> fail with an errno; the text of the message
  about a short write depends on conversions of Qt.\<close>

record 'w v1os =
  v1_create_excl :: "string \<Rightarrow> ('w, int, unit) sx"
  v1_close :: "'w \<Rightarrow> (int, unit) outcome"
  v1_abort_emits :: bool
  v1_disconnect_emits :: bool
  v1_short_write_msg :: "int \<Rightarrow> int \<Rightarrow> string"
  v1_short_send_msg :: "int \<Rightarrow> int \<Rightarrow> string"

record 'w upload_worker =
  uw_client :: "'w local_client"
  uw_state :: worker_state
  uw_file :: "nat option"
  uw_size :: int
  uw_bytes_read :: int
  uw_path :: string
  uw_root :: nat
  uw_policy :: ConflictPolicy
  uw_use_linkat :: bool
  uw_tmp_fd :: int
  uw_tmp_name :: string
  uw_output :: "string option"   \<comment> \<open>\<open>output_file_\<close>: its contents, if there is one\<close>
  uw_open :: bool                \<comment> \<open>the read channel is open and its signals are connected\<close>
  uw_future :: "nat v1_future"
  uw_initialized :: bool
  uw_error :: "string \<times> int"
  uw_running :: bool             \<comment> \<open>\<open>quit()\<close> was not called\<close>

type_synonym ('w, 'a) uw = "('w upload_worker, l1_exn, 'a) sx"

definition UploadWorker_init ::
  "'w local_client \<Rightarrow> nat option \<Rightarrow> int \<Rightarrow> string \<Rightarrow> ConflictPolicy \<Rightarrow> nat \<Rightarrow> 'w upload_worker" where
  "UploadWorker_init c file sz path policy root =
     \<lparr>uw_client = c, uw_state = W_in_progress, uw_file = file, uw_size = sz, uw_bytes_read = 0, uw_path = path,
      uw_root = root, uw_policy = policy, uw_use_linkat = True, uw_tmp_fd = -1, uw_tmp_name = '''', uw_output = None,
      uw_open = False, uw_future = v1_future_init, uw_initialized = False, uw_error = ('''', 0), uw_running = True\<rparr>"

definition on_client :: "('w, 'a) l1 \<Rightarrow> ('w, 'a) uw" where
  "on_client m w = (case m (uw_client w) of (r, c) \<Rightarrow> (r, w\<lparr>uw_client := c\<rparr>))"

definition uw_fs :: "'w upload_worker \<Rightarrow> 'w" where
  "uw_fs w = lw_fs (uw_client w)"

text \<open>A call of the operating system that fails with an errno.\<close>

definition uw_os :: "('w, int, 'a) sx \<Rightarrow> 'w upload_worker \<Rightarrow> (int, 'a) outcome \<times> 'w upload_worker" where
  "uw_os m w = (case m (uw_fs w) of (r, f) \<Rightarrow> (r, w\<lparr>uw_client := (uw_client w)\<lparr>lw_fs := f\<rparr>\<rparr>))"

definition uw_fail :: "v1_exception \<Rightarrow> 'w upload_worker \<Rightarrow> 'w upload_worker" where
  "uw_fail e w = w\<lparr>uw_future := reportFinished (reportException e (uw_future w))\<rparr>"

text \<open>\<open>state_ = error; qf_.reportException(e); qf_.reportFinished();\<close>\<close>

definition uw_error_out :: "v1_exception \<Rightarrow> 'w upload_worker \<Rightarrow> 'w upload_worker" where
  "uw_error_out e w = uw_fail e (w\<lparr>uw_state := W_error\<rparr>)"

subsection \<open>Finalisation\<close>

definition resource_error :: "'w fsapi \<Rightarrow> string \<Rightarrow> int \<Rightarrow> v1_exception" where
  "resource_error F msg err = V1_ResourceException (msg @ fs_strerror F err) err"

text \<open>The file that is written: the one that the uploader was made for, or a new one. \<open>None\<close>: the upload
  has failed.\<close>

definition uw_target :: "'w fsapi \<Rightarrow> 'w v1os \<Rightarrow> ('w, nat option) uw" where
  "uw_target F V w =
     (case (case uw_file w of Some n \<Rightarrow> if item_lockable (uw_client w) n then Some n else None | None \<Rightarrow> None) of
        Some n \<Rightarrow>
          (case v1_has_conflict F n (uw_client w) of
             Ok True \<Rightarrow> (Ok None, uw_error_out (V1_ConflictException ''Uploader::finish_upload(): ETag mismatch'') w)
           | Ok False \<Rightarrow> (Ok (Some n), w)
           | _ \<Rightarrow> (Abort, w))
      | None \<Rightarrow>
          (case uw_os (v1_create_excl V (uw_path w)) w of
             (Raise err, w) \<Rightarrow> (Ok None, uw_error_out (V1_ExistsException
               (''Uploader::finish_upload(): item with name \"'' @ uw_path w @ ''\" exists already'')
               (uw_path w) (path_filename F (uw_path w))) w)
           | (Abort, w) \<Rightarrow> (Abort, w)
           | (Ok _, w) \<Rightarrow>
               (case v1_close V (uw_fs w) of
                  Raise err \<Rightarrow> (Ok None, uw_error_out (resource_error F
                    ''Uploader::finish_upload(): cannot close tmp file: '' err) w)
                | Abort \<Rightarrow> (Abort, w)
                | Ok _ \<Rightarrow> sx_bind (on_client (v1_make_file F (uw_path w) (uw_root w))) (\<lambda>n. sx_return (Some n)) w)))"

text \<open>Linking the temporary file into place; \<open>True\<close> when it worked.\<close>

definition uw_link :: "'w fsapi \<Rightarrow> 'w osapi \<Rightarrow> string \<Rightarrow> ('w, bool) uw" where
  "uw_link F A new_path w =
     (let contents = (case uw_output w of Some c \<Rightarrow> c | None \<Rightarrow> '''') in
      if uw_use_linkat w then
        (let w = w\<lparr>uw_client := (uw_client w)\<lparr>lw_fs := os_unlink A new_path (uw_fs w)\<rparr>\<rparr> in
         case uw_os (os_linkat A contents new_path) w of
           (Ok _, w) \<Rightarrow> (Ok True, w)
         | (Raise err, w) \<Rightarrow> (Ok False, uw_error_out (resource_error F
             (''Uploader::finish_upload(): linkat \"/proc/self/fd/'' @ int_to_string (uw_tmp_fd w) @ ''\" to \"''
               @ new_path @ ''\" failed: '') err) w)
         | (Abort, w) \<Rightarrow> (Abort, w))
      else
        (case uw_os (os_rename A contents (uw_tmp_name w) new_path) w of
           (Ok _, w) \<Rightarrow> (Ok True, w)
         | (Raise err, w) \<Rightarrow> (Ok False, uw_error_out (resource_error F
             (''Uploader::finish_upload(): rename \"'' @ uw_tmp_name w @ ''\" to \"'' @ new_path @ ''\" failed: '') err) w)
         | (Abort, w) \<Rightarrow> (Abort, w)))"

definition uw_finalize :: "'w fsapi \<Rightarrow> 'w osapi \<Rightarrow> 'w v1os \<Rightarrow> ('w, unit) uw" where
  "uw_finalize F A V = sx_bind (uw_target F V) (\<lambda>target.
     case target of
       None \<Rightarrow> sx_return ()
     | Some n \<Rightarrow> (\<lambda>w.
         case qf_flush A (uw_fs w) of
           Raise (err, msg) \<Rightarrow> (Ok (), uw_error_out (V1_ResourceException
             (''Uploader::finish_upload(): cannot flush output file: '' @ msg) err) w)
         | Abort \<Rightarrow> (Abort, w)
         | Ok _ \<Rightarrow>
             sx_bind (on_client (l1_check (native_identity n))) (\<lambda>new_path.
             sx_bind (uw_link F A new_path) (\<lambda>ok.
             if \<not> ok then sx_return ()
             else sx_bind (on_client (v1_set_timestamps F n)) (\<lambda>_ w.
               (Ok (), w\<lparr>uw_state := W_finalized,
                  uw_future := reportFinished (reportResult n (uw_future w))\<rparr>)))) w))"

subsection \<open>The slots\<close>

definition uw_do_finish :: "'w fsapi \<Rightarrow> 'w osapi \<Rightarrow> 'w v1os \<Rightarrow> ('w, unit) uw" where
  "uw_do_finish F A V =
     sx_bind (\<lambda>w. case uw_state w of
         W_in_progress \<Rightarrow>
           if uw_bytes_read w \<noteq> uw_size w then
             (Ok (), uw_fail (V1_LogicException (''Uploader::finish_upload(): '' @ uw_path w @ '': upload size of ''
               @ int_to_string (uw_size w) @ '' does not match actual number of bytes read: ''
               @ int_to_string (uw_bytes_read w))) w)
           else uw_finalize F A V (w\<lparr>uw_state := W_finalized\<rparr>)
       | W_finalized \<Rightarrow> (Abort, w)
       | W_cancelled \<Rightarrow> (Ok (), uw_fail (V1_CancelledException ''Uploader::finish_upload(): upload was cancelled'') w)
       | W_error \<Rightarrow> (Ok (), uw_fail (V1_ResourceException (fst (uw_error w)) (snd (uw_error w))) w)) (\<lambda>_ w.
     (Ok (), if fu_finished (uw_future w) then w\<lparr>uw_running := False\<rparr> else w))"

text \<open>\<open>handle_error\<close>: there may be no output file yet. After \<open>abort()\<close> nothing is left to be read.\<close>

definition uw_handle_error :: "'w fsapi \<Rightarrow> 'w osapi \<Rightarrow> 'w v1os \<Rightarrow> string \<Rightarrow> int \<Rightarrow> ('w, unit) uw" where
  "uw_handle_error F A V msg code =
     sx_bind (\<lambda>w.
       if uw_state w = W_in_progress then
         if uw_output w = None then (Abort, w)
         else if uw_open w \<and> v1_abort_emits V then uw_do_finish F A V (w\<lparr>uw_open := False\<rparr>)
         else (Ok (), w\<lparr>uw_open := False\<rparr>)
       else (Ok (), w)) (\<lambda>_ w.
     uw_do_finish F A V (w\<lparr>uw_state := W_error, uw_error := (''Uploader: '' @ msg, code)\<rparr>))"

definition start_uploading :: "'w fsapi \<Rightarrow> 'w osapi \<Rightarrow> 'w v1os \<Rightarrow> ('w, unit) uw" where
  "start_uploading F A V w =
     (let w = w\<lparr>uw_open := True\<rparr>;
          parent_path = path_parent F (uw_path w) in
      if os_open_tmpfile A (uw_fs w) parent_path = -1 then
        (let tmpfile = parent_path @ ''/'' @ V1_TMPFILE_PREFIX @ ''XXXXXX'';
             w = w\<lparr>uw_use_linkat := False\<rparr> in
         case uw_os (os_mkstemp A tmpfile) w of
           (Raise err, w) \<Rightarrow> uw_handle_error F A V
             (''cannot create temp file \"'' @ tmpfile @ ''\": '' @ fs_strerror F err) err (w\<lparr>uw_initialized := True\<rparr>)
         | (Abort, w) \<Rightarrow> (Abort, w)
         | (Ok (fd, name), w) \<Rightarrow>
             (Ok (), w\<lparr>uw_tmp_fd := fd, uw_tmp_name := name, uw_output := Some '''', uw_initialized := True\<rparr>))
      else (Ok (), w\<lparr>uw_tmp_fd := os_open_tmpfile A (uw_fs w) parent_path, uw_output := Some '''',
                     uw_initialized := True\<rparr>))"

definition uw_on_bytes_ready :: "'w fsapi \<Rightarrow> 'w osapi \<Rightarrow> 'w v1os \<Rightarrow> string \<Rightarrow> ('w, unit) uw" where
  "uw_on_bytes_ready F A V buf w =
     (if buf = '''' then (Ok (), w)
      else
        let w = w\<lparr>uw_bytes_read := uw_bytes_read w + int (length buf)\<rparr> in
        case qf_write A (uw_fs w) buf of
          Raise (err, msg) \<Rightarrow> uw_handle_error F A V (''socket error: '' @ msg) err w
        | Abort \<Rightarrow> (Abort, w)
        | Ok n \<Rightarrow>
            (let w = w\<lparr>uw_output := map_option (\<lambda>c. c @ take (nat n) buf) (uw_output w)\<rparr> in
             if n \<noteq> int (length buf) then
               uw_handle_error F A V (v1_short_write_msg V (int (length buf)) n) 0 w
             else (Ok (), w)))"

definition uw_do_cancel :: "'w fsapi \<Rightarrow> 'w osapi \<Rightarrow> 'w v1os \<Rightarrow> ('w, unit) uw" where
  "uw_do_cancel F A V w =
     (if uw_state w = W_in_progress then
        uw_do_finish F A V (w\<lparr>uw_open := False, uw_state := W_cancelled\<rparr>)
      else (Ok (), w))"

definition uw_on_read_channel_finished :: "'w fsapi \<Rightarrow> 'w osapi \<Rightarrow> 'w v1os \<Rightarrow> string \<Rightarrow> ('w, unit) uw" where
  "uw_on_read_channel_finished F A V buf =
     sx_bind (uw_on_bytes_ready F A V buf) (\<lambda>_. uw_do_finish F A V)"

text \<open>The destructor: the named temporary file of a failed upload goes away.\<close>

definition UploadWorker_destroy :: "'w osapi \<Rightarrow> 'w upload_worker \<Rightarrow> 'w upload_worker" where
  "UploadWorker_destroy A w =
     (if uw_state w = W_error \<and> \<not> uw_use_linkat w \<and> uw_output w \<noteq> None
      then w\<lparr>uw_client := (uw_client w)\<lparr>lw_fs := os_unlink A (uw_tmp_name w) (uw_fs w)\<rparr>\<rparr> else w)"

text \<open>The events of the worker's thread, \<open>None\<close> after the process has ended. The channel finishes once.\<close>

datatype uploader_event = UE_data string | UE_channel_finished string | UE_cancel

definition survives :: "('e, unit) outcome \<times> 's \<Rightarrow> 's option" where
  "survives r = (case r of (Ok _, s) \<Rightarrow> Some s | _ \<Rightarrow> None)"

fun uw_step :: "'w fsapi \<Rightarrow> 'w osapi \<Rightarrow> 'w v1os \<Rightarrow> 'w upload_worker option \<Rightarrow> uploader_event \<Rightarrow> 'w upload_worker option" where
  "uw_step F A V None e = None"
| "uw_step F A V (Some w) (UE_data buf) =
     (if uw_open w then survives (uw_on_bytes_ready F A V buf w) else Some w)"
| "uw_step F A V (Some w) (UE_channel_finished buf) =
     (if uw_open w then survives (uw_on_read_channel_finished F A V buf (w\<lparr>uw_open := False\<rparr>)) else Some w)"
| "uw_step F A V (Some w) UE_cancel = survives (uw_do_cancel F A V w)"

text \<open>The constructor of the uploader: a socket pair, a worker and its thread; \<open>Inl\<close> with the errno of
  \<open>socketpair\<close>.\<close>

definition local_uploader ::
  "'w fsapi \<Rightarrow> 'w osapi \<Rightarrow> 'w v1os \<Rightarrow> int option \<Rightarrow> 'w local_client \<Rightarrow> upload_args \<Rightarrow> nat \<Rightarrow>
     nat v1_future + 'w upload_worker option" where
  "local_uploader F A V sock_errno c args root =
     (case args of (file, sz, path, policy) \<Rightarrow>
      if sz < 0 then Inr None
      else case sock_errno of
          Some err \<Rightarrow> Inl (v1_exceptional_future (resource_error F ''Uploader: cannot create socket pair: '' err))
        | None \<Rightarrow> Inr (survives (start_uploading F A V (UploadWorker_init c file sz path policy root))))"

subsection \<open>What an upload does\<close>

definition receiving_upload :: "string \<Rightarrow> 'w upload_worker \<Rightarrow> bool" where
  "receiving_upload d w \<longleftrightarrow> uw_state w = W_in_progress \<and> uw_open w \<and> uw_output w = Some d \<and>
     uw_bytes_read w = int (length d) \<and> uw_future w = v1_future_init"

definition receive :: "string \<Rightarrow> 'w upload_worker \<Rightarrow> 'w upload_worker" where
  "receive d w = w\<lparr>uw_output := map_option (\<lambda>c. c @ d) (uw_output w), uw_bytes_read := uw_bytes_read w + int (length d)\<rparr>"

lemma receive_frame [simp]:
  "uw_client (receive d w) = uw_client w" "uw_state (receive d w) = uw_state w" "uw_file (receive d w) = uw_file w"
  "uw_size (receive d w) = uw_size w" "uw_path (receive d w) = uw_path w" "uw_open (receive d w) = uw_open w"
  "uw_use_linkat (receive d w) = uw_use_linkat w" "uw_fs (receive d w) = uw_fs w"
  by (simp_all add: receive_def uw_fs_def)

lemma receive_receive [simp]: "receive e (receive d w) = receive (d @ e) w" "receive '''' w = w"
  by (simp_all add: receive_def option.map_comp o_def option.map_id0 option.map_ident)

lemma receiving_receive: "receiving_upload c w \<Longrightarrow> receiving_upload (c @ d) (receive d w)"
  by (simp add: receiving_upload_def receive_def)

lemma bytes_ready_receive:
  assumes "writes_all A"
  shows "uw_on_bytes_ready F A V d w = (Ok (), receive d w)"
  using assms by (simp add: uw_on_bytes_ready_def writes_all_def receive_def Let_def uw_fs_def option.map_ident)

lemma data_run:
  assumes "writes_all A" and "uw_open w"
  shows "run_events (uw_step F A V) (Some w) (map UE_data ds) = Some (receive (concat ds) w)"
  using assms(2)
  by (induction ds arbitrary: w) (simp_all add: bytes_ready_receive [OF assms(1)] survives_def)

text \<open>What the steps of \<open>finalize\<close> do to the worker.\<close>

lemma uw_fs_simps [simp]:
  "uw_fs (w\<lparr>uw_client := c\<rparr>) = lw_fs c" "uw_fs (w\<lparr>uw_state := st\<rparr>) = uw_fs w"
  "uw_fs (w\<lparr>uw_future := q\<rparr>) = uw_fs w" "uw_fs (w\<lparr>uw_open := b\<rparr>) = uw_fs w"
  "uw_fs (w\<lparr>uw_running := b\<rparr>) = uw_fs w"
  by (simp_all add: uw_fs_def)

text \<open>The file that \<open>uw_target\<close> found for a worker \<open>w\<close>, in the client \<open>c\<close>.\<close>

definition target_found :: "'w fsapi \<Rightarrow> 'w v1os \<Rightarrow> 'w upload_worker \<Rightarrow> nat \<Rightarrow> 'w local_client \<Rightarrow> bool" where
  "target_found F V w n c \<longleftrightarrow>
     (if \<exists>m. uw_file w = Some m \<and> item_lockable (uw_client w) m
      then uw_file w = Some n \<and> v1_has_conflict F n (uw_client w) = Ok False \<and> c = uw_client w
      else v1_create_excl V (uw_path w) (uw_fs w) = (Ok (), lw_fs c) \<and> n = length (vw_items (uw_client w)) \<and>
           (\<exists>i. vw_items c = vw_items (uw_client w) @ [i] \<and> vi_identity i = uw_path w))"

lemma sx_query_bind: "sx_bind (sx_query q) f s = (case q s of Ok a \<Rightarrow> f a s | Raise e \<Rightarrow> (Raise e, s) | Abort \<Rightarrow> (Abort, s))"
  by (simp add: sx_bind_def sx_query_def split: outcome.splits)

lemma make_file_Ok:
  assumes "v1_make_file F path r s = (Ok n, s')"
  shows "n = length (vw_items s) \<and> (\<exists>i. s' = s\<lparr>vw_items := vw_items s @ [i]\<rparr> \<and> vi_identity i = path)"
  using assms
  by (auto simp: v1_make_file_def v1_make_item_def v1_item_init_def v1_alloc_def l1_query_def sx_bind_def sx_query_def
      sx_lift_def sx_return_def split: outcome.splits prod.splits)

lemma target_some:
  assumes "uw_target F V w = (Ok (Some n), w1)"
  shows "w1 = w\<lparr>uw_client := uw_client w1\<rparr> \<and> target_found F V w n (uw_client w1)"
proof (cases "\<exists>m. uw_file w = Some m \<and> item_lockable (uw_client w) m")
  case True
  with assms show ?thesis
    by (auto simp: uw_target_def target_found_def split: outcome.splits bool.splits)
next
  case False
  then have "(case uw_file w of Some n \<Rightarrow> if item_lockable (uw_client w) n then Some n else None | None \<Rightarrow> None) = None"
    by (auto split: option.splits)
  with assms obtain f where f: "v1_create_excl V (uw_path w) (uw_fs w) = (Ok (), f)"
    and m: "sx_bind (on_client (v1_make_file F (uw_path w) (uw_root w))) (\<lambda>n. sx_return (Some n))
      (w\<lparr>uw_client := (uw_client w)\<lparr>lw_fs := f\<rparr>\<rparr>) = (Ok (Some n), w1)"
    by (auto simp: uw_target_def uw_os_def split: outcome.splits prod.splits)
  then obtain c where c: "v1_make_file F (uw_path w) (uw_root w) ((uw_client w)\<lparr>lw_fs := f\<rparr>) = (Ok n, c)"
    and "w1 = w\<lparr>uw_client := c\<rparr>"
    by (auto simp: sx_bind_def on_client_def sx_return_def split: outcome.splits prod.splits)
  with make_file_Ok [OF c] False f show ?thesis by (auto simp: target_found_def)
qed

text \<open>The bytes \<open>D\<close> come to be at \<open>path\<close>: one step of the file system, after the removal of what was there
  when the temporary file has no name.\<close>

definition put_in_place :: "'w osapi \<Rightarrow> 'w upload_worker \<Rightarrow> string \<Rightarrow> string \<Rightarrow> 'w \<Rightarrow> 'w \<Rightarrow> bool" where
  "put_in_place A w D path f f' \<longleftrightarrow>
     (if uw_use_linkat w then os_linkat A D path (os_unlink A path f)
      else os_rename A D (uw_tmp_name w) path f) = (Ok (), f')"

lemma link_true:
  assumes "uw_link F A path w = (Ok True, w1)" and "uw_output w = Some D"
  shows "w1 = w\<lparr>uw_client := (uw_client w)\<lparr>lw_fs := uw_fs w1\<rparr>\<rparr> \<and> put_in_place A w D path (uw_fs w) (uw_fs w1)"
  using assms
  by (cases w) (auto simp: uw_link_def uw_os_def put_in_place_def Let_def uw_fs_def split: if_splits outcome.splits prod.splits)

lemma set_timestamps_Ok:
  assumes "v1_set_timestamps F n s = (Ok u, s')"
  shows "lw_fs s' = lw_fs s \<and> vi_identity (vw_items s' ! m) = vi_identity (vw_items s ! m)"
  using assms
  by (cases "n < length (vw_items s)")
    (auto simp: v1_set_timestamps_def nth_list_update list_update_beyond split: outcome.splits prod.splits)

definition committed_upload ::
  "'w fsapi \<Rightarrow> 'w osapi \<Rightarrow> 'w v1os \<Rightarrow> string \<Rightarrow> 'w upload_worker \<Rightarrow> 'w upload_worker \<Rightarrow> bool" where
  "committed_upload F A V D w w' \<longleftrightarrow>
     uw_future w' = v1_ready_future (hd (fu_results (uw_future w'))) \<and> uw_state w' = W_finalized \<and>
     (\<exists>c. target_found F V w (hd (fu_results (uw_future w'))) c \<and>
       put_in_place A w D (vi_identity (vw_items (uw_client w') ! hd (fu_results (uw_future w')))) (lw_fs c) (uw_fs w'))"

lemma fail_results [simp]: "fu_results (uw_future (uw_fail e w)) = fu_results (uw_future w)"
  "fu_results (uw_future (uw_error_out e w)) = fu_results (uw_future w)"
  by (simp_all add: uw_fail_def uw_error_out_def reportException_def reportFinished_def)

lemma target_none_results:
  "uw_target F V w = (Ok None, w1) \<Longrightarrow> fu_results (uw_future w1) = fu_results (uw_future w)"
  by (auto simp: uw_target_def uw_os_def sx_bind_def sx_return_def
      split: outcome.splits bool.splits option.splits prod.splits if_splits)

lemma link_false_results:
  "uw_link F A p w = (Ok False, w1) \<Longrightarrow> fu_results (uw_future w1) = fu_results (uw_future w)"
  by (auto simp: uw_link_def uw_os_def Let_def split: outcome.splits prod.splits if_splits)

lemma native_identity_Ok: "native_identity n c = Ok p \<Longrightarrow> p = vi_identity (vw_items c ! n)"
  by (cases "throw_if_destroyed ''Item::native_identity()'' n c") (simp_all add: native_identity_def)

lemma client_check: "on_client (l1_check q) w = (map_raise L1_storage (q (uw_client w)), w)"
  by (simp add: on_client_def l1_check_def sx_query_def)

lemma finalize_links:
  assumes fin: "uw_finalize F A V w = (Ok (), w')" and t: "uw_target F V w = (Ok (Some n), w1)"
    and res: "fu_results (uw_future w') \<noteq> []" and none: "fu_results (uw_future w1) = []"
  obtains w2 c where "uw_link F A (vi_identity (vw_items (uw_client w1) ! n)) w1 = (Ok True, w2)"
    and "v1_set_timestamps F n (uw_client w2) = (Ok (), c)"
    and "w' = w2\<lparr>uw_client := c, uw_state := W_finalized, uw_future := reportFinished (reportResult n (uw_future w2))\<rparr>"
proof -
  define p where "p = vi_identity (vw_items (uw_client w1) ! n)"
  obtain r w2 where l: "uw_link F A p w1 = (r, w2)" by fastforce
  from fin t have "(case qf_flush A (uw_fs w1) of Ok _ \<Rightarrow> True | _ \<Rightarrow> False)"
    using res none by (auto simp: uw_finalize_def sx_bind_def split: outcome.splits)
  with fin t obtain path where path: "native_identity n (uw_client w1) = Ok path"
    and rest: "sx_bind (uw_link F A path) (\<lambda>ok. if \<not> ok then sx_return ()
        else sx_bind (on_client (v1_set_timestamps F n)) (\<lambda>_ w.
          (Ok (), w\<lparr>uw_state := W_finalized, uw_future := reportFinished (reportResult n (uw_future w))\<rparr>))) w1 = (Ok (), w')"
    by (cases "native_identity n (uw_client w1)")
      (auto simp: uw_finalize_def sx_bind_def client_check split: outcome.splits)
  note p = native_identity_Ok [OF path, folded p_def]
  with rest l none res have "r = Ok True"
    by (auto simp: sx_bind_def sx_return_def dest: link_false_results split: outcome.splits if_splits)
  with that l p rest show ?thesis
    by (auto simp: sx_bind_def on_client_def p_def split: outcome.splits prod.splits)
qed

lemma finalize_commits:
  assumes fin: "uw_finalize F A V w = (Ok (), w')" and new: "uw_future w = v1_future_init" and D: "uw_output w = Some D"
    and res: "fu_results (uw_future w') \<noteq> []"
  shows "committed_upload F A V D w w'"
proof -
  have none: "fu_results (uw_future w) = []" using new by (simp add: v1_future_init_def)
  obtain r w1 where t: "uw_target F V w = (r, w1)" by fastforce
  with fin obtain target where "r = Ok target" by (auto simp: uw_finalize_def sx_bind_def split: outcome.splits)
  moreover from this t fin res none have "target \<noteq> None"
    by (cases target) (auto simp: uw_finalize_def sx_bind_def sx_return_def dest: target_none_results)
  ultimately obtain n where n: "r = Ok (Some n)" by blast
  note w1 = target_some [OF t [unfolded n]]
  then obtain c1 where c1: "w1 = w\<lparr>uw_client := c1\<rparr>" by blast
  then have f1: "uw_future w1 = v1_future_init" "uw_output w1 = Some D"
    "uw_use_linkat w1 = uw_use_linkat w" "uw_tmp_name w1 = uw_tmp_name w"
    using new D by simp_all
  with new none obtain w2 c where l: "uw_link F A (vi_identity (vw_items (uw_client w1) ! n)) w1 = (Ok True, w2)"
    and c: "v1_set_timestamps F n (uw_client w2) = (Ok (), c)"
    and w': "w' = w2\<lparr>uw_client := c, uw_state := W_finalized, uw_future := reportFinished (reportResult n (uw_future w2))\<rparr>"
    using finalize_links [OF fin t [unfolded n] res] by metis
  note l2 = link_true [OF l f1(2)]
  then obtain f where "w2 = w1\<lparr>uw_client := (uw_client w1)\<lparr>lw_fs := f\<rparr>\<rparr>" by blast
  with l2 f1 have "uw_future w2 = v1_future_init" "vw_items (uw_client w2) = vw_items (uw_client w1)"
    "put_in_place A w D (vi_identity (vw_items (uw_client w1) ! n)) (lw_fs (uw_client w1)) (uw_fs w2)"
    by (simp_all add: put_in_place_def uw_fs_def split: if_splits)
  with w1 set_timestamps_Ok [OF c, of n] show ?thesis
    by (auto simp: committed_upload_def w' v1_ready_future_def reportResult_def reportFinished_def v1_future_init_def uw_fs_def)
qed

text \<open>
  The end of the channel, for a worker that has all bytes in its temporary file.
\<close>

lemma finish_receiving_upload:
  assumes "receiving_upload D w"
  shows "uw_do_finish F A V (w\<lparr>uw_open := False\<rparr>) =
    (if int (length D) \<noteq> uw_size w then
       (Ok (), w\<lparr>uw_open := False, uw_running := False, uw_future := v1_exceptional_future (V1_LogicException
          (''Uploader::finish_upload(): '' @ uw_path w @ '': upload size of '' @ int_to_string (uw_size w)
           @ '' does not match actual number of bytes read: '' @ int_to_string (int (length D))))\<rparr>)
     else sx_bind (uw_finalize F A V) (\<lambda>_ w. (Ok (), if fu_finished (uw_future w) then w\<lparr>uw_running := False\<rparr> else w))
       (w\<lparr>uw_open := False, uw_state := W_finalized\<rparr>))"
  using assms
  by (simp add: uw_do_finish_def sx_bind_def receiving_upload_def uw_fail_def v1_exceptional_future_def)

lemma channel_finished_run:
  assumes "writes_all A" and "receiving_upload '''' w"
  shows "run_events (uw_step F A V) (Some w) (map UE_data ds @ [UE_channel_finished d]) =
    survives (uw_do_finish F A V ((receive (concat ds @ d) w)\<lparr>uw_open := False\<rparr>))"
    and "receiving_upload (concat ds @ d) (receive (concat ds @ d) w)"
proof -
  have "uw_open w" using assms(2) by (simp add: receiving_upload_def)
  moreover have "receive d ((receive (concat ds) w)\<lparr>uw_open := False\<rparr>) = (receive (concat ds @ d) w)\<lparr>uw_open := False\<rparr>"
    by (simp add: receive_def option.map_comp o_def)
  ultimately show "run_events (uw_step F A V) (Some w) (map UE_data ds @ [UE_channel_finished d]) =
    survives (uw_do_finish F A V ((receive (concat ds @ d) w)\<lparr>uw_open := False\<rparr>))"
    by (simp add: data_run [OF assms(1)] uw_on_read_channel_finished_def sx_bind_def
        bytes_ready_receive [OF assms(1)])
  show "receiving_upload (concat ds @ d) (receive (concat ds @ d) w)"
    using receiving_receive [OF assms(2), of "concat ds @ d"] by simp
qed

lemma target_found_state [simp]:
  "target_found F V (w\<lparr>uw_open := b, uw_state := st\<rparr>) = target_found F V w"
  "put_in_place A (w\<lparr>uw_open := b, uw_state := st\<rparr>) = put_in_place A w"
  "target_found F V (receive d w) = target_found F V w" "put_in_place A (receive d w) = put_in_place A w"
  by (auto simp: fun_eq_iff target_found_def put_in_place_def receive_def uw_fs_def)

text \<open>
  C14. An upload of the local back end whose future delivers a file has received as many bytes as were
  announced, and these bytes, in their order, are what was put in place at the path of that file: for the
  uploader of an existing file, that file, and only if its ETag is still the one on the disk; otherwise a
  file that did not exist before. The future is ready with that one file.
\<close>

theorem v1_upload_commits:
  assumes A: "writes_all A" and w: "receiving_upload '''' w"
    and run: "run_events (uw_step F A V) (Some w) (map UE_data ds @ [UE_channel_finished d]) = Some w'"
    and res: "fu_results (uw_future w') \<noteq> []"
  shows "int (length (concat ds @ d)) = uw_size w \<and> committed_upload F A V (concat ds @ d) w w'"
proof -
  define D where "D = concat ds @ d"
  note fin = channel_finished_run(1) [OF A w, of F V ds d, folded D_def] channel_finished_run(2) [OF A w, of ds d, folded D_def]
  have w0: "uw_future w = v1_future_init" "uw_output (receive D w) = Some D"
    using w by (simp_all add: receiving_upload_def receive_def)
  note run = run [unfolded fin(1)]
  have eq: "int (length D) = uw_size w"
    using run res by (auto simp: finish_receiving_upload [OF fin(2)] survives_def v1_exceptional_future_def
        v1_future_init_def reportException_def reportFinished_def split: if_splits)
  with run obtain w2 where z: "uw_finalize F A V ((receive D w)\<lparr>uw_open := False, uw_state := W_finalized\<rparr>) = (Ok (), w2)"
    and w': "w' = (if fu_finished (uw_future w2) then w2\<lparr>uw_running := False\<rparr> else w2)"
    by (auto simp: finish_receiving_upload [OF fin(2)] survives_def sx_bind_def split: outcome.splits prod.splits)
  have "fu_results (uw_future w2) \<noteq> []" using res w' by (simp split: if_splits)
  from finalize_commits [OF z _ _ this] w0 have "committed_upload F A V D (receive D w) w2"
    by (simp add: committed_upload_def receive_def)
  then have "committed_upload F A V D w w'" by (simp add: committed_upload_def w')
  with eq show ?thesis by (simp add: D_def)
qed

text \<open>
  Uploads that are given up. The worker may still get the signal of a second \<open>cancel\<close>.
\<close>

definition abandoned :: "'w local_client \<Rightarrow> v1_exception \<Rightarrow> 'w upload_worker option \<Rightarrow> bool" where
  "abandoned c x s \<longleftrightarrow> (\<exists>w. s = Some w \<and> uw_client w = c \<and> uw_future w = v1_exceptional_future x \<and>
     \<not> uw_open w \<and> \<not> uw_running w \<and> (uw_state w = W_in_progress \<or> uw_state w = W_cancelled))"

interpretation given_up: invariant_machine "uw_step F A V" "abandoned c x" for F A V c x
proof
  fix s e
  assume "abandoned c x s"
  then show "abandoned c x (uw_step F A V s e)"
    by (cases e) (auto simp: abandoned_def uw_do_cancel_def uw_do_finish_def uw_fail_def sx_bind_def survives_def
        v1_exceptional_future_def)
qed

lemma cancel_abandons:
  assumes "receiving_upload D w"
  shows "abandoned (uw_client w) (V1_CancelledException ''Uploader::finish_upload(): upload was cancelled'')
    (uw_step F A V (Some w) UE_cancel)"
  using assms
  by (simp add: receiving_upload_def abandoned_def uw_do_cancel_def uw_do_finish_def uw_fail_def sx_bind_def survives_def
      v1_exceptional_future_def)

text \<open>
  An upload of the local back end that is cancelled while it receives, or that ends with another number
  of bytes than was announced, leaves the disk and all objects as they were before its first byte: its future
  is ready with a \<open>CancelledException\<close> or a \<open>LogicException\<close>, and this is so whatever happens afterwards.
\<close>

theorem v1_upload_abandoned:
  assumes A: "writes_all A" and w: "receiving_upload '''' w"
    and stop: "stop = UE_cancel \<or> stop = UE_channel_finished d \<and> int (length (concat ds @ d)) \<noteq> uw_size w"
  shows "\<exists>w' x. run_events (uw_step F A V) (Some w) (map UE_data ds @ stop # later) = Some w' \<and>
    uw_client w' = uw_client w \<and> uw_future w' = v1_exceptional_future x \<and>
    v1_exception_name x = (if stop = UE_cancel then ''CancelledException'' else ''LogicException'')"
proof -
  let ?s = "uw_step F A V (run_events (uw_step F A V) (Some w) (map UE_data ds)) stop"
  have "uw_open w" using w by (simp add: receiving_upload_def)
  note run = data_run [OF A this, of F V ds]
  have "\<exists>x. abandoned (uw_client w) x ?s \<and>
    v1_exception_name x = (if stop = UE_cancel then ''CancelledException'' else ''LogicException'')"
  proof (cases "stop = UE_cancel")
    case True
    with receiving_receive [OF w, of "concat ds"] show ?thesis
      using cancel_abandons [of "concat ds" "receive (concat ds) w" F A V] run by fastforce
  next
    case False
    with stop have d: "stop = UE_channel_finished d" "int (length (concat ds @ d)) \<noteq> uw_size w" by auto
    have "?s = survives (uw_do_finish F A V ((receive (concat ds @ d) w)\<lparr>uw_open := False\<rparr>))"
      using channel_finished_run(1) [OF A w, of F V ds d] d(1) by simp
    with d False finish_receiving_upload [OF channel_finished_run(2) [OF A w, of ds d], of F A V] w show ?thesis
      by (auto simp: survives_def abandoned_def receiving_upload_def)
  qed
  then obtain x where "abandoned (uw_client w) x ?s"
    and x: "v1_exception_name x = (if stop = UE_cancel then ''CancelledException'' else ''LogicException'')" by blast
  from given_up.inv_run [OF this(1), of F A V later] x show ?thesis
    by (auto simp: abandoned_def)
qed

section \<open>Downloads\<close>

text \<open>
  The worker reads the file in chunks, writes them to the socket and goes on when the socket has passed
  bytes on. The file system of the worker does not change: the file keeps its contents during the transfer.
  \<open>dw_signals\<close>: the signals of the socket are connected, and it has not yet reported that it is closed.
\<close>

record 'w download_worker =
  dw_fs :: 'w
  dw_filename :: string
  dw_state :: worker_state
  dw_bytes_to_write :: "int option"   \<comment> \<open>\<open>None\<close>: not initialised\<close>
  dw_offset :: nat                    \<comment> \<open>position in the input file\<close>
  dw_sent :: string
  dw_acked :: int
  dw_signals :: bool
  dw_future :: "unit v1_future"
  dw_initialized :: bool
  dw_error :: "string \<times> int"
  dw_running :: bool

type_synonym 'w dw = "('w download_worker, l1_exn, unit) sx"

definition DownloadWorker_init :: "'w \<Rightarrow> string \<Rightarrow> 'w download_worker" where
  "DownloadWorker_init f filename =
     \<lparr>dw_fs = f, dw_filename = filename, dw_state = W_in_progress, dw_bytes_to_write = None, dw_offset = 0, dw_sent = '''',
      dw_acked = 0, dw_signals = False, dw_future = v1_future_init, dw_initialized = False, dw_error = ('''', 0),
      dw_running = True\<rparr>"

definition dw_too_early :: "'w dlapi \<Rightarrow> 'w download_worker \<Rightarrow> int \<Rightarrow> string" where
  "dw_too_early D w bytes_to_write =
     (let file_size = qf_size D (dw_fs w) (dw_filename w); written = file_size - bytes_to_write in
      ''Downloader::finish_download(): method called too early, file '' @ dw_filename w @ '' has size ''
      @ int_to_string file_size @ '', but only '' @ int_to_string written @ '' byte''
      @ (if written = 1 then '' was'' else ''s were'') @ '' consumed.'')"

definition dw_do_finish :: "'w dlapi \<Rightarrow> 'w dw" where
  "dw_do_finish D w =
     (let fail = (\<lambda>e. (Ok (), w\<lparr>dw_future := reportException e (dw_future w)\<rparr>)) in
      sx_bind (\<lambda>_. case dw_state w of
          W_in_progress \<Rightarrow>
            (case dw_bytes_to_write w of
               None \<Rightarrow> (Abort, w)
             | Some b \<Rightarrow> if b > 0 then fail (V1_LogicException (dw_too_early D w b)) else (Ok (), w\<lparr>dw_state := W_finalized\<rparr>))
        | W_finalized \<Rightarrow> (Abort, w)
        | W_cancelled \<Rightarrow> fail (V1_CancelledException
            (''Downloader::finish_download(): download of '' @ dw_filename w @ '' was cancelled''))
        | W_error \<Rightarrow> fail (V1_ResourceException (fst (dw_error w)) (snd (dw_error w))))
      (\<lambda>_ w. (Ok (), w\<lparr>dw_future := reportFinished (dw_future w), dw_running := False\<rparr>)) w)"

text \<open>\<open>abort()\<close> of the socket, and \<open>disconnectFromServer()\<close>, which may report the closed socket later.\<close>

definition dw_abort :: "'w dlapi \<Rightarrow> 'w v1os \<Rightarrow> 'w dw" where
  "dw_abort D V w =
     (if dw_signals w \<and> v1_abort_emits V then dw_do_finish D (w\<lparr>dw_signals := False\<rparr>)
      else (Ok (), w\<lparr>dw_signals := False\<rparr>))"

definition dw_disconnect :: "'w dlapi \<Rightarrow> 'w v1os \<Rightarrow> 'w dw" where
  "dw_disconnect D V w =
     (if dw_signals w \<and> v1_disconnect_emits V then dw_do_finish D (w\<lparr>dw_signals := False\<rparr>) else (Ok (), w))"

definition dw_handle_error :: "'w dlapi \<Rightarrow> 'w v1os \<Rightarrow> string \<Rightarrow> int \<Rightarrow> 'w dw" where
  "dw_handle_error D V msg code =
     sx_bind (\<lambda>w. if dw_state w = W_in_progress then dw_abort D V w else (Ok (), w)) (\<lambda>_ w.
     dw_do_finish D (w\<lparr>dw_state := W_error, dw_error := (''Downloader: '' @ msg, code)\<rparr>))"

definition dw_read_and_write_chunk :: "'w dlapi \<Rightarrow> 'w v1os \<Rightarrow> 'w dw" where
  "dw_read_and_write_chunk D V w =
     (case qf_read D (dw_fs w) (dw_filename w) (dw_offset w) READ_SIZE of
        Raise (err, msg) \<Rightarrow> dw_handle_error D V (dw_filename w @ '': read error: '' @ msg) err w
      | Abort \<Rightarrow> (Abort, w)
      | Ok buf \<Rightarrow>
          let w = w\<lparr>dw_offset := dw_offset w + length buf\<rparr> in
          (case ls_write D (dw_fs w) buf of
             Raise (err, msg) \<Rightarrow> dw_handle_error D V (dw_filename w @ '': socket error: '' @ msg) err w
           | Abort \<Rightarrow> (Abort, w)
           | Ok n \<Rightarrow>
               let w = w\<lparr>dw_sent := dw_sent w @ take (nat n) buf\<rparr> in
               if n \<noteq> int (length buf) then
                 dw_handle_error D V (dw_filename w @ '': '' @ v1_short_send_msg V (int (length buf)) n) 0 w
               else (Ok (), w)))"

definition start_downloading :: "'w dlapi \<Rightarrow> 'w v1os \<Rightarrow> 'w dw" where
  "start_downloading D V w =
     (let w = w\<lparr>dw_signals := True\<rparr> in
      case qf_open D (dw_fs w) (dw_filename w) of
        Raise (err, msg) \<Rightarrow> dw_handle_error D V (''cannot open '' @ dw_filename w @ '': '' @ msg) err w
      | Abort \<Rightarrow> (Abort, w)
      | Ok sz \<Rightarrow>
          let w = w\<lparr>dw_bytes_to_write := Some sz, dw_initialized := True\<rparr> in
          if sz = 0 then dw_disconnect D V w else dw_read_and_write_chunk D V w)"

definition dw_do_cancel :: "'w dlapi \<Rightarrow> 'w dw" where
  "dw_do_cancel D w =
     (if dw_state w = W_in_progress then
        dw_do_finish D (w\<lparr>dw_signals := False, dw_bytes_to_write := Some 0, dw_state := W_cancelled\<rparr>)
      else (Ok (), w))"

definition dw_on_bytes_written :: "'w dlapi \<Rightarrow> 'w v1os \<Rightarrow> int \<Rightarrow> 'w dw" where
  "dw_on_bytes_written D V bytes w =
     (case dw_bytes_to_write w of
        None \<Rightarrow> (Abort, w)
      | Some b \<Rightarrow>
          let w = w\<lparr>dw_bytes_to_write := Some (b - bytes)\<rparr> in
          if b - bytes < 0 then (Abort, w)
          else if b - bytes = 0 then dw_disconnect D V w
          else dw_read_and_write_chunk D V w)"

definition dw_on_error :: "'w dlapi \<Rightarrow> 'w v1os \<Rightarrow> string \<Rightarrow> int \<Rightarrow> 'w dw" where
  "dw_on_error D V msg code w = dw_handle_error D V msg code (w\<lparr>dw_signals := False\<rparr>)"

datatype downloader_event =
  DE_bytes_written int | DE_disconnected | DE_error string int | DE_finish | DE_cancel

text \<open>The socket reports bytes that it was given.\<close>

fun dw_step :: "'w dlapi \<Rightarrow> 'w v1os \<Rightarrow> 'w download_worker option \<Rightarrow> downloader_event \<Rightarrow> 'w download_worker option" where
  "dw_step D V None e = None"
| "dw_step D V (Some w) (DE_bytes_written n) =
     (if dw_signals w \<and> 0 < n \<and> dw_acked w + n \<le> int (length (dw_sent w))
      then survives (dw_on_bytes_written D V n (w\<lparr>dw_acked := dw_acked w + n\<rparr>)) else Some w)"
| "dw_step D V (Some w) DE_disconnected =
     (if dw_signals w then survives (dw_do_finish D (w\<lparr>dw_signals := False\<rparr>)) else Some w)"
| "dw_step D V (Some w) (DE_error msg code) =
     (if dw_signals w then survives (dw_on_error D V msg code w) else Some w)"
| "dw_step D V (Some w) DE_finish = survives (dw_do_finish D w)"
| "dw_step D V (Some w) DE_cancel = survives (dw_do_cancel D w)"

text \<open>The constructor of the downloader waits until the worker has reported \<open>worker_initialized\<close>: when
  \<open>dw_initialized\<close> does not hold, it never returns.\<close>

definition local_downloader ::
  "'w fsapi \<Rightarrow> 'w dlapi \<Rightarrow> 'w v1os \<Rightarrow> int option \<Rightarrow> 'w \<Rightarrow> string \<Rightarrow> unit v1_future + 'w download_worker option" where
  "local_downloader F D V sock_errno f path =
     (case sock_errno of
        Some err \<Rightarrow> Inl (v1_exceptional_future (resource_error F ''Downloader: cannot create socket pair: '' err))
      | None \<Rightarrow> Inr (survives (start_downloading D V (DownloadWorker_init f path))))"

subsection \<open>What a download does\<close>

definition download_ok :: "'w \<Rightarrow> string \<Rightarrow> string \<Rightarrow> 'w download_worker \<Rightarrow> bool" where
  "download_ok f path C w \<longleftrightarrow> dw_fs w = f \<and> dw_filename w = path \<and> dw_initialized w \<and>
     dw_sent w = take (dw_offset w) C \<and> dw_offset w \<le> length C \<and> 0 \<le> dw_acked w \<and> dw_acked w \<le> int (dw_offset w) \<and>
     (dw_signals w \<or> dw_state w = W_in_progress \<longrightarrow> dw_bytes_to_write w = Some (int (length C) - dw_acked w)) \<and>
     (fu_finished (dw_future w) \<and> fu_exception (dw_future w) = None \<longrightarrow> dw_offset w = length C)"

lemma finished_ok:
  assumes "download_ok f path C w"
    and "fu_exception q \<noteq> None \<or> q = dw_future w \<and> fu_finished q \<or> dw_offset w = length C"
  shows "download_ok f path C (w\<lparr>dw_future := reportFinished q, dw_running := b\<rparr>)"
  using assms by (simp add: download_ok_def reportFinished_def; blast)

lemma reported_exception: "fu_exception (reportException e q) \<noteq> None \<or> reportException e q = q \<and> fu_finished q"
  by (simp add: reportException_def)

lemma download_failed_ok:
  "download_ok f path C w \<Longrightarrow>
     download_ok f path C (w\<lparr>dw_future := reportFinished (reportException e (dw_future w)), dw_running := b\<rparr>)"
  using finished_ok [of f path C w "reportException e (dw_future w)"] reported_exception [of e "dw_future w"] by auto

lemma download_finish_ok: "keeps (download_ok f path C) (dw_do_finish D)"
  unfolding keeps_def
proof (intro allI impI)
  fix w
  assume ok: "download_ok f path C w"
  show "download_ok f path C (snd (dw_do_finish D w))"
  proof (cases "dw_state w")
    case W_in_progress
    with ok have b: "dw_bytes_to_write w = Some (int (length C) - dw_acked w)" by (simp add: download_ok_def)
    show ?thesis
    proof (cases "dw_acked w < int (length C)")
      case True
      with W_in_progress b download_failed_ok [OF ok] show ?thesis by (simp add: dw_do_finish_def sx_bind_def Let_def)
    next
      case False
      with ok have "dw_offset w = length C" by (simp add: download_ok_def)
      moreover from ok have "download_ok f path C (w\<lparr>dw_state := W_finalized\<rparr>)" by (simp add: download_ok_def)
      ultimately show ?thesis using W_in_progress b False
        finished_ok [of f path C "w\<lparr>dw_state := W_finalized\<rparr>" "dw_future w"]
        by (simp add: dw_do_finish_def sx_bind_def Let_def)
    qed
  qed (use ok download_failed_ok [OF ok] in \<open>simp_all add: dw_do_finish_def sx_bind_def Let_def\<close>)
qed

lemma download_quiet_ok:
  "download_ok f path C w \<Longrightarrow> download_ok f path C (w\<lparr>dw_signals := False\<rparr>)"
  "download_ok f path C w \<Longrightarrow> \<not> dw_signals w \<Longrightarrow> download_ok f path C (w\<lparr>dw_state := W_error, dw_error := x\<rparr>)"
  "download_ok f path C w \<Longrightarrow>
     download_ok f path C (w\<lparr>dw_signals := False, dw_bytes_to_write := Some 0, dw_state := W_cancelled\<rparr>)"
  by (simp_all add: download_ok_def)

lemma download_cancel_ok: "keeps (download_ok f path C) (dw_do_cancel D)"
  by (auto simp: keeps_def dw_do_cancel_def intro: keepsD [OF download_finish_ok download_quiet_ok(3)])

lemma download_disconnect_ok: "keeps (download_ok f path C) (dw_disconnect D V)"
  by (auto simp: keeps_def dw_disconnect_def intro: keepsD [OF download_finish_ok download_quiet_ok(1)])

lemma chunk_ok:
  assumes "serves D f path C" and ok: "download_ok f path C w"
  shows "\<exists>w'. dw_read_and_write_chunk D V w = (Ok (), w') \<and> download_ok f path C w'"
proof -
  have w: "dw_fs w = f" "dw_filename w = path" "dw_offset w \<le> length C" "dw_sent w = take (dw_offset w) C"
    using ok by (simp_all add: download_ok_def)
  let ?buf = "take READ_SIZE (drop (dw_offset w) C)"
  have "dw_read_and_write_chunk D V w =
      (Ok (), w\<lparr>dw_offset := dw_offset w + length ?buf, dw_sent := dw_sent w @ ?buf\<rparr>)"
    using assms(1) by (simp add: dw_read_and_write_chunk_def serves_def w(1,2) Let_def take_min_drop)
  moreover have "dw_sent w @ ?buf = take (dw_offset w + length ?buf) C"
    unfolding w(4) by (rule take_more [symmetric])
  moreover have "dw_offset w + length ?buf \<le> length C" using w(3) by simp
  ultimately show ?thesis using ok by (auto simp: download_ok_def)
qed

lemma download_written_ok:
  assumes "serves D f path C" and ok: "download_ok f path C w" and "dw_signals w" and "0 < n"
    and "dw_acked w + n \<le> int (length (dw_sent w))"
  shows "download_ok f path C (snd (dw_on_bytes_written D V n (w\<lparr>dw_acked := dw_acked w + n\<rparr>)))"
proof -
  let ?w = "w\<lparr>dw_acked := dw_acked w + n, dw_bytes_to_write := Some (int (length C) - dw_acked w - n)\<rparr>"
  have "download_ok f path C ?w" and b: "dw_bytes_to_write w = Some (int (length C) - dw_acked w)"
    "dw_acked w + n \<le> int (length C)"
    using assms(2-5) by (auto simp: download_ok_def)
  with keepsD [OF download_disconnect_ok this(1), of D V] chunk_ok [OF assms(1) this(1), of V] show ?thesis
    by (auto simp: dw_on_bytes_written_def Let_def)
qed

interpretation downloading: invariant_machine "dw_step D V"
  "\<lambda>s. serves D f path C \<and> (\<forall>w. s = Some w \<longrightarrow> download_ok f path C w)" for D V f path C
proof (intro invariant_machine.intro conjI impI allI)
  fix s e w
  assume s: "serves D f path C \<and> (\<forall>w. s = Some w \<longrightarrow> download_ok f path C w)"
  then show "serves D f path C" by blast
  assume step: "dw_step D V s e = Some w"
  then obtain v where v: "s = Some v" by (cases s) auto
  with s have ok: "download_ok f path C v" and D: "serves D f path C" by blast+
  have survived: "survives r = Some w \<Longrightarrow> download_ok f path C (snd r) \<Longrightarrow> download_ok f path C w"
    for r :: "(l1_exn, unit) outcome \<times> 'a download_worker"
    by (auto simp: survives_def split: outcome.splits prod.splits)
  have error: "download_ok f path C (snd (dw_on_error D V msg code v))" for msg code
    using ok by (auto simp: dw_on_error_def dw_handle_error_def dw_abort_def sx_bind_def
        intro!: keepsD [OF download_finish_ok] download_quiet_ok)
  show "download_ok f path C w"
    using step ok v
    by (cases e) (auto dest!: survived intro: download_written_ok [OF D ok] error keepsD [OF download_cancel_ok]
        keepsD [OF download_finish_ok] download_quiet_ok split: if_splits)
qed

lemma download_started:
  assumes D: "serves D f path C" and "start_downloading D V (DownloadWorker_init f path) = (Ok (), w)"
  shows "download_ok f path C w"
proof -
  let ?w = "(DownloadWorker_init f path)\<lparr>dw_signals := True, dw_bytes_to_write := Some (int (length C)),
    dw_initialized := True\<rparr>"
  have open_file: "qf_open D f path = Ok (int (length C))" using D by (simp add: serves_def)
  have "download_ok f path C ?w" by (simp add: download_ok_def DownloadWorker_init_def v1_future_init_def)
  with assms(2) keepsD [OF download_disconnect_ok this, of D V] chunk_ok [OF D this, of V] show ?thesis
    by (auto simp: start_downloading_def Let_def DownloadWorker_init_def open_file split: if_splits)
qed


text \<open>The other direction: when the file is empty or its last byte is passed on, and the socket closes, the future is
  ready with a success.\<close>

lemma v1_download_succeeds:
  assumes "download_ok f path C w" and "dw_state w = W_in_progress" and "dw_signals w" and "dw_acked w = int (length C)"
    and "dw_future w = v1_future_init"
  shows "\<exists>w'. dw_step D V (Some w) DE_disconnected = Some w' \<and> dw_state w' = W_finalized \<and>
    fu_finished (dw_future w') \<and> fu_exception (dw_future w') = None"
  using assms
  by (simp add: download_ok_def dw_do_finish_def sx_bind_def Let_def survives_def reportFinished_def v1_future_init_def)

text \<open>
  A file that cannot be opened: the worker either reads \<open>bytes_to_write_\<close>, which nothing has set, or ends
  without reporting \<open>worker_initialized\<close>, for which the constructor waits.
\<close>

lemma v1_download_open_fails:
  assumes "qf_open D f path = Raise (err, msg)"
  shows "\<forall>w. start_downloading D V (DownloadWorker_init f path) = (Ok (), w) \<longrightarrow> \<not> dw_initialized w"
    and "v1_abort_emits V \<Longrightarrow> survives (start_downloading D V (DownloadWorker_init f path)) = None"
  using assms
  by (auto simp: start_downloading_def DownloadWorker_init_def dw_handle_error_def dw_abort_def dw_do_finish_def
      sx_bind_def Let_def survives_def split: if_splits)

text \<open>\<open>finish_download\<close> called twice: the second signal, when it is still delivered, ends the process.\<close>

lemma v1_download_finished_twice:
  assumes "dw_state w = W_in_progress" and "dw_bytes_to_write w = Some 0"
  shows "run_events (dw_step D V) (Some w) [DE_finish, DE_finish] = None"
  using assms by (simp add: dw_do_finish_def sx_bind_def Let_def survives_def)

section \<open>What modelling the uploads showed\<close>

text \<open>The conflict policy of the uploader is stored and never looked at.\<close>

lemma uw_policy_ignored:
  assumes "uw_file w = Some n" and "item_lockable (uw_client w) n" and "v1_has_conflict F n (uw_client w) = Ok True"
    and "uw_policy w = ignore_conflict"
  shows "uw_target F V w = (Ok None, uw_error_out (V1_ConflictException ''Uploader::finish_upload(): ETag mismatch'') w)"
  using assms by (simp add: uw_target_def)

text \<open>When no temporary file can be made, the error handler closes an output file that is not there.\<close>

lemma no_tmpfile_crashes:
  assumes "os_open_tmpfile A (lw_fs c) (path_parent F path) = -1"
    and "\<And>t. os_mkstemp A t (lw_fs c) = (Raise err, lw_fs c)"
  shows "survives (start_uploading F A V (UploadWorker_init c file sz path policy root)) = None"
  using assms
  by (simp add: start_uploading_def UploadWorker_init_def uw_os_def uw_fs_def uw_handle_error_def sx_bind_def survives_def Let_def)

text \<open>An application that lets go of the \<open>File\<close> object during the upload gets an \<open>ExistsException\<close> for its own
  file.\<close>

lemma released_file_exists:
  assumes "uw_file w = Some n" and "\<not> item_lockable (uw_client w) n"
    and "v1_create_excl V (uw_path w) (uw_fs w) = (Raise err, uw_fs w)"
  shows "\<exists>w'. uw_target F V w = (Ok None, w') \<and> uw_state w' = W_error"
  using assms by (simp add: uw_target_def uw_os_def uw_error_out_def uw_fail_def)

section \<open>Sample transfers\<close>

definition mem_v1os :: "mem v1os" where
  "mem_v1os = \<lparr>v1_create_excl = (\<lambda>p w. if map_of w p = None then (Ok (), w @ [(p, Mem_file '''')]) else (Raise 17, w)),
     v1_close = (\<lambda>w. Ok ()), v1_abort_emits = True, v1_disconnect_emits = True,
     v1_short_write_msg = (\<lambda>m n. ''short''), v1_short_send_msg = (\<lambda>m n. ''short'')\<rparr>"

text \<open>A new file of three bytes in the sample folder.\<close>

definition sample_worker :: "mem upload_worker" where
  "sample_worker = the (survives (start_uploading mem_fs mem_os mem_v1os
     (UploadWorker_init (la_client sample_start) None 3 ''/x/storage-framework/n'' error_if_conflict 0)))"

lemma sample_worker_receiving: "receiving_upload '''' sample_worker" "uw_size sample_worker = 3"
  by code_simp+

theorem v1_upload_commits_witness:
  "\<exists>w'. run_events (uw_step mem_fs mem_os mem_v1os) (Some sample_worker) (map UE_data [''a'', ''b''] @ [UE_channel_finished ''c'']) =
      Some w' \<and> committed_upload mem_fs mem_os mem_v1os ''abc'' sample_worker w' \<and>
      map_of (uw_fs w') ''/x/storage-framework/n'' = Some (Mem_file ''abc'')"
proof -
  let ?run = "run_events (uw_step mem_fs mem_os mem_v1os) (Some sample_worker) (map UE_data [''a'', ''b''] @ [UE_channel_finished ''c''])"
  have ev: "?run \<noteq> None \<and> fu_results (uw_future (the ?run)) \<noteq> [] \<and>
      map_of (uw_fs (the ?run)) ''/x/storage-framework/n'' = Some (Mem_file ''abc'')"
    by code_simp
  then obtain w' where w': "?run = Some w'" by blast
  with ev have "fu_results (uw_future w') \<noteq> []" "map_of (uw_fs w') ''/x/storage-framework/n'' = Some (Mem_file ''abc'')"
    by (simp_all only: option.sel simp_thms)
  with v1_upload_commits [OF mem_os_writes_all sample_worker_receiving(1) w' this(1)] w' show ?thesis by auto
qed

theorem v1_upload_abandoned_witness:
  "\<exists>w' x. run_events (uw_step mem_fs mem_os mem_v1os) (Some sample_worker)
      (map UE_data [''a''] @ UE_channel_finished ''b'' # [UE_cancel]) = Some w' \<and>
    uw_client w' = uw_client sample_worker \<and> uw_future w' = v1_exceptional_future x \<and>
    v1_exception_name x = ''LogicException''"
proof -
  have name: "(if UE_channel_finished ''b'' = UE_cancel then ''CancelledException'' else ''LogicException'') = ''LogicException''"
    and stop: "UE_channel_finished ''b'' = UE_cancel \<or> UE_channel_finished ''b'' = UE_channel_finished ''b'' \<and>
      int (length (concat [''a''] @ ''b'')) \<noteq> uw_size sample_worker"
    by (simp_all add: sample_worker_receiving(2))
  show ?thesis
    using v1_upload_abandoned [OF mem_os_writes_all sample_worker_receiving(1) stop,
        where F = mem_fs and V = mem_v1os and later = "[UE_cancel]"]
    unfolding name .
qed


end
