(* ===== verification/V1Remote.thy ===== *)
theory V1Remote
  imports V1Base Validate Client Registry
begin

text \<open>
  The remote back end of the version 1 client library
  (\<open>src/qt/client/internal/remote_client\<close>): the same objects as in the local back end, but an operation
  is a D-Bus call to a provider. A method checks its objects, sends the call and returns a future; a
  \<open>Handler\<close>, a child of the object that made the call, makes the future ready when the reply arrives.
  A reply has the signature of its method, or is an error. Conversions of Qt are parameters.
\<close>

section \<open>Errors of a provider\<close>

text \<open>The template \<open>make_exception<T>\<close> and its three specialisations, by the name of \<open>T\<close>.\<close>

definition v1_exception_factories :: "(string \<times> (error_call \<Rightarrow> v1_exception)) list" where
  "v1_exception_factories =
     (let msg = (\<lambda>T call. T (arg_string (ec_args call) 0)) in
      [(''NotExistsException'', (\<lambda>call. V1_NotExistsException (arg_string (ec_args call) 0) (arg_string (ec_args call) 1))),
       (''ExistsException'', (\<lambda>call. V1_ExistsException (arg_string (ec_args call) 0) (arg_string (ec_args call) 1)
          (arg_string (ec_args call) 2))),
       (''ResourceException'', (\<lambda>call. V1_ResourceException (arg_string (ec_args call) 0) (arg_int (ec_args call) 1))),
       (''RemoteCommsException'', msg V1_RemoteCommsException),
       (''ConflictException'', msg V1_ConflictException),
       (''PermissionException'', msg V1_PermissionException),
       (''QuotaException'', msg V1_QuotaException),
       (''CancelledException'', msg V1_CancelledException),
       (''LogicException'', msg V1_LogicException),
       (''InvalidArgumentException'', msg V1_InvalidArgumentException),
       (''UnknownException'', msg V1_LocalCommsException)])"

definition unknown_type_msg :: "string \<Rightarrow> error_call \<Rightarrow> string" where
  "unknown_type_msg exception_type call =
     ''unmarshal_exception(): unknown exception type received from server: '' @ exception_type @ '': '' @ ec_message call"

definition v1_unmarshal_exception :: "error_call \<Rightarrow> v1_exception" where
  "v1_unmarshal_exception call =
     (if \<not> ec_other call then V1_LocalCommsException (ec_message call)
      else if \<not> starts_with (ec_name call) DBUS_ERROR_PREFIX then
        V1_LocalCommsException (unknown_type_msg (ec_name call) call)
      else let exception_type = drop (length DBUS_ERROR_PREFIX) (ec_name call) in
        case map_of v1_exception_factories exception_type of
          None \<Rightarrow> V1_LocalCommsException (unknown_type_msg exception_type call)
        | Some factory \<Rightarrow> factory call)"

section \<open>Metadata\<close>

definition v1_validate_type_and_value ::
  "date_parser \<Rightarrow> string \<Rightarrow> string \<Rightarrow> QVariant \<Rightarrow> MetadataType \<Rightarrow> (v1_exception, unit) outcome" where
  "v1_validate_type_and_value parse_date prefix key value known =
     (case known of
        iso_8601_date_time \<Rightarrow>
          (case value of
             QV_String s \<Rightarrow>
               (case parse_date s of
                  None \<Rightarrow> Raise (V1_LocalCommsException (prefix @ key @ '': value \"'' @ s @
                    ''\" does not parse as ISO-8601 date''))
                | Some spec \<Rightarrow>
                    throw_if (spec = LocalTime) (V1_LocalCommsException (prefix @ key @ '': value \"'' @ s @
                      ''\" lacks a time zone specification'')))
           | _ \<Rightarrow> Raise (V1_LocalCommsException (prefix @ key @
               '': expected value of type String,  but received value of type '' @ typeName value)))
      | non_zero_pos_int64 \<Rightarrow>
          (case value of
             QV_LongLong val \<Rightarrow> Ok ()
           | _ \<Rightarrow> Raise (V1_LocalCommsException (prefix @ key @
               '': expected value of type LongLong,  but received value of type '' @ typeName value)))
      | MT_string \<Rightarrow> Ok ()
      | MT_boolean \<Rightarrow> Ok ())"

fun v1_validate_entries :: "date_parser \<Rightarrow> string \<Rightarrow> (string \<times> QVariant) list \<Rightarrow> (v1_exception, unit) outcome" where
  "v1_validate_entries parse_date prefix [] = Ok ()"
| "v1_validate_entries parse_date prefix ((key, value) # rest) =
     bindR (case map_of known_metadata key of
              None \<Rightarrow> Ok ()
            | Some known \<Rightarrow> v1_validate_type_and_value parse_date prefix key value known)
       (\<lambda>_. v1_validate_entries parse_date prefix rest)"

definition v1_validate :: "date_parser \<Rightarrow> string \<Rightarrow> ItemMetadata \<Rightarrow> (v1_exception, unit) outcome" where
  "v1_validate parse_date meth md =
     (let prefix = meth @ '': received invalid metadata from server: '';
          check = (\<lambda>c msg. throw_if c (V1_LocalCommsException (prefix @ msg)));
          missing = (\<lambda>key. check (\<not> contains_key (md_metadata md) key)
            (''missing key '' @ key @ '' in metadata for '' @ md_item_id md)) in
      bindR (check (md_item_id md = '''') ''item_id cannot be empty'') (\<lambda>_.
      bindR (if md_type md \<noteq> IT_root then
               bindR (check (md_parent_ids md = []) ''file or folder must have at least one parent ID'') (\<lambda>_.
               check (\<exists>p \<in> set (md_parent_ids md). p = '''') ''parent_id of file or folder cannot be empty'')
             else Ok ()) (\<lambda>_.
      bindR (check (md_type md = IT_root \<and> md_parent_ids md \<noteq> []) ''metadata: parent_ids of root must be empty'') (\<lambda>_.
      bindR (check (md_name md = '''') ''name cannot be empty'') (\<lambda>_.
      bindR (check (md_type md = IT_file \<and> md_etag md = '''') ''etag of file cannot be empty'') (\<lambda>_.
      bindR (v1_validate_entries parse_date prefix (md_metadata md)) (\<lambda>_.
      if md_type md = IT_file then bindR (missing SIZE_IN_BYTES) (\<lambda>_. missing LAST_MODIFIED_TIME) else Ok ())))))))"

section \<open>Objects\<close>

record remote_item = v1_item +
  ri_md :: ItemMetadata

record v1_uploader =
  ru_id :: string
  ru_fd :: int
  ru_size :: int
  ru_old_etag :: string
  ru_policy :: ConflictPolicy
  ru_root :: nat
  ru_provider :: "string \<times> string"
  ru_finalized :: bool
  ru_freed :: bool

record v1_downloader =
  rd_id :: string
  rd_fd :: int
  rd_file :: nat
  rd_provider :: "string \<times> string"
  rd_aborted :: bool             \<comment> \<open>the client's socket is closed\<close>
  rd_freed :: bool

record remote_client = "remote_item v1_world" +
  rw_uploaders :: "v1_uploader list"
  rw_downloaders :: "v1_downloader list"
  rw_manager :: bool             \<comment> \<open>\<open>manager_\<close> exists\<close>
  rw_timer :: bool               \<comment> \<open>\<open>timer_\<close> runs\<close>
  rw_accounts :: "nat list v1_future"   \<comment> \<open>\<open>qf_\<close> of the runtime\<close>

type_synonym 'a rc = "(remote_client, v1_exception, 'a) sx"

definition remote_new :: remote_client where
  "remote_new = v1_world.extend v1_new_world
     \<lparr>rw_uploaders = [], rw_downloaders = [], rw_manager = False, rw_timer = False, rw_accounts = v1_future_init\<rparr>"

text \<open>\<open>make_folder\<close>, \<open>make_file\<close>, \<open>make_item\<close> and \<open>make_root\<close>, with \<open>ItemBase::set_root\<close>.\<close>

definition rc_alloc :: "remote_item \<Rightarrow> nat rc" where
  "rc_alloc i s = (Ok (length (vw_items s)), s\<lparr>vw_items := vw_items s @ [i]\<rparr>)"

definition remote_item_init :: "ItemMetadata \<Rightarrow> ItemType \<Rightarrow> nat \<Rightarrow> nat \<Rightarrow> remote_item" where
  "remote_item_init md type r a =
     \<lparr>vi_identity = md_item_id md, vi_type = type, vi_deleted = False, vi_root = r, vi_account = a, ri_md = md\<rparr>"

definition remote_make_folder :: "ItemMetadata \<Rightarrow> nat \<Rightarrow> nat rc" where
  "remote_make_folder md r =
     sx_bind (sx_query (\<lambda>s. assertR (md_type md = IT_folder \<and> item_lockable s r))) (\<lambda>_.
     rc_alloc (remote_item_init md IT_folder r 0))"

definition remote_make_file :: "ItemMetadata \<Rightarrow> nat \<Rightarrow> nat rc" where
  "remote_make_file md r =
     sx_bind (sx_query (\<lambda>s. assertR (item_lockable s r))) (\<lambda>_. rc_alloc (remote_item_init md IT_file r 0))"

definition remote_make_item :: "ItemMetadata \<Rightarrow> nat \<Rightarrow> nat rc" where
  "remote_make_item md r =
     (case md_type md of
        IT_file \<Rightarrow> remote_make_file md r
      | IT_folder \<Rightarrow> remote_make_folder md r
      | IT_root \<Rightarrow> (\<lambda>s. (Abort, s)))"

definition remote_make_root :: "ItemMetadata \<Rightarrow> nat \<Rightarrow> nat rc" where
  "remote_make_root md a =
     sx_bind (sx_query (\<lambda>s. assertR (md_type md = IT_root \<and> account_lockable s a))) (\<lambda>_ s.
     rc_alloc (remote_item_init md IT_root (length (vw_items s)) a) s)"

section \<open>Reading an object\<close>

text \<open>Qt's conversions of a value, and of a date.\<close>

record 'd qt_conv =
  qc_toLongLong :: "QVariant \<Rightarrow> int"
  qc_toString :: "QVariant \<Rightarrow> string"
  qc_fromString :: "string \<Rightarrow> 'd"

definition rc_get :: "string \<Rightarrow> (remote_item \<Rightarrow> 'a) \<Rightarrow> nat \<Rightarrow> 'a rc" where
  "rc_get meth f n = sx_query (\<lambda>s. bindR (throw_if_destroyed meth n s) (\<lambda>_. Ok (f (vw_items s ! n))))"

definition qv_value :: "string \<Rightarrow> remote_item \<Rightarrow> QVariant" where
  "qv_value key i = (case map_of (md_metadata (ri_md i)) key of None \<Rightarrow> QV_Invalid | Some v \<Rightarrow> v)"

definition remote_name :: "nat \<Rightarrow> string rc" where
  "remote_name = rc_get ''Item::name()'' (md_name \<circ> ri_md)"

definition remote_etag :: "nat \<Rightarrow> string rc" where
  "remote_etag = rc_get ''Item::etag()'' (md_etag \<circ> ri_md)"

definition remote_metadata :: "nat \<Rightarrow> (string \<times> QVariant) list rc" where
  "remote_metadata = rc_get ''Item::metadata()'' (\<lambda>_. [])"

definition remote_last_modified_time :: "'d qt_conv \<Rightarrow> nat \<Rightarrow> 'd rc" where
  "remote_last_modified_time Q = rc_get ''Item::last_modified_time()''
     (\<lambda>i. qc_fromString Q (qc_toString Q (qv_value LAST_MODIFIED_TIME i)))"

definition remote_creation_time :: "'d qt_conv \<Rightarrow> nat \<Rightarrow> 'd rc" where
  "remote_creation_time Q = rc_get ''Item::creation_time()''
     (\<lambda>i. qc_fromString Q (qc_toString Q (qv_value CREATION_TIME i)))"

definition remote_native_metadata :: "nat \<Rightarrow> (string \<times> QVariant) list rc" where
  "remote_native_metadata = rc_get ''Item::native_metadata()'' (\<lambda>_. [])"

definition remote_size :: "'d qt_conv \<Rightarrow> nat \<Rightarrow> int rc" where
  "remote_size Q = rc_get ''File::size()'' (\<lambda>i. qc_toLongLong Q (qv_value SIZE_IN_BYTES i))"

definition remote_parent_ids :: "nat \<Rightarrow> string list rc" where
  "remote_parent_ids n s =
     (if vi_type (vw_items s ! n) = IT_root then rc_get ''Root::parent_ids()'' (\<lambda>_. []) n s
      else rc_get ''Item::parent_ids()'' (md_parent_ids \<circ> ri_md) n s)"

text \<open>The future of \<open>parents\<close>; the one of an item that is not a root is a default \<open>QFuture\<close>: finished,
  without a result.\<close>

definition remote_parents :: "nat \<Rightarrow> remote_client \<Rightarrow> nat list v1_future" where
  "remote_parents n s =
     (let root = vi_type (vw_items s ! n) = IT_root in
      case throw_if_destroyed (if root then ''Root::parents()'' else ''Item::parents()'') n s of
        Raise e \<Rightarrow> v1_exceptional_future e
      | _ \<Rightarrow> if root then v1_ready_future [] else reportFinished v1_future_init)"

definition remote_space :: "string \<Rightarrow> nat \<Rightarrow> remote_client \<Rightarrow> int v1_future" where
  "remote_space meth n s =
     (case throw_if_destroyed meth n s of Raise e \<Rightarrow> v1_exceptional_future e | _ \<Rightarrow> v1_ready_future 1)"

definition remote_free_space_bytes :: "nat \<Rightarrow> remote_client \<Rightarrow> int v1_future" where
  "remote_free_space_bytes = remote_space ''Root::free_space_bytes()''"

definition remote_used_space_bytes :: "nat \<Rightarrow> remote_client \<Rightarrow> int v1_future" where
  "remote_used_space_bytes = remote_space ''Root::used_space_bytes()''"

section \<open>Replies\<close>

text \<open>
  The closures \<open>process_reply\<close>: \<open>Ok\<close> is the result that is reported, \<open>Raise\<close> the exception that is reported,
  and the future is finished in both cases.
\<close>

definition need_root :: "string \<Rightarrow> nat \<Rightarrow> nat rc" where
  "need_root meth n = sx_query (\<lambda>s. case get_root s n of
      None \<Rightarrow> Raise (V1_RuntimeDestroyedException meth) | Some r \<Rightarrow> Ok r)"

definition impossible_type :: "string \<Rightarrow> ItemMetadata \<Rightarrow> v1_exception" where
  "impossible_type meth md = V1_LocalCommsException
     (meth @ '': impossible item type returned by server: '' @ int_to_string (ItemType_code (md_type md)))"

definition copy_reply :: "date_parser \<Rightarrow> nat \<Rightarrow> ItemMetadata \<Rightarrow> nat rc" where
  "copy_reply P n md =
     sx_bind (need_root ''Item::copy()'' n) (\<lambda>root.
     sx_bind (sx_lift (v1_validate P ''Item::copy()'' md)) (\<lambda>_.
     sx_bind (sx_throw_if (md_type md = IT_root) (impossible_type ''File::create_folder()'' md)) (\<lambda>_.
     remote_make_item md root)))"

definition move_reply :: "date_parser \<Rightarrow> nat \<Rightarrow> ItemMetadata \<Rightarrow> nat rc" where
  "move_reply P n md =
     sx_bind (need_root ''Item::move()'' n) (\<lambda>root.
     sx_bind (sx_lift (v1_validate P ''Item::move()'' md)) (\<lambda>_.
     sx_bind (sx_throw_if (md_type md = IT_root)
       (V1_LocalCommsException ''Item::move(): impossible root item returned by server'')) (\<lambda>_.
     remote_make_item md root)))"

definition delete_reply :: "nat \<Rightarrow> unit rc" where
  "delete_reply n s = (Ok (), s\<lparr>vw_items := (vw_items s)[n := (vw_items s ! n)\<lparr>vi_deleted := True\<rparr>]\<rparr>)"

text \<open>The loop of \<open>list\<close> and \<open>lookup\<close>: roots are left out.\<close>

primrec reply_items :: "date_parser \<Rightarrow> string \<Rightarrow> nat \<Rightarrow> ItemMetadata list \<Rightarrow> nat list rc" where
  "reply_items P meth root [] = sx_return []"
| "reply_items P meth root (md # mds) =
     sx_bind (sx_lift (v1_validate P meth md)) (\<lambda>_.
     sx_bind (if md_type md = IT_root then sx_return []
              else sx_bind (remote_make_item md root) (\<lambda>m. sx_return [m])) (\<lambda>here.
     sx_bind (reply_items P meth root mds) (\<lambda>items. sx_return (here @ items))))"

text \<open>The closure of \<open>list\<close> refers to itself through a local variable of \<open>list\<close>, which is gone when a reply
  arrives: a token, for which the closure is used again, has no defined outcome.\<close>

definition list_reply :: "date_parser \<Rightarrow> nat \<Rightarrow> ItemMetadata list \<Rightarrow> string \<Rightarrow> nat list rc" where
  "list_reply P n mds token =
     sx_bind (need_root ''Folder::list()'' n) (\<lambda>root.
     sx_bind (reply_items P ''Folder::list()'' root mds) (\<lambda>items.
     if token = '''' then sx_return items else (\<lambda>s. (Abort, s))))"

definition lookup_reply :: "date_parser \<Rightarrow> nat \<Rightarrow> string \<Rightarrow> ItemMetadata list \<Rightarrow> nat list rc" where
  "lookup_reply P n name mds =
     sx_bind (need_root ''Folder::lookup()'' n) (\<lambda>root.
     sx_bind (reply_items P ''Folder::lookup()'' root mds) (\<lambda>items.
     sx_bind (sx_throw_if (items = [])
       (V1_NotExistsException (''Folder::lookup(): no such item: '' @ name) name)) (\<lambda>_.
     sx_return items)))"

definition create_folder_reply :: "date_parser \<Rightarrow> nat \<Rightarrow> ItemMetadata \<Rightarrow> nat rc" where
  "create_folder_reply P n md =
     sx_bind (need_root ''Folder::create_folder()'' n) (\<lambda>root.
     sx_bind (sx_lift (v1_validate P ''Folder::create_folder()'' md)) (\<lambda>_.
     sx_bind (sx_throw_if (md_type md \<noteq> IT_folder) (impossible_type ''File::create_folder()'' md)) (\<lambda>_.
     remote_make_folder md root)))"

text \<open>\<open>provider()\<close> of an item; \<open>None\<close> is a null pointer.\<close>

definition remote_provider :: "remote_client \<Rightarrow> nat \<Rightarrow> (string \<times> string) option" where
  "remote_provider s n =
     (let r = vi_root (vw_items s ! n); a = vi_account (vw_items s ! r) in
      if item_lockable s r \<and> account_lockable s a then Some (va_provider (vw_account_store s ! a)) else None)"

text \<open>\<open>make_uploader\<close> and \<open>make_downloader\<close>, with the asserts of the constructors. A descriptor is valid when it
  is not negative. The uploader owns the root and the downloader the file, which so are not given up.\<close>

definition make_uploader ::
  "string \<Rightarrow> int \<Rightarrow> int \<Rightarrow> string \<Rightarrow> nat \<Rightarrow> (string \<times> string) option \<Rightarrow> nat rc" where
  "make_uploader upload_id fd sz old_etag root prov s =
     (case prov of
        None \<Rightarrow> (Abort, s)
      | Some p \<Rightarrow>
          if upload_id \<noteq> '''' \<and> fd \<ge> 0 \<and> sz \<ge> 0 \<and> item_lockable s root then
            (Ok (length (rw_uploaders s)), s\<lparr>vw_freed := removeAll root (vw_freed s), rw_uploaders := rw_uploaders s @
               [\<lparr>ru_id = upload_id, ru_fd = fd, ru_size = sz, ru_old_etag = old_etag,
                 ru_policy = (if old_etag = '''' then ignore_conflict else error_if_conflict),
                 ru_root = root, ru_provider = p, ru_finalized = False, ru_freed = False\<rparr>]\<rparr>)
          else (Abort, s))"

definition make_downloader :: "string \<Rightarrow> int \<Rightarrow> nat \<Rightarrow> (string \<times> string) option \<Rightarrow> nat rc" where
  "make_downloader download_id fd n prov s =
     (case prov of
        None \<Rightarrow> (Abort, s)
      | Some p \<Rightarrow>
          if download_id \<noteq> '''' \<and> fd \<ge> 0 \<and> item_lockable s n then
            (Ok (length (rw_downloaders s)), s\<lparr>vw_freed := removeAll n (vw_freed s), rw_downloaders := rw_downloaders s @
               [\<lparr>rd_id = download_id, rd_fd = fd, rd_file = n, rd_provider = p, rd_aborted = False, rd_freed = False\<rparr>]\<rparr>)
          else (Abort, s))"

definition create_file_reply :: "nat \<Rightarrow> int \<Rightarrow> string \<Rightarrow> int \<Rightarrow> nat rc" where
  "create_file_reply n sz upload_id fd =
     sx_bind (need_root ''Folder::create_file()'' n) (\<lambda>root s.
     make_uploader upload_id fd sz '''' root (remote_provider s n) s)"

definition impossible_fd :: "string \<Rightarrow> int \<Rightarrow> v1_exception" where
  "impossible_fd meth fd = V1_LocalCommsException
     (meth @ '': impossible file descriptor returned by server: '' @ int_to_string fd)"

text \<open>\<open>prov\<close> is the provider at the time of the call.\<close>

definition create_uploader_reply ::
  "nat \<Rightarrow> int \<Rightarrow> string \<Rightarrow> (string \<times> string) option \<Rightarrow> string \<Rightarrow> int \<Rightarrow> nat rc" where
  "create_uploader_reply n sz old_etag prov upload_id fd =
     sx_bind (need_root ''File::create_uploader()'' n) (\<lambda>root.
     sx_bind (sx_throw_if (fd < 0) (impossible_fd ''File::create_uploader()'' fd)) (\<lambda>_.
     make_uploader upload_id fd sz old_etag root prov))"

definition create_downloader_reply :: "nat \<Rightarrow> (string \<times> string) option \<Rightarrow> string \<Rightarrow> int \<Rightarrow> nat rc" where
  "create_downloader_reply n prov download_id fd =
     sx_bind (sx_query (throw_if_destroyed ''File::create_downloader()'' n)) (\<lambda>_.
     sx_bind (sx_throw_if (fd < 0) (impossible_fd ''File::create_downloader()'' fd)) (\<lambda>_.
     make_downloader download_id fd n prov))"

definition get_reply :: "date_parser \<Rightarrow> nat \<Rightarrow> ItemMetadata \<Rightarrow> nat rc" where
  "get_reply P n md =
     sx_bind (sx_query (\<lambda>s. case root_account s n of
         Raise _ \<Rightarrow> Raise (V1_RuntimeDestroyedException ''Root::get()'') | r \<Rightarrow> r)) (\<lambda>acc.
     sx_bind (sx_lift (v1_validate P ''Root::get()'' md)) (\<lambda>_ s.
     (if md_type md = IT_root then remote_make_root md acc s
      else remote_make_item md (vi_root (vw_items s ! n)) s)))"

text \<open>The loop of \<open>Account::roots\<close>: metadata that is not of a root is left out, and nothing is validated.\<close>

primrec reply_roots :: "nat \<Rightarrow> ItemMetadata list \<Rightarrow> nat list rc" where
  "reply_roots a [] = sx_return []"
| "reply_roots a (md # mds) =
     sx_bind (if md_type md \<noteq> IT_root then sx_return []
              else sx_bind (remote_make_root md a) (\<lambda>r. sx_return [r])) (\<lambda>here.
     sx_bind (reply_roots a mds) (\<lambda>roots. sx_return (here @ roots)))"

definition roots_reply :: "nat \<Rightarrow> ItemMetadata list \<Rightarrow> nat list rc" where
  "roots_reply a mds =
     sx_bind (sx_query (\<lambda>s. case account_runtime s of
         Raise _ \<Rightarrow> Raise (V1_RuntimeDestroyedException ''Account::roots()'') | r \<Rightarrow> r)) (\<lambda>_.
     sx_bind (reply_roots a mds) (\<lambda>roots s.
     (Ok roots, s\<lparr>vw_account_store := (vw_account_store s)[a := (vw_account_store s ! a)\<lparr>va_roots := roots\<rparr>]\<rparr>)))"

definition finish_upload_reply :: "date_parser \<Rightarrow> nat \<Rightarrow> ItemMetadata \<Rightarrow> nat rc" where
  "finish_upload_reply P u md =
     sx_bind (sx_lift (v1_validate P ''Uploader::finish_upload()'' md)) (\<lambda>_.
     sx_bind (sx_throw_if (md_type md \<noteq> IT_file) (impossible_type ''Uploader::finish_upload()'' md)) (\<lambda>_ s.
     remote_make_file md (ru_root (rw_uploaders s ! u)) s))"

section \<open>Operations\<close>

datatype r1_op =
    RO_roots nat
  | RO_get nat string
  | RO_list nat
  | RO_lookup nat string
  | RO_create_folder nat string
  | RO_create_file nat string int
  | RO_create_uploader nat ConflictPolicy int
  | RO_create_downloader nat
  | RO_copy nat "nat option" string
  | RO_move nat "nat option" string
  | RO_delete nat
  | RO_finish_upload nat
  | RO_cancel_upload nat
  | RO_finish_download nat
  | RO_cancel_download nat

text \<open>What a method does before the reply: the call that it sends to a provider, or the exception of its
  future. \<open>Abort\<close>: a null pointer is followed, or an exception leaves a \<open>noexcept\<close> function.\<close>

definition via_provider :: "nat \<Rightarrow> dbus_call \<Rightarrow> remote_client \<Rightarrow> (v1_exception, (string \<times> string) \<times> dbus_call) outcome" where
  "via_provider n call s = (case remote_provider s n of None \<Rightarrow> Abort | Some p \<Rightarrow> Ok (p, call))"

definition item_call ::
  "string \<Rightarrow> nat \<Rightarrow> (string \<Rightarrow> dbus_call) \<Rightarrow> remote_client \<Rightarrow> (v1_exception, (string \<times> string) \<times> dbus_call) outcome" where
  "item_call meth n call s =
     bindR (throw_if_destroyed meth n s) (\<lambda>_. via_provider n (call (md_item_id (ri_md (vw_items s ! n)))) s)"

definition two_items_call ::
  "string \<Rightarrow> nat \<Rightarrow> nat option \<Rightarrow> (string \<Rightarrow> string \<Rightarrow> dbus_call) \<Rightarrow> remote_client \<Rightarrow>
     (v1_exception, (string \<times> string) \<times> dbus_call) outcome" where
  "two_items_call meth n parent call s =
     (case parent of
        None \<Rightarrow> Raise (V1_InvalidArgumentException (meth @ '': new_parent cannot be nullptr''))
      | Some p \<Rightarrow>
          bindR (throw_if_destroyed meth n s) (\<lambda>_.
          bindR (throw_if_destroyed meth p s) (\<lambda>_.
          case remote_provider s n of
            None \<Rightarrow> if meth = ''Item::move()'' then Raise (V1_RuntimeDestroyedException meth) else Abort
          | Some prov \<Rightarrow>
              bindR (native_identity p s) (\<lambda>pid. Ok (prov, call (md_item_id (ri_md (vw_items s ! n))) pid)))))"

definition old_etag :: "ConflictPolicy \<Rightarrow> nat \<Rightarrow> remote_client \<Rightarrow> string" where
  "old_etag policy n s = (if policy = ignore_conflict then '''' else md_etag (ri_md (vw_items s ! n)))"

fun r1_start :: "r1_op \<Rightarrow> remote_client \<Rightarrow> (v1_exception, (string \<times> string) \<times> dbus_call) outcome" where
  "r1_start (RO_roots a) s =
     (case account_runtime s of
        Raise _ \<Rightarrow> Raise (V1_RuntimeDestroyedException ''Account::roots()'')
      | Abort \<Rightarrow> Abort
      | Ok _ \<Rightarrow> Ok (va_provider (vw_account_store s ! a), Roots []))"
| "r1_start (RO_get n identity) s = item_call ''Root::get()'' n (\<lambda>_. Metadata identity []) s"
| "r1_start (RO_list n) s = item_call ''Folder::list()'' n (\<lambda>i. List i '''' []) s"
| "r1_start (RO_lookup n name) s = item_call ''Folder::lookup()'' n (\<lambda>i. Lookup i name []) s"
| "r1_start (RO_create_folder n name) s = item_call ''Folder::create_folder()'' n (\<lambda>i. CreateFolder i name []) s"
| "r1_start (RO_create_file n name sz) s =
     bindR (throw_if_destroyed ''Folder::create_file()'' n s) (\<lambda>_.
     bindR (throw_if (sz < 0) (V1_InvalidArgumentException ''Folder::create_file(): size must be >= 0'')) (\<lambda>_.
     via_provider n (CreateFile (md_item_id (ri_md (vw_items s ! n))) name sz ''application/octet-stream'' False []) s))"
| "r1_start (RO_create_uploader n policy sz) s =
     bindR (throw_if_destroyed ''File::create_uploader()'' n s) (\<lambda>_.
     bindR (throw_if (sz < 0) (V1_InvalidArgumentException ''File::create_uploader(): size must be >= 0'')) (\<lambda>_.
     via_provider n (Update (md_item_id (ri_md (vw_items s ! n))) sz (old_etag policy n s) []) s))"
| "r1_start (RO_create_downloader n) s = item_call ''File::create_downloader()'' n (\<lambda>i. Download i '''') s"
| "r1_start (RO_copy n p name) s = two_items_call ''Item::copy()'' n p (\<lambda>i pid. Copy i pid name []) s"
| "r1_start (RO_move n p name) s = two_items_call ''Item::move()'' n p (\<lambda>i pid. Move i pid name []) s"
| "r1_start (RO_delete n) s =
     bindR (throw_if_destroyed ''Item::delete_item()'' n s) (\<lambda>_.
     bindR (throw_if (vi_type (vw_items s ! n) = IT_root)
       (V1_LogicException ''Item::delete_item(): cannot delete root folder'')) (\<lambda>_.
     via_provider n (Delete (md_item_id (ri_md (vw_items s ! n)))) s))"
| "r1_start (RO_finish_upload u) s = Ok (ru_provider (rw_uploaders s ! u), FinishUpload (ru_id (rw_uploaders s ! u)))"
| "r1_start (RO_cancel_upload u) s = Ok (ru_provider (rw_uploaders s ! u), CancelUpload (ru_id (rw_uploaders s ! u)))"
| "r1_start (RO_finish_download d) s =
     Ok (rd_provider (rw_downloaders s ! d), FinishDownload (rd_id (rw_downloaders s ! d)))"
| "r1_start (RO_cancel_download d) s =
     (case fst (remote_name (rd_file (rw_downloaders s ! d)) s) of
        Ok name \<Rightarrow> Raise (V1_CancelledException
          (''Downloader::finish_download(): download of '' @ name @ '' was cancelled''))
      | _ \<Rightarrow> Abort)"

text \<open>What a method changes at once: \<open>state_ = finalized\<close>, and the socket of a download.\<close>

fun r1_mark :: "r1_op \<Rightarrow> remote_client \<Rightarrow> remote_client" where
  "r1_mark (RO_finish_upload u) s = s\<lparr>rw_uploaders := (rw_uploaders s)[u := (rw_uploaders s ! u)\<lparr>ru_finalized := True\<rparr>]\<rparr>"
| "r1_mark (RO_cancel_upload u) s = s\<lparr>rw_uploaders := (rw_uploaders s)[u := (rw_uploaders s ! u)\<lparr>ru_finalized := True\<rparr>]\<rparr>"
| "r1_mark (RO_cancel_download d) s =
     s\<lparr>rw_downloaders := (rw_downloaders s)[d := (rw_downloaders s ! d)\<lparr>rd_aborted := True\<rparr>]\<rparr>"
| "r1_mark _ s = s"

section \<open>The handler\<close>

text \<open>The arguments of a reply; a closure reads the ones that its method returns.\<close>

record r1_value =
  rv_md :: ItemMetadata
  rv_mds :: "ItemMetadata list"
  rv_token :: string
  rv_id :: string
  rv_fd :: int

datatype r1_result = RR_item nat | RR_items "nat list" | RR_unit | RR_uploader nat | RR_downloader nat

definition rc_map :: "('a \<Rightarrow> 'b) \<Rightarrow> 'a rc \<Rightarrow> 'b rc" where
  "rc_map f m = sx_bind m (\<lambda>a. sx_return (f a))"

text \<open>The closure of an operation, with the provider that it captured.\<close>

fun process_reply :: "date_parser \<Rightarrow> r1_op \<Rightarrow> (string \<times> string) \<times> dbus_call \<Rightarrow> r1_value \<Rightarrow> r1_result rc" where
  "process_reply P (RO_roots a) pc v = rc_map RR_items (roots_reply a (rv_mds v))"
| "process_reply P (RO_get n identity) pc v = rc_map RR_item (get_reply P n (rv_md v))"
| "process_reply P (RO_list n) pc v = rc_map RR_items (list_reply P n (rv_mds v) (rv_token v))"
| "process_reply P (RO_lookup n name) pc v = rc_map RR_items (lookup_reply P n name (rv_mds v))"
| "process_reply P (RO_create_folder n name) pc v = rc_map RR_item (create_folder_reply P n (rv_md v))"
| "process_reply P (RO_create_file n name sz) pc v = rc_map RR_uploader (create_file_reply n sz (rv_id v) (rv_fd v))"
| "process_reply P (RO_create_uploader n policy sz) pc v =
     (let etag = (case snd pc of Update i sz etag keys \<Rightarrow> etag | _ \<Rightarrow> '''') in
      rc_map RR_uploader (create_uploader_reply n sz etag (Some (fst pc)) (rv_id v) (rv_fd v)))"
| "process_reply P (RO_create_downloader n) pc v =
     rc_map RR_downloader (create_downloader_reply n (Some (fst pc)) (rv_id v) (rv_fd v))"
| "process_reply P (RO_copy n p name) pc v = rc_map RR_item (copy_reply P n (rv_md v))"
| "process_reply P (RO_move n p name) pc v = rc_map RR_item (move_reply P n (rv_md v))"
| "process_reply P (RO_delete n) pc v = rc_map (\<lambda>_. RR_unit) (delete_reply n)"
| "process_reply P (RO_finish_upload u) pc v = rc_map RR_item (finish_upload_reply P u (rv_md v))"
| "process_reply P (RO_cancel_upload u) pc v = sx_return RR_unit"
| "process_reply P (RO_finish_download d) pc v = sx_return RR_unit"
| "process_reply P (RO_cancel_download d) pc v = sx_return RR_unit"

text \<open>\<open>Handler\<close>: an error reply gives the exception, any other reply runs the closure. \<open>None\<close>: the process has
  ended.\<close>

definition Handler_finished ::
  "date_parser \<Rightarrow> r1_op \<Rightarrow> (string \<times> string) \<times> dbus_call \<Rightarrow> error_call + r1_value \<Rightarrow>
     remote_client \<Rightarrow> r1_result v1_future \<Rightarrow> (remote_client \<times> r1_result v1_future) option" where
  "Handler_finished P op pc reply s qf =
     (case reply of
        Inl call \<Rightarrow> Some (s, reportFinished (reportException (v1_unmarshal_exception call) qf))
      | Inr v \<Rightarrow>
          (case process_reply P op pc v s of
             (Ok r, s) \<Rightarrow> Some (s, reportFinished (reportResult r qf))
           | (Raise e, s) \<Rightarrow> Some (s, reportFinished (reportException e qf))
           | (Abort, s) \<Rightarrow> None))"

section \<open>The runtime\<close>

definition V1_BUS_NAMES :: "(string \<times> string) list" where
  "V1_BUS_NAMES =
     [(''storage-provider-gdrive'', ''com.canonical.StorageFramework.Provider.GdriveProvider''),
      (''storage-provider-mcloud'', ''com.canonical.StorageFramework.Provider.McloudProvider''),
      (''storage-provider-nextloud'', ''com.canonical.StorageFramework.Provider.Nextcloud''),
      (''storage-provider-onedrive'', ''com.canonical.StorageFramework.Provider.OnedriveProvider''),
      (''storage-provider-owncloud'', ''com.canonical.StorageFramework.Provider.OwnCloud''),
      (''storage-provider-test'', ''com.canonical.StorageFramework.Provider.ProviderTest'')]"

definition v1_make_account :: "string \<Rightarrow> string \<Rightarrow> string \<Rightarrow> string \<Rightarrow> string \<Rightarrow> v1_account" where
  "v1_make_account bus_name object_path owner owner_id description =
     \<lparr>va_owner = owner, va_owner_id = owner_id, va_description = description, va_provider = (bus_name, object_path),
      va_roots = []\<rparr>"

text \<open>The accounts of the manager, in the order of the service names.\<close>

definition v1_accounts_of :: "oa_account list \<Rightarrow> v1_account list" where
  "v1_accounts_of available =
     concat (map (\<lambda>(service_id, bus_name).
       map (\<lambda>a. v1_make_account bus_name (provider_path (oa_id a)) '''' (oa_serviceId a) (oa_displayName a))
         (filter (\<lambda>a. oa_serviceId a = service_id) available)) V1_BUS_NAMES)"

definition accounts_destroyed :: "nat list v1_future \<Rightarrow> nat list v1_future" where
  "accounts_destroyed qf = reportFinished (reportException (V1_RuntimeDestroyedException ''Runtime::accounts()'') qf)"

definition remote_accounts :: "remote_client \<Rightarrow> remote_client" where
  "remote_accounts s =
     (if vw_destroyed s then s\<lparr>rw_accounts := accounts_destroyed (rw_accounts s)\<rparr>
      else if \<not> rw_manager s then s\<lparr>rw_manager := True, rw_timer := True\<rparr>
      else s)"

definition v1_manager_ready :: "oa_account list \<Rightarrow> remote_client \<Rightarrow> remote_client" where
  "v1_manager_ready available s =
     (if vw_destroyed s then s\<lparr>rw_accounts := accounts_destroyed (rw_accounts s)\<rparr>
      else
        let new = v1_accounts_of available;
            accounts = map (\<lambda>i. length (vw_account_store s) + i) [0..<length new] in
        s\<lparr>rw_timer := False, vw_account_store := vw_account_store s @ new, vw_accounts := accounts,
          rw_accounts := reportFinished (reportResult accounts (rw_accounts s))\<rparr>)"

definition runtime_timeout :: "remote_client \<Rightarrow> remote_client" where
  "runtime_timeout s =
     s\<lparr>rw_timer := False, rw_accounts := reportFinished (reportException
       (V1_ResourceException ''Runtime::accounts(): timeout retrieving Online accounts'' 0) (rw_accounts s))\<rparr>"

definition remote_make_test_account :: "string \<Rightarrow> string \<Rightarrow> nat rc" where
  "remote_make_test_account bus_name object_path s =
     (Ok (length (vw_account_store s)),
      s\<lparr>vw_account_store := vw_account_store s @ [v1_make_account bus_name object_path '''' '''' '''']\<rparr>)"

section \<open>The application\<close>

text \<open>
  \<open>ra_sent\<close>: the calls, to a bus name and an object path, in their order; \<open>ra_pending\<close>: the handlers that wait, with
  the number of their future. An operation needs objects that the application holds, of the right class.
\<close>

record r1_app =
  ra_client :: remote_client
  ra_sent :: "((string \<times> string) \<times> dbus_call) list"
  ra_pending :: "(nat \<times> r1_op \<times> (string \<times> string) \<times> dbus_call) list"
  ra_futures :: "r1_result v1_future list"
  ra_aborted :: bool

definition r1_new :: r1_app where
  "r1_new = \<lparr>ra_client = remote_new, ra_sent = [], ra_pending = [], ra_futures = [], ra_aborted = False\<rparr>"

text \<open>The object that a handler is a child of: with it, the handler goes.\<close>

fun owner_alive :: "r1_op \<Rightarrow> remote_client \<Rightarrow> bool" where
  "owner_alive (RO_roots a) s = account_lockable s a"
| "owner_alive (RO_get n _) s = item_lockable s n"
| "owner_alive (RO_list n) s = item_lockable s n"
| "owner_alive (RO_lookup n _) s = item_lockable s n"
| "owner_alive (RO_create_folder n _) s = item_lockable s n"
| "owner_alive (RO_create_file n _ _) s = item_lockable s n"
| "owner_alive (RO_create_uploader n _ _) s = item_lockable s n"
| "owner_alive (RO_create_downloader n) s = item_lockable s n"
| "owner_alive (RO_copy n _ _) s = item_lockable s n"
| "owner_alive (RO_move n _ _) s = item_lockable s n"
| "owner_alive (RO_delete n) s = item_lockable s n"
| "owner_alive (RO_finish_upload u) s = (u < length (rw_uploaders s) \<and> \<not> ru_freed (rw_uploaders s ! u))"
| "owner_alive (RO_cancel_upload u) s = (u < length (rw_uploaders s) \<and> \<not> ru_freed (rw_uploaders s ! u))"
| "owner_alive (RO_finish_download d) s = (d < length (rw_downloaders s) \<and> \<not> rd_freed (rw_downloaders s ! d))"
| "owner_alive (RO_cancel_download d) s = (d < length (rw_downloaders s) \<and> \<not> rd_freed (rw_downloaders s ! d))"

definition remote_class :: "remote_client \<Rightarrow> nat \<Rightarrow> ItemType \<Rightarrow> bool" where
  "remote_class s n type \<longleftrightarrow> (let t = vi_type (vw_items s ! n) in
     case type of IT_file \<Rightarrow> t = IT_file | IT_root \<Rightarrow> t = IT_root | IT_folder \<Rightarrow> t \<noteq> IT_file)"

definition parent_ok :: "remote_client \<Rightarrow> nat option \<Rightarrow> bool" where
  "parent_ok s p = (case p of None \<Rightarrow> True | Some p \<Rightarrow> item_lockable s p \<and> remote_class s p IT_folder)"

fun class_ok :: "r1_op \<Rightarrow> remote_client \<Rightarrow> bool" where
  "class_ok (RO_get n _) s = remote_class s n IT_root"
| "class_ok (RO_list n) s = remote_class s n IT_folder"
| "class_ok (RO_lookup n _) s = remote_class s n IT_folder"
| "class_ok (RO_create_folder n _) s = remote_class s n IT_folder"
| "class_ok (RO_create_file n _ _) s = remote_class s n IT_folder"
| "class_ok (RO_create_uploader n _ _) s = remote_class s n IT_file"
| "class_ok (RO_create_downloader n) s = remote_class s n IT_file"
| "class_ok (RO_copy n p _) s = parent_ok s p"
| "class_ok (RO_move n p _) s = parent_ok s p"
| "class_ok _ s = True"

definition r1_call :: "r1_op \<Rightarrow> r1_app \<Rightarrow> r1_app" where
  "r1_call op s =
     (case r1_start op (ra_client s) of
        Abort \<Rightarrow> s\<lparr>ra_aborted := True\<rparr>
      | Raise e \<Rightarrow> s\<lparr>ra_client := r1_mark op (ra_client s), ra_futures := ra_futures s @ [v1_exceptional_future e]\<rparr>
      | Ok pc \<Rightarrow> s\<lparr>ra_client := r1_mark op (ra_client s), ra_sent := ra_sent s @ [pc],
          ra_pending := ra_pending s @ [(length (ra_futures s), op, pc)],
          ra_futures := ra_futures s @ [v1_future_init]\<rparr>)"

definition r1_reply :: "date_parser \<Rightarrow> nat \<Rightarrow> error_call + r1_value \<Rightarrow> r1_app \<Rightarrow> r1_app" where
  "r1_reply P j reply s =
     (case ra_pending s ! j of (k, op, pc) \<Rightarrow>
      let s = s\<lparr>ra_pending := take j (ra_pending s) @ drop (Suc j) (ra_pending s)\<rparr> in
      if \<not> owner_alive op (ra_client s) then s
      else case Handler_finished P op pc reply (ra_client s) (ra_futures s ! k) of
          None \<Rightarrow> s\<lparr>ra_aborted := True\<rparr>
        | Some (c, qf) \<Rightarrow> s\<lparr>ra_client := c, ra_futures := (ra_futures s)[k := qf]\<rparr>)"

text \<open>The destructors of uploader and downloader.\<close>

definition drop_uploader :: "nat \<Rightarrow> r1_app \<Rightarrow> r1_app" where
  "drop_uploader u s =
     (let up = rw_uploaders (ra_client s) ! u in
      s\<lparr>ra_client := (ra_client s)\<lparr>rw_uploaders := (rw_uploaders (ra_client s))[u := up\<lparr>ru_freed := True\<rparr>]\<rparr>,
        ra_sent := ra_sent s @ (if ru_finalized up then [] else [(ru_provider up, CancelUpload (ru_id up))])\<rparr>)"

definition drop_downloader :: "nat \<Rightarrow> r1_app \<Rightarrow> r1_app" where
  "drop_downloader d s =
     (let down = rw_downloaders (ra_client s) ! d in
      s\<lparr>ra_client := (ra_client s)\<lparr>rw_downloaders := (rw_downloaders (ra_client s))[d := down\<lparr>rd_aborted := True, rd_freed := True\<rparr>]\<rparr>\<rparr>)"

text \<open>The application gives up an item when no uploader and no downloader owns it any more.\<close>

definition item_held :: "remote_client \<Rightarrow> nat \<Rightarrow> bool" where
  "item_held s n \<longleftrightarrow> (\<exists>u \<in> set (rw_uploaders s). \<not> ru_freed u \<and> ru_root u = n) \<or>
     (\<exists>d \<in> set (rw_downloaders s). \<not> rd_freed d \<and> rd_file d = n)"

datatype r1_event =
    RE_call r1_op
  | RE_reply nat "error_call + r1_value"
  | RE_accounts
  | RE_manager_ready "oa_account list"
  | RE_timeout
  | RE_test_account string string
  | RE_shutdown
  | RE_drop_runtime
  | RE_drop_item nat
  | RE_drop_account nat
  | RE_drop_uploader nat
  | RE_drop_downloader nat

definition on_remote :: "(remote_client \<Rightarrow> remote_client) \<Rightarrow> r1_app \<Rightarrow> r1_app" where
  "on_remote f s = s\<lparr>ra_client := f (ra_client s)\<rparr>"

fun r1_event_step :: "date_parser \<Rightarrow> r1_app \<Rightarrow> r1_event \<Rightarrow> r1_app" where
  "r1_event_step P s (RE_call op) = (if owner_alive op (ra_client s) \<and> class_ok op (ra_client s) then r1_call op s else s)"
| "r1_event_step P s (RE_reply j reply) = (if j < length (ra_pending s) then r1_reply P j reply s else s)"
| "r1_event_step P s RE_accounts = (if vw_runtime (ra_client s) then on_remote remote_accounts s else s)"
| "r1_event_step P s (RE_manager_ready available) =
     (if vw_runtime (ra_client s) \<and> rw_manager (ra_client s) then on_remote (v1_manager_ready available) s else s)"
| "r1_event_step P s RE_timeout =
     (if vw_runtime (ra_client s) \<and> rw_timer (ra_client s) then on_remote runtime_timeout s else s)"
| "r1_event_step P s (RE_test_account bus path) =
     (if vw_runtime (ra_client s) then on_remote (\<lambda>c. snd (remote_make_test_account bus path c)) s else s)"
| "r1_event_step P s RE_shutdown = on_remote v1_shutdown s"
| "r1_event_step P s RE_drop_runtime = on_remote v1_destroy_runtime s"
| "r1_event_step P s (RE_drop_item n) = (if item_held (ra_client s) n then s else on_remote (v1_release_item n) s)"
| "r1_event_step P s (RE_drop_account a) = on_remote (v1_release_account a) s"
| "r1_event_step P s (RE_drop_uploader u) = (if owner_alive (RO_finish_upload u) (ra_client s) then drop_uploader u s else s)"
| "r1_event_step P s (RE_drop_downloader d) =
     (if owner_alive (RO_finish_download d) (ra_client s) then drop_downloader d s else s)"

definition r1_step :: "date_parser \<Rightarrow> r1_app \<Rightarrow> r1_event \<Rightarrow> r1_app" where
  "r1_step P s e = (if ra_aborted s then s else r1_event_step P s e)"

end
