(* ===== verification/V1RemoteProps.thy ===== *)
theory V1RemoteProps
  imports V1Remote
begin

text \<open>
  What the remote back end of the version 1 client library guarantees, whatever the providers answer and in
  whatever order: the exceptions of a provider, the metadata that is accepted, the objects, the futures and the
  calls.
\<close>

section \<open>Exceptions\<close>

text \<open>What a version 1 client is meant to see of a provider's exception.\<close>

fun v1_client_exception :: "StorageException \<Rightarrow> v1_exception" where
  "v1_client_exception (RemoteCommsException m) = V1_RemoteCommsException m"
| "v1_client_exception (NotExistsException m k) = V1_NotExistsException m k"
| "v1_client_exception (ExistsException m i n) = V1_ExistsException m i n"
| "v1_client_exception (ConflictException m) = V1_ConflictException m"
| "v1_client_exception (PermissionException m) = V1_PermissionException m"
| "v1_client_exception (QuotaException m) = V1_QuotaException m"
| "v1_client_exception (CancelledException m) = V1_CancelledException m"
| "v1_client_exception (LogicException m) = V1_LogicException m"
| "v1_client_exception (InvalidArgumentException m) = V1_InvalidArgumentException m"
| "v1_client_exception (ResourceException m c) = V1_ResourceException m c"
| "v1_client_exception (UnknownException m) = V1_LocalCommsException m"
| "v1_client_exception (UnauthorizedException m) = V1_LocalCommsException
     (''unmarshal_exception(): unknown exception type received from server: UnauthorizedException: '' @ m)"
| "v1_client_exception (OtherStorageException t m) = V1_LocalCommsException
     (''unmarshal_exception(): unknown exception type received from server: '' @ t @ '': '' @ m)"



section \<open>Metadata\<close>

text \<open>What version 1 accepts as the value of a known key, and as metadata.\<close>

definition v1_valid_value :: "date_parser \<Rightarrow> MetadataType \<Rightarrow> QVariant \<Rightarrow> bool" where
  "v1_valid_value parse_date known value \<longleftrightarrow>
     (known = iso_8601_date_time \<longrightarrow>
        (\<exists>s spec. value = QV_String s \<and> parse_date s = Some spec \<and> spec \<noteq> LocalTime)) \<and>
     (known = non_zero_pos_int64 \<longrightarrow> (\<exists>val. value = QV_LongLong val))"

definition v1_valid_metadata :: "date_parser \<Rightarrow> ItemMetadata \<Rightarrow> bool" where
  "v1_valid_metadata parse_date md \<longleftrightarrow>
     md_item_id md \<noteq> '''' \<and>
     (md_type md = IT_root \<longleftrightarrow> md_parent_ids md = []) \<and> '''' \<notin> set (md_parent_ids md) \<and> md_name md \<noteq> '''' \<and>
     (md_type md = IT_file \<longrightarrow> md_etag md \<noteq> '''') \<and>
     (\<forall>(k, v) \<in> set (md_metadata md). \<forall>known. map_of known_metadata k = Some known \<longrightarrow> v1_valid_value parse_date known v) \<and>
     (md_type md = IT_file \<longrightarrow> {SIZE_IN_BYTES, LAST_MODIFIED_TIME} \<subseteq> fst ` set (md_metadata md))"

lemma v1_validate_type_and_value_Ok:
  "v1_validate_type_and_value parse_date prefix key value known = Ok u \<longleftrightarrow> v1_valid_value parse_date known value"
  by (cases known; cases "value")
    (auto simp: v1_validate_type_and_value_def v1_valid_value_def split: option.splits)

lemma v1_validate_entries_Ok:
  "v1_validate_entries parse_date prefix m = Ok u \<longleftrightarrow>
     (\<forall>(k, v) \<in> set m. \<forall>known. map_of known_metadata k = Some known \<longrightarrow> v1_valid_value parse_date known v)"
  by (induction m) (auto simp: v1_validate_type_and_value_Ok split: option.splits)

lemma v1_validate_Ok_iff: "v1_validate parse_date meth md = Ok u \<longleftrightarrow> v1_valid_metadata parse_date md"
  unfolding v1_validate_def Let_def v1_valid_metadata_def
  by (cases "md_type md") (auto simp: v1_validate_entries_Ok contains_key_iff)

definition no_negative :: "ItemMetadata \<Rightarrow> bool" where
  "no_negative md \<longleftrightarrow> (\<forall>(k, v) \<in> set (md_metadata md). map_of known_metadata k = Some non_zero_pos_int64 \<longrightarrow>
     (case v of QV_LongLong n \<Rightarrow> 0 \<le> n | _ \<Rightarrow> True))"

lemma valid_value_versions:
  "valid_value parse_date known v \<longleftrightarrow> v1_valid_value parse_date known v \<and>
     (known = non_zero_pos_int64 \<longrightarrow> (case v of QV_LongLong n \<Rightarrow> 0 \<le> n | _ \<Rightarrow> True))"
  by (cases known; cases v) (auto simp: valid_value_def v1_valid_value_def)

text \<open>
  C35. The two versions of the client library accept the same metadata, up to two points: version 1 does not check
  that sizes are not negative, and it wants a name also for a root. So the metadata that version 1 accepts and
  that has no negative value is exactly what version 2 accepts and that has a name.
\<close>

theorem v1_v2_validate:
  "v1_validate parse_date meth md = Ok () \<and> no_negative md \<longleftrightarrow>
   validate parse_date meth' md = Ok () \<and> md_name md \<noteq> ''''"
  unfolding v1_validate_Ok_iff validate_Ok_iff v1_valid_metadata_def valid_metadata_def no_negative_def valid_value_versions
  by auto

lemma v1_valid_of_valid: "valid_metadata P md \<Longrightarrow> md_type md \<noteq> IT_root \<Longrightarrow> v1_valid_metadata P md"
  unfolding v1_valid_metadata_def valid_metadata_def valid_value_versions by auto

section \<open>Objects\<close>

text \<open>
  Every object belongs to the metadata that it was made for; what is not a root was validated. The root of an
  object is a root, and a root's own; an uploader owns a root.
\<close>

definition root_in :: "remote_client \<Rightarrow> nat \<Rightarrow> bool" where
  "root_in s r \<longleftrightarrow> r < length (vw_items s) \<and> vi_type (vw_items s ! r) = IT_root"

definition good_object :: "date_parser \<Rightarrow> remote_item \<Rightarrow> bool" where
  "good_object P i \<longleftrightarrow> vi_identity i = md_item_id (ri_md i) \<and> vi_type i = md_type (ri_md i) \<and>
     (vi_type i \<noteq> IT_root \<longrightarrow> v1_valid_metadata P (ri_md i))"

definition good_place :: "remote_client \<Rightarrow> nat \<Rightarrow> bool" where
  "good_place s n \<longleftrightarrow> root_in s (vi_root (vw_items s ! n)) \<and>
     (vi_type (vw_items s ! n) = IT_root \<longrightarrow> vi_root (vw_items s ! n) = n)"

definition good_owner :: "remote_client \<Rightarrow> v1_uploader \<Rightarrow> bool" where
  "good_owner s u \<longleftrightarrow> ru_freed u \<or> (root_in s (ru_root u) \<and> ru_root u \<notin> set (vw_freed s))"

definition remote_ok :: "date_parser \<Rightarrow> remote_client \<Rightarrow> bool" where
  "remote_ok P s \<longleftrightarrow> (\<forall>i \<in> set (vw_items s). good_object P i) \<and> (\<forall>n < length (vw_items s). good_place s n) \<and>
     (\<forall>u \<in> set (rw_uploaders s). good_owner s u)"

definition rooted :: "date_parser \<Rightarrow> nat \<Rightarrow> remote_client \<Rightarrow> bool" where
  "rooted P r s \<longleftrightarrow> remote_ok P s \<and> root_in s r"

lemma remote_ok_same:
  "vw_items t = vw_items s \<Longrightarrow> rw_uploaders t = rw_uploaders s \<Longrightarrow> set (vw_freed t) \<subseteq> set (vw_freed s) \<Longrightarrow>
     remote_ok P s \<Longrightarrow> remote_ok P t"
  by (auto simp: remote_ok_def good_place_def good_owner_def root_in_def)

lemma alloc_ok:
  assumes ok: "remote_ok P s" and i: "good_object P i"
    and place: "root_in s (vi_root i) \<and> vi_type i \<noteq> IT_root \<or> vi_type i = IT_root \<and> vi_root i = length (vw_items s)"
  shows "remote_ok P (snd (rc_alloc i s))"
  using assms
  by (auto simp: rc_alloc_def remote_ok_def good_place_def good_owner_def root_in_def nth_append less_Suc_eq)

lemma alloc_root_in: "root_in s r \<Longrightarrow> root_in (snd (rc_alloc i s)) r"
  by (simp add: rc_alloc_def root_in_def nth_append)

lemma make_item_ok:
  assumes "v1_valid_metadata P md" and "md_type md \<noteq> IT_root"
  shows "keeps (rooted P r) (remote_make_item md r)"
proof -
  have "keeps (rooted P r) (rc_alloc (remote_item_init md (md_type md) r 0))"
    unfolding keeps_def rooted_def
    using assms by (auto intro!: alloc_ok alloc_root_in simp: remote_item_init_def good_object_def)
  with assms(2) show ?thesis
    by (cases "md_type md")
      (auto simp: remote_make_item_def remote_make_file_def remote_make_folder_def intro!: keeps_bind keeps_query)
qed

lemma make_folder_ok: "v1_valid_metadata P md \<Longrightarrow> md_type md = IT_folder \<Longrightarrow> keeps (rooted P r) (remote_make_folder md r)"
  using make_item_ok [of P md r] by (simp add: remote_make_item_def)

lemma make_file_ok: "v1_valid_metadata P md \<Longrightarrow> md_type md = IT_file \<Longrightarrow> keeps (rooted P r) (remote_make_file md r)"
  using make_item_ok [of P md r] by (simp add: remote_make_item_def)

lemma make_root_ok: "keeps (remote_ok P) (remote_make_root md a)"
proof -
  have "md_type md = IT_root \<Longrightarrow> keeps (remote_ok P) (\<lambda>s. rc_alloc (remote_item_init md IT_root (length (vw_items s)) a) s)"
    unfolding keeps_def by (auto intro!: alloc_ok simp: remote_item_init_def good_object_def)
  then show ?thesis
    unfolding remote_make_root_def by (auto intro!: keeps_query_bind simp: assertR_def split: if_splits)
qed

lemma keeps_validated_bind:
  "(v1_valid_metadata P md \<Longrightarrow> keeps Q (f ())) \<Longrightarrow> keeps Q (sx_bind (sx_lift (v1_validate P meth md)) f)"
  by (rule keeps_lift_bind) (simp add: v1_validate_Ok_iff)

lemma reply_items_ok: "keeps (rooted P r) (reply_items P meth r mds)"
  by (induction mds)
    (auto intro!: keeps_validated_bind keeps_bind keeps_return make_item_ok)

text \<open>A closure that starts with \<open>get_root()\<close>, on an object that exists.\<close>

lemma need_root_bind:
  assumes "\<And>r. keeps (rooted P r) (f r)" and ok: "remote_ok P s" and n: "n < length (vw_items s)"
  shows "remote_ok P (snd (sx_bind (need_root meth n) f s))"
proof (cases "get_root s n")
  case None
  with ok show ?thesis by (simp add: need_root_def sx_query_def sx_bind_def)
next
  case (Some r)
  with ok n have "rooted P r s" by (auto simp: rooted_def remote_ok_def good_place_def dest: get_root_Some)
  from keepsD [OF assms(1) this] Some show ?thesis by (simp add: need_root_def sx_query_def sx_bind_def rooted_def)
qed

lemma make_uploader_ok: "keeps (rooted P r) (make_uploader i fd sz e r prov)"
  unfolding keeps_def
  by (auto simp: make_uploader_def rooted_def remote_ok_def good_place_def good_owner_def root_in_def split: option.splits)

lemma make_downloader_ok: "keeps (remote_ok P) (make_downloader i fd n prov)"
  unfolding keeps_def by (auto simp: make_downloader_def split: option.splits intro: remote_ok_same)

lemma delete_ok: "remote_ok P s \<Longrightarrow> remote_ok P (snd (delete_reply n s))"
  by (cases "n < length (vw_items s)")
    (auto simp: delete_reply_def remote_ok_def good_place_def good_owner_def root_in_def good_object_def nth_list_update
      list_update_beyond dest!: set_update_subset_insert [THEN subsetD] intro: nth_mem)

lemma keeps_abort: "keeps Q (Pair Abort)"
  by (simp add: keeps_def)

lemma snd_rc_map: "snd (rc_map f m s) = snd (m s)"
  by (simp add: rc_map_def sx_bind_def sx_return_def split: outcome.splits prod.splits)

lemma lockable_item: "item_lockable s n \<Longrightarrow> n < length (vw_items s)"
  by (simp add: item_lockable_def)

lemma item_replies_ok:
  assumes "remote_ok P s" and "n < length (vw_items s)"
  shows "remote_ok P (snd (copy_reply P n md s))" "remote_ok P (snd (move_reply P n md s))"
    "remote_ok P (snd (create_folder_reply P n md s))" "remote_ok P (snd (list_reply P n mds token s))"
    "remote_ok P (snd (lookup_reply P n name mds s))"
    "remote_ok P (snd (create_uploader_reply n sz e prov i fd s))"
  unfolding copy_reply_def move_reply_def create_folder_reply_def list_reply_def lookup_reply_def create_uploader_reply_def
  by (rule need_root_bind [OF _ assms],
      auto intro!: keeps_validated_bind keeps_throw_if_bind make_item_ok make_folder_ok keeps_bind reply_items_ok
        keeps_return keeps_abort make_uploader_ok)+

lemma create_file_reply_ok:
  "remote_ok P s \<Longrightarrow> n < length (vw_items s) \<Longrightarrow> remote_ok P (snd (create_file_reply n sz i fd s))"
  unfolding create_file_reply_def
  by (rule need_root_bind) (use make_uploader_ok in \<open>auto simp: keeps_def\<close>)

lemma create_downloader_reply_ok: "keeps (remote_ok P) (create_downloader_reply n prov i fd)"
  unfolding create_downloader_reply_def by (intro keeps_bind keeps_query keeps_throw_if make_downloader_ok)

lemma get_reply_ok:
  assumes ok: "remote_ok P s" and n: "n < length (vw_items s)"
  shows "remote_ok P (snd (get_reply P n md s))"
proof -
  let ?r = "vi_root (vw_items s ! n)"
  have r: "rooted P ?r s" using ok n by (simp add: rooted_def remote_ok_def good_place_def)
  have "remote_ok P (snd (remote_make_root md a s))" for a using keepsD [OF make_root_ok ok] .
  moreover have "v1_valid_metadata P md \<Longrightarrow> md_type md \<noteq> IT_root \<Longrightarrow> remote_ok P (snd (remote_make_item md ?r s))"
    using keepsD [OF make_item_ok r] by (simp add: rooted_def)
  ultimately show ?thesis using ok
    by (auto simp: get_reply_def sx_bind_def sx_query_def sx_lift_def v1_validate_Ok_iff split: outcome.splits)
qed

lemma reply_roots_ok: "keeps (remote_ok P) (reply_roots a mds)"
  by (induction mds) (auto intro!: keeps_bind keeps_return make_root_ok)

lemma roots_reply_ok: "keeps (remote_ok P) (roots_reply a mds)"
  unfolding roots_reply_def
  by (intro keeps_bind keeps_query reply_roots_ok) (auto simp: keeps_def intro: remote_ok_same)

lemma finish_upload_reply_ok:
  assumes ok: "remote_ok P s" and "owner_alive (RO_finish_upload u) s"
  shows "remote_ok P (snd (finish_upload_reply P u md s))"
proof -
  have "rooted P (ru_root (rw_uploaders s ! u)) s"
    using assms by (auto simp: rooted_def remote_ok_def good_owner_def)
  from keepsD [OF make_file_ok this] ok show ?thesis
    by (auto simp: finish_upload_reply_def sx_bind_def sx_lift_def sx_throw_if_def sx_throw_def sx_return_def
        v1_validate_Ok_iff rooted_def split: outcome.splits)
qed

lemma process_reply_ok:
  "remote_ok P s \<Longrightarrow> owner_alive op s \<Longrightarrow> remote_ok P (snd (process_reply P op pc v s))"
  by (cases op)
    (auto simp: snd_rc_map Let_def sx_return_def item_replies_ok create_file_reply_ok get_reply_ok
      delete_ok finish_upload_reply_ok lockable_item keepsD [OF roots_reply_ok]
      keepsD [OF create_downloader_reply_ok])

lemma handler_client:
  "Handler_finished P op pc reply s qf = Some (c, qf') \<Longrightarrow>
     c = (case reply of Inl _ \<Rightarrow> s | Inr v \<Rightarrow> snd (process_reply P op pc v s))"
  by (auto simp: Handler_finished_def split: sum.splits outcome.splits prod.splits)

lemma r1_reply_client:
  "ra_client (r1_reply P j reply s) = ra_client s \<or>
   (\<exists>k op pc v. ra_pending s ! j = (k, op, pc) \<and> owner_alive op (ra_client s) \<and>
      ra_client (r1_reply P j reply s) = snd (process_reply P op pc v (ra_client s)))"
  by (auto simp: r1_reply_def Let_def split: prod.splits option.splits dest!: handler_client split: sum.splits)

lemma mark_ok: "remote_ok P s \<Longrightarrow> remote_ok P (r1_mark op s)"
proof (cases op)
  case (RO_finish_upload u)
  then show "remote_ok P s \<Longrightarrow> ?thesis"
    by (cases "u < length (rw_uploaders s)")
      (auto simp: remote_ok_def good_place_def good_owner_def root_in_def list_update_beyond
        dest!: set_update_subset_insert [THEN subsetD])
next
  case (RO_cancel_upload u)
  then show "remote_ok P s \<Longrightarrow> ?thesis"
    by (cases "u < length (rw_uploaders s)")
      (auto simp: remote_ok_def good_place_def good_owner_def root_in_def list_update_beyond
        dest!: set_update_subset_insert [THEN subsetD])
qed (auto intro: remote_ok_same)

lemma drops_ok:
  assumes "remote_ok P (ra_client s)"
  shows "remote_ok P (ra_client (drop_uploader u s))" "remote_ok P (ra_client (drop_downloader d s))"
    "\<not> item_held (ra_client s) n \<Longrightarrow> remote_ok P (v1_release_item n (ra_client s))"
proof -
  let ?up = "rw_uploaders (ra_client s)"
  have "v \<in> set (?up[u := (?up ! u)\<lparr>ru_freed := True\<rparr>]) \<Longrightarrow> v \<in> set ?up \<or> ru_freed v" for v
    by (cases "u < length ?up") (auto simp: list_update_beyond dest!: set_update_subset_insert [THEN subsetD])
  with assms show "remote_ok P (ra_client (drop_uploader u s))"
    by (auto simp: drop_uploader_def Let_def remote_ok_def good_place_def good_owner_def root_in_def)
  show "remote_ok P (ra_client (drop_downloader d s))"
    using assms by (auto simp: drop_downloader_def Let_def intro: remote_ok_same)
  show "\<not> item_held (ra_client s) n \<Longrightarrow> remote_ok P (v1_release_item n (ra_client s))"
    using assms by (auto simp: v1_release_item_def remote_ok_def good_place_def good_owner_def root_in_def item_held_def)
qed

lemma r1_call_client: "ra_client (r1_call op s) = ra_client s \<or> ra_client (r1_call op s) = r1_mark op (ra_client s)"
  by (simp add: r1_call_def split: outcome.splits)

lemma event_ok: "remote_ok P (ra_client s) \<Longrightarrow> remote_ok P (ra_client (r1_event_step P s e))"
proof (cases e)
  case (RE_call op)
  then show "remote_ok P (ra_client s) \<Longrightarrow> ?thesis" using r1_call_client [of op s] mark_ok [of P "ra_client s" op] by auto
next
  case (RE_reply j reply)
  then show "remote_ok P (ra_client s) \<Longrightarrow> ?thesis"
    using r1_reply_client [of P j reply s] process_reply_ok [of P "ra_client s"] by auto
qed (auto simp: on_remote_def drops_ok remote_accounts_def v1_manager_ready_def runtime_timeout_def
    remote_make_test_account_def v1_shutdown_def v1_destroy_runtime_def v1_release_account_def Let_def intro: remote_ok_same)

interpretation remote_objects: invariant_machine "r1_step P" "\<lambda>s. remote_ok P (ra_client s)" for P
  by unfold_locales (simp add: r1_step_def event_ok)

lemma remote_new_ok: "remote_ok P (ra_client r1_new)"
  by (simp add: r1_new_def remote_new_def remote_ok_def v1_new_world_def v1_world.defs)

text \<open>
  C28. Whatever a provider answers, every object of the remote back end is the one of the metadata that it
  was made for, with its identity and its type; the metadata of every file and folder has passed the validation; and the
  root that it belongs to is a root. (The metadata of roots is not validated by \<open>Account::roots\<close>.)
\<close>

theorem v1_remote_objects:
  "\<forall>n < length (vw_items (ra_client (run_events (r1_step P) r1_new es))).
     good_object P (vw_items (ra_client (run_events (r1_step P) r1_new es)) ! n) \<and>
     good_place (ra_client (run_events (r1_step P) r1_new es)) n"
  using remote_objects.inv_run [OF remote_new_ok, of P es] by (simp add: remote_ok_def)

text \<open>A reply without roots whose metadata is valid: one new object for each item, in order.\<close>

lemma reply_items_run:
  assumes "\<forall>md \<in> set mds. v1_valid_metadata P md \<and> md_type md \<noteq> IT_root" and "item_lockable s r"
  shows "reply_items P meth r mds s =
    (Ok [length (vw_items s)..<length (vw_items s) + length mds],
     s\<lparr>vw_items := vw_items s @ map (\<lambda>md. remote_item_init md (md_type md) r 0) mds\<rparr>)"
  using assms
proof (induction mds arbitrary: s)
  case Nil
  then show ?case by (simp add: sx_return_def)
next
  case (Cons md mds)
  let ?i = "remote_item_init md (md_type md) r 0"
  let ?t = "s\<lparr>vw_items := vw_items s @ [?i]\<rparr>"
  have t: "item_lockable ?t r" using Cons.prems(2) by (auto simp: item_lockable_def account_lockable_def)
  have "v1_validate P meth md = Ok ()" using Cons.prems(1) by (simp add: v1_validate_Ok_iff)
  moreover have "remote_make_item md r s = (Ok (length (vw_items s)), ?t)"
    using Cons.prems
    by (cases "md_type md") (auto simp: remote_make_item_def remote_make_file_def remote_make_folder_def sx_bind_def
        sx_query_def rc_alloc_def)
  moreover have "[length (vw_items s)..<length (vw_items s) + length (md # mds)] =
      length (vw_items s) # [Suc (length (vw_items s))..<Suc (length (vw_items s)) + length mds]"
    by (simp add: upt_conv_Cons del: upt_Suc)
  ultimately show ?case
    using Cons.IH [OF _ t] Cons.prems(1) by (simp add: sx_bind_def sx_lift_def sx_return_def del: upt_Suc)
qed

section \<open>What a reply leaves alone\<close>

text \<open>A reply does not touch the runtime, and of the uploaders it only adds new ones.\<close>

definition frame :: "remote_client \<Rightarrow> remote_client \<Rightarrow> bool" where
  "frame s t \<longleftrightarrow> vw_runtime t = vw_runtime s \<and> vw_destroyed t = vw_destroyed s \<and>
     (\<exists>us. rw_uploaders t = rw_uploaders s @ us \<and> (\<forall>u \<in> set us. \<not> ru_finalized u \<and> \<not> ru_freed u)) \<and>
     length (vw_items s) \<le> length (vw_items t) \<and>
     (\<forall>n < length (vw_items s). vi_type (vw_items t ! n) = vi_type (vw_items s ! n))"

lemma frame_refl [simp]: "frame s s"
  by (simp add: frame_def)

lemma frame_alloc: "keeps (frame s0) (rc_alloc i)"
  by (auto simp: keeps_def rc_alloc_def frame_def nth_append)

lemma frame_make:
  "keeps (frame s0) (remote_make_file md r)" "keeps (frame s0) (remote_make_folder md r)"
  "keeps (frame s0) (remote_make_item md r)" "keeps (frame s0) (remote_make_root md a)"
proof -
  show f: "keeps (frame s0) (remote_make_file md r)" "keeps (frame s0) (remote_make_folder md r)"
    unfolding remote_make_file_def remote_make_folder_def by (intro keeps_bind keeps_query frame_alloc)+
  then show "keeps (frame s0) (remote_make_item md r)"
    by (cases "md_type md") (simp_all add: remote_make_item_def keeps_abort)
  have "keeps (frame s0) (\<lambda>s. rc_alloc (remote_item_init md IT_root (length (vw_items s)) a) s)"
    using keepsD [OF frame_alloc] by (simp add: keeps_def)
  then show "keeps (frame s0) (remote_make_root md a)"
    unfolding remote_make_root_def by (intro keeps_bind keeps_query)
qed

lemma frame_transfers:
  "keeps (frame s0) (make_uploader i fd sz e r prov)" "keeps (frame s0) (make_downloader i fd n prov)"
  by (auto simp: keeps_def make_uploader_def make_downloader_def frame_def split: option.splits)

lemma frame_delete: "keeps (frame s0) (delete_reply n)"
proof -
  have "vi_type ((xs[n := (xs ! n)\<lparr>vi_deleted := True\<rparr>]) ! m) = vi_type (xs ! m)" for xs :: "remote_item list" and m
    by (cases "n < length xs") (simp_all add: nth_list_update list_update_beyond)
  then show ?thesis by (simp add: keeps_def delete_reply_def frame_def)
qed

lemma frame_items: "keeps (frame s0) (reply_items P meth r mds)" "keeps (frame s0) (reply_roots a mds)"
  by (induction mds) (auto intro!: keeps_bind keeps_lift keeps_return frame_make)

lemmas frame_rules = keeps_bind keeps_query keeps_lift keeps_return keeps_throw_if keeps_abort frame_make frame_transfers
  frame_items frame_delete

lemma frame_from_state:
  "keeps (frame s0) (\<lambda>s. make_uploader i fd sz e r (remote_provider s n) s)"
  "keeps (frame s0) (\<lambda>s. remote_make_file md (ru_root (rw_uploaders s ! u)) s)"
  "keeps (frame s0) (\<lambda>s. if md_type md = IT_root then remote_make_root md a s
     else remote_make_item md (vi_root (vw_items s ! n)) s)"
  "keeps (frame s0) (\<lambda>s. (Ok roots, s\<lparr>vw_account_store :=
     (vw_account_store s)[a := (vw_account_store s ! a)\<lparr>va_roots := roots\<rparr>]\<rparr>))"
  using frame_transfers(1) frame_make by (auto simp: keeps_def) (auto simp: frame_def)

lemma frame_process: "frame s (snd (process_reply P op pc v s))"
proof -
  have "keeps (frame s) (process_reply P op pc v)"
    by (cases op)
      (auto simp: rc_map_def roots_reply_def get_reply_def list_reply_def lookup_reply_def create_folder_reply_def
        create_file_reply_def create_uploader_reply_def create_downloader_reply_def copy_reply_def move_reply_def
        finish_upload_reply_def need_root_def Let_def intro!: frame_rules frame_from_state)
  from keepsD [OF this frame_refl] show ?thesis .
qed

section \<open>Calls\<close>

text \<open>The calls that end a transfer, which its object may send after the runtime is gone.\<close>

fun transfer_call :: "dbus_call \<Rightarrow> bool" where
  "transfer_call (FinishUpload i) = True"
| "transfer_call (CancelUpload i) = True"
| "transfer_call (FinishDownload i) = True"
| "transfer_call _ = False"

lemma start_needs_runtime:
  assumes "\<not> runtime_ok s" and "r1_start op s = Ok (prov, call)"
  shows "transfer_call call"
proof -
  have dead: "\<exists>e. throw_if_destroyed meth n s = Raise e" for meth n using throw_if_destroyed_runtime [OF assms(1)] .
  have account: "account_runtime s = Raise (V1_RuntimeDestroyedException ''Account::runtime()'')"
    using assms(1) by (simp add: account_runtime_def)
  have bind: "throw_if_destroyed meth n s \<noteq> Ok u" for meth n u using dead [of meth n] by auto
  show ?thesis
  proof (cases op)
    case (RO_copy n p name)
    with assms(2) bind show ?thesis by (cases p) (auto simp: two_items_call_def)
  next
    case (RO_move n p name)
    with assms(2) bind show ?thesis by (cases p) (auto simp: two_items_call_def)
  qed (use assms(2) bind account in \<open>auto simp: item_call_def split: outcome.splits\<close>)
qed

lemma reply_frame: "frame (ra_client s) (ra_client (r1_reply P j reply s))"
  using r1_reply_client [of P j reply s] frame_process by fastforce

lemma reply_sent [simp]: "ra_sent (r1_reply P j reply s) = ra_sent s"
  by (simp add: r1_reply_def Let_def split: prod.splits option.splits)

text \<open>The calls that one event adds.\<close>

definition adds_only :: "(dbus_call \<Rightarrow> bool) \<Rightarrow> r1_app \<Rightarrow> r1_app \<Rightarrow> bool" where
  "adds_only A s t \<longleftrightarrow> (\<exists>cs. ra_sent t = ra_sent s @ cs \<and> (\<forall>(prov, call) \<in> set cs. A call))"

lemma adds_only_refl [simp]: "adds_only A s s"
  by (simp add: adds_only_def)

lemma adds_only_trans: "adds_only A s t \<Longrightarrow> adds_only A t u \<Longrightarrow> adds_only A s u"
  unfolding adds_only_def by (metis UnE append.assoc set_append)

lemma adds_only_same: "adds_only A s t \<Longrightarrow> ra_sent u = ra_sent t \<Longrightarrow> adds_only A s u"
  by (simp add: adds_only_def)

lemma mark_frame [simp]: "runtime_ok (r1_mark op s) = runtime_ok s"
  by (cases op) (simp_all add: runtime_ok_def)

lemma dead_call:
  assumes "\<not> runtime_ok (ra_client s)"
  shows "\<not> runtime_ok (ra_client (r1_call op s)) \<and> adds_only transfer_call s (r1_call op s)"
proof (cases "r1_start op (ra_client s)")
  case (Ok pc)
  then show ?thesis using assms start_needs_runtime [OF assms]
    by (cases pc) (auto simp: r1_call_def adds_only_def)
qed (use assms in \<open>auto simp: r1_call_def adds_only_def\<close>)

lemma dead_event:
  assumes "\<not> runtime_ok (ra_client s)"
  shows "\<not> runtime_ok (ra_client (r1_event_step P s e)) \<and> adds_only transfer_call s (r1_event_step P s e)"
proof (cases e)
  case (RE_reply j reply)
  with assms reply_frame [of s P j reply] show ?thesis by (auto simp: frame_def runtime_ok_def adds_only_def)
qed (use assms dead_call [OF assms] in \<open>auto simp: on_remote_def runtime_ok_def remote_accounts_def v1_manager_ready_def
  runtime_timeout_def remote_make_test_account_def v1_shutdown_def v1_destroy_runtime_def v1_release_item_def
  v1_release_account_def drop_uploader_def drop_downloader_def Let_def adds_only_def\<close>)

interpretation dead_runtime: invariant_machine "r1_step P"
  "\<lambda>s. \<not> runtime_ok (ra_client s) \<and> adds_only transfer_call s0 s" for P s0
  by unfold_locales (auto simp: r1_step_def dest: dead_event intro: adds_only_trans)

text \<open>
  After the runtime was shut down or destroyed, the remote back end sends no call to a provider any more, whatever the
  application tries with the objects that it still holds, except those with which uploaders and downloaders
  end their transfers.
\<close>

theorem v1_no_calls_after_shutdown:
  assumes "\<not> runtime_ok (ra_client s)"
  shows "\<exists>cs. ra_sent (run_events (r1_step P) s es) = ra_sent s @ cs \<and> (\<forall>(prov, call) \<in> set cs. transfer_call call)"
  using dead_runtime.inv_run [of s s P es] assms by (simp add: adds_only_def)

section \<open>Uploads\<close>

definition ended :: "((string \<times> string) \<times> dbus_call) list \<Rightarrow> v1_uploader \<Rightarrow> bool" where
  "ended sent u \<longleftrightarrow> (ru_provider u, FinishUpload (ru_id u)) \<in> set sent \<or> (ru_provider u, CancelUpload (ru_id u)) \<in> set sent"

definition uploads_ok :: "r1_app \<Rightarrow> bool" where
  "uploads_ok s \<longleftrightarrow> (\<forall>u \<in> set (rw_uploaders (ra_client s)). ru_finalized u \<or> ru_freed u \<longrightarrow> ended (ra_sent s) u)"

lemma ended_more: "ended sent u \<Longrightarrow> ended (sent @ cs) u"
  by (auto simp: ended_def)

lemma uploads_ok_same:
  "uploads_ok s \<Longrightarrow> rw_uploaders (ra_client t) = rw_uploaders (ra_client s) \<Longrightarrow> ra_sent t = ra_sent s @ cs \<Longrightarrow> uploads_ok t"
  by (auto simp: uploads_ok_def intro: ended_more)

lemma uploads_ok_update:
  assumes "uploads_ok s" and "u < length (rw_uploaders (ra_client s))"
    and "rw_uploaders (ra_client t) = (rw_uploaders (ra_client s))[u := v]" and "ra_sent t = ra_sent s @ cs"
    and "ended (ra_sent t) v"
  shows "uploads_ok t"
  using assms unfolding uploads_ok_def
  by (auto simp: dest!: set_update_subset_insert [THEN subsetD] intro: ended_more)

lemma call_uploads:
  assumes ok: "uploads_ok s" and owner: "owner_alive op (ra_client s)"
  shows "uploads_ok (r1_call op s)"
proof (cases op)
  case (RO_finish_upload u)
  with assms show ?thesis
    by (intro uploads_ok_update [OF ok, of u]) (auto simp: r1_call_def ended_def)
next
  case (RO_cancel_upload u)
  with assms show ?thesis
    by (intro uploads_ok_update [OF ok, of u]) (auto simp: r1_call_def ended_def)
qed (use ok in \<open>auto simp: r1_call_def intro: uploads_ok_same split: outcome.splits\<close>)

lemma drop_uploads:
  assumes ok: "uploads_ok s" and u: "u < length (rw_uploaders (ra_client s))"
  shows "uploads_ok (drop_uploader u s)"
proof -
  have "ru_finalized (rw_uploaders (ra_client s) ! u) \<Longrightarrow> ended (ra_sent s) (rw_uploaders (ra_client s) ! u)"
    using assms by (simp add: uploads_ok_def)
  then show ?thesis by (intro uploads_ok_update [OF ok u]) (auto simp: drop_uploader_def Let_def ended_def)
qed

lemma event_uploads:
  assumes ok: "uploads_ok s"
  shows "uploads_ok (r1_event_step P s e)"
proof (cases e)
  case (RE_reply j reply)
  with ok reply_frame [of s P j reply] show ?thesis by (auto simp: frame_def uploads_ok_def)
next
  case RE_accounts
  with ok show ?thesis by (auto simp: on_remote_def remote_accounts_def intro: uploads_ok_same)
qed (use ok in \<open>auto simp: on_remote_def v1_manager_ready_def runtime_timeout_def remote_make_test_account_def v1_shutdown_def
  v1_destroy_runtime_def v1_release_item_def v1_release_account_def drop_downloader_def Let_def
  intro: call_uploads drop_uploads uploads_ok_same\<close>)

interpretation remote_uploads: invariant_machine "r1_step P" uploads_ok for P
  by unfold_locales (simp add: r1_step_def event_uploads)

text \<open>
  C29. No upload is forgotten: an uploader of the remote back end that was finished or cancelled, or that the application
  has let go of, has told its provider so, with a \<open>FinishUpload\<close> or a \<open>CancelUpload\<close> for its id.
\<close>

theorem v1_uploads_ended:
  assumes "u \<in> set (rw_uploaders (ra_client (run_events (r1_step P) r1_new es)))" and "ru_finalized u \<or> ru_freed u"
  shows "ended (ra_sent (run_events (r1_step P) r1_new es)) u"
proof -
  have "uploads_ok r1_new" by (simp add: uploads_ok_def r1_new_def remote_new_def v1_world.defs)
  from remote_uploads.inv_run [OF this, of P es] assms show ?thesis by (auto simp: uploads_ok_def)
qed

section \<open>Futures\<close>

text \<open>Each handler that waits has a future of its own, to which nothing was reported.\<close>

definition waiting :: "r1_app \<Rightarrow> bool" where
  "waiting s \<longleftrightarrow> distinct (map fst (ra_pending s)) \<and>
     (\<forall>k \<in> fst ` set (ra_pending s). k < length (ra_futures s) \<and> ra_futures s ! k = v1_future_init)"

definition answered :: "'a v1_future \<Rightarrow> bool" where
  "answered f \<longleftrightarrow> (\<exists>r. f = v1_ready_future r) \<or> (\<exists>e. f = v1_exceptional_future e)"

lemma handler_answers:
  "Handler_finished P op pc reply s v1_future_init = Some (c, qf) \<Longrightarrow> answered qf"
  by (auto simp: Handler_finished_def answered_def v1_ready_future_def v1_exceptional_future_def
      split: sum.splits outcome.splits prod.splits)

lemma pending_take_drop:
  assumes "j < length xs"
  shows "xs = take j xs @ xs ! j # drop (Suc j) xs"
  using assms by (rule id_take_nth_drop)

lemma reply_pending:
  assumes "waiting s" and "j < length (ra_pending s)" and "ra_pending s ! j = (k, op, pc)"
  shows "waiting (r1_reply P j reply s)" "k \<notin> fst ` set (ra_pending (r1_reply P j reply s))"
    "k < length (ra_futures (r1_reply P j reply s))"
    "m \<notin> fst ` set (ra_pending s) \<Longrightarrow> m \<notin> fst ` set (ra_pending (r1_reply P j reply s))"
    "m \<noteq> k \<Longrightarrow> ra_futures (r1_reply P j reply s) ! m = ra_futures s ! m"
    "length (ra_futures (r1_reply P j reply s)) = length (ra_futures s)"
proof -
  define rest where "rest = take j (ra_pending s) @ drop (Suc j) (ra_pending s)"
  have p: "ra_pending (r1_reply P j reply s) = rest"
    by (simp add: r1_reply_def assms(3) Let_def rest_def split: option.splits)
  have split: "ra_pending s = take j (ra_pending s) @ (k, op, pc) # drop (Suc j) (ra_pending s)"
    using pending_take_drop [OF assms(2)] assms(3) by simp
  have k: "k \<notin> fst ` set rest" "k < length (ra_futures s)" "distinct (map fst rest)" "set rest \<subseteq> set (ra_pending s)"
    using assms(1) arg_cong [OF split, of "\<lambda>xs. distinct (map fst xs)"] arg_cong [OF split, of set]
    by (auto simp: waiting_def rest_def)
  show len: "length (ra_futures (r1_reply P j reply s)) = length (ra_futures s)"
    by (auto simp: r1_reply_def assms(3) Let_def split: option.splits)
  show fut: "m \<noteq> k \<Longrightarrow> ra_futures (r1_reply P j reply s) ! m = ra_futures s ! m" for m
    by (auto simp: r1_reply_def assms(3) Let_def split: option.splits)
  show "k \<notin> fst ` set (ra_pending (r1_reply P j reply s))" "k < length (ra_futures (r1_reply P j reply s))"
    using k p len by simp_all
  show "m \<notin> fst ` set (ra_pending s) \<Longrightarrow> m \<notin> fst ` set (ra_pending (r1_reply P j reply s))" using k(4) p by auto
  have "i \<in> fst ` set rest \<Longrightarrow> i < length (ra_futures s) \<and> ra_futures s ! i = v1_future_init \<and> i \<noteq> k" for i
    using assms(1) k(1,4) unfolding waiting_def by blast
  then show "waiting (r1_reply P j reply s)"
    unfolding waiting_def p len using k(3) fut by metis
qed

lemma call_futures:
  assumes "waiting s"
  shows "waiting (r1_call op s)" "length (ra_futures s) \<le> length (ra_futures (r1_call op s))"
    "m < length (ra_futures s) \<Longrightarrow> ra_futures (r1_call op s) ! m = ra_futures s ! m"
    "m < length (ra_futures s) \<Longrightarrow> m \<notin> fst ` set (ra_pending s) \<Longrightarrow> m \<notin> fst ` set (ra_pending (r1_call op s))"
proof -
  have "length (ra_futures s) \<notin> fst ` set (ra_pending s)" using assms unfolding waiting_def by blast
  moreover have "i \<in> fst ` set (ra_pending s) \<Longrightarrow> i < length (ra_futures s) \<and> ra_futures s ! i = v1_future_init" for i
    using assms unfolding waiting_def by blast
  ultimately show "waiting (r1_call op s)"
    using assms by (auto simp: waiting_def r1_call_def nth_append less_Suc_eq split: outcome.splits)
qed (auto simp: r1_call_def nth_append split: outcome.splits)

lemma other_futures:
  assumes "\<And>op. e \<noteq> RE_call op" and "\<And>j reply. e \<noteq> RE_reply j reply"
  shows "ra_futures (r1_event_step P s e) = ra_futures s \<and> ra_pending (r1_event_step P s e) = ra_pending s"
  using assms by (cases e) (auto simp: on_remote_def drop_uploader_def drop_downloader_def Let_def)

text \<open>A future that no handler waits for is never touched again.\<close>

definition untouched :: "nat \<Rightarrow> r1_result v1_future \<Rightarrow> r1_app \<Rightarrow> bool" where
  "untouched k f s \<longleftrightarrow> waiting s \<and> k < length (ra_futures s) \<and> k \<notin> fst ` set (ra_pending s) \<and> ra_futures s ! k = f"

lemma event_futures:
  assumes "waiting s"
  shows "waiting (r1_event_step P s e) \<and> (untouched k f s \<longrightarrow> untouched k f (r1_event_step P s e))"
proof (cases e)
  case (RE_call op)
  note c = call_futures [OF assms, where op = op]
  have "untouched k f s \<Longrightarrow> untouched k f (r1_call op s)"
    using c(1) c(2) c(3) [of k] c(4) [of k] unfolding untouched_def by (meson less_le_trans)
  with RE_call assms c(1) show ?thesis by simp
next
  case (RE_reply j reply)
  obtain m op pc where m: "ra_pending s ! j = (m, op, pc)" by (cases "ra_pending s ! j") auto
  show ?thesis
  proof (cases "j < length (ra_pending s)")
    case True
    note r = reply_pending [OF assms True m, where P = P and reply = reply]
    have "m \<in> fst ` set (ra_pending s)" using True m by (metis fst_conv image_eqI nth_mem)
    then have "untouched k f s \<Longrightarrow> untouched k f (r1_reply P j reply s)"
      using r(1) r(4) [of k] r(5) [of k] r(6) unfolding untouched_def by metis
    with RE_reply True r(1) show ?thesis by simp
  qed (use RE_reply assms in simp)
qed (use assms other_futures [of e P s] in \<open>auto simp: untouched_def waiting_def\<close>)

interpretation remote_futures: invariant_machine "r1_step P" waiting for P
  by unfold_locales (simp add: r1_step_def event_futures)

interpretation remote_done: invariant_machine "r1_step P" "untouched k f" for P k f
proof
  fix s e
  assume u: "untouched k f s"
  then have "waiting s" by (simp add: untouched_def)
  from u event_futures [OF this, of P e k f] show "untouched k f (r1_step P s e)" by (simp add: r1_step_def)
qed

lemma new_waiting: "waiting r1_new"
  by (simp add: waiting_def r1_new_def)

text \<open>
  C13. When the reply to a call arrives, the future of the operation is answered, with one result or one
  exception, unless the process has ended; and nothing changes it afterwards. If the object that made the call
  is gone by then, its future stays as it is, unfinished, for ever.
\<close>

theorem v1_remote_answers_once:
  fixes P es j reply
  defines "s \<equiv> run_events (r1_step P) r1_new es"
  defines "t \<equiv> r1_step P s (RE_reply j reply)"
  assumes "\<not> ra_aborted s" and "j < length (ra_pending s)" and "ra_pending s ! j = (k, op, pc)"
  shows "(if owner_alive op (ra_client s) then ra_aborted t \<or> answered (ra_futures t ! k)
      else ra_futures t ! k = v1_future_init) \<and>
    ra_futures (run_events (r1_step P) t later) ! k = ra_futures t ! k"
proof -
  have w: "waiting s" unfolding s_def using remote_futures.inv_run [OF new_waiting] .
  have t: "t = r1_reply P j reply s" using assms(3,4) by (simp add: t_def r1_step_def)
  note r = reply_pending [OF w assms(4,5), where P = P and reply = reply]
  have k: "k < length (ra_futures s)" "ra_futures s ! k = v1_future_init"
    using w assms(4,5) unfolding waiting_def by (metis fst_conv image_eqI nth_mem)+
  have "if owner_alive op (ra_client s) then ra_aborted t \<or> answered (ra_futures t ! k)
      else ra_futures t ! k = v1_future_init"
    unfolding t using k handler_answers [of P op pc reply "ra_client s"]
    by (auto simp: r1_reply_def assms(5) Let_def split: option.splits)
  moreover have "untouched k (ra_futures t ! k) t" unfolding t untouched_def using r(1-3) by simp
  from remote_done.inv_run [OF this, of P later]
  have "ra_futures (run_events (r1_step P) t later) ! k = ra_futures t ! k" by (simp add: untouched_def)
  ultimately show ?thesis by blast
qed

section \<open>Conforming providers\<close>

text \<open>An operation that does not abort and keeps \<open>Q\<close>.\<close>

definition safe :: "('s \<Rightarrow> bool) \<Rightarrow> ('s, 'e, 'a) sx \<Rightarrow> bool" where
  "safe Q m \<longleftrightarrow> (\<forall>s. Q s \<longrightarrow> fst (m s) \<noteq> Abort \<and> Q (snd (m s)))"

lemma safe_bind: "safe Q m \<Longrightarrow> (\<And>a. safe Q (f a)) \<Longrightarrow> safe Q (sx_bind m f)"
  by (fastforce simp: safe_def sx_bind_def split: outcome.splits prod.splits)

lemma safe_basic:
  "safe Q (sx_return a)" "safe Q (sx_throw_if c e)"
  by (auto simp: safe_def sx_return_def sx_throw_if_def sx_throw_def)

lemma bindR_eq_Abort: "bindR r f = Abort \<longleftrightarrow> r = Abort \<or> (\<exists>a. r = Ok a \<and> f a = Abort)"
  by (cases r) simp_all

lemma v1_validate_not_Abort: "v1_validate P meth md \<noteq> Abort"
proof -
  have val: "v1_validate_type_and_value P prefix key v known \<noteq> Abort" for prefix key v known
    by (cases known; cases v) (auto simp: v1_validate_type_and_value_def split: option.splits)
  have "v1_validate_entries P prefix m \<noteq> Abort" for prefix m
    by (induction m) (auto simp: bindR_eq_Abort val split: option.splits)
  then show ?thesis by (auto simp: v1_validate_def Let_def throw_if_def bindR_eq_Abort split: if_splits)
qed

lemma safe_validated: "safe Q (sx_lift (v1_validate P meth md))"
  by (simp add: safe_def sx_lift_def v1_validate_not_Abort)

lemma alloc_lockable: "item_lockable s r \<Longrightarrow> item_lockable (snd (rc_alloc i s)) r"
  "account_lockable s a \<Longrightarrow> account_lockable (snd (rc_alloc i s)) a"
  by (auto simp: rc_alloc_def item_lockable_def account_lockable_def)

lemma safe_make:
  "md_type md \<noteq> IT_root \<Longrightarrow> safe (\<lambda>s. item_lockable s r) (remote_make_item md r)"
  "md_type md = IT_folder \<Longrightarrow> safe (\<lambda>s. item_lockable s r) (remote_make_folder md r)"
  "safe (\<lambda>s. item_lockable s r) (remote_make_file md r)"
  "md_type md = IT_root \<Longrightarrow> safe (\<lambda>s. account_lockable s a) (remote_make_root md a)"
proof -
  have alloc: "fst (rc_alloc i s) \<noteq> Abort" for i s by (simp add: rc_alloc_def)
  show f: "safe (\<lambda>s. item_lockable s r) (remote_make_file md r)"
    by (auto simp: safe_def remote_make_file_def sx_bind_def sx_query_def assertR_def alloc alloc_lockable)
  show folder: "md_type md = IT_folder \<Longrightarrow> safe (\<lambda>s. item_lockable s r) (remote_make_folder md r)"
    by (auto simp: safe_def remote_make_folder_def sx_bind_def sx_query_def assertR_def alloc alloc_lockable)
  show "md_type md = IT_root \<Longrightarrow> safe (\<lambda>s. account_lockable s a) (remote_make_root md a)"
    by (auto simp: safe_def remote_make_root_def sx_bind_def sx_query_def assertR_def alloc alloc_lockable)
  show "md_type md \<noteq> IT_root \<Longrightarrow> safe (\<lambda>s. item_lockable s r) (remote_make_item md r)"
    using f folder by (cases "md_type md") (simp_all add: remote_make_item_def)
qed

lemma safe_items:
  "safe (\<lambda>s. item_lockable s r) (reply_items P meth r mds)" "safe (\<lambda>s. account_lockable s a) (reply_roots a mds)"
  by (induction mds) (auto intro!: safe_bind safe_basic safe_validated safe_make)

lemma need_root_safe:
  assumes "\<And>r. safe (\<lambda>s. item_lockable s r) (f r)"
  shows "fst (sx_bind (need_root meth n) f s) \<noteq> Abort"
proof (cases "get_root s n")
  case (Some r)
  then have "item_lockable s r" by (blast dest: get_root_Some)
  with Some assms [of r] show ?thesis by (simp add: need_root_def sx_bind_def sx_query_def safe_def)
qed (simp add: need_root_def sx_bind_def sx_query_def)

lemma safe_throw_bind: "(\<not> c \<Longrightarrow> safe Q (f ())) \<Longrightarrow> safe Q (sx_bind (sx_throw_if c e) f)"
  by (cases c) (auto simp: safe_def sx_bind_def sx_throw_if_def sx_throw_def sx_return_def)

lemma provider_of_root: "get_root s n = Some r \<Longrightarrow> \<exists>p. remote_provider s n = Some p"
  by (auto simp: get_root_def remote_provider_def root_account_def Let_def split: if_splits outcome.splits)

lemma make_uploader_safe:
  "i \<noteq> '''' \<Longrightarrow> 0 \<le> fd \<Longrightarrow> 0 \<le> sz \<Longrightarrow> item_lockable s r \<Longrightarrow> fst (make_uploader i fd sz e r (Some p) s) \<noteq> Abort"
  by (simp add: make_uploader_def)

lemma fst_rc_map_Abort: "fst (rc_map f m s) = Abort \<longleftrightarrow> fst (m s) = Abort"
  by (simp add: rc_map_def sx_bind_def sx_return_def split: outcome.splits prod.splits)

text \<open>A reply as the interface of the providers promises it, of a listing in one page; an operation that can be
  waiting for a reply.\<close>

definition conforming :: "r1_value \<Rightarrow> bool" where
  "conforming v \<longleftrightarrow> rv_token v = '''' \<and> rv_id v \<noteq> '''' \<and> 0 \<le> rv_fd v"

fun can_wait :: "r1_op \<Rightarrow> remote_client \<Rightarrow> bool" where
  "can_wait (RO_get n identity) s = root_in s n"
| "can_wait (RO_create_file n name sz) s = (0 \<le> sz)"
| "can_wait (RO_create_uploader n policy sz) s = (0 \<le> sz)"
| "can_wait _ s = True"

lemma item_replies_safe:
  assumes "conforming v"
  shows "fst (copy_reply P n md s) \<noteq> Abort" "fst (move_reply P n md s) \<noteq> Abort" "fst (create_folder_reply P n md s) \<noteq> Abort"
    "fst (list_reply P n mds (rv_token v) s) \<noteq> Abort" "fst (lookup_reply P n name mds s) \<noteq> Abort"
  unfolding copy_reply_def move_reply_def create_folder_reply_def list_reply_def lookup_reply_def
  using assms
  by (intro need_root_safe; auto simp: conforming_def intro!: safe_bind [OF safe_validated] safe_throw_bind safe_make
      safe_bind [OF safe_items(1)] safe_basic)+

lemma upload_replies_safe:
  assumes v: "conforming v" and sz: "0 \<le> sz"
  shows "fst (create_file_reply n sz (rv_id v) (rv_fd v) s) \<noteq> Abort"
    "fst (create_uploader_reply n sz e (Some p) (rv_id v) (rv_fd v) s) \<noteq> Abort"
proof -
  show "fst (create_file_reply n sz (rv_id v) (rv_fd v) s) \<noteq> Abort"
  proof (cases "get_root s n")
    case (Some r)
    then obtain p where "remote_provider s n = Some p" using provider_of_root by blast
    moreover have "item_lockable s r" using get_root_Some [OF Some] by blast
    ultimately show ?thesis using assms Some
      by (simp add: create_file_reply_def need_root_def sx_bind_def sx_query_def conforming_def make_uploader_safe)
  qed (simp add: create_file_reply_def need_root_def sx_bind_def sx_query_def)
  show "fst (create_uploader_reply n sz e (Some p) (rv_id v) (rv_fd v) s) \<noteq> Abort"
    using assms get_root_Some [of s n]
    by (auto simp: create_uploader_reply_def need_root_def sx_bind_def sx_query_def conforming_def sx_throw_if_def sx_throw_def
        sx_return_def make_uploader_safe split: option.splits)
qed

lemma get_reply_safe:
  assumes "remote_ok P s" and "item_lockable s n" and "root_in s n"
  shows "fst (get_reply P n md s) \<noteq> Abort"
proof -
  have r: "vi_root (vw_items s ! n) = n" using assms by (simp add: remote_ok_def good_place_def root_in_def)
  have a: "account_lockable s a" if "root_account s n = Ok a" for a
    using that by (auto simp: root_account_def Let_def split: if_splits outcome.splits)
  show ?thesis
    using safe_make(1,4) [of md] assms(2) a r
    by (auto simp: get_reply_def sx_bind_def sx_query_def sx_lift_def safe_def v1_validate_not_Abort split: outcome.splits)
      (auto simp: root_account_def account_runtime_def Let_def split: if_splits outcome.splits)
qed

lemma process_reply_safe:
  assumes "remote_ok P s" and "owner_alive op s" and "can_wait op s" and v: "conforming v"
  shows "fst (process_reply P op pc v s) \<noteq> Abort"
proof (cases op)
  case (RO_roots a)
  with assms safe_items(2) [of a "rv_mds v"] show ?thesis
    by (auto simp: fst_rc_map_Abort roots_reply_def sx_bind_def sx_query_def safe_def account_runtime_def
        split: outcome.splits prod.splits)
next
  case (RO_create_downloader n)
  with assms show ?thesis
    by (auto simp: fst_rc_map_Abort create_downloader_reply_def sx_bind_def sx_query_def sx_throw_if_def sx_throw_def
        sx_return_def make_downloader_def conforming_def split: outcome.splits)
next
  case (RO_finish_upload u)
  with assms have "item_lockable s (ru_root (rw_uploaders s ! u))"
    by (auto simp: remote_ok_def good_owner_def root_in_def item_lockable_def)
  with RO_finish_upload safe_make(3) [of "ru_root (rw_uploaders s ! u)" "rv_md v"] show ?thesis
    by (auto simp: fst_rc_map_Abort finish_upload_reply_def sx_bind_def sx_lift_def sx_throw_if_def sx_throw_def
        sx_return_def safe_def v1_validate_not_Abort split: outcome.splits)
qed (use assms in \<open>auto simp: fst_rc_map_Abort Let_def sx_return_def delete_reply_def item_replies_safe upload_replies_safe
  get_reply_safe\<close>)

lemma via_provider_safe: "throw_if_destroyed meth n s = Ok u \<Longrightarrow> via_provider n call s \<noteq> Abort"
  using provider_of_root [of s n] by (auto simp: throw_if_destroyed_Ok via_provider_def)

lemma native_identity_not_Abort: "native_identity n s \<noteq> Abort"
  by (simp add: native_identity_def bindR_eq_Abort)

lemma two_items_safe: "two_items_call meth n p call s \<noteq> Abort"
proof (cases p)
  case (Some m)
  have "throw_if_destroyed meth n s = Ok () \<Longrightarrow> \<exists>q. remote_provider s n = Some q"
    using provider_of_root [of s n] by (auto simp: throw_if_destroyed_Ok)
  with Some show ?thesis
    by (auto simp: two_items_call_def bindR_eq_Abort native_identity_not_Abort)
qed (simp add: two_items_call_def)

lemma start_safe:
  assumes "\<And>d. op \<noteq> RO_cancel_download d" and "class_ok op s" and "owner_alive op s"
  shows "r1_start op s \<noteq> Abort" "r1_start op s = Ok pc \<Longrightarrow> can_wait op s"
proof -
  show "r1_start op s \<noteq> Abort"
    using assms(1)
    by (cases op) (auto simp: item_call_def bindR_eq_Abort throw_if_def via_provider_safe two_items_safe account_runtime_def
        split: outcome.splits if_splits)
  show "r1_start op s = Ok pc \<Longrightarrow> can_wait op s"
    using assms(2,3)
    by (cases op) (auto simp: throw_if_def remote_class_def Let_def root_in_def dest: lockable_item split: if_splits)
qed

text \<open>The events of a run with providers that conform; the application does not cancel downloads.\<close>

fun orderly :: "r1_event \<Rightarrow> bool" where
  "orderly (RE_reply j (Inr v)) = conforming v"
| "orderly (RE_call (RO_cancel_download d)) = False"
| "orderly _ = True"

definition running_ok :: "date_parser \<Rightarrow> r1_app \<Rightarrow> bool" where
  "running_ok P s \<longleftrightarrow> \<not> ra_aborted s \<and> remote_ok P (ra_client s) \<and>
     (\<forall>(k, op, pc) \<in> set (ra_pending s). can_wait op (ra_client s))"

lemma can_wait_frame: "can_wait op s \<Longrightarrow> frame s t \<Longrightarrow> can_wait op t"
  by (cases op) (auto simp: frame_def root_in_def)

lemma can_wait_items: "can_wait op s \<Longrightarrow> vw_items t = vw_items s \<Longrightarrow> can_wait op t"
  by (cases op) (auto simp: root_in_def)

lemma mark_items [simp]: "vw_items (r1_mark op s) = vw_items s"
  by (cases op) simp_all

lemma running_call:
  assumes ok: "running_ok P s" and op: "\<And>d. op \<noteq> RO_cancel_download d" "class_ok op (ra_client s)" "owner_alive op (ra_client s)"
  shows "running_ok P (r1_call op s)"
proof -
  have "remote_ok P (r1_mark op (ra_client s))" using ok mark_ok by (simp add: running_ok_def)
  moreover have "can_wait q (r1_mark op (ra_client s))" if "(k, q, pc) \<in> set (ra_pending s)" for k q pc
    using that ok can_wait_items [of q "ra_client s" "r1_mark op (ra_client s)"] by (auto simp: running_ok_def)
  moreover have "can_wait op (r1_mark op (ra_client s))" if "r1_start op (ra_client s) = Ok pc" for pc
    using start_safe(2) [OF op that] can_wait_items [of op "ra_client s" "r1_mark op (ra_client s)"] by simp
  ultimately show ?thesis
    using start_safe(1) [OF op] ok by (auto simp: r1_call_def running_ok_def split: outcome.splits)
qed

lemma running_reply:
  assumes ok: "running_ok P s" and j: "j < length (ra_pending s)" and reply: "orderly (RE_reply j reply)"
  shows "running_ok P (r1_reply P j reply s)"
proof -
  obtain k op pc where p: "ra_pending s ! j = (k, op, pc)" by (cases "ra_pending s ! j") auto
  have wait: "can_wait op (ra_client s)" using ok j p nth_mem [OF j] by (auto simp: running_ok_def)
  have "\<not> ra_aborted (r1_reply P j reply s)"
  proof (cases reply)
    case (Inr v)
    with reply have "conforming v" by simp
    from process_reply_safe [OF _ _ wait this, of P pc] Inr p ok show ?thesis
      by (auto simp: r1_reply_def running_ok_def Handler_finished_def Let_def split: option.splits outcome.splits prod.splits)
  qed (use p ok in \<open>auto simp: r1_reply_def running_ok_def Handler_finished_def Let_def\<close>)
  moreover have "remote_ok P (ra_client (r1_reply P j reply s))"
    using ok event_ok [of P s "RE_reply j reply"] j by (simp add: running_ok_def)
  moreover have "set (ra_pending (r1_reply P j reply s)) \<subseteq> set (ra_pending s)"
    by (auto simp: r1_reply_def p Let_def split: option.splits dest: in_set_takeD in_set_dropD)
  ultimately show ?thesis
    using ok can_wait_frame [OF _ reply_frame [of s P j reply]] unfolding running_ok_def by blast
qed

lemma other_events_items:
  assumes "\<And>op. e \<noteq> RE_call op" and "\<And>j reply. e \<noteq> RE_reply j reply"
  shows "vw_items (ra_client (r1_event_step P s e)) = vw_items (ra_client s) \<and>
    ra_aborted (r1_event_step P s e) = ra_aborted s"
  using assms
  by (cases e) (auto simp: on_remote_def drop_uploader_def drop_downloader_def Let_def remote_accounts_def v1_manager_ready_def
      runtime_timeout_def remote_make_test_account_def v1_shutdown_def v1_destroy_runtime_def v1_release_item_def
      v1_release_account_def)

lemma running_step:
  assumes ok: "running_ok P s" and e: "orderly e"
  shows "running_ok P (r1_step P s e)"
proof -
  have "running_ok P (r1_event_step P s e)"
  proof (cases e)
    case (RE_call op)
    with e have "\<And>d. op \<noteq> RO_cancel_download d" by auto
    with RE_call ok running_call [OF ok] show ?thesis by simp
  next
    case (RE_reply j reply)
    with ok e running_reply [OF ok] show ?thesis by simp
  qed (use ok event_ok [of P s e] other_futures [of e P s] other_events_items [of e P s] can_wait_items [of _ "ra_client s"]
      in \<open>auto simp: running_ok_def\<close>)
  with ok show ?thesis by (simp add: r1_step_def running_ok_def)
qed


section \<open>Accounts\<close>

text \<open>What the registry of version 2 and the runtime of version 1 tell of an account.\<close>

definition v1_account_data :: "v1_account \<Rightarrow> (string \<times> string) \<times> string \<times> string" where
  "v1_account_data a = (va_provider a, va_owner_id a, va_description a)"

definition registry_account_data :: "AccountDetails \<Rightarrow> (string \<times> string) \<times> string \<times> string" where
  "registry_account_data d = ((ad_busName d, ad_objectPath d), ad_serviceId d, ad_displayName d)"

lemma v1_bus_name_found:
  "(i, bus) \<in> set V1_BUS_NAMES \<and> i \<noteq> ''storage-provider-nextloud'' \<longleftrightarrow>
   (\<exists>name. map_of BUS_NAMES i = Some (bus, name)) \<and> i \<noteq> ''storage-provider-nextcloud''"
proof -
  consider "i = ''storage-provider-gdrive''" | "i = ''storage-provider-mcloud''" | "i = ''storage-provider-nextcloud''" |
    "i = ''storage-provider-nextloud''" | "i = ''storage-provider-onedrive''" | "i = ''storage-provider-owncloud''" |
    "i = ''storage-provider-test''" | "i \<notin> fst ` set V1_BUS_NAMES" "i \<notin> fst ` set BUS_NAMES"
    by (simp add: V1_BUS_NAMES_def BUS_NAMES_def) metis
  then show ?thesis
  proof cases
    case 8
    then have "map_of BUS_NAMES i = None" "(i, bus) \<notin> set V1_BUS_NAMES" by (auto simp: map_of_eq_None_iff image_iff)
    then show ?thesis by simp
  qed (simp_all add: V1_BUS_NAMES_def BUS_NAMES_def eq_commute [of _ bus])
qed

definition account_data :: "oa_account \<Rightarrow> string \<Rightarrow> (string \<times> string) \<times> string \<times> string" where
  "account_data a bus = ((bus, provider_path (oa_id a)), oa_serviceId a, oa_displayName a)"

lemma v1_accounts_data:
  "v1_account_data ` set (v1_accounts_of available) =
   (\<Union>a \<in> set available. account_data a ` {bus. (oa_serviceId a, bus) \<in> set V1_BUS_NAMES})"
proof -
  have "v1_account_data ` set (v1_accounts_of available) = (\<Union>(i, bus) \<in> set V1_BUS_NAMES.
      (\<lambda>a. account_data a bus) ` {a \<in> set available. oa_serviceId a = i})"
    by (simp add: v1_accounts_of_def image_UN image_image v1_account_data_def v1_make_account_def account_data_def
        split_beta)
  then show ?thesis by auto
qed

lemma registry_accounts_data:
  "registry_account_data ` set (known_accounts available) =
   (\<Union>a \<in> set available. account_data a ` {bus. \<exists>name. map_of BUS_NAMES (oa_serviceId a) = Some (bus, name)})"
  by (force simp: known_accounts_eq registry_account_data_def remote_details_def account_data_def image_iff)

text \<open>
  Both versions of the library know the same accounts: where none of the user's online accounts is one of Nextcloud
  (whose name version 1 misspells) or of that misspelt name, the accounts that \<open>Runtime::accounts\<close> makes have the bus
  names, object paths, service ids and descriptions of those that the registry lists for version 2.
\<close>

theorem v1_accounts_as_registry:
  assumes "\<forall>a \<in> set available. oa_serviceId a \<notin> {''storage-provider-nextcloud'', ''storage-provider-nextloud''}"
  shows "v1_account_data ` set (v1_accounts_of available) = registry_account_data ` set (known_accounts available)"
proof -
  have "(oa_serviceId a, bus) \<in> set V1_BUS_NAMES \<longleftrightarrow> (\<exists>name. map_of BUS_NAMES (oa_serviceId a) = Some (bus, name))"
    if "a \<in> set available" for a bus
  proof -
    have "oa_serviceId a \<noteq> ''storage-provider-nextcloud''" "oa_serviceId a \<noteq> ''storage-provider-nextloud''"
      using assms that by blast+
    then show ?thesis using v1_bus_name_found [of "oa_serviceId a" bus] by metis
  qed
  then show ?thesis unfolding v1_accounts_data registry_accounts_data by simp
qed

text \<open>The accounts of Nextcloud are not seen at all.\<close>

lemma nextcloud_unseen:
  "registry_account_data ` set (known_accounts [\<lparr>oa_id = 1, oa_serviceId = ''storage-provider-nextcloud'', oa_displayName = ''n''\<rparr>])
     \<noteq> {}"
  "v1_accounts_of [\<lparr>oa_id = 1, oa_serviceId = ''storage-provider-nextcloud'', oa_displayName = ''n''\<rparr>] = []"
  by (simp_all add: BUS_NAMES_def v1_accounts_of_def V1_BUS_NAMES_def)

text \<open>
  There is one future for all calls of \<open>accounts()\<close>. Once it is ready it stays so: after a timeout no later call
  succeeds, and after a success a call on a runtime that is shut down still gets the accounts.
\<close>

lemma accounts_future_final:
  assumes "fu_finished (rw_accounts s)"
  shows "rw_accounts (remote_accounts s) = rw_accounts s" "rw_accounts (v1_manager_ready available s) = rw_accounts s"
    "rw_accounts (runtime_timeout s) = rw_accounts s" "rw_accounts (v1_shutdown s) = rw_accounts s"
  using assms
  by (simp_all add: remote_accounts_def v1_manager_ready_def runtime_timeout_def accounts_destroyed_def v1_shutdown_def Let_def)

section \<open>What modelling the replies showed\<close>

text \<open>A listing that has a second page: the closure is used after the function that holds it has returned.\<close>

lemma list_second_page:
  assumes "get_root s n = Some r" and "reply_items P ''Folder::list()'' r mds s = (Ok items, t)" and "token \<noteq> ''''"
  shows "fst (list_reply P n mds token s) = Abort"
  using assms by (simp add: list_reply_def need_root_def sx_bind_def sx_query_def)

text \<open>A descriptor that is not valid is refused for an existing file, and fails an assertion for a new one.\<close>

lemma invalid_descriptor:
  assumes "get_root s n = Some r" and "fd < 0"
  shows "fst (create_file_reply n sz i fd s) = Abort"
    and "fst (create_uploader_reply n sz e prov i fd s) = Raise (impossible_fd ''File::create_uploader()'' fd)"
  using assms provider_of_root [OF assms(1)]
  by (auto simp: create_file_reply_def create_uploader_reply_def need_root_def sx_bind_def sx_query_def sx_throw_if_def
      sx_throw_def make_uploader_def)

text \<open>\<open>Downloader::cancel\<close> is \<open>noexcept\<close> and asks the file for its name, which throws after a shutdown.\<close>

lemma cancel_download_after_shutdown:
  assumes "\<not> runtime_ok s"
  shows "r1_start (RO_cancel_download d) s = Abort"
  using throw_if_destroyed_runtime [OF assms, of "''Item::name()''" "rd_file (rw_downloaders s ! d)"]
  by (auto simp: remote_name_def rc_get_def sx_query_def)

text \<open>A successful move leaves the source object usable, unlike in the local back end.\<close>

lemma moved_not_deleted:
  assumes "move_reply P n md s = (Ok m, t)" and "n < length (vw_items s)"
  shows "vi_deleted (vw_items t ! n) = vi_deleted (vw_items s ! n)"
  using assms
  by (auto simp: move_reply_def need_root_def sx_bind_def sx_query_def sx_lift_def sx_throw_if_def sx_throw_def sx_return_def
      remote_make_item_def remote_make_file_def remote_make_folder_def rc_alloc_def nth_append
      split: option.splits outcome.splits if_splits ItemType.splits)

section \<open>A sample run\<close>

definition any_date :: date_parser where "any_date s = Some UTC"

definition root_md :: ItemMetadata where
  "root_md = \<lparr>md_item_id = ''r'', md_parent_ids = [], md_name = ''Root'', md_etag = '''', md_type = IT_root, md_metadata = []\<rparr>"

definition file_md :: ItemMetadata where
  "file_md = \<lparr>md_item_id = ''f'', md_parent_ids = [''r''], md_name = ''a'', md_etag = ''e'', md_type = IT_file,
     md_metadata = [(SIZE_IN_BYTES, QV_LongLong 3), (LAST_MODIFIED_TIME, QV_String ''t'')]\<rparr>"

definition reply_of :: "ItemMetadata list \<Rightarrow> error_call + r1_value" where
  "reply_of mds = Inr \<lparr>rv_md = root_md, rv_mds = mds, rv_token = '''', rv_id = ''up'', rv_fd = 5\<rparr>"

text \<open>A test account, its root, a file in it and an upload for the file.\<close>

definition sample_session :: "r1_event list" where
  "sample_session = [RE_test_account ''bus'' ''/p'', RE_call (RO_roots 0), RE_reply 0 (reply_of [root_md]),
     RE_call (RO_list 0), RE_reply 0 (reply_of [file_md]), RE_call (RO_create_uploader 1 error_if_conflict 3),
     RE_reply 0 (reply_of [])]"

theorem v1_remote_objects_witness:
  "(let s = ra_client (run_events (r1_step any_date) r1_new sample_session) in
    length (vw_items s) = 2 \<and> good_object any_date (vw_items s ! 1) \<and> good_place s 1 \<and> vi_identity (vw_items s ! 1) = ''f'')"
proof -
  have "length (vw_items (ra_client (run_events (r1_step any_date) r1_new sample_session))) = 2 \<and>
      vi_identity (vw_items (ra_client (run_events (r1_step any_date) r1_new sample_session)) ! 1) = ''f''"
    by code_simp
  then show ?thesis using v1_remote_objects [of any_date sample_session] unfolding Let_def by auto
qed

theorem v1_no_calls_after_shutdown_witness:
  "(let s = run_events (r1_step any_date) r1_new (sample_session @ [RE_shutdown]) in
    \<exists>cs. ra_sent (run_events (r1_step any_date) s [RE_call (RO_list 0), RE_drop_uploader 0]) = ra_sent s @ cs \<and>
      length cs = 1 \<and> (\<forall>(prov, call) \<in> set cs. transfer_call call))"
proof -
  let ?s = "run_events (r1_step any_date) r1_new (sample_session @ [RE_shutdown])"
  let ?t = "run_events (r1_step any_date) ?s [RE_call (RO_list 0), RE_drop_uploader 0]"
  have "\<not> runtime_ok (ra_client ?s)" and "length (ra_sent ?t) = length (ra_sent ?s) + 1" by code_simp+
  then show ?thesis
    using v1_no_calls_after_shutdown [of ?s any_date "[RE_call (RO_list 0), RE_drop_uploader 0]"]
    unfolding Let_def by (metis length_append add_left_cancel)
qed

theorem v1_uploads_ended_witness:
  "(let s = run_events (r1_step any_date) r1_new (sample_session @ [RE_drop_uploader 0]) in
    rw_uploaders (ra_client s) \<noteq> [] \<and> ended (ra_sent s) (hd (rw_uploaders (ra_client s))))"
proof -
  let ?s = "run_events (r1_step any_date) r1_new (sample_session @ [RE_drop_uploader 0])"
  have "rw_uploaders (ra_client ?s) \<noteq> [] \<and> ru_freed (hd (rw_uploaders (ra_client ?s)))" by code_simp
  then show ?thesis
    using v1_uploads_ended [of "hd (rw_uploaders (ra_client ?s))" any_date "sample_session @ [RE_drop_uploader 0]"]
    unfolding Let_def by (metis hd_in_set)
qed

theorem v1_remote_answers_once_witness:
  "(let s = run_events (r1_step any_date) r1_new (sample_session @ [RE_call (RO_delete 1)]);
        t = r1_step any_date s (RE_reply 0 (reply_of [])) in
    \<not> ra_aborted t \<and> answered (ra_futures t ! 3) \<and>
    ra_futures (run_events (r1_step any_date) t [RE_shutdown]) ! 3 = ra_futures t ! 3)"
proof -
  let ?s = "run_events (r1_step any_date) r1_new (sample_session @ [RE_call (RO_delete 1)])"
  let ?t = "r1_step any_date ?s (RE_reply 0 (reply_of []))"
  have ev: "\<not> ra_aborted ?s \<and> 0 < length (ra_pending ?s) \<and> ra_pending ?s ! 0 = (3, RO_delete 1, (''bus'', ''/p''), Delete ''f'') \<and>
      owner_alive (RO_delete 1) (ra_client ?s) \<and> \<not> ra_aborted ?t"
    by code_simp
  then show ?thesis
    using v1_remote_answers_once [of any_date "sample_session @ [RE_call (RO_delete 1)]" 0 3 "RO_delete 1"
      "((''bus'', ''/p''), Delete ''f'')" "reply_of []" "[RE_shutdown]"]
    unfolding Let_def by presburger
qed


theorem v1_accounts_as_registry_witness:
  "v1_account_data ` set (v1_accounts_of [\<lparr>oa_id = 1, oa_serviceId = ''storage-provider-gdrive'', oa_displayName = ''g''\<rparr>]) =
   registry_account_data ` set (known_accounts [\<lparr>oa_id = 1, oa_serviceId = ''storage-provider-gdrive'', oa_displayName = ''g''\<rparr>])"
  by (rule v1_accounts_as_registry) simp

end
