(* ===== verification/Handles.thy ===== *)
theory Handles
  imports Client
begin

text \<open>
  The value classes of the client library (\<open>src/src/qt/Item.cpp\<close>, \<open>src/src/qt/Account.cpp\<close>,
  \<open>src/src/qt/StorageError.cpp\<close>). An \<open>Item\<close> and an \<open>Account\<close> are handles: each holds a
  \<open>shared_ptr\<close> to an implementation object, which copies of the handle share. A
  \<open>StorageError\<close> owns its implementation, and a copy has one of its own.

  The state is the store of implementation objects (by the order of their creation) and
  the handles that are alive, by the name of their holder: a variable of the application,
  or a member of another object that holds the same pointer. What a destroyed handle leaves
  in the store is out of reach. An operation on a handle that is not alive, or the
  construction of one that is, is no program and gives \<open>Abort\<close>.

  The lemmas: no handle is ever null; the handles behave as values, as the documentation
  in \<open>Item.h\<close> says, as long as no move assignment is made over a handle whose
  implementation is shared, and what goes wrong when one is; an item that was moved from
  refuses every operation.
\<close>

section \<open>Handles\<close>

record ('v, 'i) handles =
  hs_impls :: "'i list"
  hs_p :: "'v \<Rightarrow> nat option"

text \<open>What the code of the two classes uses of the implementation class.\<close>

record 'i handle_class =
  hc_default :: 'i
  hc_is_valid :: "'i \<Rightarrow> bool"
  hc_set_valid :: "bool \<Rightarrow> 'i \<Rightarrow> 'i"

definition no_handles :: "('v, 'i) handles" where
  "no_handles = \<lparr>hs_impls = [], hs_p = (\<lambda>_. None)\<rparr>"

text \<open>\<open>make_shared<Impl>(...)\<close>\<close>

definition make_shared :: "'i \<Rightarrow> ('v, 'i) handles \<Rightarrow> nat \<times> ('v, 'i) handles" where
  "make_shared i s = (length (hs_impls s), s\<lparr>hs_impls := hs_impls s @ [i]\<rparr>)"

definition handle_at :: "('v, 'i) handles \<Rightarrow> 'v \<Rightarrow> (unit, nat) outcome" where
  "handle_at s v = (case hs_p s v of None \<Rightarrow> Abort | Some a \<Rightarrow> Ok a)"

definition unborn :: "('v, 'i) handles \<Rightarrow> 'v \<Rightarrow> (unit, unit) outcome" where
  "unborn s v = assertR (hs_p s v = None)"

definition set_valid_at :: "'i handle_class \<Rightarrow> nat \<Rightarrow> bool \<Rightarrow> ('v, 'i) handles \<Rightarrow> ('v, 'i) handles" where
  "set_valid_at K a b s = s\<lparr>hs_impls := (hs_impls s)[a := hc_set_valid K b (hs_impls s ! a)]\<rparr>"

definition handle_default :: "'i handle_class \<Rightarrow> 'v \<Rightarrow> ('v, 'i) handles \<Rightarrow> (unit, ('v, 'i) handles) outcome" where
  "handle_default K v s = bindR (unborn s v) (\<lambda>_.
     let (a, s) = make_shared (hc_default K) s in Ok (s\<lparr>hs_p := (hs_p s)(v \<mapsto> a)\<rparr>))"

text \<open>The constructor from a pointer asserts that the pointer is not null.\<close>

definition handle_from :: "'v \<Rightarrow> nat option \<Rightarrow> ('v, 'i) handles \<Rightarrow> (unit, ('v, 'i) handles) outcome" where
  "handle_from v p s = bindR (unborn s v) (\<lambda>_.
     case p of None \<Rightarrow> Abort | Some a \<Rightarrow> Ok (s\<lparr>hs_p := (hs_p s)(v \<mapsto> a)\<rparr>))"

definition handle_copy :: "'v \<Rightarrow> 'v \<Rightarrow> ('v, 'i) handles \<Rightarrow> (unit, ('v, 'i) handles) outcome" where
  "handle_copy v other s = bindR (unborn s v) (\<lambda>_. bindR (handle_at s other) (\<lambda>a.
     Ok (s\<lparr>hs_p := (hs_p s)(v \<mapsto> a)\<rparr>)))"

definition handle_move ::
  "'i handle_class \<Rightarrow> 'v \<Rightarrow> 'v \<Rightarrow> ('v, 'i) handles \<Rightarrow> (unit, ('v, 'i) handles) outcome" where
  "handle_move K v other s = bindR (unborn s v) (\<lambda>_. bindR (handle_at s other) (\<lambda>a.
     let (n, s) = make_shared (hc_default K) s;
         s = set_valid_at K n False s
     in Ok (s\<lparr>hs_p := (hs_p s)(v \<mapsto> a, other \<mapsto> n)\<rparr>)))"

definition handle_assign :: "'v \<Rightarrow> 'v \<Rightarrow> ('v, 'i) handles \<Rightarrow> (unit, ('v, 'i) handles) outcome" where
  "handle_assign v other s = bindR (handle_at s v) (\<lambda>_. bindR (handle_at s other) (\<lambda>a.
     if v = other then Ok s else Ok (s\<lparr>hs_p := (hs_p s)(v \<mapsto> a)\<rparr>)))"

definition handle_move_assign ::
  "'i handle_class \<Rightarrow> 'v \<Rightarrow> 'v \<Rightarrow> ('v, 'i) handles \<Rightarrow> (unit, ('v, 'i) handles) outcome" where
  "handle_move_assign K v other s = bindR (handle_at s v) (\<lambda>a. bindR (handle_at s other) (\<lambda>b.
     let s = set_valid_at K a False s
     in Ok (s\<lparr>hs_p := (hs_p s)(v \<mapsto> b, other \<mapsto> a)\<rparr>)))"

definition handle_destroy :: "'v \<Rightarrow> ('v, 'i) handles \<Rightarrow> (unit, ('v, 'i) handles) outcome" where
  "handle_destroy v s = bindR (handle_at s v) (\<lambda>_. Ok (s\<lparr>hs_p := (hs_p s)(v := None)\<rparr>))"

text \<open>The statements of a program that touch handles. \<open>H_make\<close> is a handle to an object that the
  library has just made.\<close>

datatype ('v, 'i) handle_event =
  H_default 'v | H_make 'v 'i | H_copy 'v 'v | H_move 'v 'v | H_assign 'v 'v | H_move_assign 'v 'v | H_destroy 'v

fun handle_exec ::
  "'i handle_class \<Rightarrow> ('v, 'i) handle_event \<Rightarrow> ('v, 'i) handles \<Rightarrow> (unit, ('v, 'i) handles) outcome" where
  "handle_exec K (H_default v) s = handle_default K v s"
| "handle_exec K (H_make v i) s = (let (a, s) = make_shared i s in handle_from v (Some a) s)"
| "handle_exec K (H_copy v w) s = handle_copy v w s"
| "handle_exec K (H_move v w) s = handle_move K v w s"
| "handle_exec K (H_assign v w) s = handle_assign v w s"
| "handle_exec K (H_move_assign v w) s = handle_move_assign K v w s"
| "handle_exec K (H_destroy v) s = handle_destroy v s"

text \<open>A run stops at the first statement that is no program.\<close>

fun handle_run ::
  "'i handle_class \<Rightarrow> ('v, 'i) handles \<Rightarrow> ('v, 'i) handle_event list \<Rightarrow> (unit, ('v, 'i) handles) outcome" where
  "handle_run K s [] = Ok s"
| "handle_run K s (e # es) = bindR (handle_exec K e s) (\<lambda>s'. handle_run K s' es)"

definition item_class :: "ItemImpl handle_class" where
  "item_class = \<lparr>hc_default = ItemImpl_default, hc_is_valid = it_is_valid,
     hc_set_valid = (\<lambda>b i. i\<lparr>it_is_valid := b\<rparr>)\<rparr>"

definition account_class :: "AccountImpl handle_class" where
  "account_class = \<lparr>hc_default = AccountImpl_default, hc_is_valid = ac_is_valid,
     hc_set_valid = (\<lambda>b a. a\<lparr>ac_is_valid := b\<rparr>)\<rparr>"

section \<open>Values\<close>

text \<open>What the documentation promises: a handle is a value of its own. The source of a move
  is left with an invalid value, that of a move assignment with the old value of the target.\<close>

definition handle_val :: "('v, 'i) handles \<Rightarrow> 'v \<Rightarrow> 'i option" where
  "handle_val s v = map_option (\<lambda>a. hs_impls s ! a) (hs_p s v)"

fun value_exec :: "'i handle_class \<Rightarrow> ('v \<Rightarrow> 'i option) \<Rightarrow> ('v, 'i) handle_event \<Rightarrow> ('v \<Rightarrow> 'i option)" where
  "value_exec K m (H_default v) = m(v \<mapsto> hc_default K)"
| "value_exec K m (H_make v i) = m(v \<mapsto> i)"
| "value_exec K m (H_copy v w) = m(v := m w)"
| "value_exec K m (H_move v w) = m(v := m w, w \<mapsto> hc_default K)"
| "value_exec K m (H_assign v w) = m(v := m w)"
| "value_exec K m (H_move_assign v w) = m(v := m w, w := map_option (hc_set_valid K False) (m v))"
| "value_exec K m (H_destroy v) = m(v := None)"

text \<open>Is the implementation of a handle its own, and is every move assignment of a run made
  over such a handle?\<close>

definition unshared :: "('v, 'i) handles \<Rightarrow> 'v \<Rightarrow> bool" where
  "unshared s v \<longleftrightarrow> (\<forall>u. u \<noteq> v \<longrightarrow> hs_p s u \<noteq> hs_p s v)"

fun moves_alone :: "('v, 'i) handles \<Rightarrow> ('v, 'i) handle_event \<Rightarrow> bool" where
  "moves_alone s (H_move_assign v w) = unshared s v"
| "moves_alone s _ = True"

fun all_move_alone :: "'i handle_class \<Rightarrow> ('v, 'i) handles \<Rightarrow> ('v, 'i) handle_event list \<Rightarrow> bool" where
  "all_move_alone K s [] = True"
| "all_move_alone K s (e # es) \<longleftrightarrow> moves_alone s e \<and>
     (case handle_exec K e s of Ok s' \<Rightarrow> all_move_alone K s' es | _ \<Rightarrow> True)"

text \<open>No handle is null.\<close>

definition handles_wf :: "('v, 'i) handles \<Rightarrow> bool" where
  "handles_wf s \<longleftrightarrow> (\<forall>v a. hs_p s v = Some a \<longrightarrow> a < length (hs_impls s))"

lemma handles_wfD: "handles_wf s \<Longrightarrow> hs_p s v = Some a \<Longrightarrow> a < length (hs_impls s)"
  by (simp add: handles_wf_def)

lemma handle_at_Ok [simp]: "handle_at s v = Ok a \<longleftrightarrow> hs_p s v = Some a"
  by (simp add: handle_at_def split: option.split)

lemma unborn_Ok [simp]: "unborn s v = Ok u \<longleftrightarrow> hs_p s v = None"
  by (simp add: unborn_def)

text \<open>The test for self-assignment makes no difference.\<close>

lemma handle_assign_Ok:
  "handle_assign v w s = Ok s' \<longleftrightarrow>
     (\<exists>a b. hs_p s v = Some b \<and> hs_p s w = Some a \<and> s' = s\<lparr>hs_p := (hs_p s)(v \<mapsto> a)\<rparr>)"
  by (auto simp: handle_assign_def fun_upd_idem)

lemmas handle_defs = handle_default_def handle_from_def handle_copy_def handle_move_def handle_assign_def
  handle_move_assign_def handle_destroy_def make_shared_def set_valid_at_def

lemma handles_wf_exec: "handles_wf s \<Longrightarrow> handle_exec K e s = Ok s' \<Longrightarrow> handles_wf s'"
  by (cases e) (auto simp: handle_defs handles_wf_def Let_def less_Suc_eq split: if_splits)

lemma handles_wf_run: "handles_wf s \<Longrightarrow> handle_run K s es = Ok s' \<Longrightarrow> handles_wf s'"
  by (induction es arbitrary: s) (auto dest: handles_wf_exec)

text \<open>What a client of the two classes relies on: the laws of the validity flag.\<close>

locale handle_laws =
  fixes K :: "'i handle_class"
  assumes valid_set: "hc_is_valid K (hc_set_valid K b i) = b"
    and set_same: "hc_set_valid K (hc_is_valid K i) i = i"
    and default_invalid: "\<not> hc_is_valid K (hc_default K)"
begin

lemma set_default: "hc_set_valid K False (hc_default K) = hc_default K"
  using set_same [of "hc_default K"] default_invalid by simp

text \<open>Every statement but a move assignment over a shared implementation treats the handles as values.\<close>

lemma exec_value:
  assumes wf: "handles_wf s" and ok: "handle_exec K e s = Ok s'" and alone: "moves_alone s e"
  shows "handle_val s' = value_exec K (handle_val s) e"
proof (cases e)
  case (H_move_assign v w)
  with ok obtain a b where a: "hs_p s v = Some a" and b: "hs_p s w = Some b"
    and s': "s' = s\<lparr>hs_impls := (hs_impls s)[a := hc_set_valid K False (hs_impls s ! a)],
                    hs_p := (hs_p s)(v \<mapsto> b, w \<mapsto> a)\<rparr>"
    by (auto simp: handle_defs Let_def)
  from alone H_move_assign a have "u \<noteq> v \<Longrightarrow> hs_p s u \<noteq> Some a" for u by (auto simp: unshared_def)
  then show ?thesis using handles_wfD [OF wf] a b
    by (auto simp: H_move_assign s' handle_val_def fun_eq_iff nth_list_update map_option_case split: option.splits)
next
  case (H_assign v w)
  with ok show ?thesis by (auto simp: handle_assign_Ok handle_val_def fun_eq_iff)
qed (use ok handles_wfD [OF wf] set_default in \<open>auto simp: handle_defs Let_def handle_val_def fun_eq_iff
      nth_append map_option_case split: option.splits if_splits dest: handles_wfD [OF wf]\<close>)

lemma run_value:
  assumes "handles_wf s" and "handle_run K s es = Ok s'" and "all_move_alone K s es"
  shows "handle_val s' = foldl (value_exec K) (handle_val s) es"
  using assms
proof (induction es arbitrary: s)
  case (Cons e es)
  then obtain t where t: "handle_exec K e s = Ok t" "handle_run K t es = Ok s'" by auto
  with Cons.prems have "handle_val t = value_exec K (handle_val s) e" by (auto intro: exec_value)
  with Cons.IH [OF handles_wf_exec [OF Cons.prems(1) t(1)] t(2)] Cons.prems(3) t(1) show ?case by simp
qed simp

text \<open>A move assignment over a shared implementation makes every handle that shares it invalid.\<close>

lemma move_assign_spoils:
  assumes "handles_wf s" and "handle_move_assign K v w s = Ok s'" and "u \<noteq> v" and "hs_p s u = hs_p s v"
  shows "\<exists>i. handle_val s u = Some i \<and> handle_val s' u = Some (hc_set_valid K False i)"
  using assms by (auto simp: handle_defs Let_def handle_val_def dest: handles_wfD)

text \<open>The source of a move is invalid.\<close>

lemma moved_from_invalid:
  assumes wf: "handles_wf s" and ok: "handle_exec K e s = Ok s'"
    and e: "e = H_move v w \<or> e = H_move_assign v w"
  shows "\<exists>i. handle_val s' w = Some i \<and> \<not> hc_is_valid K i"
  using e
proof
  assume "e = H_move v w"
  with ok show ?thesis by (auto simp: handle_defs Let_def handle_val_def valid_set nth_append)
next
  assume "e = H_move_assign v w"
  with ok show ?thesis using wf by (auto simp: handle_defs Let_def handle_val_def valid_set dest: handles_wfD)
qed

end

interpretation item_handles: handle_laws item_class
  by unfold_locales (simp_all add: item_class_def ItemImpl_default_def)

interpretation account_handles: handle_laws account_class
  by unfold_locales (simp_all add: account_class_def AccountImpl_default_def)

section \<open>The methods of a handle\<close>

text \<open>\<open>p_->f()\<close>\<close>

definition on_handle :: "('i \<Rightarrow> 'a) \<Rightarrow> ('v, 'i) handles \<Rightarrow> 'v \<Rightarrow> (unit, 'a) outcome" where
  "on_handle f s v = bindR (handle_at s v) (\<lambda>a. Ok (f (hs_impls s ! a)))"

definition on_handles :: "('i \<Rightarrow> 'i \<Rightarrow> 'a) \<Rightarrow> ('v, 'i) handles \<Rightarrow> 'v \<Rightarrow> 'v \<Rightarrow> (unit, 'a) outcome" where
  "on_handles f s v w = bindR (on_handle id s v) (\<lambda>i. bindR (on_handle id s w) (\<lambda>j. Ok (f i j)))"

lemma on_handle_val: "on_handle f s v = (case handle_val s v of None \<Rightarrow> Abort | Some i \<Rightarrow> Ok (f i))"
  by (simp add: on_handle_def handle_at_def handle_val_def split: option.split)

subsection \<open>Items\<close>

type_synonym 'v item_handles = "('v, ItemImpl) handles"

definition Item_isValid :: "'v item_handles \<Rightarrow> 'v \<Rightarrow> (unit, bool) outcome" where
  "Item_isValid = on_handle it_is_valid"

definition Item_itemId :: "'v item_handles \<Rightarrow> 'v \<Rightarrow> (unit, string) outcome" where
  "Item_itemId = on_handle item_itemId"

definition Item_name :: "'v item_handles \<Rightarrow> 'v \<Rightarrow> (unit, string) outcome" where
  "Item_name = on_handle item_name"

definition Item_account :: "'v item_handles \<Rightarrow> 'v \<Rightarrow> (unit, AccountImpl) outcome" where
  "Item_account = on_handle item_account"

definition Item_etag :: "'v item_handles \<Rightarrow> 'v \<Rightarrow> (unit, string) outcome" where
  "Item_etag = on_handle item_etag"

definition Item_type :: "'v item_handles \<Rightarrow> 'v \<Rightarrow> (unit, ItemType) outcome" where
  "Item_type = on_handle item_type"

definition Item_metadata :: "'v item_handles \<Rightarrow> 'v \<Rightarrow> (unit, (string \<times> QVariant) list) outcome" where
  "Item_metadata = on_handle item_metadata"

definition Item_sizeInBytes :: "(QVariant \<Rightarrow> int) \<Rightarrow> 'v item_handles \<Rightarrow> 'v \<Rightarrow> (unit, int) outcome" where
  "Item_sizeInBytes toLongLong s v = bindR (on_handle (item_sizeInBytes toLongLong) s v) (\<lambda>r. r)"

text \<open>\<open>QDateTime::fromString\<close> and \<open>QVariant::toString\<close> are parameters, and so is a \<open>QDateTime\<close>, whose
  default is \<open>no_date\<close>. \<open>QMap::value\<close> gives an invalid \<open>QVariant\<close> for a key that is missing.\<close>

definition item_lastModifiedTime :: "(string \<Rightarrow> 'd) \<Rightarrow> (QVariant \<Rightarrow> string) \<Rightarrow> 'd \<Rightarrow> ItemImpl \<Rightarrow> 'd" where
  "item_lastModifiedTime fromString toString no_date i =
     (if it_is_valid i
      then fromString (toString (case map_of (md_metadata (it_md i)) LAST_MODIFIED_TIME of
                                   None \<Rightarrow> QV_Invalid | Some v \<Rightarrow> v))
      else no_date)"

definition Item_lastModifiedTime ::
  "(string \<Rightarrow> 'd) \<Rightarrow> (QVariant \<Rightarrow> string) \<Rightarrow> 'd \<Rightarrow> 'v item_handles \<Rightarrow> 'v \<Rightarrow> (unit, 'd) outcome" where
  "Item_lastModifiedTime fromString toString no_date = on_handle (item_lastModifiedTime fromString toString no_date)"

definition Item_parentIds :: "'v item_handles \<Rightarrow> 'v \<Rightarrow> (unit, string list) outcome" where
  "Item_parentIds = on_handle item_parentIds"

definition Item_eq :: "'v item_handles \<Rightarrow> 'v \<Rightarrow> 'v \<Rightarrow> (unit, bool) outcome" where
  "Item_eq = on_handles it_eq"

definition Item_ne :: "'v item_handles \<Rightarrow> 'v \<Rightarrow> 'v \<Rightarrow> (unit, bool) outcome" where
  "Item_ne = on_handles it_ne"

definition Item_lt :: "'v item_handles \<Rightarrow> 'v \<Rightarrow> 'v \<Rightarrow> (unit, bool) outcome" where
  "Item_lt = on_handles it_lt"

definition Item_le :: "'v item_handles \<Rightarrow> 'v \<Rightarrow> 'v \<Rightarrow> (unit, bool) outcome" where
  "Item_le = on_handles it_le"

definition Item_gt :: "'v item_handles \<Rightarrow> 'v \<Rightarrow> 'v \<Rightarrow> (unit, bool) outcome" where
  "Item_gt = on_handles it_gt"

definition Item_ge :: "'v item_handles \<Rightarrow> 'v \<Rightarrow> 'v \<Rightarrow> (unit, bool) outcome" where
  "Item_ge = on_handles it_ge"

text \<open>\<open>size_t\<close> has 64 bits and \<open>uint\<close> has 32: \<open>qHash\<close> is the low half of \<open>hash\<close>.\<close>

definition Item_hash ::
  "(string \<Rightarrow> 32 word) \<Rightarrow> (64 word \<Rightarrow> 64 word \<Rightarrow> 64 word) \<Rightarrow> 'v item_handles \<Rightarrow> 'v \<Rightarrow> (unit, 64 word) outcome" where
  "Item_hash qHash combine = on_handle (it_hash qHash combine)"

definition Item_qHash ::
  "(string \<Rightarrow> 32 word) \<Rightarrow> (64 word \<Rightarrow> 64 word \<Rightarrow> 64 word) \<Rightarrow> 'v item_handles \<Rightarrow> 'v \<Rightarrow> (unit, 32 word) outcome" where
  "Item_qHash qHash combine s v = bindR (Item_hash qHash combine s v) (\<lambda>h. Ok (ucast h))"

text \<open>The methods that return a job, an uploader or a downloader.\<close>

datatype 'v item_op =
    I_parents keys | I_copy 'v string keys | I_move 'v string keys | I_deleteItem
  | I_createUploader ConflictPolicy int keys | I_createDownloader ConflictPolicy | I_list keys
  | I_lookup string keys | I_createFolder string keys | I_createFile string ConflictPolicy int string keys

fun Item_call ::
  "RuntimeImpl option \<Rightarrow> 'v item_handles \<Rightarrow> 'v \<Rightarrow> 'v item_op \<Rightarrow> (unit, job_start) outcome" where
  "Item_call rt s v (I_parents keys) = bindR (on_handle (\<lambda>i. item_parents rt i keys) s v) (\<lambda>r. r)"
| "Item_call rt s v (I_copy newParent newName keys) =
     on_handles (\<lambda>i p. item_copy rt i p newName keys) s v newParent"
| "Item_call rt s v (I_move newParent newName keys) =
     on_handles (\<lambda>i p. item_move rt i p newName keys) s v newParent"
| "Item_call rt s v I_deleteItem = on_handle (item_deleteItem rt) s v"
| "Item_call rt s v (I_createUploader policy sizeInBytes keys) =
     on_handle (\<lambda>i. item_createUploader rt i policy sizeInBytes keys) s v"
| "Item_call rt s v (I_createDownloader policy) = on_handle (\<lambda>i. item_createDownloader rt i policy) s v"
| "Item_call rt s v (I_list keys) = on_handle (\<lambda>i. item_list rt i keys) s v"
| "Item_call rt s v (I_lookup name keys) = on_handle (\<lambda>i. item_lookup rt i name keys) s v"
| "Item_call rt s v (I_createFolder name keys) = on_handle (\<lambda>i. item_createFolder rt i name keys) s v"
| "Item_call rt s v (I_createFile name policy sizeInBytes contentType keys) =
     on_handle (\<lambda>i. item_createFile rt i name policy sizeInBytes contentType keys) s v"

subsection \<open>Accounts\<close>

type_synonym 'v account_handles = "('v, AccountImpl) handles"

definition Account_isValid :: "'v account_handles \<Rightarrow> 'v \<Rightarrow> (unit, bool) outcome" where
  "Account_isValid = on_handle ac_is_valid"

definition Account_busName :: "'v account_handles \<Rightarrow> 'v \<Rightarrow> (unit, string) outcome" where
  "Account_busName = on_handle ac_busName"

definition Account_objectPath :: "'v account_handles \<Rightarrow> 'v \<Rightarrow> (unit, string) outcome" where
  "Account_objectPath = on_handle ac_objectPath"

definition Account_displayName :: "'v account_handles \<Rightarrow> 'v \<Rightarrow> (unit, string) outcome" where
  "Account_displayName = on_handle ac_displayName"

definition Account_providerName :: "'v account_handles \<Rightarrow> 'v \<Rightarrow> (unit, string) outcome" where
  "Account_providerName = on_handle ac_providerName"

definition Account_iconName :: "'v account_handles \<Rightarrow> 'v \<Rightarrow> (unit, string) outcome" where
  "Account_iconName = on_handle ac_iconName"

definition Account_roots ::
  "RuntimeImpl option \<Rightarrow> 'v account_handles \<Rightarrow> 'v \<Rightarrow> keys \<Rightarrow> (unit, job_start) outcome" where
  "Account_roots rt s v keys = on_handle (\<lambda>a. account_roots rt a keys) s v"

definition Account_get ::
  "RuntimeImpl option \<Rightarrow> 'v account_handles \<Rightarrow> 'v \<Rightarrow> string \<Rightarrow> keys \<Rightarrow> (unit, job_start) outcome" where
  "Account_get rt s v itemId keys = on_handle (\<lambda>a. account_get rt a itemId keys) s v"

definition Account_eq :: "'v account_handles \<Rightarrow> 'v \<Rightarrow> 'v \<Rightarrow> (unit, bool) outcome" where
  "Account_eq = on_handles ac_eq"

definition Account_ne :: "'v account_handles \<Rightarrow> 'v \<Rightarrow> 'v \<Rightarrow> (unit, bool) outcome" where
  "Account_ne = on_handles ac_ne"

definition Account_lt :: "'v account_handles \<Rightarrow> 'v \<Rightarrow> 'v \<Rightarrow> (unit, bool) outcome" where
  "Account_lt = on_handles ac_lt"

definition Account_le :: "'v account_handles \<Rightarrow> 'v \<Rightarrow> 'v \<Rightarrow> (unit, bool) outcome" where
  "Account_le = on_handles ac_le"

definition Account_gt :: "'v account_handles \<Rightarrow> 'v \<Rightarrow> 'v \<Rightarrow> (unit, bool) outcome" where
  "Account_gt = on_handles ac_gt"

definition Account_ge :: "'v account_handles \<Rightarrow> 'v \<Rightarrow> 'v \<Rightarrow> (unit, bool) outcome" where
  "Account_ge = on_handles ac_ge"

definition Account_hash ::
  "(string \<Rightarrow> 32 word) \<Rightarrow> (64 word \<Rightarrow> 64 word \<Rightarrow> 64 word) \<Rightarrow> 'v account_handles \<Rightarrow> 'v \<Rightarrow> (unit, 64 word) outcome" where
  "Account_hash qHash combine = on_handle (ac_hash qHash combine)"

definition Account_qHash ::
  "(string \<Rightarrow> 32 word) \<Rightarrow> (64 word \<Rightarrow> 64 word \<Rightarrow> 64 word) \<Rightarrow> 'v account_handles \<Rightarrow> 'v \<Rightarrow> (unit, 32 word) outcome" where
  "Account_qHash qHash combine s v = bindR (Account_hash qHash combine s v) (\<lambda>h. Ok (ucast h))"

subsection \<open>Errors\<close>

text \<open>
  A \<open>StorageError\<close> owns its implementation through a \<open>unique_ptr\<close>; the generated move
  operations leave a null pointer behind (\<open>None\<close>). Copying from a null pointer, copying over
  one and every accessor of one are undefined behaviour.
\<close>

type_synonym error_handle = "StorageError option"

definition error_deref :: "error_handle \<Rightarrow> (unit, StorageError) outcome" where
  "error_deref p = (case p of None \<Rightarrow> Abort | Some e \<Rightarrow> Ok e)"

definition StorageError_default :: error_handle where
  "StorageError_default = Some StorageErrorImpl_default"

definition StorageError_copy :: "error_handle \<Rightarrow> (unit, error_handle) outcome" where
  "StorageError_copy other = bindR (error_deref other) (\<lambda>e. Ok (Some e))"

text \<open>The moves give the new handle and what is left of the other.\<close>

definition StorageError_move :: "error_handle \<Rightarrow> error_handle \<times> error_handle" where
  "StorageError_move other = (other, None)"

definition StorageError_assign :: "error_handle \<Rightarrow> error_handle \<Rightarrow> (unit, error_handle) outcome" where
  "StorageError_assign this other =
     bindR (error_deref other) (\<lambda>e. bindR (error_deref this) (\<lambda>_. Ok (Some e)))"

definition StorageError_move_assign :: "error_handle \<Rightarrow> error_handle \<Rightarrow> error_handle \<times> error_handle" where
  "StorageError_move_assign this other = (other, None)"

definition StorageError_type :: "error_handle \<Rightarrow> (unit, ErrorType) outcome" where
  "StorageError_type p = bindR (error_deref p) (\<lambda>e. Ok (se_type e))"

definition StorageError_name :: "error_handle \<Rightarrow> (unit, string) outcome" where
  "StorageError_name p = bindR (error_deref p) (\<lambda>e. Ok (se_name e))"

definition StorageError_message :: "error_handle \<Rightarrow> (unit, string) outcome" where
  "StorageError_message p = bindR (error_deref p) (\<lambda>e. Ok (se_message e))"

definition StorageError_errorString :: "error_handle \<Rightarrow> (unit, string) outcome" where
  "StorageError_errorString p = bindR (error_deref p) (\<lambda>e. Ok (errorString e))"

definition StorageError_itemId :: "error_handle \<Rightarrow> (unit, string) outcome" where
  "StorageError_itemId p = bindR (error_deref p) (\<lambda>e. Ok (se_item_id e))"

definition StorageError_itemName :: "error_handle \<Rightarrow> (unit, string) outcome" where
  "StorageError_itemName p = bindR (error_deref p) (\<lambda>e. Ok (se_item_name e))"

definition StorageError_errorCode :: "error_handle \<Rightarrow> (unit, int) outcome" where
  "StorageError_errorCode p = bindR (error_deref p) (\<lambda>e. Ok (se_error_code e))"

section \<open>Properties\<close>

lemma no_handles_p [simp]: "hs_p no_handles v = None" "hs_impls no_handles = []"
  by (simp_all add: no_handles_def)

lemma no_handles_wf: "handles_wf no_handles"
  by (simp add: handles_wf_def)

lemma no_handles_val: "handle_val no_handles = (\<lambda>_. None)"
  by (simp add: handle_val_def fun_eq_iff)

text \<open>
  C23. The items and accounts of an application are values, as their documentation says: after
  any statements that the language allows, in each of which a move assignment is made only
  over a handle that shares its implementation with no other, every handle that is alive has
  an implementation, and what it refers to is what it would be if every handle held an
  object of its own.
\<close>

theorem handles_are_values:
  "(handle_run item_class no_handles es = Ok s \<and> all_move_alone item_class no_handles es \<longrightarrow>
      handles_wf s \<and> handle_val s = foldl (value_exec item_class) (\<lambda>_. None) es) \<and>
   (handle_run account_class no_handles fs = Ok t \<and> all_move_alone account_class no_handles fs \<longrightarrow>
      handles_wf t \<and> handle_val t = foldl (value_exec account_class) (\<lambda>_. None) fs)"
  using item_handles.run_value [OF no_handles_wf] account_handles.run_value [OF no_handles_wf]
  by (auto simp: no_handles_val intro: handles_wf_run [OF no_handles_wf])

lemmas run_handles = handle_defs Let_def bindR.simps handle_at_def unborn_def assertR_def

theorem handles_are_values_witness:
  "\<exists>s. handle_run item_class no_handles [H_make ''a'' sample_file, H_copy ''b'' ''a'', H_default ''c'',
          H_move_assign ''c'' ''a''] = Ok s \<and>
       handle_val s ''b'' = Some sample_file \<and> handle_val s ''c'' = Some sample_file \<and>
       handle_val s ''a'' = Some ItemImpl_default"
proof -
  let ?es = "[H_make ''a'' sample_file, H_copy ''b'' ''a'', H_default ''c'', H_move_assign ''c'' ''a'']"
  obtain s where s: "handle_run item_class no_handles ?es = Ok s" and "all_move_alone item_class no_handles ?es"
    by (simp add: run_handles unshared_def)
  with handles_are_values [of ?es s] have "handle_val s = foldl (value_exec item_class) (\<lambda>_. None) ?es" by blast
  then have "handle_val s ''b'' = Some sample_file \<and> handle_val s ''c'' = Some sample_file \<and>
      handle_val s ''a'' = Some ItemImpl_default"
    by (simp add: item_class_def ItemImpl_default_def)
  with s show ?thesis by blast
qed

text \<open>
  A move assignment over an item that was copied makes the copies invalid: with \<open>b\<close> a copy
  of a valid item \<open>a\<close>, \<open>a = std::move(c)\<close> leaves \<open>a\<close> with the value of \<open>c\<close> and \<open>b\<close> invalid,
  where a value would have kept the item.
\<close>

lemma move_assign_spoils_copies:
  assumes "it_is_valid i"
  shows "\<exists>s. handle_run item_class no_handles
            [H_make ''a'' i, H_copy ''b'' ''a'', H_make ''c'' j, H_move_assign ''a'' ''c''] = Ok s \<and>
          handle_val s ''a'' = Some j \<and> Item_isValid s ''b'' = Ok False \<and>
          foldl (value_exec item_class) (\<lambda>_. None)
            [H_make ''a'' i, H_copy ''b'' ''a'', H_make ''c'' j, H_move_assign ''a'' ''c''] ''b'' = Some i"
  by (simp add: run_handles handle_val_def Item_isValid_def on_handle_def item_class_def nth_append)

text \<open>The same holds for every number of copies, of accounts too: the item that was made from an account
  holds its implementation and loses it with the application's handle.\<close>

lemma move_assign_spoils_every_copy:
  assumes "handles_wf s" and "handle_move_assign account_class v w s = Ok s'" and "u \<noteq> v" and "hs_p s u = hs_p s v"
  shows "Account_isValid s' u = Ok False \<and> (\<exists>js. Account_roots rt s' u keys = Ok js \<and> refuses ET_LogicError js)"
  using account_handles.move_assign_spoils [OF assms]
  by (auto simp: Account_isValid_def Account_roots_def on_handle_val account_class_def account_roots_def
      check_account_def refuses_def)

lemma invalid_item_refuses:
  assumes "handle_val s v = Some i" and "\<not> it_is_valid i"
    and "\<And>p n keys. op = I_copy p n keys \<or> op = I_move p n keys \<Longrightarrow> handle_val s p \<noteq> None"
  shows "\<exists>js. Item_call rt s v op = Ok js \<and> refuses ET_LogicError js"
proof -
  have val: "on_handle f s v = Ok (f i)" for f :: "ItemImpl \<Rightarrow> 'b" using assms(1) by (simp add: on_handle_val)
  have e: "\<exists>e. check_invalid_or_destroyed rt meth i = Some e \<and> se_type e = ET_LogicError" for meth
    using guard_refuses [of i rt meth] assms(2) by simp
  obtain m where m: "check_invalid_or_destroyed rt meth i = Some (m meth) \<and> se_type (m meth) = ET_LogicError" for meth
    using e by metis
  note d = val m refuses_def on_handles_def on_handle_val assms(1) check_copy_move_precondition_def
  show ?thesis
  proof (cases op)
    case (I_copy p n keys)
    with assms(3) obtain j where "handle_val s p = Some j" by blast
    with I_copy show ?thesis by (simp add: d item_copy_def)
  next
    case (I_move p n keys)
    with assms(3) obtain j where "handle_val s p = Some j" by blast
    with I_move show ?thesis by (simp add: d item_move_def)
  qed (simp_all add: d item_parents_def item_deleteItem_def item_createUploader_def item_createDownloader_def
      item_list_def item_lookup_def item_createFolder_def item_createFile_def)
qed

text \<open>
  An item that was moved from, by a move construction or a move assignment, can be used
  without harm: it is invalid, its identity, name, ETag, metadata and parents are empty, and
  every operation on it returns a job that has failed with a logic error, so that nothing is
  sent to the provider.
\<close>

theorem moved_from_item_refuses:
  assumes "handle_run item_class no_handles es = Ok s"
    and "handle_exec item_class e s = Ok s'" and "e = H_move v w \<or> e = H_move_assign v w"
    and "\<And>p n keys. op = I_copy p n keys \<or> op = I_move p n keys \<Longrightarrow> hs_p s' p \<noteq> None"
  shows "Item_isValid s' w = Ok False \<and> Item_itemId s' w = Ok '''' \<and> Item_name s' w = Ok '''' \<and>
    Item_etag s' w = Ok '''' \<and> Item_metadata s' w = Ok [] \<and> Item_parentIds s' w = Ok [] \<and>
    Item_sizeInBytes toLongLong s' w = Ok 0 \<and> Item_account s' w = Ok AccountImpl_default \<and>
    (\<exists>js. Item_call rt s' w op = Ok js \<and> refuses ET_LogicError js)"
proof -
  have "handles_wf s" by (rule handles_wf_run [OF no_handles_wf assms(1)])
  from item_handles.moved_from_invalid [OF this assms(2) assms(3)] obtain i
    where i: "handle_val s' w = Some i" "\<not> it_is_valid i" by (auto simp: item_class_def)
  have "\<exists>js. Item_call rt s' w op = Ok js \<and> refuses ET_LogicError js"
    by (rule invalid_item_refuses [OF i]) (use assms(4) in \<open>auto simp: handle_val_def\<close>)
  with i show ?thesis
    by (simp add: Item_isValid_def Item_itemId_def Item_name_def Item_etag_def Item_metadata_def Item_parentIds_def
        Item_sizeInBytes_def Item_account_def on_handle_val item_itemId_def item_name_def item_etag_def
        item_metadata_def item_parentIds_def item_sizeInBytes_def item_account_def)
qed

theorem moved_from_item_refuses_witness:
  "\<exists>s. handle_run item_class no_handles [H_make ''a'' sample_folder, H_move ''b'' ''a''] = Ok s \<and>
     Item_isValid s ''a'' = Ok False \<and>
     (\<exists>js. Item_call (Some RuntimeImpl_init) s ''a'' (I_list []) = Ok js \<and> refuses ET_LogicError js)"
proof -
  obtain s t where s: "handle_run item_class no_handles [H_make ''a'' sample_folder] = Ok s"
    and t: "handle_exec item_class (H_move ''b'' ''a'') s = Ok t"
    by (simp add: run_handles)
  from moved_from_item_refuses [OF s t, where op = "I_list []"] s t show ?thesis by auto
qed

text \<open>
  A copy of an error has the same accessors as the original, and keeps them whatever is later
  assigned to the original; an error that was moved from has none, and even an assignment of a
  new error to it is undefined.
\<close>

lemma errors_copied_and_moved:
  "StorageError_copy (Some e) = Ok (Some e) \<and> StorageError_assign (Some d) (Some e) = Ok (Some e) \<and>
   fst (StorageError_move (Some e)) = Some e \<and>
   (let left = snd (StorageError_move (Some e)) in
      StorageError_type left = Abort \<and> StorageError_message left = Abort \<and> StorageError_copy left = Abort \<and>
      StorageError_assign left (Some d) = Abort \<and> StorageError_move_assign left (Some d) = (Some d, None))"
  by (simp add: StorageError_copy_def StorageError_assign_def StorageError_move_def error_deref_def
      StorageError_type_def StorageError_message_def StorageError_move_assign_def)

end
