(* ===== verification/PublicJobs.thy ===== *)
theory PublicJobs
  imports ClientJobs Handles
begin

text \<open>
  The job objects that an application holds (\<open>src/src/qt/VoidJob.cpp\<close>, \<open>ItemJob.cpp\<close>,
  \<open>ItemListJob.cpp\<close>, \<open>AccountsJob.cpp\<close>) and the factories that make them (\<open>make_job\<close> and
  \<open>make_empty_job\<close> of the implementation classes). A job that has failed, or is finished, when it is
  made queues its signal, so that the application can connect to it first; the signals of other jobs
  come with replies, which the event loop delivers.

  The state of a public job: its implementation (\<open>ClientJobs\<close>), the queued signals, whether the
  application has connected, and the signals that its slot got.

  The lemmas: an application that connects before it returns to its event loop gets exactly one
  \<open>statusChanged\<close>, with the final status, whichever way the job ends.
\<close>

section \<open>Public jobs\<close>

record pub_job =
  pb_impl :: job
  pb_queued :: "job_status list"
  pb_connected :: bool
  pb_seen :: "job_status list"

definition pub_of :: "job \<Rightarrow> job_status list \<Rightarrow> pub_job" where
  "pub_of impl queued = \<lparr>pb_impl = impl, pb_queued = queued, pb_connected = False, pb_seen = []\<rparr>"

text \<open>The constructors of the implementations for an error, and for the empty list.\<close>

definition error_impl :: "StorageError \<Rightarrow> job" where
  "error_impl e = (job_loading 0)\<lparr>jb_status := JS_Error, jb_error := e\<rparr>"

definition empty_impl :: job where
  "empty_impl = (job_loading 0)\<lparr>jb_status := JS_Finished\<rparr>"

definition VoidJobImpl_make_error :: "StorageError \<Rightarrow> pub_job" where
  "VoidJobImpl_make_error e = (let impl = error_impl e in pub_of impl [jb_status impl])"

definition ItemJobImpl_make_error :: "StorageError \<Rightarrow> pub_job" where
  "ItemJobImpl_make_error e = (let impl = error_impl e in pub_of impl [jb_status impl])"

definition ListJobImplBase_make_error :: "StorageError \<Rightarrow> pub_job" where
  "ListJobImplBase_make_error e = (let impl = error_impl e in pub_of impl [jb_status impl])"

definition ListJobImplBase_make_empty :: pub_job where
  "ListJobImplBase_make_empty = (let impl = empty_impl in pub_of impl [jb_status impl])"

text \<open>The factories for a call that was made, one for each reply to wait for.\<close>

definition make_started :: "nat \<Rightarrow> pub_job" where
  "make_started n = pub_of (job_loading n) []"

text \<open>The constructor of an accounts job for an error asserts that it is one; its \<open>emit_status_changed\<close>
  finds the status final and emits nothing, the factory queues the signal.\<close>

definition AccountsJobImpl_error :: "StorageError \<Rightarrow> (unit, accounts_job) outcome" where
  "AccountsJobImpl_error e = bindR (assertR (se_type e \<noteq> ET_NoError)) (\<lambda>_.
     Ok (emit_status_changed JS_Error (job.extend (error_impl e) \<lparr>aj_accounts = []\<rparr>)))"

definition AccountsJobImpl_make_error :: "StorageError \<Rightarrow> (unit, accounts_job \<times> job_status list) outcome" where
  "AccountsJobImpl_make_error e = bindR (AccountsJobImpl_error e) (\<lambda>j. Ok (j, [jb_status j]))"

text \<open>The job of an operation of an item (\<open>job_start\<close> of \<open>Client\<close>), by the kind of its result.\<close>

datatype job_kind = Void_job | Item_job | List_job

fun public_job :: "job_kind \<Rightarrow> job_start \<Rightarrow> pub_job" where
  "public_job k (Failed_job e) =
     (case k of Void_job \<Rightarrow> VoidJobImpl_make_error e | Item_job \<Rightarrow> ItemJobImpl_make_error e
        | List_job \<Rightarrow> ListJobImplBase_make_error e)"
| "public_job k Empty_job = ListJobImplBase_make_empty"
| "public_job k (Started calls check) = make_started (length calls)"

lemmas public_job_defs = VoidJobImpl_make_error_def ItemJobImpl_make_error_def ListJobImplBase_make_error_def
  ListJobImplBase_make_empty_def make_started_def pub_of_def error_impl_def empty_impl_def Let_def

text \<open>The methods of the public classes.\<close>

definition VoidJob_isValid :: "pub_job \<Rightarrow> bool" where
  "VoidJob_isValid p \<longleftrightarrow> jb_status (pb_impl p) \<noteq> JS_Error"

definition VoidJob_status :: "pub_job \<Rightarrow> job_status" where
  "VoidJob_status p = jb_status (pb_impl p)"

definition VoidJob_error :: "pub_job \<Rightarrow> StorageError" where
  "VoidJob_error p = jb_error (pb_impl p)"

definition ItemJob_isValid :: "pub_job \<Rightarrow> bool" where
  "ItemJob_isValid p \<longleftrightarrow> jb_status (pb_impl p) \<noteq> JS_Error"

definition ItemJob_status :: "pub_job \<Rightarrow> job_status" where
  "ItemJob_status p = jb_status (pb_impl p)"

definition ItemJob_error :: "pub_job \<Rightarrow> StorageError" where
  "ItemJob_error p = jb_error (pb_impl p)"

definition ItemJob_item :: "pub_job \<Rightarrow> ItemImpl" where
  "ItemJob_item p = (case concat (jb_items (pb_impl p)) of [] \<Rightarrow> ItemImpl_default | i # _ \<Rightarrow> i)"

definition ItemListJob_isValid :: "pub_job \<Rightarrow> bool" where
  "ItemListJob_isValid p \<longleftrightarrow> jb_status (pb_impl p) \<noteq> JS_Error"

definition ItemListJob_status :: "pub_job \<Rightarrow> job_status" where
  "ItemListJob_status p = jb_status (pb_impl p)"

definition ItemListJob_error :: "pub_job \<Rightarrow> StorageError" where
  "ItemListJob_error p = jb_error (pb_impl p)"

definition AccountsJob_isValid :: "accounts_job \<Rightarrow> bool" where
  "AccountsJob_isValid j \<longleftrightarrow> jb_status j \<noteq> JS_Error"

definition AccountsJob_status :: "accounts_job \<Rightarrow> job_status" where
  "AccountsJob_status j = jb_status j"

definition AccountsJob_error :: "accounts_job \<Rightarrow> StorageError" where
  "AccountsJob_error j = jb_error j"

definition AccountsJob_accounts :: "RuntimeImpl option \<Rightarrow> accounts_job \<Rightarrow> AccountImpl list \<times> accounts_job" where
  "AccountsJob_accounts rt j = accounts_of rt j"

definition accountsAsVariantList :: "RuntimeImpl option \<Rightarrow> accounts_job \<Rightarrow> AccountImpl list \<times> accounts_job" where
  "accountsAsVariantList rt j = (case AccountsJob_accounts rt j of (as, j) \<Rightarrow> (map (\<lambda>a. a) as, j))"

section \<open>The application and its event loop\<close>

datatype 'r pub_event = App_connect | Loop_queued | Loop_reply "'r reply"

fun pub_step :: "(job \<Rightarrow> 'r reply \<Rightarrow> job) \<Rightarrow> pub_job \<Rightarrow> 'r pub_event \<Rightarrow> pub_job" where
  "pub_step step p App_connect = p\<lparr>pb_connected := True\<rparr>"
| "pub_step step p Loop_queued =
     (case pb_queued p of
        [] \<Rightarrow> p
      | s # ss \<Rightarrow> p\<lparr>pb_queued := ss, pb_seen := (if pb_connected p then pb_seen p @ [s] else pb_seen p)\<rparr>)"
| "pub_step step p (Loop_reply r) =
     (let impl = step (pb_impl p) r; new = drop (length (jb_signals (pb_impl p))) (jb_signals impl)
      in p\<lparr>pb_impl := impl, pb_seen := (if pb_connected p then pb_seen p @ new else pb_seen p)\<rparr>)"

text \<open>No signal while the job loads, and then one with its status, if only in the queue.\<close>

definition hears_once :: "pub_job \<Rightarrow> bool" where
  "hears_once p \<longleftrightarrow>
     (if jb_status (pb_impl p) = JS_Loading then pb_seen p = [] \<and> pb_queued p = []
      else final_status (jb_status (pb_impl p)) \<and> pb_seen p @ pb_queued p = [jb_status (pb_impl p)])"

text \<open>What an application relies on: a job that reports once, whose signals are only added to, and
  that does nothing when no reply is expected.\<close>

locale reporting_job = invariant_machine step inv
  for step :: "job \<Rightarrow> 'r reply \<Rightarrow> job" and inv :: "job \<Rightarrow> bool" +
  assumes once: "inv j \<Longrightarrow> reports_once j"
    and grow: "inv j \<Longrightarrow> \<exists>s. jb_signals (step j r) = jb_signals j @ s"
    and idle: "jb_waiting j = 0 \<Longrightarrow> step j r = j"
begin

definition heard :: "pub_job \<Rightarrow> bool" where
  "heard p \<longleftrightarrow> pb_connected p \<and>
     (inv (pb_impl p) \<and> pb_queued p = [] \<and> pb_seen p = jb_signals (pb_impl p) \<or>
      jb_waiting (pb_impl p) = 0 \<and> final_status (jb_status (pb_impl p)) \<and>
      pb_seen p @ pb_queued p = [jb_status (pb_impl p)])"

lemma heard_step: "heard p \<Longrightarrow> heard (pub_step step p e)"
proof (cases e)
  case (Loop_reply r)
  assume h: "heard p"
  show ?thesis
  proof (cases "inv (pb_impl p) \<and> pb_queued p = [] \<and> pb_seen p = jb_signals (pb_impl p)")
    case True
    then obtain s where "jb_signals (step (pb_impl p) r) = jb_signals (pb_impl p) @ s" using grow by blast
    with True h Loop_reply inv_step [of "pb_impl p" r] show ?thesis by (simp add: heard_def Let_def)
  next
    case False
    with h have "jb_waiting (pb_impl p) = 0" by (auto simp: heard_def)
    from idle [OF this] h Loop_reply show ?thesis by (simp add: heard_def Let_def)
  qed
qed (auto simp: heard_def split: list.splits)

lemma heard_run:
  assumes "inv (pb_impl p) \<and> pb_queued p = [] \<and> jb_signals (pb_impl p) = [] \<or>
      jb_waiting (pb_impl p) = 0 \<and> final_status (jb_status (pb_impl p)) \<and> pb_queued p = [jb_status (pb_impl p)]"
    and "pb_seen p = []"
  shows "heard (run_events (pub_step step) p (App_connect # es))"
proof -
  have "heard (pub_step step p App_connect)" using assms by (auto simp: heard_def)
  then have "heard (run_events (pub_step step) (pub_step step p App_connect) es)"
    by (induction es rule: rev_induct) (simp_all add: heard_step del: pub_step.simps)
  then show ?thesis by simp
qed

lemma heard_once: "heard p \<Longrightarrow> hears_once p"
  using once [of "pb_impl p"] by (auto simp: heard_def hears_once_def reports_once_def)

text \<open>A job that was made for one of the three outcomes of an operation.\<close>

lemma public_job_hears:
  assumes "\<And>calls v. js = Started calls v \<Longrightarrow> inv (job_loading (length calls))"
  shows "hears_once (run_events (pub_step step) (public_job k js) (App_connect # es))"
proof (rule heard_once, rule heard_run)
  show "inv (pb_impl (public_job k js)) \<and> pb_queued (public_job k js) = [] \<and> jb_signals (pb_impl (public_job k js)) = [] \<or>
      jb_waiting (pb_impl (public_job k js)) = 0 \<and> final_status (jb_status (pb_impl (public_job k js))) \<and>
      pb_queued (public_job k js) = [jb_status (pb_impl (public_job k js))]"
    using assms
    by (cases js; cases k) (auto simp: public_job_defs job_loading_def)
  show "pb_seen (public_job k js) = []" by (cases js; cases k) (simp_all add: public_job_defs)
qed

end

section \<open>The jobs of the library\<close>

lemma handled_idle: "jb_waiting j = 0 \<Longrightarrow> handled closure j r = j"
  by (simp add: handled_def)

lemma handled_grow:
  assumes "\<And>r j. \<exists>s. jb_signals (closure r j) = jb_signals j @ s"
  shows "\<exists>s. jb_signals (handled closure j r) = jb_signals j @ s"
  using assms [of r "j\<lparr>jb_waiting := jb_waiting j - 1\<rparr>"] by (simp add: handled_def)

lemma void_grow: "\<exists>s. jb_signals (void_closure meth r j) = jb_signals j @ s"
  by (cases r) auto

lemma item_grow: "\<exists>s. jb_signals (item_closure parse_date meth check account r j) = jb_signals j @ s"
  by (cases r) (auto split: outcome.splits)

lemma list_grow: "\<exists>s. jb_signals (list_closure parse_date meth check account r j) = jb_signals j @ s"
  by (cases r) (auto split: prod.splits option.splits)

lemma multi_grow: "\<exists>s. jb_signals (multi_item_closure parse_date meth check account r j) = jb_signals j @ s"
  by (cases r) (auto simp: Let_def split: outcome.splits)

lemma page_grow: "\<exists>s. jb_signals (page_closure parse_date meth check account fetch_next r j) = jb_signals j @ s"
proof (cases r)
  case (Reply rt mt)
  then show ?thesis by (cases mt) (auto simp: Let_def split: outcome.splits)
qed auto

lemma single_inv_once: "single_inv j \<Longrightarrow> reports_once j"
  by (simp add: single_inv_def)

interpretation void_reports: reporting_job "void_step meth" single_inv for meth
  by unfold_locales (simp_all add: single_inv_once void_step_def handled_idle
      handled_grow [OF void_grow])

interpretation item_reports: reporting_job "item_step parse_date meth check account" single_inv
  for parse_date meth check account
  by unfold_locales (simp_all add: single_inv_once item_step_def handled_idle
      handled_grow [OF item_grow])

interpretation list_reports: reporting_job "list_step parse_date meth check account" single_inv
  for parse_date meth check account
  by unfold_locales (simp_all add: single_inv_once list_step_def handled_idle
      handled_grow [OF list_grow])

interpretation multi_reports: reporting_job "multi_item_step parse_date meth check account" reports_once
  for parse_date meth check account
  by unfold_locales (simp_all add: multi_item_step_def handled_idle
      handled_grow [OF multi_grow])

interpretation page_reports: reporting_job "page_step parse_date meth check account fetch_next" single_inv
  for parse_date meth check account fetch_next
  by unfold_locales (simp_all add: single_inv_once page_step_def handled_idle
      handled_grow [OF page_grow])

lemma loading_invs: "single_inv (job_loading 1)" "0 < n \<Longrightarrow> reports_once (job_loading n)"
  by (rule single_inv_init, simp add: reports_once_def job_loading_def)

text \<open>
  C22. An application that connects to the job of an operation before it returns to its event loop
  gets exactly one \<open>statusChanged\<close>, with the final status, and none before: whether the operation
  was refused at once, had an empty result, or made its call (one, or one for each parent), whatever
  replies arrive, in whatever order, for void, item, list, paged and multiple jobs.
\<close>

theorem application_hears_once:
  assumes "\<And>calls v. js = Started calls v \<Longrightarrow> length calls = 1"
    and "\<And>calls v. ms = Started calls v \<Longrightarrow> calls \<noteq> []"
  shows "hears_once (run_events (pub_step (void_step meth)) (public_job Void_job js) (App_connect # es)) \<and>
    hears_once (run_events (pub_step (item_step parse_date meth check account)) (public_job Item_job js) (App_connect # is)) \<and>
    hears_once (run_events (pub_step (list_step parse_date meth check account)) (public_job List_job js) (App_connect # ls)) \<and>
    hears_once (run_events (pub_step (page_step parse_date meth check account fetch_next)) (public_job List_job js)
      (App_connect # ps)) \<and>
    hears_once (run_events (pub_step (multi_item_step parse_date meth check account)) (public_job List_job ms)
      (App_connect # qs))"
  by (intro conjI void_reports.public_job_hears item_reports.public_job_hears list_reports.public_job_hears
      page_reports.public_job_hears multi_reports.public_job_hears)
    (use assms loading_invs in force)+

theorem application_hears_once_witness:
  "pb_seen (run_events (pub_step (void_step ''m'')) (public_job Void_job (item_deleteItem None sample_folder))
     [App_connect, Loop_queued]) = [JS_Error]"
proof -
  obtain e where e: "item_deleteItem None sample_folder = Failed_job e"
    by (simp add: item_deleteItem_def check_invalid_or_destroyed_def runtime_alive_def sample_defs)
  let ?p = "run_events (pub_step (void_step ''m'')) (public_job Void_job (Failed_job e)) [App_connect, Loop_queued]"
  have "hears_once ?p" using application_hears_once [of "Failed_job e" Empty_job] by blast
  moreover have "jb_status (pb_impl ?p) = JS_Error" "pb_queued ?p = []" by (simp_all add: public_job_defs)
  ultimately show ?thesis by (simp add: hears_once_def e)
qed

text \<open>An application that connects only after the queued signal was delivered gets none.\<close>

lemma late_connection_misses:
  "pb_seen (run_events (pub_step (void_step meth)) (public_job Void_job (Failed_job e)) [Loop_queued, App_connect]) = []"
  by (simp add: public_job_defs)

text \<open>The constructor of a failed accounts job emits nothing itself; one signal is queued.\<close>

lemma failed_accounts_job:
  assumes "se_type e \<noteq> ET_NoError"
  shows "\<exists>j. AccountsJobImpl_make_error e = Ok (j, [JS_Error]) \<and> jb_signals j = [] \<and>
    \<not> AccountsJob_isValid j \<and> AccountsJob_error j = e"
  using assms
  by (simp add: AccountsJobImpl_make_error_def AccountsJobImpl_error_def emit_status_changed_def job.defs error_impl_def
      job_loading_def AccountsJob_isValid_def AccountsJob_error_def)

end
