(* ===== verification/PublicTransfers.thy ===== *)
theory PublicTransfers
  imports Transfers PublicJobs
begin

text \<open>
  The transfers as an application sees them: \<open>src/src/qt/Uploader.cpp\<close>, \<open>src/src/qt/Downloader.cpp\<close>
  and the factories of \<open>UploaderImpl\<close> and \<open>DownloaderImpl\<close>. An operation that is refused makes a
  transfer that has failed already and queues its signal; the signals of other transfers come from
  the replies to its calls and from the application's own calls.

  The state: the implementation (\<open>Transfers\<close>), the queued signals, whether the application has
  connected, and the signals that its slot got. The methods that only ask the socket
  (\<open>bytesAvailable\<close>, \<open>bytesToWrite\<close>, \<open>canReadLine\<close>, \<open>isSequential\<close>, \<open>waitForReadyRead\<close>, reading)
  are left out.

  The lemmas: an application that connects before it returns to its event loop gets each status of
  the transfer once, in order, and every transfer that is destroyed has ended or was never opened.
\<close>

section \<open>Public transfers\<close>

record pub_transfer =
  pt_impl :: transfer
  pt_queued :: "job_status list"
  pt_connected :: bool
  pt_seen :: "job_status list"

definition pub_transfer_of :: "transfer \<Rightarrow> job_status list \<Rightarrow> pub_transfer" where
  "pub_transfer_of t queued = \<lparr>pt_impl = t, pt_queued = queued, pt_connected = False, pt_seen = []\<rparr>"

text \<open>The constructors for an error: no item, no call, no method; the other members have their defaults.\<close>

definition UploaderImpl_error :: "StorageError \<Rightarrow> transfer" where
  "UploaderImpl_error e = (transfer_init ItemImpl_default '''' ignore_conflict 0)
     \<lparr>tr_status := JS_Error, tr_error := e, tr_open_pending := False\<rparr>"

definition DownloaderImpl_error :: "StorageError \<Rightarrow> transfer" where
  "DownloaderImpl_error e = (transfer_init ItemImpl_default '''' ignore_conflict 0)
     \<lparr>tr_status := JS_Error, tr_error := e, tr_open_pending := False\<rparr>"

definition UploaderImpl_make_job :: "ItemImpl \<Rightarrow> string \<Rightarrow> ConflictPolicy \<Rightarrow> int \<Rightarrow> pub_transfer" where
  "UploaderImpl_make_job item meth policy size_in_bytes = pub_transfer_of (transfer_init item meth policy size_in_bytes) []"

definition UploaderImpl_make_error :: "StorageError \<Rightarrow> pub_transfer" where
  "UploaderImpl_make_error e = (let impl = UploaderImpl_error e in pub_transfer_of impl [tr_status impl])"

definition DownloaderImpl_make_job :: "ItemImpl \<Rightarrow> string \<Rightarrow> pub_transfer" where
  "DownloaderImpl_make_job item meth = pub_transfer_of (transfer_init item meth ignore_conflict 0) []"

definition DownloaderImpl_make_error :: "StorageError \<Rightarrow> pub_transfer" where
  "DownloaderImpl_make_error e = (let impl = DownloaderImpl_error e in pub_transfer_of impl [tr_status impl])"

text \<open>The transfer of an operation of an item (\<open>job_start\<close> of \<open>Client\<close>).\<close>

fun public_uploader :: "ItemImpl \<Rightarrow> string \<Rightarrow> ConflictPolicy \<Rightarrow> int \<Rightarrow> job_start \<Rightarrow> pub_transfer" where
  "public_uploader item meth policy sz (Failed_job e) = UploaderImpl_make_error e"
| "public_uploader item meth policy sz _ = UploaderImpl_make_job item meth policy sz"

fun public_downloader :: "ItemImpl \<Rightarrow> string \<Rightarrow> job_start \<Rightarrow> pub_transfer" where
  "public_downloader item meth (Failed_job e) = DownloaderImpl_make_error e"
| "public_downloader item meth _ = DownloaderImpl_make_job item meth"

lemmas public_transfer_defs = UploaderImpl_make_job_def UploaderImpl_make_error_def DownloaderImpl_make_job_def
  DownloaderImpl_make_error_def UploaderImpl_error_def DownloaderImpl_error_def pub_transfer_of_def
  transfer_init_def Let_def

section \<open>The methods\<close>

text \<open>A method that can emit: what it emits reaches a connected application at once.\<close>

definition on_impl :: "(transfer \<Rightarrow> transfer) \<Rightarrow> pub_transfer \<Rightarrow> pub_transfer" where
  "on_impl f p = (let t = f (pt_impl p); new = drop (length (tr_signals (pt_impl p))) (tr_signals t)
     in p\<lparr>pt_impl := t, pt_seen := (if pt_connected p then pt_seen p @ new else pt_seen p)\<rparr>)"

definition Uploader_isValid :: "pub_transfer \<Rightarrow> bool" where
  "Uploader_isValid p \<longleftrightarrow> transfer_isValid (pt_impl p)"

definition Uploader_status :: "pub_transfer \<Rightarrow> job_status" where
  "Uploader_status p = tr_status (pt_impl p)"

definition Uploader_error :: "pub_transfer \<Rightarrow> StorageError" where
  "Uploader_error p = tr_error (pt_impl p)"

definition Uploader_policy :: "pub_transfer \<Rightarrow> ConflictPolicy" where
  "Uploader_policy p = tr_policy (pt_impl p)"

definition Uploader_sizeInBytes :: "pub_transfer \<Rightarrow> int" where
  "Uploader_sizeInBytes p = tr_size (pt_impl p)"

definition Uploader_item :: "pub_transfer \<Rightarrow> ItemImpl" where
  "Uploader_item p = uploader_item (pt_impl p)"

definition Uploader_cancel :: "RuntimeImpl option \<Rightarrow> pub_transfer \<Rightarrow> pub_transfer" where
  "Uploader_cancel rt = on_impl (uploader_cancel rt)"

definition Uploader_close :: "socket \<Rightarrow> RuntimeImpl option \<Rightarrow> pub_transfer \<Rightarrow> pub_transfer" where
  "Uploader_close accept rt = on_impl (uploader_close accept rt)"

definition Uploader_writeData :: "socket \<Rightarrow> string \<Rightarrow> pub_transfer \<Rightarrow> int \<times> pub_transfer" where
  "Uploader_writeData accept d p = (fst (uploader_write accept d (pt_impl p)), on_impl (snd \<circ> uploader_write accept d) p)"

definition Uploader_waitForBytesWritten :: "socket \<Rightarrow> bool \<Rightarrow> open_result \<Rightarrow> pub_transfer \<Rightarrow> bool \<times> pub_transfer" where
  "Uploader_waitForBytesWritten accept written r p =
     (fst (uploader_waitForBytesWritten accept written r (pt_impl p)),
      on_impl (snd \<circ> uploader_waitForBytesWritten accept written r) p)"

text \<open>The queued signal of an object that is destroyed is not delivered.\<close>

definition Uploader_destroy :: "RuntimeImpl option \<Rightarrow> pub_transfer \<Rightarrow> pub_transfer" where
  "Uploader_destroy rt p = (on_impl (uploader_destroy rt) p)\<lparr>pt_queued := []\<rparr>"

definition Downloader_isValid :: "pub_transfer \<Rightarrow> bool" where
  "Downloader_isValid p \<longleftrightarrow> transfer_isValid (pt_impl p)"

definition Downloader_status :: "pub_transfer \<Rightarrow> job_status" where
  "Downloader_status p = tr_status (pt_impl p)"

definition Downloader_error :: "pub_transfer \<Rightarrow> StorageError" where
  "Downloader_error p = tr_error (pt_impl p)"

definition Downloader_item :: "pub_transfer \<Rightarrow> ItemImpl" where
  "Downloader_item p = downloader_item (pt_impl p)"

definition Downloader_cancel :: "RuntimeImpl option \<Rightarrow> pub_transfer \<Rightarrow> pub_transfer" where
  "Downloader_cancel rt = on_impl (downloader_cancel rt)"

definition Downloader_close :: "RuntimeImpl option \<Rightarrow> pub_transfer \<Rightarrow> pub_transfer" where
  "Downloader_close rt = on_impl (downloader_close rt)"

definition Downloader_destroy :: "RuntimeImpl option \<Rightarrow> pub_transfer \<Rightarrow> pub_transfer" where
  "Downloader_destroy rt p = (on_impl (downloader_destroy rt) p)\<lparr>pt_queued := []\<rparr>"

section \<open>The application and its event loop\<close>

datatype 'e transfer_use = T_connect | T_queued | T_event 'e

definition T_deliver :: "pub_transfer \<Rightarrow> pub_transfer" where
  "T_deliver p = (case pt_queued p of
      [] \<Rightarrow> p
    | s # ss \<Rightarrow> p\<lparr>pt_queued := ss, pt_seen := (if pt_connected p then pt_seen p @ [s] else pt_seen p)\<rparr>)"

text \<open>The application's calls are methods of the public object; the replies go to its implementation.\<close>

fun uploader_use :: "socket \<Rightarrow> validator \<Rightarrow> pub_transfer \<Rightarrow> upload_event transfer_use \<Rightarrow> pub_transfer" where
  "uploader_use accept check p T_connect = p\<lparr>pt_connected := True\<rparr>"
| "uploader_use accept check p T_queued = T_deliver p"
| "uploader_use accept check p (T_event e) = (case e of
      UE_write d \<Rightarrow> snd (Uploader_writeData accept d p)
    | UE_wait written r \<Rightarrow> snd (Uploader_waitForBytesWritten accept written r p)
    | UE_cancel rt \<Rightarrow> Uploader_cancel rt p
    | UE_close rt \<Rightarrow> Uploader_close accept rt p
    | _ \<Rightarrow> on_impl (\<lambda>t. upload_step accept check t e) p)"

fun downloader_use :: "pub_transfer \<Rightarrow> download_event transfer_use \<Rightarrow> pub_transfer" where
  "downloader_use p T_connect = p\<lparr>pt_connected := True\<rparr>"
| "downloader_use p T_queued = T_deliver p"
| "downloader_use p (T_event e) = (case e of
      DE_cancel rt \<Rightarrow> Downloader_cancel rt p
    | DE_close rt \<Rightarrow> Downloader_close rt p
    | _ \<Rightarrow> on_impl (\<lambda>t. download_step t e) p)"

lemma uploader_use_event: "uploader_use accept check p (T_event e) = on_impl (\<lambda>t. upload_step accept check t e) p"
  by (cases e) (simp_all add: Uploader_writeData_def Uploader_waitForBytesWritten_def Uploader_cancel_def
      Uploader_close_def comp_def)

lemma downloader_use_event: "downloader_use p (T_event e) = on_impl (\<lambda>t. download_step t e) p"
  by (cases e) (simp_all add: Downloader_cancel_def Downloader_close_def)

section \<open>What the application hears\<close>

text \<open>The statuses that a transfer goes through: \<open>Loading\<close> (not reported), perhaps \<open>Ready\<close>, and a
  final one.\<close>

definition status_path :: "job_status \<Rightarrow> job_status list \<Rightarrow> bool" where
  "status_path st s \<longleftrightarrow>
     (if st = JS_Loading then s = [] else if st = JS_Ready then s = [JS_Ready]
      else final_status st \<and> (s = [st] \<or> s = [JS_Ready, st]))"

definition status_moves :: "transfer \<Rightarrow> transfer \<Rightarrow> bool" where
  "status_moves t t' \<longleftrightarrow>
     tr_status t' = tr_status t \<and> tr_signals t' = tr_signals t \<or>
     tr_signals t' = tr_signals t @ [tr_status t'] \<and>
       (tr_status t = JS_Loading \<and> tr_status t' \<noteq> JS_Loading \<or> tr_status t = JS_Ready \<and> final_status (tr_status t'))"

lemma status_moves_cases:
  assumes "status_moves t t'"
  obtains (same) "tr_status t' = tr_status t" "tr_signals t' = tr_signals t"
  | (first) "tr_signals t' = tr_signals t @ [tr_status t']" "tr_status t = JS_Loading" "tr_status t' \<noteq> JS_Loading"
  | (last) "tr_signals t' = tr_signals t @ [tr_status t']" "tr_status t = JS_Ready" "final_status (tr_status t')"
  using assms unfolding status_moves_def by blast

lemma not_loading: "st \<noteq> JS_Loading \<Longrightarrow> st = JS_Ready \<or> final_status st"
  by (cases st) simp_all

text \<open>The failure of the first call comes in time: while the transfer has not ended.\<close>

definition in_time :: "('e \<Rightarrow> bool) \<Rightarrow> transfer \<Rightarrow> 'e \<Rightarrow> bool" where
  "in_time open_failure t e \<longleftrightarrow> (open_failure e \<and> tr_open_pending t \<longrightarrow> \<not> final_status (tr_status t))"

lemma uploader_opened_moves:
  assumes "tr_wf t" and "in_time upload_open_failure t (UE_opened r)"
  shows "status_moves t (uploader_opened accept r t)"
  using assms
  by (cases r; cases "tr_status t") (auto simp: status_moves_def in_time_def tr_wf_def transfer_defs)

lemma upload_moves:
  assumes "tr_wf t" and "in_time upload_open_failure t e"
  shows "status_moves t (upload_step accept check t e)"
proof (cases e)
  case (UE_opened r)
  with assms show ?thesis by (simp add: uploader_opened_moves)
next
  case (UE_write d)
  then show ?thesis by (simp add: status_moves_def)
next
  case (UE_wait w r)
  have "status_moves t (if tr_status t = JS_Loading then uploader_opened accept r t else t)"
    using uploader_opened_moves [OF assms(1)] by (simp add: in_time_def) (simp add: status_moves_def)
  with UE_wait show ?thesis by (simp add: wait_snd status_moves_def)
next
  case (UE_finish_reply rt md)
  with assms show ?thesis
    by (cases "tr_status t") (auto simp: status_moves_def tr_wf_def transfer_defs split: option.splits)
qed (use assms in \<open>cases "tr_status t"; auto simp: status_moves_def tr_wf_def transfer_defs\<close>)+

lemma download_moves:
  assumes "tr_wf t" and "in_time download_open_failure t e"
  shows "status_moves t (download_step t e)"
proof (cases e)
  case (DE_opened r)
  with assms show ?thesis
    by (cases r; cases "tr_status t") (auto simp: status_moves_def in_time_def tr_wf_def transfer_defs)
qed (use assms in \<open>cases "tr_status t"; auto simp: status_moves_def tr_wf_def transfer_defs\<close>)+

text \<open>A sequence of uses in which the first call does not fail late.\<close>

fun timely :: "('e \<Rightarrow> bool) \<Rightarrow> (pub_transfer \<Rightarrow> 'e transfer_use \<Rightarrow> pub_transfer) \<Rightarrow> pub_transfer
    \<Rightarrow> 'e transfer_use list \<Rightarrow> bool" where
  "timely open_failure use_it p [] = True"
| "timely open_failure use_it p (u # us) \<longleftrightarrow>
     (case u of T_event e \<Rightarrow> in_time open_failure (pt_impl p) e | _ \<Rightarrow> True) \<and> timely open_failure use_it (use_it p u) us"

text \<open>A transfer that loads, or one that has failed and has its signal in the queue.\<close>

definition fresh_transfer :: "pub_transfer \<Rightarrow> bool" where
  "fresh_transfer p \<longleftrightarrow> tr_wf (pt_impl p) \<and> pt_seen p = [] \<and>
    (tr_status (pt_impl p) = JS_Loading \<and> pt_queued p = [] \<or> tr_status (pt_impl p) = JS_Error \<and> pt_queued p = [JS_Error])"

text \<open>What an application relies on: the use of a transfer is one step of its implementation, whose
  status moves forward only.\<close>

locale followed_transfer = invariant_machine step tr_wf
  for step :: "transfer \<Rightarrow> 'e \<Rightarrow> transfer" +
  fixes open_failure :: "'e \<Rightarrow> bool"
    and use_it :: "pub_transfer \<Rightarrow> 'e transfer_use \<Rightarrow> pub_transfer"
  assumes moves: "tr_wf t \<Longrightarrow> in_time open_failure t e \<Longrightarrow> status_moves t (step t e)"
    and use_connect: "use_it p T_connect = p\<lparr>pt_connected := True\<rparr>"
    and use_queued: "use_it p T_queued = T_deliver p"
    and use_event: "use_it p (T_event e) = on_impl (\<lambda>t. step t e) p"
begin

definition followed :: "pub_transfer \<Rightarrow> bool" where
  "followed p \<longleftrightarrow> pt_connected p \<and> tr_wf (pt_impl p) \<and>
     status_path (tr_status (pt_impl p)) (pt_seen p @ pt_queued p) \<and>
     (pt_queued p \<noteq> [] \<longrightarrow> final_status (tr_status (pt_impl p)))"

lemma followed_event:
  assumes f: "followed p" and e: "in_time open_failure (pt_impl p) e"
  shows "followed (on_impl (\<lambda>t. step t e) p)"
proof -
  have wf: "tr_wf (step (pt_impl p) e)" using f inv_step by (simp add: followed_def)
  have "status_moves (pt_impl p) (step (pt_impl p) e)" using f e moves by (simp add: followed_def)
  then show ?thesis
  proof (cases rule: status_moves_cases)
    case same
    with f wf show ?thesis by (simp add: followed_def on_impl_def Let_def)
  next
    case first
    with f wf not_loading [OF first(3)] show ?thesis
      by (auto simp: followed_def on_impl_def Let_def status_path_def)
  next
    case last
    with f wf show ?thesis by (auto simp: followed_def on_impl_def Let_def status_path_def)
  qed
qed

lemma followed_deliver: "followed p \<Longrightarrow> followed (T_deliver p)"
  by (auto simp: followed_def T_deliver_def split: list.splits)

lemma followed_run: "followed p \<Longrightarrow> timely open_failure use_it p us \<Longrightarrow> followed (run_events use_it p us)"
proof (induction us arbitrary: p)
  case (Cons u us)
  then have "followed (use_it p u)"
    by (cases u) (simp_all add: use_connect use_queued use_event followed_event followed_deliver, simp add: followed_def)
  with Cons show ?case by simp
qed simp

lemma followed_from_start:
  assumes "fresh_transfer p" and "timely open_failure use_it p (T_connect # us)"
  shows "followed (run_events use_it p (T_connect # us))"
proof -
  have "followed (use_it p T_connect)"
    using assms(1) by (auto simp: fresh_transfer_def followed_def use_connect status_path_def)
  from followed_run [OF this] assms(2) show ?thesis by simp
qed

end

interpretation followed_uploads: followed_transfer "upload_step accept check" upload_open_failure "uploader_use accept check"
  for accept check
  by unfold_locales (simp_all add: upload_moves uploader_use_event del: uploader_use.simps(3))

interpretation followed_downloads: followed_transfer download_step download_open_failure downloader_use
  by unfold_locales (simp_all add: download_moves downloader_use_event del: downloader_use.simps(3))

lemma public_transfers_fresh:
  "fresh_transfer (public_uploader item meth policy sz js)" "fresh_transfer (public_downloader item meth js)"
  by (cases js; simp add: fresh_transfer_def public_transfer_defs tr_wf_def)+

lemma cancel_is_final:
  "final_status (tr_status (uploader_cancel rt t))" "final_status (tr_status (downloader_cancel rt t))"
  by (simp_all add: transfer_defs)

lemma destroyed_not_ready:
  "tr_status (uploader_destroy rt t) \<noteq> JS_Ready" "tr_status (downloader_destroy rt t) \<noteq> JS_Ready"
  using cancel_is_final [of rt t] by (auto simp: uploader_destroy_def downloader_destroy_def)

text \<open>
  C21. An application that connects to an uploader or downloader before it returns to its event loop
  follows it: whatever it does with the transfer and whatever replies arrive, what it has heard,
  with what is still queued, is \<open>Ready\<close>, if the transfer became ready, and then the final status, if it
  has ended, each once and the last one the current status; a transfer that was refused at once
  is heard too. At every moment \<open>cancel\<close> leaves it in a final state, and no transfer is destroyed
  \<open>Ready\<close>. The failure of the first call is assumed not to arrive after the transfer has ended.
\<close>

theorem application_follows_transfer:
  assumes "timely upload_open_failure (uploader_use accept check) (public_uploader item meth policy sz js) (T_connect # us)"
    and "timely download_open_failure downloader_use (public_downloader item' meth' js') (T_connect # ds)"
  shows "let u = run_events (uploader_use accept check) (public_uploader item meth policy sz js) (T_connect # us);
             d = run_events downloader_use (public_downloader item' meth' js') (T_connect # ds)
         in status_path (Uploader_status u) (pt_seen u @ pt_queued u) \<and>
            status_path (Downloader_status d) (pt_seen d @ pt_queued d) \<and>
            final_status (Uploader_status (Uploader_cancel rt u)) \<and>
            final_status (Downloader_status (Downloader_cancel rt d)) \<and>
            Uploader_status (Uploader_destroy rt u) \<noteq> JS_Ready \<and>
            Downloader_status (Downloader_destroy rt d) \<noteq> JS_Ready"
proof -
  let ?u = "run_events (uploader_use accept check) (public_uploader item meth policy sz js) (T_connect # us)"
  let ?d = "run_events downloader_use (public_downloader item' meth' js') (T_connect # ds)"
  have "followed_uploads.followed ?u"
    using public_transfers_fresh(1) assms(1) by (rule followed_uploads.followed_from_start)
  moreover have "followed_downloads.followed ?d"
    using public_transfers_fresh(2) assms(2) by (rule followed_downloads.followed_from_start)
  ultimately show ?thesis
    unfolding Let_def followed_uploads.followed_def followed_downloads.followed_def Uploader_status_def Downloader_status_def
    by (simp add: Uploader_cancel_def Downloader_cancel_def Uploader_destroy_def Downloader_destroy_def on_impl_def Let_def
        cancel_is_final destroyed_not_ready)
qed

theorem application_follows_transfer_witness:
  "pt_seen (run_events (uploader_use (\<lambda>c d. int (length d)) (\<lambda>_. None))
       (public_uploader sample_file ''m'' ignore_conflict 3 (Started [] (\<lambda>_. None)))
       [T_connect, T_event (UE_opened (Opened alive ''7'' 5)), T_event (UE_cancel alive)]) = [JS_Ready, JS_Cancelled] \<and>
   pt_seen (run_events downloader_use (public_downloader sample_file ''m'' (Failed_job StorageErrorImpl_default))
       [T_connect, T_event (DE_cancel alive), T_queued]) = [JS_Error]"
proof -
  let ?accept = "\<lambda>c d. int (length d)" and ?check = "\<lambda>_. None"
  let ?us = "[T_event (UE_opened (Opened alive ''7'' 5)), T_event (UE_cancel alive)]"
  let ?ds = "[T_event (DE_cancel alive), T_queued] :: download_event transfer_use list"
  let ?p = "public_uploader sample_file ''m'' ignore_conflict 3 (Started [] (\<lambda>_. None))"
  let ?q = "public_downloader sample_file ''m'' (Failed_job StorageErrorImpl_default)"
  note ev = public_transfer_defs transfer_defs on_impl_def T_deliver_def Uploader_cancel_def Downloader_cancel_def
  let ?u = "run_events (uploader_use ?accept ?check) ?p (T_connect # ?us)"
  let ?d = "run_events downloader_use ?q (T_connect # ?ds)"
  have up: "timely upload_open_failure (uploader_use ?accept ?check) ?p (T_connect # ?us)"
    by (simp add: in_time_def ev)
  have down: "timely download_open_failure downloader_use ?q (T_connect # ?ds)"
    by (simp add: in_time_def ev)
  have st: "Uploader_status ?u = JS_Cancelled" "pt_queued ?u = []" "Downloader_status ?d = JS_Error" "pt_queued ?d = []"
      "length (pt_seen ?u) = 2"
    by (simp_all add: Uploader_status_def Downloader_status_def ev)
  from application_follows_transfer [OF up down, unfolded Let_def, of alive] st
  have "status_path JS_Cancelled (pt_seen ?u)" "status_path JS_Error (pt_seen ?d)" by simp_all
  moreover have "length (pt_seen ?d) = 1" by (simp add: ev)
  ultimately show ?thesis using st(5) by (auto simp: status_path_def)
qed

end
