(* ===== verification/GobjMemory.thy ===== *)
theory GobjMemory
  imports Prelude
begin

text \<open>
  The smart pointer for GObjects (\<open>src/include/unity/storage/internal/gobj_memory.h\<close>).

  A pointer is an address, with \<open>0\<close> for \<open>nullptr\<close>. The state holds the heap of the GObject
  library and the \<open>gobj_ptr\<close> objects that are alive, by name, each with its member \<open>u\<close>. The
  library is a parameter: \<open>g_object_ref\<close>, \<open>g_object_unref\<close> and \<open>g_object_is_floating\<close> work
  on a heap of any type and give \<open>None\<close> when they are called on memory that is no object.
  Its documented contract is a hypothesis of the properties: there is a number of references
  that the program owns on each object; while it is positive the object is alive;
  \<open>g_object_ref\<close> adds one, \<open>g_object_unref\<close> takes one away, and neither touches the
  references that the program owns on other objects (what a finalized object owned itself is
  not counted).

  The lemmas: every reference that the program owns is owned by exactly one \<open>gobj_ptr\<close>, by a
  raw pointer, or was lost by a constructor that threw; no operation touches an object
  without owning a reference; nothing is lost as long as no floating object is offered.
\<close>

record 's gobject_lib =
  g_object_ref :: "nat \<Rightarrow> 's \<Rightarrow> 's option"
  g_object_unref :: "nat \<Rightarrow> 's \<Rightarrow> 's option"
  g_object_is_floating :: "nat \<Rightarrow> 's \<Rightarrow> bool option"

datatype gobj_error = invalid_argument string

record ('v, 's) gobj_state =
  gs_heap :: 's
  gs_u :: "'v \<Rightarrow> nat option"

type_synonym ('v, 's, 'a) gobj_m = "(('v, 's) gobj_state, gobj_error, 'a) sx"

definition g_call :: "('s \<Rightarrow> 's option) \<Rightarrow> ('v, 's, unit) gobj_m" where
  "g_call f s = (case f (gs_heap s) of None \<Rightarrow> (Abort, s) | Some h \<Rightarrow> (Ok (), s\<lparr>gs_heap := h\<rparr>))"

text \<open>The member of a \<open>gobj_ptr\<close>; one that is not alive is no program.\<close>

definition get_u :: "'v \<Rightarrow> ('v, 's, nat) gobj_m" where
  "get_u v s = (case gs_u s v of None \<Rightarrow> (Abort, s) | Some p \<Rightarrow> (Ok p, s))"

definition set_u :: "'v \<Rightarrow> nat \<Rightarrow> ('v, 's, unit) gobj_m" where
  "set_u v p s = (Ok (), s\<lparr>gs_u := (gs_u s)(v \<mapsto> p)\<rparr>)"

text \<open>A constructor makes the object and initializes \<open>u\<close>; when its body throws, the object is not
  there and its destructor does not run.\<close>

definition construct :: "'v \<Rightarrow> nat \<Rightarrow> ('v, 's, unit) gobj_m \<Rightarrow> ('v, 's, unit) gobj_m" where
  "construct v p body s =
     (if gs_u s v \<noteq> None then (Abort, s)
      else case body (s\<lparr>gs_u := (gs_u s)(v \<mapsto> p)\<rparr>) of
             (Raise e, s') \<Rightarrow> (Raise e, s'\<lparr>gs_u := (gs_u s')(v := None)\<rparr>)
           | r \<Rightarrow> r)"

definition validate_float :: "'s gobject_lib \<Rightarrow> nat \<Rightarrow> ('v, 's, unit) gobj_m" where
  "validate_float L t = (\<lambda>s.
     if t = 0 then (Ok (), s)
     else case g_object_is_floating L t (gs_heap s) of
            None \<Rightarrow> (Abort, s)
          | Some True \<Rightarrow> (Raise (invalid_argument ''Tried to add a floating gobject into a gobj_ptr.''), s)
          | Some False \<Rightarrow> (Ok (), s))"

definition gobj_null :: "'v \<Rightarrow> ('v, 's, unit) gobj_m" where
  "gobj_null v = construct v 0 (sx_return ())"

definition gobj_from :: "'s gobject_lib \<Rightarrow> 'v \<Rightarrow> nat \<Rightarrow> ('v, 's, unit) gobj_m" where
  "gobj_from L v t = construct v t (validate_float L t)"

definition gobj_move :: "'v \<Rightarrow> 'v \<Rightarrow> ('v, 's, unit) gobj_m" where
  "gobj_move v other = sx_bind (get_u other) (\<lambda>p. construct v p (set_u other 0))"

definition gobj_reset :: "'s gobject_lib \<Rightarrow> 'v \<Rightarrow> nat \<Rightarrow> ('v, 's, unit) gobj_m" where
  "gobj_reset L v p =
     sx_bind (sx_bind (get_u v) (\<lambda>u. if u \<noteq> 0 then sx_bind (g_call (g_object_unref L u)) (\<lambda>_. set_u v 0)
                                     else sx_return ())) (\<lambda>_.
     sx_bind (set_u v p) (\<lambda>_. validate_float L p))"

definition gobj_assign :: "'s gobject_lib \<Rightarrow> 'v \<Rightarrow> 'v \<Rightarrow> ('v, 's, unit) gobj_m" where
  "gobj_assign L v other =
     sx_bind (get_u other) (\<lambda>q. sx_bind (if q \<noteq> 0 then g_call (g_object_ref L q) else sx_return ()) (\<lambda>_.
     gobj_reset L v q))"

definition gobj_copy :: "'s gobject_lib \<Rightarrow> 'v \<Rightarrow> 'v \<Rightarrow> ('v, 's, unit) gobj_m" where
  "gobj_copy L v other = construct v 0 (gobj_assign L v other)"

definition gobj_destroy :: "'s gobject_lib \<Rightarrow> 'v \<Rightarrow> ('v, 's, unit) gobj_m" where
  "gobj_destroy L v = sx_bind (gobj_reset L v 0) (\<lambda>_ s. (Ok (), s\<lparr>gs_u := (gs_u s)(v := None)\<rparr>))"

definition gobj_swap :: "'v \<Rightarrow> 'v \<Rightarrow> ('v, 's, unit) gobj_m" where
  "gobj_swap v other =
     sx_bind (get_u v) (\<lambda>tmp. sx_bind (get_u other) (\<lambda>p. sx_bind (set_u v p) (\<lambda>_. set_u other tmp)))"

definition gobj_release :: "'v \<Rightarrow> ('v, 's, nat) gobj_m" where
  "gobj_release v = sx_bind (get_u v) (\<lambda>r. sx_bind (set_u v 0) (\<lambda>_. sx_return r))"

definition gobj_get :: "'v \<Rightarrow> ('v, 's, nat) gobj_m" where
  "gobj_get v = get_u v"

definition gobj_bool :: "'v \<Rightarrow> ('v, 's, bool) gobj_m" where
  "gobj_bool v = sx_bind (get_u v) (\<lambda>p. sx_return (p \<noteq> 0))"

definition gobj_move_assign :: "'s gobject_lib \<Rightarrow> 'v \<Rightarrow> 'v \<Rightarrow> ('v, 's, unit) gobj_m" where
  "gobj_move_assign L v other =
     sx_bind (gobj_reset L v 0) (\<lambda>_. sx_bind (get_u other) (\<lambda>p. sx_bind (set_u v p) (\<lambda>_. set_u other 0)))"

definition gobj_assign_null :: "'s gobject_lib \<Rightarrow> 'v \<Rightarrow> ('v, 's, unit) gobj_m" where
  "gobj_assign_null L v = gobj_reset L v 0"

text \<open>The comparisons are those of the addresses.\<close>

definition gobj_compare :: "(nat \<Rightarrow> nat \<Rightarrow> bool) \<Rightarrow> 'v \<Rightarrow> 'v \<Rightarrow> ('v, 's, bool) gobj_m" where
  "gobj_compare rel v other = sx_bind (get_u v) (\<lambda>p. sx_bind (get_u other) (\<lambda>q. sx_return (rel p q)))"

definition gobj_eq :: "'v \<Rightarrow> 'v \<Rightarrow> ('v, 's, bool) gobj_m" where
  "gobj_eq = gobj_compare (=)"

definition gobj_ne :: "'v \<Rightarrow> 'v \<Rightarrow> ('v, 's, bool) gobj_m" where
  "gobj_ne = gobj_compare (\<noteq>)"

definition gobj_lt :: "'v \<Rightarrow> 'v \<Rightarrow> ('v, 's, bool) gobj_m" where
  "gobj_lt = gobj_compare (<)"

definition gobj_le :: "'v \<Rightarrow> 'v \<Rightarrow> ('v, 's, bool) gobj_m" where
  "gobj_le = gobj_compare (\<le>)"

definition gobj_gt :: "'v \<Rightarrow> 'v \<Rightarrow> ('v, 's, bool) gobj_m" where
  "gobj_gt = gobj_compare (>)"

definition gobj_ge :: "'v \<Rightarrow> 'v \<Rightarrow> ('v, 's, bool) gobj_m" where
  "gobj_ge = gobj_compare (\<ge>)"

section \<open>A program that uses the pointers\<close>

text \<open>
  The references that the program owns outside of the pointers: those that it holds as raw
  pointers, and those that nobody holds any more.
\<close>

record ('v, 's) gobj_prog =
  gp_state :: "('v, 's) gobj_state"
  gp_raw :: "nat \<Rightarrow> nat"
  gp_lost :: "nat \<Rightarrow> nat"

datatype 'v gobj_stmt =
    G_null 'v | G_from 'v nat | G_move 'v 'v | G_copy 'v 'v | G_assign 'v 'v | G_move_assign 'v 'v
  | G_assign_null 'v | G_reset 'v nat | G_swap 'v 'v | G_release 'v | G_destroy 'v

fun gobj_run :: "'s gobject_lib \<Rightarrow> 'v gobj_stmt \<Rightarrow> ('v, 's, unit) gobj_m" where
  "gobj_run L (G_null v) = gobj_null v"
| "gobj_run L (G_from v p) = gobj_from L v p"
| "gobj_run L (G_move v w) = gobj_move v w"
| "gobj_run L (G_copy v w) = gobj_copy L v w"
| "gobj_run L (G_assign v w) = gobj_assign L v w"
| "gobj_run L (G_move_assign v w) = gobj_move_assign L v w"
| "gobj_run L (G_assign_null v) = gobj_assign_null L v"
| "gobj_run L (G_reset v p) = gobj_reset L v p"
| "gobj_run L (G_swap v w) = gobj_swap v w"
| "gobj_run L (G_release v) = sx_bind (gobj_release v) (\<lambda>_. sx_return ())"
| "gobj_run L (G_destroy v) = gobj_destroy L v"

definition u_of :: "('v, 's) gobj_prog \<Rightarrow> 'v \<Rightarrow> nat" where
  "u_of g v = (case gs_u (gp_state g) v of None \<Rightarrow> 0 | Some p \<Rightarrow> p)"

definition more_at :: "nat \<Rightarrow> (nat \<Rightarrow> nat) \<Rightarrow> (nat \<Rightarrow> nat)" where
  "more_at p f = (if p = 0 then f else f(p := f p + 1))"

definition less_at :: "nat \<Rightarrow> (nat \<Rightarrow> nat) \<Rightarrow> (nat \<Rightarrow> nat)" where
  "less_at p f = (if p = 0 then f else f(p := f p - 1))"

text \<open>
  Who owns the references after a statement. The constructor from a pointer takes a raw
  reference over if it succeeds, \<open>reset\<close> does in any case; \<open>release\<close> gives one back. The copy
  constructor has made a reference before it throws.
\<close>

fun book :: "'v gobj_stmt \<Rightarrow> (gobj_error, unit) outcome \<Rightarrow> ('v, 's) gobj_prog \<Rightarrow> ('v, 's) gobj_prog \<Rightarrow> ('v, 's) gobj_prog" where
  "book (G_from v p) r g g' = (if is_ok r then g'\<lparr>gp_raw := less_at p (gp_raw g')\<rparr> else g')"
| "book (G_reset v p) r g g' = g'\<lparr>gp_raw := less_at p (gp_raw g')\<rparr>"
| "book (G_release v) r g g' = g'\<lparr>gp_raw := more_at (u_of g v) (gp_raw g')\<rparr>"
| "book (G_copy v w) r g g' = (if is_ok r then g' else g'\<lparr>gp_lost := more_at (u_of g w) (gp_lost g')\<rparr>)"
| "book _ r g g' = g'"

text \<open>A statement that has undefined behaviour ends the run with \<open>None\<close>; an exception is caught.\<close>

definition gobj_step :: "'s gobject_lib \<Rightarrow> 'v gobj_stmt \<Rightarrow> ('v, 's) gobj_prog \<Rightarrow> ('v, 's) gobj_prog option" where
  "gobj_step L e g = (case gobj_run L e (gp_state g) of
     (Abort, _) \<Rightarrow> None
   | (r, s) \<Rightarrow> Some (book e r g (g\<lparr>gp_state := s\<rparr>)))"

text \<open>What the documentation asks of the program: objects that are used are alive, and a pointer that
  is given to a \<open>gobj_ptr\<close> carries a reference.\<close>

fun gobj_legal :: "('v, 's) gobj_prog \<Rightarrow> 'v gobj_stmt \<Rightarrow> bool" where
  "gobj_legal g (G_null v) \<longleftrightarrow> gs_u (gp_state g) v = None"
| "gobj_legal g (G_from v p) \<longleftrightarrow> gs_u (gp_state g) v = None \<and> (p = 0 \<or> 0 < gp_raw g p)"
| "gobj_legal g (G_move v w) \<longleftrightarrow> gs_u (gp_state g) v = None \<and> gs_u (gp_state g) w \<noteq> None"
| "gobj_legal g (G_copy v w) \<longleftrightarrow> gs_u (gp_state g) v = None \<and> gs_u (gp_state g) w \<noteq> None"
| "gobj_legal g (G_assign v w) \<longleftrightarrow> gs_u (gp_state g) v \<noteq> None \<and> gs_u (gp_state g) w \<noteq> None"
| "gobj_legal g (G_move_assign v w) \<longleftrightarrow> gs_u (gp_state g) v \<noteq> None \<and> gs_u (gp_state g) w \<noteq> None"
| "gobj_legal g (G_assign_null v) \<longleftrightarrow> gs_u (gp_state g) v \<noteq> None"
| "gobj_legal g (G_reset v p) \<longleftrightarrow> gs_u (gp_state g) v \<noteq> None \<and> (p = 0 \<or> 0 < gp_raw g p)"
| "gobj_legal g (G_swap v w) \<longleftrightarrow> gs_u (gp_state g) v \<noteq> None \<and> gs_u (gp_state g) w \<noteq> None"
| "gobj_legal g (G_release v) \<longleftrightarrow> gs_u (gp_state g) v \<noteq> None"
| "gobj_legal g (G_destroy v) \<longleftrightarrow> gs_u (gp_state g) v \<noteq> None"

fun gobj_steps :: "'s gobject_lib \<Rightarrow> ('v, 's) gobj_prog \<Rightarrow> 'v gobj_stmt list \<Rightarrow> ('v, 's) gobj_prog option" where
  "gobj_steps L g [] = Some g"
| "gobj_steps L g (e # es) = (case gobj_step L e g of None \<Rightarrow> None | Some g' \<Rightarrow> gobj_steps L g' es)"

fun gobj_all_legal :: "'s gobject_lib \<Rightarrow> ('v, 's) gobj_prog \<Rightarrow> 'v gobj_stmt list \<Rightarrow> bool" where
  "gobj_all_legal L g [] = True"
| "gobj_all_legal L g (e # es) \<longleftrightarrow> gobj_legal g e \<and>
     (case gobj_step L e g of None \<Rightarrow> True | Some g' \<Rightarrow> gobj_all_legal L g' es)"

section \<open>Ownership\<close>

definition ptr_holders :: "('v \<Rightarrow> nat option) \<Rightarrow> nat \<Rightarrow> nat" where
  "ptr_holders u q = card {v. u v = Some q}"

text \<open>The contract of the library, with the number of references that the program owns.\<close>

definition gobject_laws :: "'s gobject_lib \<Rightarrow> ('s \<Rightarrow> nat \<Rightarrow> nat) \<Rightarrow> bool" where
  "gobject_laws L refs \<longleftrightarrow> (\<forall>h p. 0 < refs h p \<longrightarrow>
     (\<exists>h'. g_object_ref L p h = Some h' \<and> refs h' = (refs h)(p := refs h p + 1) \<and>
        (\<forall>q. 0 < refs h q \<longrightarrow> g_object_is_floating L q h' = g_object_is_floating L q h)) \<and>
     (\<exists>h'. g_object_unref L p h = Some h' \<and> refs h' = (refs h)(p := refs h p - 1) \<and>
        (\<forall>q. 0 < refs h' q \<longrightarrow> g_object_is_floating L q h' = g_object_is_floating L q h)) \<and>
     (\<exists>b. g_object_is_floating L p h = Some b))"

definition finite_live :: "('v \<Rightarrow> nat option) \<Rightarrow> bool" where
  "finite_live u \<longleftrightarrow> finite (dom u)"

definition gobj_inv :: "('s \<Rightarrow> nat \<Rightarrow> nat) \<Rightarrow> ('v, 's) gobj_prog \<Rightarrow> bool" where
  "gobj_inv refs g \<longleftrightarrow> finite_live (gs_u (gp_state g)) \<and>
     (\<forall>q. q \<noteq> 0 \<longrightarrow> refs (gs_heap (gp_state g)) q = ptr_holders (gs_u (gp_state g)) q + gp_raw g q + gp_lost g q)"

lemma ptr_holders_upd:
  assumes "finite_live u"
  shows "int (ptr_holders (u(v := y)) q) = int (ptr_holders u q) - of_bool (u v = Some q) + of_bool (y = Some q)"
proof -
  let ?S = "{x. u x = Some q}"
  have fin: "finite ?S" using assms unfolding finite_live_def by (rule finite_subset [rotated]) auto
  have "{x. (u(v := y)) x = Some q} = (if y = Some q then insert v (?S - {v}) else ?S - {v})" by auto
  then have "ptr_holders (u(v := y)) q = card (?S - {v}) + of_bool (y = Some q)"
    using fin by (simp add: ptr_holders_def del: insert_Diff_single)
  moreover have "int (card (?S - {v})) = int (card ?S) - of_bool (v \<in> ?S)"
    using fin card_gt_0_iff [of ?S] by (auto simp: card_Diff_singleton_if of_nat_diff)
  ultimately show ?thesis by (simp add: ptr_holders_def)
qed

lemma holder_counted: "finite_live u \<Longrightarrow> u v = Some q \<Longrightarrow> 0 < ptr_holders u q"
  using ptr_holders_upd [of u v None q] by simp

lemma gobj_invD:
  assumes "gobj_inv refs g" and "q \<noteq> 0"
  shows "int (refs (gs_heap (gp_state g)) q) =
    int (ptr_holders (gs_u (gp_state g)) q) + int (gp_raw g q) + int (gp_lost g q)"
  using assms by (simp add: gobj_inv_def)

lemma gobj_inv_alive:
  assumes "gobj_inv refs g" and "gs_u (gp_state g) v = Some u" and "u \<noteq> 0"
  shows "0 < refs (gs_heap (gp_state g)) u"
  using assms holder_counted [of "gs_u (gp_state g)" v u] by (simp add: gobj_inv_def)

lemma gobj_invI:
  assumes "gobj_inv refs g"
    and "\<And>q. q \<noteq> 0 \<Longrightarrow> int (refs (gs_heap (gp_state g')) q) - int (refs (gs_heap (gp_state g)) q) =
      (int (ptr_holders (gs_u (gp_state g')) q) - int (ptr_holders (gs_u (gp_state g)) q)) +
      (int (gp_raw g' q) - int (gp_raw g q)) + (int (gp_lost g' q) - int (gp_lost g q))"
    and "finite_live (gs_u (gp_state g'))"
  shows "gobj_inv refs g'"
  unfolding gobj_inv_def
proof (intro conjI allI impI)
  fix q :: nat assume "q \<noteq> 0"
  with gobj_invD [OF assms(1) this] assms(2) [OF this]
  have "int (refs (gs_heap (gp_state g')) q) =
    int (ptr_holders (gs_u (gp_state g')) q + gp_raw g' q + gp_lost g' q)" by simp
  then show "refs (gs_heap (gp_state g')) q = ptr_holders (gs_u (gp_state g')) q + gp_raw g' q + gp_lost g' q"
    by (simp only: of_nat_eq_iff)
qed (rule assms(3))

lemma finite_live_upd [simp]: "finite_live (u(w := y)) \<longleftrightarrow> finite_live u"
  by (simp add: finite_live_def)

text \<open>What each primitive does under the contract.\<close>

lemma validate_float_alive:
  assumes "gobject_laws L refs" and "t \<noteq> 0 \<Longrightarrow> 0 < refs (gs_heap s) t"
  obtains r where "validate_float L t s = (r, s)" and "r \<noteq> Abort"
    and "r = Ok () \<longleftrightarrow> t = 0 \<or> g_object_is_floating L t (gs_heap s) = Some False"
proof (cases "t = 0")
  case False
  with assms obtain b where "g_object_is_floating L t (gs_heap s) = Some b" unfolding gobject_laws_def by blast
  with False that show thesis by (cases b) (simp_all add: validate_float_def)
qed (simp add: that validate_float_def)

lemma reset_effect:
  assumes L: "gobject_laws L refs" and v: "gs_u s v = Some u"
    and u: "u \<noteq> 0 \<Longrightarrow> 0 < refs (gs_heap s) u"
    and p: "p \<noteq> 0 \<Longrightarrow> of_bool (u = p) < refs (gs_heap s) p"
  obtains r h where "gobj_reset L v p s = (r, s\<lparr>gs_heap := h, gs_u := (gs_u s)(v \<mapsto> p)\<rparr>)" and "r \<noteq> Abort"
    and "\<And>q. q \<noteq> 0 \<Longrightarrow> int (refs h q) = int (refs (gs_heap s) q) - of_bool (u = q)"
    and "\<And>q. q \<noteq> 0 \<Longrightarrow> 0 < refs h q \<Longrightarrow> g_object_is_floating L q h = g_object_is_floating L q (gs_heap s)"
    and "r = Ok () \<longleftrightarrow> p = 0 \<or> g_object_is_floating L p (gs_heap s) = Some False"
proof -
  obtain h where h: "if u = 0 then h = gs_heap s else g_object_unref L u (gs_heap s) = Some h"
    and refs: "\<And>q. q \<noteq> 0 \<Longrightarrow> int (refs h q) = int (refs (gs_heap s) q) - of_bool (u = q)"
    and fl: "\<And>q. q \<noteq> 0 \<Longrightarrow> 0 < refs h q \<Longrightarrow> g_object_is_floating L q h = g_object_is_floating L q (gs_heap s)"
  proof (cases "u = 0")
    case False
    from L u [OF False] obtain h where "g_object_unref L u (gs_heap s) = Some h"
      "refs h = (refs (gs_heap s))(u := refs (gs_heap s) u - 1)"
      "\<forall>q. 0 < refs h q \<longrightarrow> g_object_is_floating L q h = g_object_is_floating L q (gs_heap s)"
      unfolding gobject_laws_def by blast
    with False u [OF False] that [of h] show thesis by (auto simp: of_nat_diff)
  qed (auto intro: that [of "gs_heap s"])
  let ?s = "s\<lparr>gs_heap := h, gs_u := (gs_u s)(v \<mapsto> p)\<rparr>"
  have alive: "0 < refs h p" if "p \<noteq> 0" using refs [OF that] p [OF that] by (cases "u = p") auto
  then have "p \<noteq> 0 \<Longrightarrow> 0 < refs (gs_heap ?s) p" by simp
  from validate_float_alive [OF L this] obtain r where r: "validate_float L p ?s = (r, ?s)" "r \<noteq> Abort"
    "r = Ok () \<longleftrightarrow> p = 0 \<or> g_object_is_floating L p h = Some False" by auto
  have "gobj_reset L v p s = (r, ?s)"
    using h v r(1,2) by (cases r) (auto simp: gobj_reset_def run_simps get_u_def set_u_def g_call_def split: if_splits)
  moreover have "r = Ok () \<longleftrightarrow> p = 0 \<or> g_object_is_floating L p (gs_heap s) = Some False"
    using r(3) fl [of p] alive by (cases "p = 0") auto
  ultimately show thesis using refs fl r(2) that by blast
qed

lemma assign_effect:
  assumes L: "gobject_laws L refs" and v: "gs_u s v = Some u" and w: "gs_u s w = Some q"
    and u: "u \<noteq> 0 \<Longrightarrow> 0 < refs (gs_heap s) u" and q: "q \<noteq> 0 \<Longrightarrow> 0 < refs (gs_heap s) q"
  obtains r h where "gobj_assign L v w s = (r, s\<lparr>gs_heap := h, gs_u := (gs_u s)(v \<mapsto> q)\<rparr>)" and "r \<noteq> Abort"
    and "\<And>x. x \<noteq> 0 \<Longrightarrow> int (refs h x) = int (refs (gs_heap s) x) + of_bool (x = q) - of_bool (u = x)"
    and "\<And>x. x \<noteq> 0 \<Longrightarrow> 0 < refs h x \<Longrightarrow> g_object_is_floating L x h = g_object_is_floating L x (gs_heap s)"
    and "r = Ok () \<longleftrightarrow> q = 0 \<or> g_object_is_floating L q (gs_heap s) = Some False"
proof -
  obtain k where k: "if q = 0 then k = gs_heap s else g_object_ref L q (gs_heap s) = Some k"
    and refs: "\<And>x. x \<noteq> 0 \<Longrightarrow> refs k x = refs (gs_heap s) x + of_bool (x = q)"
    and fl: "\<And>x. x \<noteq> 0 \<Longrightarrow> 0 < refs (gs_heap s) x \<Longrightarrow> g_object_is_floating L x k = g_object_is_floating L x (gs_heap s)"
  proof (cases "q = 0")
    case False
    from L q [OF False] obtain k where "g_object_ref L q (gs_heap s) = Some k"
      "refs k = (refs (gs_heap s))(q := refs (gs_heap s) q + 1)"
      "\<forall>x. 0 < refs (gs_heap s) x \<longrightarrow> g_object_is_floating L x k = g_object_is_floating L x (gs_heap s)"
      unfolding gobject_laws_def by blast
    with False that [of k] show thesis by auto
  qed (auto intro: that [of "gs_heap s"])
  let ?s = "s\<lparr>gs_heap := k\<rparr>"
  have "u \<noteq> 0 \<Longrightarrow> 0 < refs (gs_heap ?s) u" using refs [of u] u by simp
  moreover have "q \<noteq> 0 \<Longrightarrow> of_bool (u = q) < refs (gs_heap ?s) q" using refs [of q] q by simp
  ultimately obtain r h where r: "gobj_reset L v q ?s = (r, ?s\<lparr>gs_heap := h, gs_u := (gs_u ?s)(v \<mapsto> q)\<rparr>)"
    "r \<noteq> Abort" "\<And>x. x \<noteq> 0 \<Longrightarrow> int (refs h x) = int (refs k x) - of_bool (u = x)"
    "\<And>x. x \<noteq> 0 \<Longrightarrow> 0 < refs h x \<Longrightarrow> g_object_is_floating L x h = g_object_is_floating L x k"
    "r = Ok () \<longleftrightarrow> q = 0 \<or> g_object_is_floating L q k = Some False"
    using reset_effect [OF L, of ?s v u q] v by auto
  have "gobj_assign L v w s = (r, s\<lparr>gs_heap := h, gs_u := (gs_u s)(v \<mapsto> q)\<rparr>)"
    using k w r(1) by (simp add: gobj_assign_def run_simps get_u_def g_call_def split: if_splits)
  moreover have "int (refs h x) = int (refs (gs_heap s) x) + of_bool (x = q) - of_bool (u = x)" if "x \<noteq> 0" for x
    using r(3) [OF that] refs [OF that] by simp
  moreover have "g_object_is_floating L x h = g_object_is_floating L x (gs_heap s)"
    if "x \<noteq> 0" "0 < refs h x" for x
  proof -
    have "0 < refs (gs_heap s) x" using r(3) [OF that(1)] refs [OF that(1)] that q by (cases "x = q"; cases "u = x") auto
    with r(4) [OF that] fl [OF that(1)] show ?thesis by simp
  qed
  moreover have "r = Ok () \<longleftrightarrow> q = 0 \<or> g_object_is_floating L q (gs_heap s) = Some False"
    using r(5) fl [of q] q by (cases "q = 0") auto
  ultimately show thesis using r(2) that by blast
qed

text \<open>The statements that call the library keep the books; the others only move pointers.\<close>

lemmas gobj_defs = gobj_null_def gobj_from_def gobj_move_def gobj_copy_def gobj_move_assign_def gobj_assign_null_def
  gobj_swap_def gobj_release_def gobj_destroy_def construct_def get_u_def set_u_def run_simps

lemmas gobj_books = ptr_holders_upd more_at_def less_at_def u_of_def

lemma reset_step:
  assumes L: "gobject_laws L refs" and I: "gobj_inv refs g" and v: "gs_u (gp_state g) v = Some u"
    and p: "p = 0 \<or> 0 < gp_raw g p"
  obtains r h where "gobj_reset L v p (gp_state g) =
      (r, (gp_state g)\<lparr>gs_heap := h, gs_u := (gs_u (gp_state g))(v \<mapsto> p)\<rparr>)" and "r \<noteq> Abort" and "p = 0 \<Longrightarrow> r = Ok ()"
    and "\<And>q. q \<noteq> 0 \<Longrightarrow> int (refs h q) = int (refs (gs_heap (gp_state g)) q) - of_bool (u = q)"
proof -
  have fin: "finite_live (gs_u (gp_state g))" using I by (simp add: gobj_inv_def)
  have "of_bool (u = p) < refs (gs_heap (gp_state g)) p" if "p \<noteq> 0"
    using I p that holder_counted [OF fin v] by (auto simp: gobj_inv_def)
  from reset_effect [OF L v gobj_inv_alive [OF I v] this] that show thesis by metis
qed

lemma gobj_step_reset:
  assumes "gobject_laws L refs" and I: "gobj_inv refs g"
    and "gs_u (gp_state g) v = Some u" and p: "p = 0 \<or> 0 < gp_raw g p"
  shows "\<exists>g'. gobj_step L (G_reset v p) g = Some g' \<and> gobj_inv refs g'"
proof -
  have fin: "finite_live (gs_u (gp_state g))" using I by (simp add: gobj_inv_def)
  obtain r h where r: "gobj_reset L v p (gp_state g) =
      (r, (gp_state g)\<lparr>gs_heap := h, gs_u := (gs_u (gp_state g))(v \<mapsto> p)\<rparr>)" "r \<noteq> Abort"
    "\<And>q. q \<noteq> 0 \<Longrightarrow> int (refs h q) = int (refs (gs_heap (gp_state g)) q) - of_bool (u = q)"
    using reset_step [OF assms] by metis
  let ?g = "book (G_reset v p) r g (g\<lparr>gp_state := snd (gobj_reset L v p (gp_state g))\<rparr>)"
  have "gobj_inv refs ?g" by (rule gobj_invI [OF I]) (use r p fin assms(3) in \<open>auto simp: gobj_books\<close>)
  moreover have "gobj_step L (G_reset v p) g = Some ?g" using r(1,2) by (cases r) (simp_all add: gobj_step_def)
  ultimately show ?thesis by blast
qed

lemma gobj_step_destroy:
  assumes "gobject_laws L refs" and I: "gobj_inv refs g" and v: "gs_u (gp_state g) v = Some u"
    and e: "e = G_destroy v \<or> e = G_assign_null v"
  shows "\<exists>g'. gobj_step L e g = Some g' \<and> gobj_inv refs g'"
proof -
  have fin: "finite_live (gs_u (gp_state g))" using I by (simp add: gobj_inv_def)
  obtain h where h: "gobj_reset L v 0 (gp_state g) =
      (Ok (), (gp_state g)\<lparr>gs_heap := h, gs_u := (gs_u (gp_state g))(v \<mapsto> 0)\<rparr>)"
    "\<And>q. q \<noteq> 0 \<Longrightarrow> int (refs h q) = int (refs (gs_heap (gp_state g)) q) - of_bool (u = q)"
    using reset_step [OF assms(1-3), of 0] by metis
  let ?g = "g\<lparr>gp_state := snd (gobj_run L e (gp_state g))\<rparr>"
  have "gobj_inv refs ?g" by (rule gobj_invI [OF I]) (use e h fin v in \<open>auto simp: gobj_books gobj_defs\<close>)
  moreover have "gobj_step L e g = Some ?g" using e h(1) by (auto simp: gobj_step_def gobj_defs)
  ultimately show ?thesis by blast
qed

lemma gobj_step_move_assign:
  assumes "gobject_laws L refs" and I: "gobj_inv refs g"
    and v: "gs_u (gp_state g) v = Some u" and w: "gs_u (gp_state g) w = Some p"
  shows "\<exists>g'. gobj_step L (G_move_assign v w) g = Some g' \<and> gobj_inv refs g'"
proof -
  have fin: "finite_live (gs_u (gp_state g))" using I by (simp add: gobj_inv_def)
  obtain h where h: "gobj_reset L v 0 (gp_state g) =
      (Ok (), (gp_state g)\<lparr>gs_heap := h, gs_u := (gs_u (gp_state g))(v \<mapsto> 0)\<rparr>)"
    "\<And>q. q \<noteq> 0 \<Longrightarrow> int (refs h q) = int (refs (gs_heap (gp_state g)) q) - of_bool (u = q)"
    using reset_step [OF assms(1-3), of 0] by metis
  let ?g = "g\<lparr>gp_state := (gp_state g)\<lparr>gs_heap := h,
    gs_u := (gs_u (gp_state g))(v \<mapsto> (if v = w then 0 else p), w \<mapsto> 0)\<rparr>\<rparr>"
  have "gobj_inv refs ?g" by (rule gobj_invI [OF I]) (use h fin v w in \<open>auto simp: gobj_books\<close>)
  moreover have "gobj_step L (G_move_assign v w) g = Some ?g" using h(1) w by (auto simp: gobj_step_def gobj_defs)
  ultimately show ?thesis by blast
qed

lemma gobj_step_assign:
  assumes L: "gobject_laws L refs" and I: "gobj_inv refs g"
    and v: "gs_u (gp_state g) v = Some u" and w: "gs_u (gp_state g) w = Some q"
  shows "\<exists>g'. gobj_step L (G_assign v w) g = Some g' \<and> gobj_inv refs g'"
proof -
  have fin: "finite_live (gs_u (gp_state g))" using I by (simp add: gobj_inv_def)
  obtain r h where h: "gobj_assign L v w (gp_state g) =
      (r, (gp_state g)\<lparr>gs_heap := h, gs_u := (gs_u (gp_state g))(v \<mapsto> q)\<rparr>)" "r \<noteq> Abort"
    "\<And>x. x \<noteq> 0 \<Longrightarrow> int (refs h x) = int (refs (gs_heap (gp_state g)) x) + of_bool (x = q) - of_bool (u = x)"
    using assign_effect [OF L v w gobj_inv_alive [OF I v] gobj_inv_alive [OF I w]] by metis
  let ?g = "g\<lparr>gp_state := snd (gobj_assign L v w (gp_state g))\<rparr>"
  have "gobj_inv refs ?g" by (rule gobj_invI [OF I]) (use h fin v in \<open>auto simp: gobj_books\<close>)
  moreover have "gobj_step L (G_assign v w) g = Some ?g" using h by (cases r) (simp_all add: gobj_step_def)
  ultimately show ?thesis by blast
qed

lemma gobj_step_copy:
  assumes L: "gobject_laws L refs" and I: "gobj_inv refs g"
    and v: "gs_u (gp_state g) v = None" and w: "gs_u (gp_state g) w = Some q"
  shows "\<exists>g'. gobj_step L (G_copy v w) g = Some g' \<and> gobj_inv refs g'"
proof -
  let ?s = "(gp_state g)\<lparr>gs_u := (gs_u (gp_state g))(v \<mapsto> 0)\<rparr>"
  have fin: "finite_live (gs_u (gp_state g))" using I by (simp add: gobj_inv_def)
  have vw: "gs_u ?s v = Some 0" "gs_u ?s w = Some q" using v w by auto
  have q: "q \<noteq> 0 \<Longrightarrow> 0 < refs (gs_heap ?s) q" using gobj_inv_alive [OF I w] by simp
  obtain r h where
    h: "gobj_assign L v w ?s = (r, ?s\<lparr>gs_heap := h, gs_u := (gs_u ?s)(v \<mapsto> q)\<rparr>)" "r \<noteq> Abort"
    and refs: "\<And>x. x \<noteq> 0 \<Longrightarrow> int (refs h x) = int (refs (gs_heap (gp_state g)) x) + of_bool (x = q)"
    by (rule assign_effect [OF L vw _ q]) (use that in auto)
  let ?g = "book (G_copy v w) r g (g\<lparr>gp_state := snd (gobj_run L (G_copy v w) (gp_state g))\<rparr>)"
  have "gobj_inv refs ?g"
    by (rule gobj_invI [OF I]) (use h refs fin v w in \<open>cases r; auto simp: gobj_books gobj_defs\<close>)+
  moreover have "gobj_step L (G_copy v w) g = Some ?g"
    using h v by (cases r) (simp_all add: gobj_step_def gobj_defs)
  ultimately show ?thesis by blast
qed

lemma gobj_step_from:
  assumes L: "gobject_laws L refs" and I: "gobj_inv refs g"
    and v: "gs_u (gp_state g) v = None" and p: "p = 0 \<or> 0 < gp_raw g p"
  shows "\<exists>g'. gobj_step L (G_from v p) g = Some g' \<and> gobj_inv refs g'"
proof -
  let ?s = "(gp_state g)\<lparr>gs_u := (gs_u (gp_state g))(v \<mapsto> p)\<rparr>"
  have fin: "finite_live (gs_u (gp_state g))" using I by (simp add: gobj_inv_def)
  have "p \<noteq> 0 \<Longrightarrow> 0 < refs (gs_heap ?s) p" using I p by (auto simp: gobj_inv_def)
  from validate_float_alive [OF L this] obtain r where r: "validate_float L p ?s = (r, ?s)" "r \<noteq> Abort"
    by metis
  let ?g = "book (G_from v p) r g (g\<lparr>gp_state := snd (gobj_run L (G_from v p) (gp_state g))\<rparr>)"
  have "gobj_inv refs ?g"
    by (rule gobj_invI [OF I]) (use r fin v p in \<open>cases r; auto simp: gobj_books gobj_defs\<close>)+
  moreover have "gobj_step L (G_from v p) g = Some ?g"
    using r v by (cases r) (simp_all add: gobj_step_def gobj_defs)
  ultimately show ?thesis by blast
qed

lemma gobj_step_ok:
  assumes L: "gobject_laws L refs" and I: "gobj_inv refs g" and legal: "gobj_legal g e"
  shows "\<exists>g'. gobj_step L e g = Some g' \<and> gobj_inv refs g'"
proof -
  have fin: "finite_live (gs_u (gp_state g))" using I by (simp add: gobj_inv_def)
  have moves: ?thesis if "gobj_run L e (gp_state g) = (Ok (), (gp_state g)\<lparr>gs_u := u'\<rparr>)" "finite_live u'"
    "\<And>q. q \<noteq> 0 \<Longrightarrow> int (ptr_holders (gs_u (gp_state g)) q) + int (gp_raw g q) = int (ptr_holders u' q)
       + int (gp_raw (book e (Ok ()) g (g\<lparr>gp_state := (gp_state g)\<lparr>gs_u := u'\<rparr>\<rparr>)) q)" for u'
  proof -
    define g' where "g' = book e (Ok ()) g (g\<lparr>gp_state := (gp_state g)\<lparr>gs_u := u'\<rparr>\<rparr>)"
    have s: "gp_state g' = (gp_state g)\<lparr>gs_u := u'\<rparr>" "gp_lost g' = gp_lost g" unfolding g'_def by (cases e; simp)+
    have "gobj_inv refs g'"
      by (rule gobj_invI [OF I]) (use that(3) [folded g'_def] in \<open>simp_all add: s that(2) algebra_simps\<close>)
    with that(1) show ?thesis by (simp add: gobj_step_def g'_def)
  qed
  show ?thesis
  proof (cases e)
    case (G_null v)
    with legal fin show ?thesis
      by (intro moves [of "(gs_u (gp_state g))(v \<mapsto> 0)"]) (auto simp: gobj_defs gobj_books)
  next
    case (G_move v w)
    with legal obtain p where "gs_u (gp_state g) w = Some p" by auto
    with legal fin G_move show ?thesis
      by (intro moves [of "(gs_u (gp_state g))(v \<mapsto> p, w \<mapsto> 0)"]) (auto simp: gobj_defs gobj_books)
  next
    case (G_swap v w)
    with legal obtain p q where "gs_u (gp_state g) w = Some p" "gs_u (gp_state g) v = Some q" by auto
    with legal fin G_swap show ?thesis
      by (intro moves [of "(gs_u (gp_state g))(v \<mapsto> p, w \<mapsto> q)"]) (auto simp: gobj_defs gobj_books)
  next
    case (G_release v)
    with legal obtain p where "gs_u (gp_state g) v = Some p" by auto
    with legal fin G_release show ?thesis
      by (intro moves [of "(gs_u (gp_state g))(v \<mapsto> 0)"]) (auto simp: gobj_defs gobj_books)
  qed (use legal gobj_step_from [OF L I] gobj_step_reset [OF L I] gobj_step_copy [OF L I] gobj_step_assign [OF L I]
      gobj_step_move_assign [OF L I] gobj_step_destroy [OF L I] in auto)
qed

section \<open>Properties\<close>

text \<open>A reference is lost only when a floating object is copied, which a \<open>gobj_ptr\<close> holds only after a
  \<open>reset\<close> to it.\<close>

lemma lost_only_floating:
  assumes L: "gobject_laws L refs" and I: "gobj_inv refs g" and legal: "gobj_legal g e"
    and step: "gobj_step L e g = Some g'" and lost: "gp_lost g' \<noteq> gp_lost g"
  shows "\<exists>v w p. e = G_copy v w \<and> gs_u (gp_state g) w = Some p \<and>
    g_object_is_floating L p (gs_heap (gp_state g)) = Some True"
proof -
  obtain v w where e: "e = G_copy v w" and fails: "fst (gobj_copy L v w (gp_state g)) \<noteq> Ok ()"
    using step lost by (cases e) (auto simp: gobj_step_def split: prod.splits outcome.splits if_splits)
  with legal obtain q where v: "gs_u (gp_state g) v = None" and w: "gs_u (gp_state g) w = Some q" by auto
  let ?s = "(gp_state g)\<lparr>gs_u := (gs_u (gp_state g))(v \<mapsto> 0)\<rparr>"
  have vw: "gs_u ?s v = Some 0" "gs_u ?s w = Some q" using v w by auto
  have q: "q \<noteq> 0 \<Longrightarrow> 0 < refs (gs_heap ?s) q" using gobj_inv_alive [OF I w] by simp
  obtain r t where r: "gobj_assign L v w ?s = (r, t)" "r \<noteq> Abort"
    "r = Ok () \<longleftrightarrow> q = 0 \<or> g_object_is_floating L q (gs_heap (gp_state g)) = Some False"
    by (rule assign_effect [OF L vw _ q]) (use that in auto)
  from fails v r(1,2) have "r \<noteq> Ok ()" by (cases r) (auto simp: gobj_defs)
  with r(3) have n: "q \<noteq> 0" "g_object_is_floating L q (gs_heap (gp_state g)) \<noteq> Some False" by auto
  moreover obtain b where "g_object_is_floating L q (gs_heap (gp_state g)) = Some b"
    using L gobj_inv_alive [OF I w n(1)] unfolding gobject_laws_def by blast
  ultimately show ?thesis using e w by (cases b) auto
qed

text \<open>
  C27. Whatever a program does with \<open>gobj_ptr\<close> objects, as long as it gives them only
  pointers that carry a reference, it never calls the GObject library with an object on which
  it owns no reference, also when operations throw, and afterwards each reference that it owns on
  an object is owned by exactly one \<open>gobj_ptr\<close> or raw pointer or was lost by a copy constructor
  that threw.
\<close>

theorem gobj_references_balance:
  assumes "gobject_laws L refs" and "gobj_inv refs g" and "gobj_all_legal L g es"
  shows "\<exists>g'. gobj_steps L g es = Some g' \<and> gobj_inv refs g'"
  using assms(2,3)
proof (induction es arbitrary: g)
  case (Cons e es)
  from Cons.prems gobj_step_ok [OF assms(1), of g e] obtain g' where "gobj_step L e g = Some g'" "gobj_inv refs g'"
    by auto
  with Cons show ?case by simp
qed simp

text \<open>A heap of counters with a set of floating objects meets the contract.\<close>

record counters =
  cn_refs :: "nat \<Rightarrow> nat"
  cn_floating :: "nat set"

definition counting_lib :: "counters gobject_lib" where
  "counting_lib = \<lparr>
     g_object_ref = (\<lambda>p h. if cn_refs h p = 0 then None else Some (h\<lparr>cn_refs := (cn_refs h)(p := cn_refs h p + 1)\<rparr>)),
     g_object_unref = (\<lambda>p h. if cn_refs h p = 0 then None else Some (h\<lparr>cn_refs := (cn_refs h)(p := cn_refs h p - 1)\<rparr>)),
     g_object_is_floating = (\<lambda>p h. if cn_refs h p = 0 then None else Some (p \<in> cn_floating h))\<rparr>"

lemma counting_lib_laws: "gobject_laws counting_lib cn_refs"
  by (auto simp: gobject_laws_def counting_lib_def)

text \<open>Object \<open>7\<close> is owned once and object \<open>9\<close> is a floating one, both through raw pointers.\<close>

definition sample_prog :: "(string, counters) gobj_prog" where
  "sample_prog = \<lparr>gp_state = \<lparr>gs_heap = \<lparr>cn_refs = (\<lambda>_. 0)(7 := 1, 9 := 1), cn_floating = {9}\<rparr>, gs_u = (\<lambda>_. None)\<rparr>,
     gp_raw = (\<lambda>_. 0)(7 := 1, 9 := 1), gp_lost = (\<lambda>_. 0)\<rparr>"

lemmas sample_run = sample_prog_def gobj_step_def gobj_defs counting_lib_def validate_float_def gobj_reset_def
  gobj_assign_def g_call_def u_of_def more_at_def less_at_def

lemma sample_prog_inv: "gobj_inv cn_refs sample_prog"
  by (simp add: gobj_inv_def sample_prog_def finite_live_def ptr_holders_def)

theorem gobj_references_balance_witness:
  "\<exists>g'. gobj_steps counting_lib sample_prog
      [G_from ''a'' 7, G_copy ''b'' ''a'', G_null ''c'', G_reset ''c'' 9, G_copy ''d'' ''c'', G_destroy ''a''] = Some g' \<and>
    gobj_inv cn_refs g'"
  by (rule gobj_references_balance [OF counting_lib_laws sample_prog_inv]) (simp add: sample_run)

text \<open>
  The comment of the class says that a floating object is unreferenced when it is refused. The
  constructor does not do it: the exception leaves the reference count as it was. After
  \<open>reset\<close> the pointer holds the object that was refused, and copying that pointer loses a reference.
\<close>

lemma floating_not_unreferenced:
  "\<exists>g. gobj_step counting_lib (G_from ''a'' 9) sample_prog = Some g \<and>
     cn_refs (gs_heap (gp_state g)) 9 = 1 \<and> gs_u (gp_state g) ''a'' = None"
  by (simp add: sample_run)

lemma floating_kept_by_reset:
  "\<exists>g. gobj_steps counting_lib sample_prog [G_null ''c'', G_reset ''c'' 9, G_copy ''d'' ''c'', G_destroy ''c''] = Some g \<and>
     gp_lost g 9 = 1 \<and> cn_refs (gs_heap (gp_state g)) 9 = 1 \<and> (\<forall>v. gs_u (gp_state g) v = None)"
  by (simp add: sample_run)

text \<open>A move assignment of a pointer to itself lets the object go.\<close>

lemma self_move_drops:
  "\<exists>g. gobj_steps counting_lib sample_prog [G_from ''a'' 7, G_move_assign ''a'' ''a''] = Some g \<and>
     gs_u (gp_state g) ''a'' = Some 0 \<and> cn_refs (gs_heap (gp_state g)) 7 = 0"
  by (simp add: sample_run)

end
