(* ===== verification/Executor.thy ===== *)
theory Executor
  imports Prelude
begin

text \<open>
  The parts that every process of the framework uses: the executor that runs the
  continuations of futures in the main loop (\<open>src/src/provider/internal/MainLoopExecutor.cpp\<close>),
  the handler of Qt's log messages (\<open>src/src/internal/TraceMessageHandler.cpp\<close>) and the text of
  system errors (\<open>src/src/internal/safe_strerror.cpp\<close>).

  Of Qt, the model has what its documentation says of \<open>postEvent\<close> (events of one priority are
  delivered in the order in which they were posted) and of \<open>qInstallMessageHandler\<close> (it installs a
  handler and returns the one before). The clock, the C library's \<open>strftime\<close> and
  \<open>strerror_r\<close> are parameters.

  The lemmas: what is submitted runs once, in the order of submission, whatever else the loop does;
  tracing objects that are nested restore the handler of the program, and a message is one line.
\<close>

section \<open>The executor\<close>

text \<open>
  A piece of work, by a number that tells it from others: what it does to the state of the program,
  the work that it submits itself, and whether it throws.
\<close>

datatype 'w work = Work (work_id: nat) (closure: "'w \<Rightarrow> (unit, 'w work list) outcome \<times> 'w")

text \<open>\<open>WorkEvent\<close> has a registered type of its own; any other event is one of \<open>QObject\<close>.\<close>

datatype 'w qevent = WorkEvent "'w work" | Other_event nat

record 'w main_loop =
  ml_events :: "'w qevent list"     \<comment> \<open>posted to the executor, oldest first\<close>
  ml_world :: 'w
  ml_terminated :: bool
  ml_submitted :: "'w work list"    \<comment> \<open>all calls of \<open>submit\<close>\<close>
  ml_executed :: "'w work list"     \<comment> \<open>all work that was started\<close>
  ml_default :: "nat list"          \<comment> \<open>events passed to \<open>QObject::event\<close>\<close>

definition executor_submit :: "'w work \<Rightarrow> 'w main_loop \<Rightarrow> 'w main_loop" where
  "executor_submit c l = l\<lparr>ml_events := ml_events l @ [WorkEvent c], ml_submitted := ml_submitted l @ [c]\<rparr>"

definition executor_close :: "'w main_loop \<Rightarrow> 'w main_loop" where
  "executor_close l = l"

definition executor_closed :: "'w main_loop \<Rightarrow> bool" where
  "executor_closed l = False"

definition executor_try_executing_one :: "'w main_loop \<Rightarrow> bool \<times> 'w main_loop" where
  "executor_try_executing_one l = (False, l)"

text \<open>\<open>execute\<close> is \<open>noexcept\<close>: work that throws terminates the process. What the work submits is posted
  while it runs.\<close>

definition executor_execute :: "'w work \<Rightarrow> 'w main_loop \<Rightarrow> 'w main_loop" where
  "executor_execute c l =
     (case closure c (ml_world l) of
        (Ok cs, w) \<Rightarrow> fold executor_submit cs (l\<lparr>ml_world := w, ml_executed := ml_executed l @ [c]\<rparr>)
      | (_, w) \<Rightarrow> l\<lparr>ml_world := w, ml_executed := ml_executed l @ [c], ml_terminated := True\<rparr>)"

text \<open>The delivery of one event; the result is that of \<open>event()\<close>, that of \<open>QObject::event\<close> is a parameter.\<close>

definition executor_event :: "(nat \<Rightarrow> bool) \<Rightarrow> 'w qevent \<Rightarrow> 'w main_loop \<Rightarrow> bool \<times> 'w main_loop" where
  "executor_event qobject_event e l =
     (case e of
        Other_event n \<Rightarrow> (qobject_event n, l\<lparr>ml_default := ml_default l @ [n]\<rparr>)
      | WorkEvent c \<Rightarrow> (True, executor_execute c l))"

datatype 'w loop_event =
    L_submit "'w work"        \<comment> \<open>a future becomes ready, in any thread\<close>
  | L_post nat                \<comment> \<open>another event for the object\<close>
  | L_close | L_try_executing_one
  | L_deliver                 \<comment> \<open>the loop takes the next event\<close>

fun loop_step :: "(nat \<Rightarrow> bool) \<Rightarrow> 'w main_loop \<Rightarrow> 'w loop_event \<Rightarrow> 'w main_loop" where
  "loop_step qe l (L_submit c) = (if ml_terminated l then l else executor_submit c l)"
| "loop_step qe l (L_post n) = (if ml_terminated l then l else l\<lparr>ml_events := ml_events l @ [Other_event n]\<rparr>)"
| "loop_step qe l L_close = executor_close l"
| "loop_step qe l L_try_executing_one = snd (executor_try_executing_one l)"
| "loop_step qe l L_deliver =
     (if ml_terminated l then l
      else case ml_events l of
             [] \<Rightarrow> l
           | e # es \<Rightarrow> snd (executor_event qe e (l\<lparr>ml_events := es\<rparr>)))"

definition main_loop_init :: "'w \<Rightarrow> 'w main_loop" where
  "main_loop_init w = \<lparr>ml_events = [], ml_world = w, ml_terminated = False, ml_submitted = [], ml_executed = [],
     ml_default = []\<rparr>"

subsection \<open>Order\<close>

fun works :: "'w qevent list \<Rightarrow> 'w work list" where
  "works [] = []"
| "works (WorkEvent c # es) = c # works es"
| "works (Other_event n # es) = works es"

lemma works_append [simp]: "works (es @ fs) = works es @ works fs"
  by (induction es rule: works.induct) simp_all

definition loop_fifo :: "'w main_loop \<Rightarrow> bool" where
  "loop_fifo l \<longleftrightarrow> ml_submitted l = ml_executed l @ works (ml_events l)"

lemma submit_fifo: "loop_fifo l \<Longrightarrow> loop_fifo (executor_submit c l)"
  by (simp add: loop_fifo_def executor_submit_def)

lemma submits_fifo: "loop_fifo l \<Longrightarrow> loop_fifo (fold executor_submit cs l)"
  by (induction cs arbitrary: l) (simp_all add: submit_fifo)

lemma execute_fifo:
  assumes "ml_submitted l = ml_executed l @ c # works (ml_events l)"
  shows "loop_fifo (executor_execute c l)"
proof -
  have "loop_fifo (l\<lparr>ml_world := w, ml_executed := ml_executed l @ [c]\<rparr>)" for w
    using assms by (simp add: loop_fifo_def)
  from submits_fifo [OF this] assms show ?thesis
    by (auto simp: executor_execute_def loop_fifo_def split: prod.split outcome.split)
qed

interpretation loop_machine: invariant_machine "loop_step qe" loop_fifo for qe
proof unfold_locales
  fix l :: "'w main_loop" and e :: "'w loop_event"
  assume fifo: "loop_fifo l"
  show "loop_fifo (loop_step qe l e)"
  proof (cases e)
    case L_deliver
    show ?thesis
    proof (cases "ml_events l")
      case (Cons q es)
      with fifo L_deliver execute_fifo [of "l\<lparr>ml_events := es\<rparr>"] show ?thesis
        by (cases q) (simp_all add: executor_event_def loop_fifo_def)
    qed (use fifo L_deliver in simp)
  qed (use fifo in \<open>simp_all add: executor_submit_def loop_fifo_def executor_close_def executor_try_executing_one_def\<close>)
qed

subsection \<open>Progress\<close>

lemma terminated_stays: "ml_terminated l \<Longrightarrow> ml_terminated (run_events (loop_step qe) l es)"
proof (induction es arbitrary: l)
  case (Cons e es)
  then show ?case
    by (cases e) (simp_all add: executor_close_def executor_try_executing_one_def)
qed simp

lemma fold_submit:
  "fold executor_submit cs l =
     l\<lparr>ml_events := ml_events l @ map WorkEvent cs, ml_submitted := ml_submitted l @ cs\<rparr>"
  by (induction cs arbitrary: l) (simp_all add: executor_submit_def)

text \<open>A delivery takes the first event, and adds others only at the end.\<close>

lemma deliver_effect:
  assumes "ml_events l = e # es" and "\<not> ml_terminated (loop_step qe l L_deliver)"
  shows "\<exists>fs. ml_events (loop_step qe l L_deliver) = es @ fs \<and>
    ml_executed (loop_step qe l L_deliver) = ml_executed l @ works [e]"
  using assms
  by (cases "ml_terminated l"; cases e)
    (auto simp: executor_event_def executor_execute_def fold_submit split: prod.splits outcome.splits)

lemma loop_deliver_all:
  assumes "n \<le> length (ml_events l)"
    and "\<not> ml_terminated (run_events (loop_step qe) l (replicate n L_deliver))"
  shows "ml_executed (run_events (loop_step qe) l (replicate n L_deliver)) = ml_executed l @ works (take n (ml_events l))"
  using assms
proof (induction n arbitrary: l)
  case (Suc n)
  let ?l = "loop_step qe l L_deliver"
  from Suc.prems(1) obtain e es where e: "ml_events l = e # es" by (cases "ml_events l") auto
  from Suc.prems(2) have r: "\<not> ml_terminated (run_events (loop_step qe) ?l (replicate n L_deliver))"
    by (simp del: loop_step.simps)
  then have "\<not> ml_terminated ?l" by (metis terminated_stays)
  from deliver_effect [OF e this] obtain fs
    where fs: "ml_events ?l = es @ fs" "ml_executed ?l = ml_executed l @ works [e]" by blast
  with Suc.IH [OF _ r] Suc.prems(1) e
  have "ml_executed (run_events (loop_step qe) ?l (replicate n L_deliver)) = ml_executed l @ works [e] @ works (take n es)"
    by simp
  also have "works [e] @ works (take n es) = works (take (Suc n) (ml_events l))"
    by (simp add: e flip: works_append)
  finally show ?case by (simp del: loop_step.simps)
qed simp

text \<open>
  C25. Continuations run in the main loop in the order in which their futures became ready, each
  once: after any mixture of submissions, other events and deliveries, what has run is the
  beginning of what was submitted and the rest waits in the same order; and unless a continuation
  throws, which terminates the process, the loop has run all of it after as many deliveries as
  there are events waiting, whatever the continuations submit meanwhile.
\<close>

theorem executor_runs_in_order:
  "let l = run_events (loop_step qe) (main_loop_init w) es;
       l' = run_events (loop_step qe) l (replicate (length (ml_events l)) L_deliver)
   in ml_submitted l = ml_executed l @ works (ml_events l) \<and>
      (ml_terminated l' \<or> ml_executed l' = ml_submitted l)"
proof -
  define l where "l = run_events (loop_step qe) (main_loop_init w) es"
  have "loop_fifo (main_loop_init w)" by (simp add: loop_fifo_def main_loop_init_def)
  then have "ml_submitted l = ml_executed l @ works (ml_events l)"
    unfolding l_def loop_fifo_def [symmetric] by (rule loop_machine.inv_run)
  with loop_deliver_all [of "length (ml_events l)" l qe] show ?thesis
    unfolding l_def [symmetric] Let_def by auto
qed

text \<open>The executor ignores \<open>close\<close>: work submitted afterwards still runs.\<close>

lemma submit_after_close:
  "ml_executed (run_events (loop_step qe) (main_loop_init w)
     [L_close, L_submit (Work 1 (\<lambda>w. (Ok [], w))), L_deliver]) = [Work 1 (\<lambda>w. (Ok [], w))]"
  by (simp add: main_loop_init_def executor_close_def executor_submit_def executor_event_def executor_execute_def)

section \<open>Messages\<close>

datatype QtMsgType = QtDebugMsg | QtWarningMsg | QtCriticalMsg | QtFatalMsg | QtInfoMsg

text \<open>A message handler is that of the trace or any other, by a number.\<close>

datatype message_handler = trace_message_handler | Other_handler nat

record tracing =
  tr_handler :: message_handler    \<comment> \<open>installed in Qt\<close>
  tr_prefix :: string              \<comment> \<open>the global variable\<close>
  tr_stderr :: string

text \<open>What \<open>%s\<close> prints of a string, and \<open>%03d\<close> of the milliseconds.\<close>

definition c_str :: "string \<Rightarrow> string" where
  "c_str = takeWhile (\<lambda>c. c \<noteq> CHR 0x00)"

definition pad3 :: "nat \<Rightarrow> string" where
  "pad3 n = (let s = nat_to_string n in replicate (3 - length s) CHR ''0'' @ s)"

definition msg_label :: "QtMsgType \<Rightarrow> string" where
  "msg_label type = (case type of QtWarningMsg \<Rightarrow> '' Warning:'' | QtCriticalMsg \<Rightarrow> '' Critical:''
     | QtFatalMsg \<Rightarrow> '' Fatal:'' | _ \<Rightarrow> '''')"

text \<open>\<open>strftime\<close> of the local time is a parameter; the time is in milliseconds since the epoch.\<close>

definition trace_line :: "(nat \<Rightarrow> string) \<Rightarrow> nat \<Rightarrow> string \<Rightarrow> QtMsgType \<Rightarrow> string \<Rightarrow> string" where
  "trace_line strftime_T now prefix type msg =
     (if prefix \<noteq> '''' then c_str prefix @ '': '' else '''') @
     ''['' @ strftime_T (now div 1000) @ ''.'' @ pad3 (now mod 1000) @ '']'' @ msg_label type @ '' '' @ c_str msg @
     [CHR 0x0A]"

definition trace_message ::
  "(nat \<Rightarrow> string) \<Rightarrow> nat \<Rightarrow> QtMsgType \<Rightarrow> string \<Rightarrow> tracing \<Rightarrow> (unit, unit) outcome \<times> tracing" where
  "trace_message strftime_T now type msg t =
     (let t = t\<lparr>tr_stderr := tr_stderr t @ trace_line strftime_T now (tr_prefix t) type msg\<rparr>
      in (if type = QtFatalMsg then Abort else Ok (), t))"

text \<open>The constructors give the object, which is the handler that was installed before.\<close>

definition TraceMessageHandler_init :: "tracing \<Rightarrow> message_handler \<times> tracing" where
  "TraceMessageHandler_init t = (tr_handler t, t\<lparr>tr_handler := trace_message_handler\<rparr>)"

definition TraceMessageHandler_named :: "string \<Rightarrow> tracing \<Rightarrow> message_handler \<times> tracing" where
  "TraceMessageHandler_named prog_name t =
     (let (old, t) = TraceMessageHandler_init t in (old, t\<lparr>tr_prefix := prog_name\<rparr>))"

definition TraceMessageHandler_destroy :: "message_handler \<Rightarrow> tracing \<Rightarrow> tracing" where
  "TraceMessageHandler_destroy old t = t\<lparr>tr_handler := old\<rparr>"

text \<open>Scopes in a program: a trace object lives during its body, which may log and have scopes.\<close>

datatype scoped = Scope "string option" "scoped list" | Log QtMsgType string

fun run_scope :: "(nat \<Rightarrow> string) \<Rightarrow> nat \<Rightarrow> scoped \<Rightarrow> tracing \<Rightarrow> tracing"
  and run_scopes :: "(nat \<Rightarrow> string) \<Rightarrow> nat \<Rightarrow> scoped list \<Rightarrow> tracing \<Rightarrow> tracing" where
  "run_scope f now (Log type msg) t =
     (if tr_handler t = trace_message_handler then snd (trace_message f now type msg t) else t)"
| "run_scope f now (Scope name body) t =
     (let (old, t) = (case name of None \<Rightarrow> TraceMessageHandler_init t | Some n \<Rightarrow> TraceMessageHandler_named n t)
      in TraceMessageHandler_destroy old (run_scopes f now body t))"
| "run_scopes f now [] t = t"
| "run_scopes f now (x # xs) t = run_scopes f now xs (run_scope f now x t)"

text \<open>Trace objects that are nested as scopes are put back the handler of the program.\<close>

lemma scopes_restore_handler:
  "tr_handler (run_scope f now x t) = tr_handler t"
  "tr_handler (run_scopes f now xs t) = tr_handler t"
  by (induction f now x t and f now xs t rule: run_scope_run_scopes.induct)
    (auto simp: trace_message_def TraceMessageHandler_destroy_def TraceMessageHandler_init_def
      TraceMessageHandler_named_def Let_def split: prod.splits option.splits)

text \<open>Only the handler is put back: after an inner scope the messages of the outer one have its prefix.\<close>

lemma prefix_not_restored:
  "tr_stderr (run_scope f now (Scope (Some ''outer'') [Scope (Some ''inner'') [], Log QtDebugMsg msg])
      \<lparr>tr_handler = Other_handler 0, tr_prefix = '''', tr_stderr = ''''\<rparr>) =
   trace_line f now ''inner'' QtDebugMsg msg"
  by (simp add: trace_message_def TraceMessageHandler_destroy_def TraceMessageHandler_init_def
      TraceMessageHandler_named_def)

text \<open>A message without line ends is one line, and \<open>pad3\<close> has three digits.\<close>

lemma nat_to_string_short: "n < 1000 \<Longrightarrow> length (nat_to_string n) \<le> 3"
  by (subst nat_to_string.simps, simp, subst nat_to_string.simps, simp, subst nat_to_string.simps, simp)

lemma pad3_length: "n < 1000 \<Longrightarrow> length (pad3 n) = 3"
  using nat_to_string_short [of n] by (simp add: pad3_def Let_def)

section \<open>System errors\<close>

text \<open>\<open>strerror_r\<close> gives its return code and what it left in the buffer.\<close>

definition EINVAL_rc :: int where "EINVAL_rc = 22"
definition ERANGE_rc :: int where "ERANGE_rc = 34"

definition safe_strerror :: "(int \<Rightarrow> nat \<Rightarrow> int \<times> string) \<Rightarrow> int \<Rightarrow> string" where
  "safe_strerror strerror_r errnum =
     (let (rc, buf) = strerror_r errnum 512 in
      if rc = 0 then c_str buf
      else if rc = EINVAL_rc then ''invalid error number '' @ int_to_string errnum @ '' for strerror_r()''
      else if rc = ERANGE_rc then ''buffer size of '' @ nat_to_string 512 @
        '' is too small for strerror_r(), errnum = '' @ int_to_string errnum
      else ''impossible return value '' @ int_to_string rc @ '' from strerror_r(), errnum = '' @ int_to_string errnum)"

text \<open>Errors that the C library does not know keep different texts.\<close>

lemma unknown_errors_differ:
  assumes "fst (strerror_r a 512) = EINVAL_rc" and "fst (strerror_r b 512) = EINVAL_rc"
  shows "safe_strerror strerror_r a = safe_strerror strerror_r b \<longleftrightarrow> a = b"
  using assms by (auto simp: safe_strerror_def EINVAL_rc_def split: prod.splits)

end
