(* ===== verification/Process.thy ===== *)
theory Process
  imports Server Activity LocalProvider
begin

text \<open>
  The processes: the registry (\<open>src/src/registry/main.cpp\<close>), the local provider
  (\<open>src/src/local-provider/main.cpp\<close>) and the server that the tests of a provider run in
  their own process (\<open>src/src/provider/internal/TestServerImpl.cpp\<close>).

  Whether the bus accepts an object path or a name, and the text of its last error, are parameters.
  The registry's main loop is the handlers of the calls that arrived (\<open>Registry\<close>) and the
  inactivity timer that they share (\<open>Activity\<close>), driven by calls, the handlers' own events and
  the timer.

  The lemmas: the registry process fails no assertion and leaves its loop only when every call that
  it received has been answered and its handler is gone; what the processes return, and when.
\<close>

section \<open>The registry in its loop\<close>

record registry_process =
  rp_timer :: InactivityTimer
  rp_handlers :: "accounts_handler list"   \<comment> \<open>one for each call, in the order of the calls\<close>
  rp_exit :: "int option"                  \<comment> \<open>what \<open>app.exec()\<close> returned\<close>

datatype registry_event =
    RG_call                       \<comment> \<open>\<open>ListAccounts\<close>\<close>
  | RG_handler nat accounts_event
  | RG_idle                       \<comment> \<open>the inactivity timer fires\<close>

definition registry_ListAccounts :: "registry_process \<Rightarrow> (unit, registry_process) outcome" where
  "registry_ListAccounts p = bindR (request_started (rp_timer p)) (\<lambda>t.
     Ok (p\<lparr>rp_timer := t, rp_handlers := rp_handlers p @ [ListAccountsHandler_init]\<rparr>))"

text \<open>A handler that is deleted ends its activity.\<close>

definition handler_event ::
  "string \<Rightarrow> nat \<Rightarrow> accounts_event \<Rightarrow> registry_process \<Rightarrow> (unit, registry_process) outcome" where
  "handler_event user_name i e p =
     (if i < length (rp_handlers p) then
        let h = rp_handlers p ! i; h' = accounts_step user_name h e;
            p' = p\<lparr>rp_handlers := (rp_handlers p)[i := h']\<rparr>
        in if holds_activity h \<and> \<not> holds_activity h'
           then bindR (request_finished (rp_timer p)) (\<lambda>t. Ok (p'\<lparr>rp_timer := t\<rparr>))
           else Ok p'
      else Ok p)"

text \<open>\<open>app.quit()\<close> makes \<open>exec\<close> return 0.\<close>

definition registry_timeout :: "registry_process \<Rightarrow> registry_process" where
  "registry_timeout p = p\<lparr>rp_timer := (rp_timer p)\<lparr>it_running := False\<rparr>, rp_exit := Some 0\<rparr>"

fun registry_step :: "string \<Rightarrow> registry_process \<Rightarrow> registry_event \<Rightarrow> (unit, registry_process) outcome" where
  "registry_step user_name p RG_call = registry_ListAccounts p"
| "registry_step user_name p (RG_handler i e) = handler_event user_name i e p"
| "registry_step user_name p RG_idle = (if it_running (rp_timer p) then Ok (registry_timeout p) else Ok p)"

text \<open>The loop ends with the first time-out; later events find no process.\<close>

fun registry_exec :: "string \<Rightarrow> registry_process \<Rightarrow> registry_event list \<Rightarrow> (unit, registry_process) outcome" where
  "registry_exec user_name p [] = Ok p"
| "registry_exec user_name p (e # es) =
     (if rp_exit p \<noteq> None then Ok p
      else bindR (registry_step user_name p e) (\<lambda>p'. registry_exec user_name p' es))"

section \<open>The main functions\<close>

definition REGISTRY_BUS_NAME :: string where
  "REGISTRY_BUS_NAME = ''com.canonical.StorageFramework.Registry''"

definition REGISTRY_OBJECT_PATH :: string where
  "REGISTRY_OBJECT_PATH = ''/com/canonical/StorageFramework/Registry''"

datatype bus_call = B_registerObject string | B_registerService string | B_unregisterService string

record bus_answers =
  ba_object_ok :: bool
  ba_name_ok :: bool
  ba_release_ok :: bool
  ba_last_error :: string

record main_result =
  mr_rc :: "int option"          \<comment> \<open>\<open>None\<close> while the loop runs\<close>
  mr_critical :: "string list"   \<comment> \<open>the messages\<close>
  mr_bus :: "bus_call list"
  mr_process :: "registry_process option"

definition registry_main ::
  "(string \<rightharpoonup> string) \<Rightarrow> string \<Rightarrow> bus_answers \<Rightarrow> registry_event list \<Rightarrow> (unit, main_result) outcome" where
  "registry_main env user_name B es =
     bindR (registry_timeout_ms env) (\<lambda>timeout_ms.
     bindR (InactivityTimer_init timeout_ms) (\<lambda>timer.
     let object_call = B_registerObject REGISTRY_OBJECT_PATH; name_call = B_registerService REGISTRY_BUS_NAME;
         msg = last_error_msg (ba_last_error B)
     in if \<not> ba_object_ok B then
          Ok \<lparr>mr_rc = Some 1, mr_critical = [''Could not register object path '' @ REGISTRY_OBJECT_PATH @ msg],
             mr_bus = [object_call], mr_process = None\<rparr>
        else if \<not> ba_name_ok B then
          Ok \<lparr>mr_rc = Some 1, mr_critical = [''Could not acquire DBus name '' @ REGISTRY_BUS_NAME @ msg],
             mr_bus = [object_call, name_call], mr_process = None\<rparr>
        else bindR (registry_exec user_name \<lparr>rp_timer = timer, rp_handlers = [], rp_exit = None\<rparr> es) (\<lambda>p.
          case rp_exit p of
            None \<Rightarrow> Ok \<lparr>mr_rc = None, mr_critical = [], mr_bus = [object_call, name_call], mr_process = Some p\<rparr>
          | Some rc \<Rightarrow>
              Ok \<lparr>mr_rc = Some rc,
                  mr_critical = (if ba_release_ok B then []
                    else [''Could not release DBus name '' @ REGISTRY_BUS_NAME @ msg]),
                  mr_bus = [object_call, name_call, B_unregisterService REGISTRY_BUS_NAME],
                  mr_process = Some p\<rparr>)))"

text \<open>
  The local provider: \<open>init\<close> reads the time-out and makes the provider, whose constructor can throw.
  The result of \<open>run\<close> is not used. The result of main, or
  \<open>None\<close> while the loop runs, and what is written to \<open>cerr\<close>.
\<close>


fun lp_what :: "lp_exn \<Rightarrow> string" where
  "lp_what (LP_storage e) = exc_what e"
| "lp_what (LP_fs e) = fe_what e"
| "lp_what (LP_std msg) = msg"

definition local_provider_main ::
  "'w fsapi \<Rightarrow> (string \<rightharpoonup> string) \<Rightarrow> string \<Rightarrow> string \<Rightarrow> bool \<Rightarrow> server_event list \<Rightarrow> 'w
     \<Rightarrow> (unit, int option \<times> string) outcome \<times> 'w" where
  "local_provider_main F env user_data_dir argv0 name_ok es w =
     (case provider_timeout_ms env of
        Ok timeout \<Rightarrow>
          (case LocalProvider_init F env user_data_dir w of
             (Ok root, w) \<Rightarrow>
               let s = run_events server_step (start_server '''' name_ok) es
               in (Ok (case sv_exit s of None \<Rightarrow> None | Some rc \<Rightarrow> Some 0, ''''), w)
           | (Raise e, w) \<Rightarrow> (Ok (Some 1, path_filename F argv0 @ '': '' @ lp_what e @ [CHR 0x0A]), w)
           | (Abort, w) \<Rightarrow> (Abort, w))
      | Raise e \<Rightarrow> (Raise e, w)
      | Abort \<Rightarrow> (Abort, w))"

text \<open>The demo provider: its service id is the first argument, if there is one, and its result is that of the
  loop. An exception ends the process, as nothing catches it.\<close>

definition provider_test_main ::
  "(string \<rightharpoonup> string) \<Rightarrow> string list \<Rightarrow> bool \<Rightarrow> server_event list \<Rightarrow> (unit, int option) outcome" where
  "provider_test_main env argv name_ok es = bindR (provider_timeout_ms env) (\<lambda>timeout.
     let account_service_id = (if length argv > 1 then argv ! 1 else ''storage-provider-test'')
     in Ok (sv_exit (run_events server_step (start_server account_service_id name_ok) es)))"

section \<open>The test server\<close>

text \<open>
  The object paths that are in use on the connection; \<open>lastError\<close> is a parameter. With an account
  the provider asks Online Accounts for credentials, without one it needs none.
\<close>

datatype account_kind = Online_account oa_account | Fixed_account

record test_server =
  ts_object_path :: string
  ts_account :: account_kind
  ts_timer :: InactivityTimer

definition TEST_TIMEOUT :: int where "TEST_TIMEOUT = 30000"

definition TestServerImpl_init ::
  "oa_account option \<Rightarrow> string \<Rightarrow> string \<times> int \<Rightarrow> (string list, StorageException, test_server) sx" where
  "TestServerImpl_init account object_path last_error = (\<lambda>objects.
     case InactivityTimer_init TEST_TIMEOUT of
       Ok timer \<Rightarrow>
         if object_path \<in> set objects
         then (Raise (ResourceException (''Could not register provider on connection: '' @ fst last_error)
                 (snd last_error)), objects)
         else (Ok \<lparr>ts_object_path = object_path,
                    ts_account = (case account of Some a \<Rightarrow> Online_account a | None \<Rightarrow> Fixed_account),
                    ts_timer = timer\<rparr>, objects @ [object_path])
     | Raise e \<Rightarrow> (Raise e, objects)
     | Abort \<Rightarrow> (Abort, objects))"

definition TestServerImpl_destroy :: "test_server \<Rightarrow> string list \<Rightarrow> string list" where
  "TestServerImpl_destroy t objects = filter (\<lambda>p. p \<noteq> ts_object_path t) objects"

section \<open>Properties\<close>

text \<open>A test server that could be made leaves the connection as it found it; one that was refused
  leaves the object alone that has the path.\<close>

lemma test_server_scope:
  "case TestServerImpl_init account object_path last_error objects of
     (Ok t, objects') \<Rightarrow> object_path \<notin> set objects \<and> TestServerImpl_destroy t objects' = objects
   | (Raise e, objects') \<Rightarrow> object_path \<in> set objects \<and> objects' = objects
   | (Abort, _) \<Rightarrow> False"
  by (auto simp: TestServerImpl_init_def TestServerImpl_destroy_def InactivityTimer_init_def TEST_TIMEOUT_def
      filter_id_conv)

lemma server_step_stopped: "\<not> sv_running s \<Longrightarrow> server_step s e = s"
  by (cases e) simp_all

lemma length_filter_update:
  "i < length xs \<Longrightarrow> int (length (filter P (xs[i := y]))) =
     int (length (filter P xs)) - of_bool (P (xs ! i)) + of_bool (P y)"
proof (induction xs arbitrary: i)
  case (Cons x xs)
  then show ?case by (cases i) auto
qed simp

text \<open>The requests that the timer counts are the handlers that are alive, and the timer runs only when
  there is none.\<close>

definition registry_inv :: "registry_process \<Rightarrow> bool" where
  "registry_inv p \<longleftrightarrow>
     it_num_requests (rp_timer p) = int (length (filter holds_activity (rp_handlers p))) \<and>
     (it_running (rp_timer p) \<or> rp_exit p \<noteq> None \<longrightarrow> filter holds_activity (rp_handlers p) = []) \<and>
     (\<forall>h \<in> set (rp_handlers p). handler_pending h)"


lemma handler_event_inv:
  assumes I: "registry_inv p" and exit: "rp_exit p = None"
  shows "\<exists>p'. handler_event user_name i e p = Ok p' \<and> registry_inv p'"
proof (cases "i < length (rp_handlers p)")
  case True
  define h where "h = rp_handlers p ! i"
  define h' where "h' = accounts_step user_name h e"
  have "handler_pending h" using I True by (simp add: registry_inv_def h_def)
  then have pend: "handler_pending h'" unfolding h'_def by (rule accounts_machine.inv_step)
  have all: "\<forall>x \<in> set ((rp_handlers p)[i := h']). handler_pending x"
    using I pend set_update_subset_insert [of "rp_handlers p" i h'] by (auto simp: registry_inv_def)
  have keep: "holds_activity h' \<Longrightarrow> holds_activity h"
    unfolding h'_def by (cases e) (auto simp: holds_activity_def manager_ready_def handler_timeout_def split: if_splits)
  have len: "int (length (filter holds_activity ((rp_handlers p)[i := h']))) =
      int (length (filter holds_activity (rp_handlers p))) - of_bool (holds_activity h) + of_bool (holds_activity h')"
    unfolding h_def by (rule length_filter_update [OF True])
  have ev: "handler_event user_name i e p =
     (let p' = p\<lparr>rp_handlers := (rp_handlers p)[i := h']\<rparr>
      in if holds_activity h \<and> \<not> holds_activity h'
         then bindR (request_finished (rp_timer p)) (\<lambda>t. Ok (p'\<lparr>rp_timer := t\<rparr>)) else Ok p')"
    using True by (simp add: handler_event_def h_def h'_def Let_def)
  show ?thesis
  proof (cases "holds_activity h \<and> \<not> holds_activity h'")
    case True
    then have "0 < it_num_requests (rp_timer p)"
      using I len by (cases "filter holds_activity (rp_handlers p)") (auto simp: registry_inv_def)
    with True I all len exit show ?thesis
      by (auto simp: ev registry_inv_def request_finished_def Let_def)
  next
    case False
    with keep have "holds_activity h' \<longleftrightarrow> holds_activity h" by blast
    with False I all len exit show ?thesis by (auto simp: ev registry_inv_def Let_def)
  qed
qed (use I in \<open>simp add: handler_event_def\<close>)

lemma registry_step_inv:
  assumes I: "registry_inv p" and exit: "rp_exit p = None"
  shows "\<exists>p'. registry_step user_name p e = Ok p' \<and> registry_inv p'"
proof (cases e)
  case RG_call
  with I exit show ?thesis
    by (auto simp: registry_ListAccounts_def registry_inv_def request_started_def Let_def handler_pending_def
        holds_activity_def ListAccountsHandler_init_def)
next
  case (RG_handler i ev)
  then show ?thesis using handler_event_inv [OF assms] by simp
next
  case RG_idle
  with I show ?thesis by (auto simp: registry_timeout_def registry_inv_def)
qed

lemma registry_exec_inv:
  "registry_inv p \<Longrightarrow> \<exists>p'. registry_exec user_name p es = Ok p' \<and> registry_inv p'"
proof (induction es arbitrary: p)
  case (Cons e es)
  then show ?case using registry_step_inv [of p user_name e] by (cases "rp_exit p") auto
qed simp

lemma registry_exec_rc:
  "registry_exec user_name p es = Ok p' \<Longrightarrow> rp_exit p \<in> {None, Some 0} \<Longrightarrow> rp_exit p' \<in> {None, Some 0}"
proof (induction es arbitrary: p)
  case (Cons e es)
  have "rp_exit q \<in> {None, Some 0}" if "registry_step user_name p e = Ok q" for q
    using that Cons.prems(2)
    by (cases e) (auto simp: registry_ListAccounts_def handler_event_def registry_timeout_def Let_def split: if_splits)
  with Cons show ?case by (auto split: if_splits)
qed simp

text \<open>
  C24. The registry process, started with a time-out that fits: it returns 1 exactly when the bus
  refuses its object path or its name, and says so; the object is registered before the name
  is requested, and the name is given back only after the loop. If it returns 0, every call of
  \<open>ListAccounts\<close> that it received was answered, whatever happened in which order, also when a
  handler timed out or the name could not be given back; as long as a call is unanswered it runs
  on.
\<close>

theorem registry_process_answers:
  assumes "registry_timeout_ms env = (Ok ms :: (unit, int) outcome)" and "0 \<le> ms"
  shows "\<exists>r. registry_main env user_name B es = Ok r \<and>
    (mr_rc r = Some 1 \<longleftrightarrow> \<not> (ba_object_ok B \<and> ba_name_ok B)) \<and>
    (mr_rc r = Some 1 \<longrightarrow> length (mr_critical r) = 1 \<and> mr_process r = None) \<and>
    (mr_rc r \<noteq> Some 1 \<longrightarrow> (\<exists>p. mr_process r = Some p \<and> mr_rc r \<in> {None, Some 0} \<and>
       mr_bus r = [B_registerObject REGISTRY_OBJECT_PATH, B_registerService REGISTRY_BUS_NAME] @
         (if mr_rc r = None then [] else [B_unregisterService REGISTRY_BUS_NAME]) \<and>
       (mr_rc r = Some 0 \<longrightarrow> (\<forall>h \<in> set (rp_handlers p). lh_replies h \<noteq> [] \<and> lh_deleted h))))"
proof -
  have answered: "lh_replies h \<noteq> []" if "handler_pending h" "lh_deleted h" for h
    using that by (auto simp: handler_pending_def split: if_splits)
  let ?p = "\<lparr>rp_timer = \<lparr>it_interval = ms, it_running = False, it_num_requests = 0\<rparr>, rp_handlers = [], rp_exit = None\<rparr>"
  have "registry_inv ?p" by (simp add: registry_inv_def)
  from registry_exec_inv [OF this] obtain p where p: "registry_exec user_name ?p es = Ok p" "registry_inv p" by blast
  have rc: "rp_exit p = None \<or> rp_exit p = Some 0"
    using registry_exec_rc [OF p(1)] by simp
  have "\<forall>h \<in> set (rp_handlers p). lh_replies h \<noteq> [] \<and> lh_deleted h" if "rp_exit p = Some 0"
    using p(2) that answered by (auto simp: registry_inv_def filter_empty_conv holds_activity_def)
  with rc p(1) show ?thesis
    unfolding registry_main_def assms(1) using assms(2) by (auto simp: InactivityTimer_init_def Let_def)
qed

definition sample_answers :: bus_answers where
  "sample_answers = \<lparr>ba_object_ok = True, ba_name_ok = True, ba_release_ok = False, ba_last_error = ''gone''\<rparr>"

definition sample_calls :: "registry_event list" where
  "sample_calls = [RG_call, RG_call, RG_handler 0 (Manager_ready []), RG_idle, RG_handler 0 Deferred_delete, RG_idle,
     RG_handler 1 Timer_fires, RG_handler 1 Deferred_delete, RG_idle]"

theorem registry_process_answers_witness:
  "\<exists>r p. registry_main Map.empty ''u'' sample_answers sample_calls = Ok r \<and>
    mr_rc r = Some 0 \<and> mr_process r = Some p \<and> length (rp_handlers p) = 2 \<and>
    (\<forall>h \<in> set (rp_handlers p). lh_replies h \<noteq> [])"
proof -
  have ms: "registry_timeout_ms Map.empty = (Ok 30000 :: (unit, int) outcome)" by code_simp
  from registry_process_answers [OF ms, of "''u''" sample_answers sample_calls]
  obtain r where r: "registry_main Map.empty ''u'' sample_answers sample_calls = Ok r"
    and a: "mr_rc r = Some 0 \<longrightarrow> (\<exists>p. mr_process r = Some p \<and> (\<forall>h \<in> set (rp_handlers p). lh_replies h \<noteq> []))"
    by force
  have "case registry_main Map.empty ''u'' sample_answers sample_calls of
      Ok r \<Rightarrow> mr_rc r = Some 0 \<and> map_option (\<lambda>p. length (rp_handlers p)) (mr_process r) = Some 2 | _ \<Rightarrow> False"
    by (simp add: registry_main_def ms sample_answers_def sample_calls_def InactivityTimer_init_def Let_def
        registry_ListAccounts_def handler_event_def request_started_def request_finished_def manager_ready_def
        handler_timeout_def holds_activity_def registry_timeout_def ListAccountsHandler_init_def)
  with r a show ?thesis by auto
qed

text \<open>A registry that receives no call never leaves its loop: the timer starts when a request ends.\<close>

lemma registry_without_calls:
  "registry_exec user_name p (replicate n RG_idle) = Ok p" if "\<not> it_running (rp_timer p)" "rp_exit p = None"
  using that by (induction n) simp_all

text \<open>
  The local provider's process returns 1, with a message, when its root cannot be used, and 0
  otherwise.
\<close>

lemma local_provider_main_rc:
  assumes "provider_timeout_ms env = (Ok ms :: (unit, int) outcome)"
  shows "case LocalProvider_init F env user_data_dir w of
     (Ok root, w') \<Rightarrow> \<exists>rc. local_provider_main F env user_data_dir argv0 name_ok es w = (Ok (rc, ''''), w') \<and>
        rc \<in> {None, Some 0}
   | (Raise e, w') \<Rightarrow> local_provider_main F env user_data_dir argv0 name_ok es w =
        (Ok (Some 1, path_filename F argv0 @ '': '' @ lp_what e @ [CHR 0x0A]), w')
   | (Abort, w') \<Rightarrow> True"
  using assms by (auto simp: local_provider_main_def Let_def split: prod.splits outcome.splits option.splits)

text \<open>The demo, which asks for its name in the loop, returns 1 when the name is refused.\<close>

lemma provider_test_unnamed:
  assumes "provider_timeout_ms env = (Ok ms :: (unit, int) outcome)" and "length argv \<le> 1"
  shows "provider_test_main env argv ok (SV_ready False accounts # es) = Ok (Some 1)"
proof -
  have final: "sv_exit (run_events server_step s es) = sv_exit s" if "\<not> sv_running s" for s es
    using that by (induction es arbitrary: s) (simp_all add: server_step_stopped)
  have run: "sv_running (fold (\<lambda>a. add_account (Some a)) as s) = sv_running s" for as s
    by (induction as arbitrary: s) (simp_all add: add_account_def register_object_def Let_def)
  show ?thesis using assms
    by (simp add: provider_test_main_def Let_def start_server_def server_init_def ServerImpl_init_def server_run_def
        on_account_manager_ready_def register_bus_name_def app_exit_def run final)
qed

text \<open>The local provider asks for its name before the loop: when it is refused, the process goes on without
  one and returns 0.\<close>

lemma unnamed_provider_succeeds:
  assumes "provider_timeout_ms env = (Ok ms :: (unit, int) outcome)" and "LocalProvider_init F env user_data_dir w = (Ok root, w')"
  shows "local_provider_main F env user_data_dir argv0 False [SV_timeout] w = (Ok (Some 0, ''''), w') \<and>
    \<not> sv_name (run_events server_step (start_server '''' False) [SV_timeout])"
  using assms
  by (simp add: local_provider_main_def Let_def start_server_def server_init_def ServerImpl_init_def
      register_bus_name_def add_account_def register_object_def app_exit_def server_run_def on_timeout_def)

end
