(* ===== verification/DemoProvider.thy ===== *)
theory DemoProvider
  imports LocalService Activity
begin

text \<open>
  The provider of the demo (\<open>src/demo/provider_test/provider-test.cpp\<close>): a provider with one
  root and one child whose answers are fixed, as an instance of the provider interface, so that
  everything that is shown in \<open>Provider\<close> for all providers holds of it.

  The state: the counter of job ids, the jobs, what was written to the socket of each download, and
  the links that finished uploads have made. Parameters are \<open>socketpair\<close> and the text of its
  errors, the result of \<open>write\<close> with \<open>errno\<close>, and whether \<open>link\<close> succeeds, which the code does not
  ask. The lines that each method prints are left out.

  The lemmas: which answers of the demo the client accepts, and what an upload and a download of
  the demo leave behind.
\<close>

record demo_env =
  de_socketpair :: "nat \<Rightarrow> (int, int \<times> int) outcome"
  de_strerror :: "int \<Rightarrow> string"
  de_write :: "string \<Rightarrow> int \<times> int"
  de_link :: "string \<Rightarrow> string \<Rightarrow> bool"

text \<open>An upload is one to a temporary file; it holds the directory while one of its methods runs.\<close>

record my_upload = "provider_item tempfile_upload" +
  mu_links :: "string \<Rightarrow> string option"

record demo_world =
  dm_last_job_id :: int
  dm_uploads :: "nat \<Rightarrow> my_upload option"
  dm_downloads :: "nat \<Rightarrow> unit job_impl option"
  dm_sent :: "nat \<Rightarrow> string"
  dm_links :: "string \<Rightarrow> string option"

definition demo_init :: demo_world where
  "demo_init = \<lparr>dm_last_job_id = 0, dm_uploads = (\<lambda>_. None), dm_downloads = (\<lambda>_. None), dm_sent = (\<lambda>_. ''''),
     dm_links = (\<lambda>_. None)\<rparr>"

definition demo_ready :: "'a \<Rightarrow> ('w, 'a) async" where
  "demo_ready a = sx_return (Inr a)"

definition demo_exceptional :: "StorageException \<Rightarrow> ('w, 'a) async" where
  "demo_exceptional e = sx_return (Inl (TStorage e))"

definition demo_root :: provider_item where
  "demo_root = \<lparr>pi_item_id = ''root_id'', pi_parent_ids = [], pi_name = ''Root'', pi_etag = ''etag'',
     pi_type = IT_root, pi_metadata = []\<rparr>"

text \<open>The metadata are a \<open>std::map\<close>: by key.\<close>

definition demo_file_metadata :: "int \<Rightarrow> string \<Rightarrow> (string \<times> MetadataValue) list" where
  "demo_file_metadata size_in_bytes time =
     map_emplace LAST_MODIFIED_TIME (MV_string time) (map_emplace SIZE_IN_BYTES (MV_int64 size_in_bytes) [])"

definition demo_child :: provider_item where
  "demo_child = \<lparr>pi_item_id = ''child_id'', pi_parent_ids = [''root_id''], pi_name = ''Child'', pi_etag = ''etag'',
     pi_type = IT_file, pi_metadata = demo_file_metadata 0 ''2007-04-05T14:30Z''\<rparr>"

definition demo_child_folder :: provider_item where
  "demo_child_folder = \<lparr>pi_item_id = ''child_folder_id'', pi_parent_ids = [''root_id''], pi_name = ''Child_Folder'',
     pi_etag = ''etag'', pi_type = IT_folder, pi_metadata = []\<rparr>"

definition demo_roots :: "keys \<Rightarrow> (demo_world, provider_item list) async" where
  "demo_roots keys = demo_ready [demo_root]"

definition demo_list :: "string \<Rightarrow> string \<Rightarrow> keys \<Rightarrow> (demo_world, provider_item list \<times> string) async" where
  "demo_list item_id page_token keys =
     (if item_id \<noteq> ''root_id'' then
        demo_exceptional (NotExistsException (''Item::list(): no such item: \"'' @ item_id @ ''\"'') item_id)
      else if page_token \<noteq> '''' then
        demo_exceptional (LogicException (''Item::list(): invalid page token: \"'' @ page_token @ ''\"''))
      else demo_ready ([demo_child], ''''))"

definition demo_lookup :: "string \<Rightarrow> string \<Rightarrow> keys \<Rightarrow> (demo_world, provider_item list) async" where
  "demo_lookup parent_id name keys =
     (if parent_id \<noteq> ''root_id'' then
        demo_exceptional (NotExistsException (''Folder::lookup(): no such item: \"'' @ parent_id @ ''\"'') parent_id)
      else if name \<noteq> ''Child'' then
        demo_exceptional (NotExistsException (''Folder::lookup(): no such item: \"'' @ name @ ''\"'') name)
      else demo_ready [demo_child])"

definition demo_metadata :: "string \<Rightarrow> keys \<Rightarrow> (demo_world, provider_item) async" where
  "demo_metadata item_id keys =
     (if item_id = ''root_id'' then demo_ready demo_root
      else if item_id = ''child_id'' then demo_ready demo_child
      else if item_id = ''child_folder_id'' then demo_ready demo_child_folder
      else demo_exceptional (NotExistsException (''metadata(): no such item: '' @ item_id) item_id))"

definition demo_create_folder :: "string \<Rightarrow> string \<Rightarrow> keys \<Rightarrow> (demo_world, provider_item) async" where
  "demo_create_folder parent_id name keys = demo_ready \<lparr>pi_item_id = ''new_folder_id'', pi_parent_ids = [parent_id],
     pi_name = name, pi_etag = ''etag'', pi_type = IT_folder, pi_metadata = []\<rparr>"

text \<open>The counter is an \<open>int\<close>.\<close>

definition make_job_id :: "(demo_world, thrown, string) sx" where
  "make_job_id w = (if dm_last_job_id w = INT_MAX then (Abort, w)
     else (Ok (int_to_string (dm_last_job_id w + 1)), w\<lparr>dm_last_job_id := dm_last_job_id w + 1\<rparr>))"

text \<open>The constructors of the jobs, which throw when there is no socket.\<close>

definition new_upload :: "demo_env \<Rightarrow> nat \<Rightarrow> (demo_world, string) async" where
  "new_upload E n = sx_bind make_job_id (\<lambda>upload_id w.
     case job_impl_init (de_socketpair E n) (de_strerror E) upload_id of
       Ok j \<Rightarrow> (Ok (Inr upload_id), w\<lparr>dm_uploads := (dm_uploads w)(n \<mapsto> job_impl.extend j
         \<lparr>tu_tmpfile = None, tu_file_name = '''', tu_available = '''', tu_descriptor = -1, mu_links = dm_links w\<rparr>)\<rparr>)
     | Raise e \<Rightarrow> (Raise (TStorage e), w)
     | Abort \<Rightarrow> (Abort, w))"

definition demo_create_file ::
  "demo_env \<Rightarrow> nat \<Rightarrow> string \<Rightarrow> string \<Rightarrow> int \<Rightarrow> string \<Rightarrow> bool \<Rightarrow> keys \<Rightarrow> (demo_world, string) async" where
  "demo_create_file E n parent_id name sz content_type allow_overwrite keys = new_upload E n"

definition demo_update :: "demo_env \<Rightarrow> nat \<Rightarrow> string \<Rightarrow> int \<Rightarrow> string \<Rightarrow> keys \<Rightarrow> (demo_world, string) async" where
  "demo_update E n item_id sz old_etag keys = new_upload E n"

text \<open>\<open>sizeof(contents)\<close> counts the terminating zero.\<close>

definition demo_contents :: string where
  "demo_contents = ''Hello world'' @ [CHR 0x00]"

definition demo_download :: "demo_env \<Rightarrow> nat \<Rightarrow> string \<Rightarrow> string \<Rightarrow> (demo_world, string) async" where
  "demo_download E n item_id match_etag = sx_bind make_job_id (\<lambda>download_id w.
     case job_impl_init (de_socketpair E n) (de_strerror E) download_id of
       Ok j \<Rightarrow>
         let (written, errno) = de_write E demo_contents;
             w = w\<lparr>dm_sent := (dm_sent w)(n := take (nat written) demo_contents)\<rparr>
         in if written \<noteq> int (length demo_contents) then
              let e = ResourceException ''download(): write failed'' errno
              in (case download_report_error (TStorage e) j of
                    (Ok _, j) \<Rightarrow> (Ok (Inl (TStorage e)), w)      \<comment> \<open>the job is destroyed\<close>
                  | (Raise x, j) \<Rightarrow> (Raise x, w)
                  | (Abort, j) \<Rightarrow> (Abort, w))
            else (case download_report_complete j of
                    (Ok _, j) \<Rightarrow> (Ok (Inr download_id), w\<lparr>dm_downloads := (dm_downloads w)(n \<mapsto> j)\<rparr>)
                  | (Raise x, j) \<Rightarrow> (Raise x, w)
                  | (Abort, j) \<Rightarrow> (Abort, w))
     | Raise e \<Rightarrow> (Raise (TStorage e), w)
     | Abort \<Rightarrow> (Abort, w))"

definition demo_delete_item :: "string \<Rightarrow> (demo_world, unit) async" where
  "demo_delete_item item_id = demo_ready ()"

definition demo_move :: "string \<Rightarrow> string \<Rightarrow> string \<Rightarrow> keys \<Rightarrow> (demo_world, provider_item) async" where
  "demo_move item_id new_parent_id new_name keys = demo_ready \<lparr>pi_item_id = item_id, pi_parent_ids = [new_parent_id],
     pi_name = new_name, pi_etag = ''etag'', pi_type = IT_file, pi_metadata = []\<rparr>"

definition demo_copy :: "string \<Rightarrow> string \<Rightarrow> string \<Rightarrow> keys \<Rightarrow> (demo_world, provider_item) async" where
  "demo_copy item_id new_parent_id new_name keys = demo_ready \<lparr>pi_item_id = ''new_item_id'',
     pi_parent_ids = [new_parent_id], pi_name = new_name, pi_etag = ''etag'', pi_type = IT_file, pi_metadata = []\<rparr>"

section \<open>The jobs\<close>

definition demo_upload_cancel :: "(my_upload, thrown, unit future option) sx" where
  "demo_upload_cancel = sx_return (Some (Fut_value ()))"

text \<open>\<open>finish\<close> unlinks the new name and links the temporary file to it; it does not call \<open>drain\<close>.\<close>

definition demo_upload_finish :: "demo_env \<Rightarrow> (my_upload, thrown, provider_item future option) sx" where
  "demo_upload_finish E j =
     (let old_filename = tempfile_file_name (tempfile_upload.truncate j);
          new_filename = ji_id j @ ''.txt'';
          links = (mu_links j)(new_filename := None);
          links = (if de_link E old_filename new_filename then links(new_filename \<mapsto> old_filename) else links)
      in (Ok (Some (Fut_value \<lparr>pi_item_id = ''some_id'', pi_parent_ids = [''root_id''], pi_name = ''some_upload'',
            pi_etag = ''etag'', pi_type = IT_file, pi_metadata = demo_file_metadata 10 ''2011-04-05T14:30:10.005Z''\<rparr>)),
          j\<lparr>mu_links := links\<rparr>))"

definition demo_download_cancel :: "(unit job_impl, thrown, unit future option) sx" where
  "demo_download_cancel = sx_return (Some (Fut_value ()))"

definition demo_download_finish :: "(unit job_impl, thrown, unit future option) sx" where
  "demo_download_finish = sx_return (Some (Fut_value ()))"

text \<open>A method of the n-th job.\<close>

definition on_demo_upload :: "nat \<Rightarrow> (my_upload, thrown, 'a) sx \<Rightarrow> (demo_world, thrown, 'a) sx" where
  "on_demo_upload n m w = (case dm_uploads w n of
      None \<Rightarrow> (Abort, w)
    | Some j \<Rightarrow> (case m (j\<lparr>mu_links := dm_links w\<rparr>) of
        (r, j') \<Rightarrow> (r, w\<lparr>dm_links := mu_links j', dm_uploads := (dm_uploads w)(n \<mapsto> j')\<rparr>)))"

definition on_demo_download :: "nat \<Rightarrow> (unit job_impl, thrown, 'a) sx \<Rightarrow> (demo_world, thrown, 'a) sx" where
  "on_demo_download n m w = (case dm_downloads w n of
      None \<Rightarrow> (Abort, w)
    | Some j \<Rightarrow> (case m j of (r, j') \<Rightarrow> (r, w\<lparr>dm_downloads := (dm_downloads w)(n \<mapsto> j')\<rparr>)))"

definition demo_provider :: "demo_env \<Rightarrow> demo_world provider" where
  "demo_provider E =
     \<lparr>pr_roots = demo_roots, pr_list = demo_list, pr_lookup = demo_lookup, pr_metadata = demo_metadata,
      pr_create_folder = demo_create_folder, pr_create_file = demo_create_file E, pr_update = demo_update E,
      pr_download = demo_download E, pr_delete_item = demo_delete_item, pr_move = demo_move, pr_copy = demo_copy,
      pr_finish_upload = (\<lambda>n. sx_bind (on_demo_upload n (upload_finish (demo_upload_finish E)))
        (\<lambda>f. sx_return (future_result f))),
      pr_cancel_upload = (\<lambda>n. sx_bind (on_demo_upload n (upload_cancel demo_upload_cancel))
        (\<lambda>f. sx_return (future_result f))),
      pr_finish_download = (\<lambda>n. sx_bind (on_demo_download n (download_finish demo_download_finish))
        (\<lambda>f. sx_return (future_result f))),
      pr_cancel_download = (\<lambda>n. sx_bind (on_demo_download n (download_cancel demo_download_cancel))
        (\<lambda>f. sx_return (future_result f))),
      pr_take_write_socket = (\<lambda>n. on_demo_upload n take_write_socket),
      pr_take_read_socket = (\<lambda>n. on_demo_download n take_read_socket)\<rparr>"

section \<open>Properties\<close>

text \<open>The items that a method delivers.\<close>

fun delivered :: "(thrown, thrown + provider_item list) outcome \<Rightarrow> provider_item list" where
  "delivered (Ok (Inr items)) = items"
| "delivered _ = []"

definition one_item :: "('w, provider_item) async \<Rightarrow> ('w, provider_item list) async" where
  "one_item m = sx_bind m (\<lambda>r. sx_return (map_sum id (\<lambda>i. [i]) r))"

lemmas demo_defs = demo_ready_def demo_exceptional_def demo_roots_def demo_list_def demo_lookup_def demo_metadata_def
  demo_create_folder_def demo_move_def demo_copy_def one_item_def demo_provider_def

lemma demo_file_metadata_eq:
  "demo_file_metadata n t = [(LAST_MODIFIED_TIME, MV_string t), (SIZE_IN_BYTES, MV_int64 n)]"
  by (simp add: demo_file_metadata_def map_emplace_def SIZE_IN_BYTES_def LAST_MODIFIED_TIME_def)

lemmas demo_item_defs = demo_root_def demo_child_def demo_child_folder_def demo_file_metadata_eq
  client_view_def valid_metadata_def valid_value_def known_local_keys

lemma demo_child_valid:
  assumes "parse_date ''2007-04-05T14:30Z'' = Some UTC"
  shows "valid_metadata parse_date (client_view demo_child)"
  using assms by (simp add: demo_item_defs)

lemma demo_folders_valid:
  "valid_metadata parse_date (client_view demo_root)" "valid_metadata parse_date (client_view demo_child_folder)"
  by (simp_all add: demo_item_defs)

text \<open>
  Which answers of the demo a client accepts, if its date parser reads the two dates: every item
  that \<open>roots\<close>, \<open>list\<close>, \<open>lookup\<close>, \<open>metadata\<close> and \<open>create_folder\<close> (with a parent and a name) deliver
  passes the client's validation. No item that \<open>move\<close> and \<open>copy\<close> deliver does: they are files
  without a size and a time, so that every move and copy ends in an error in the client.
\<close>

theorem demo_answers:
  assumes "parse_date ''2007-04-05T14:30Z'' = Some UTC" and "parent_id \<noteq> ''''" and "name \<noteq> ''''"
  shows "(\<forall>it \<in> set (delivered (fst (pr_roots (demo_provider E) keys w))) \<union>
           set (delivered (fst (pr_lookup (demo_provider E) parent_id name keys w))) \<union>
           set (delivered (fst (one_item (pr_metadata (demo_provider E) item_id keys) w))) \<union>
           set (delivered (fst (one_item (pr_create_folder (demo_provider E) parent_id name keys) w))).
           validate parse_date meth (client_view it) = Ok ()) \<and>
    (\<forall>items token. fst (pr_list (demo_provider E) item_id page keys w) = Ok (Inr (items, token)) \<longrightarrow>
       token = '''' \<and> (\<forall>it \<in> set items. validate parse_date meth (client_view it) = Ok ())) \<and>
    (\<exists>moved copied. fst (pr_move (demo_provider E) item_id parent_id name keys w) = Ok (Inr moved) \<and>
       fst (pr_copy (demo_provider E) item_id parent_id name keys w) = Ok (Inr copied) \<and>
       validate parse_date meth (client_view moved) \<noteq> Ok () \<and> validate parse_date meth (client_view copied) \<noteq> Ok ())"
proof -
  note c = demo_child_valid [of parse_date, OF assms(1)]
  have f: "valid_metadata parse_date (client_view \<lparr>pi_item_id = ''new_folder_id'', pi_parent_ids = [parent_id],
      pi_name = name, pi_etag = ''etag'', pi_type = IT_folder, pi_metadata = []\<rparr>)"
    using assms(2,3) by (simp add: demo_item_defs)
  have m: "\<not> valid_metadata parse_date (client_view \<lparr>pi_item_id = i, pi_parent_ids = p,
      pi_name = n, pi_etag = t, pi_type = IT_file, pi_metadata = []\<rparr>)" for i p n t
    by (simp add: demo_item_defs)
  show ?thesis unfolding validate_Ok_iff
    using c f m demo_folders_valid [of parse_date] by (auto simp: demo_defs run_simps)
qed

definition sample_demo_env :: demo_env where
  "sample_demo_env = \<lparr>de_socketpair = (\<lambda>n. Ok (3, 4)), de_strerror = (\<lambda>_. ''''), de_write = (\<lambda>s. (int (length s), 0)),
     de_link = (\<lambda>_ _. True)\<rparr>"

theorem demo_answers_witness:
  "validate (\<lambda>_. Some UTC) ''Item::list()'' (client_view demo_child) = Ok () \<and>
   (\<exists>moved. fst (pr_move (demo_provider sample_demo_env) ''child_id'' ''root_id'' ''n'' [] demo_init) = Ok (Inr moved) \<and>
      validate (\<lambda>_. Some UTC) ''Item::move()'' (client_view moved) \<noteq> Ok ())"
proof -
  have l: "fst (pr_list (demo_provider sample_demo_env) ''root_id'' '''' [] demo_init) = Ok (Inr ([demo_child], ''''))"
    by (simp add: demo_defs run_simps)
  note d = demo_answers [where parse_date = "\<lambda>_. Some UTC" and parent_id = "''root_id''" and name = "''n''" and
      E = sample_demo_env and keys = "[]" and w = demo_init]
  have "validate (\<lambda>_. Some UTC) ''Item::list()'' (client_view demo_child) = Ok ()"
    using d [where item_id = "''root_id''" and page = "''''" and meth = "''Item::list()''"] l by simp
  moreover have "\<exists>moved. fst (pr_move (demo_provider sample_demo_env) ''child_id'' ''root_id'' ''n'' [] demo_init) = Ok (Inr moved) \<and>
      validate (\<lambda>_. Some UTC) ''Item::move()'' (client_view moved) \<noteq> Ok ()"
    using d [where item_id = "''child_id''" and meth = "''Item::move()''"] by blast
  ultimately show ?thesis by blast
qed

text \<open>A download of the demo delivers twelve bytes, of which the last is zero.\<close>

lemma demo_download_sends:
  assumes "de_socketpair E n = Ok (r, s)" and "de_write E demo_contents = (12, 0)" and "dm_last_job_id w < INT_MAX"
  shows "\<exists>id w'. demo_download E n item_id match_etag w = (Ok (Inr id), w') \<and>
    dm_sent w' n = ''Hello world'' @ [CHR 0x00]"
  using assms
  by (auto simp: demo_download_def make_job_id_def job_impl_init_def run_simps download_report_complete_def
      complete_with_def with_lock_def set_promise_def demo_contents_def)

text \<open>\<open>finish\<close> leaves what has not been read from the socket: the file that the client's data is said to
  be in lacks it, although the documentation of the base class asks for \<open>drain\<close>.\<close>

lemma demo_finish_without_drain:
  assumes "dm_uploads w n = Some j" and "\<not> ji_completed j" and "\<not> ji_locked j"
  shows "\<exists>it w' j'. pr_finish_upload (demo_provider E) n w = (Ok (Inr it), w') \<and> dm_uploads w' n = Some j' \<and>
    tu_available j' = tu_available j \<and> tu_tmpfile j' = tu_tmpfile j"
  using assms
  by (simp add: demo_provider_def on_demo_upload_def upload_finish_def with_lock_def demo_upload_finish_def Let_def
      run_simps)

end
