(* ===== verification/JobSockets.thy ===== *)
theory JobSockets
  imports JobImpl "HOL-Library.Multiset"
begin

text \<open>
  The descriptors of the jobs of a provider (\<open>src/src/provider/internal/DownloadJobImpl.cpp\<close>,
  \<open>UploadJobImpl.cpp\<close>) through the life of a job: a constructor makes a pair, one end is given to the
  client, reports and the destructor close the rest. The classes share their members
  (\<open>JobImpl\<close>); here they have their own constructors, destructors and life.

  The lemma: at every moment each of the two descriptors is held by the job, was given away or was
  closed, exactly one of the three and once, and a job that is destroyed holds none.
\<close>

section \<open>The two classes\<close>

definition DownloadJobImpl_init ::
  "(int, int \<times> int) outcome \<Rightarrow> (int \<Rightarrow> string) \<Rightarrow> string \<Rightarrow> (StorageException, unit job_impl) outcome" where
  "DownloadJobImpl_init socketpair safe_strerror download_id = job_impl_init socketpair safe_strerror download_id"

definition DownloadJobImpl_destroy :: "unit job_impl \<Rightarrow> unit job_impl" where
  "DownloadJobImpl_destroy j = job_impl_destroy j"

definition DownloadJobImpl_complete_init :: "unit job_impl \<Rightarrow> unit job_impl" where
  "DownloadJobImpl_complete_init j = j"

definition DownloadJobImpl_download_id :: "unit job_impl \<Rightarrow> string" where
  "DownloadJobImpl_download_id j = ji_id j"

definition DownloadJobImpl_write_socket :: "unit job_impl \<Rightarrow> int" where
  "DownloadJobImpl_write_socket j = ji_write_socket j"

text \<open>A job with the descriptors that it gave away.\<close>

record 'v owned_job =
  oj_job :: "'v job_impl"
  oj_given :: "int list"
  oj_destroyed :: bool

datatype 'v job_use =
    J_take                       \<comment> \<open>the interface takes the client's end\<close>
  | J_complete                   \<comment> \<open>\<open>report_complete\<close>, of a download\<close>
  | J_error thrown               \<comment> \<open>\<open>report_error\<close>\<close>
  | J_finish "'v future option"  \<comment> \<open>\<open>finish\<close>, with the answer of the job's own\<close>
  | J_cancel
  | J_destroy

text \<open>A method that throws or aborts leaves what it did before.\<close>

definition call_job :: "('v job_impl, thrown, 'a) sx \<Rightarrow> 'v owned_job \<Rightarrow> 'v owned_job" where
  "call_job m o_job = o_job\<lparr>oj_job := snd (m (oj_job o_job))\<rparr>"

definition take_socket :: "('v job_impl, thrown, int) sx \<Rightarrow> 'v owned_job \<Rightarrow> 'v owned_job" where
  "take_socket m o_job = (case m (oj_job o_job) of
      (Ok fd, j) \<Rightarrow> o_job\<lparr>oj_job := j, oj_given := fd # oj_given o_job\<rparr>
    | (_, j) \<Rightarrow> o_job\<lparr>oj_job := j\<rparr>)"

definition destroy_job :: "'v owned_job \<Rightarrow> 'v owned_job" where
  "destroy_job o_job = o_job\<lparr>oj_job := job_impl_destroy (oj_job o_job), oj_destroyed := True\<rparr>"

fun download_life :: "unit owned_job \<Rightarrow> unit job_use \<Rightarrow> unit owned_job" where
  "download_life d e = (if oj_destroyed d then d else case e of
      J_take \<Rightarrow> take_socket take_read_socket d
    | J_complete \<Rightarrow> call_job download_report_complete d
    | J_error p \<Rightarrow> call_job (download_report_error p) d
    | J_finish f \<Rightarrow> call_job (download_finish (sx_return f)) d
    | J_cancel \<Rightarrow> call_job (download_cancel (sx_return (Some (Fut_value ())))) d
    | J_destroy \<Rightarrow> destroy_job d)"

fun upload_life :: "'v owned_job \<Rightarrow> 'v job_use \<Rightarrow> 'v owned_job" where
  "upload_life u e = (if oj_destroyed u then u else case e of
      J_take \<Rightarrow> take_socket take_write_socket u
    | J_complete \<Rightarrow> u
    | J_error p \<Rightarrow> call_job (upload_report_error p) u
    | J_finish f \<Rightarrow> call_job (upload_finish (sx_return f)) u
    | J_cancel \<Rightarrow> call_job (upload_cancel (sx_return (Some (Fut_value ())))) u
    | J_destroy \<Rightarrow> destroy_job u)"

definition new_job :: "'v job_impl \<Rightarrow> 'v owned_job" where
  "new_job j = \<lparr>oj_job = j, oj_given = [], oj_destroyed = False\<rparr>"

section \<open>Ownership\<close>

definition held_fd :: "int \<Rightarrow> int multiset" where
  "held_fd fd = (if 0 \<le> fd then {#fd#} else {#})"

definition descriptors :: "'v job_impl \<Rightarrow> int multiset" where
  "descriptors j = mset (ji_closed j) + held_fd (ji_read_socket j) + held_fd (ji_write_socket j)"

definition owns_pair :: "int \<Rightarrow> int \<Rightarrow> 'v owned_job \<Rightarrow> bool" where
  "owns_pair r w o_job \<longleftrightarrow> descriptors (oj_job o_job) + mset (oj_given o_job) = {#r, w#} \<and>
     (oj_destroyed o_job \<longrightarrow> ji_read_socket (oj_job o_job) < 0 \<and> ji_write_socket (oj_job o_job) < 0)"

lemma descriptors_close [simp]:
  "descriptors (close_read_socket j) = descriptors j" "descriptors (close_write_socket j) = descriptors j"
  by (simp_all add: descriptors_def held_fd_def close_read_socket_def close_write_socket_def)

lemma descriptors_update [simp]:
  "descriptors (j\<lparr>ji_locked := b\<rparr>) = descriptors j" "descriptors (j\<lparr>ji_completed := b\<rparr>) = descriptors j"
  "descriptors (j\<lparr>ji_promise := p\<rparr>) = descriptors j" "descriptors (j\<lparr>ji_future_taken := b\<rparr>) = descriptors j"
  by (simp_all add: descriptors_def)

lemma descriptors_lock:
  assumes "\<And>j. descriptors (snd (m j)) = descriptors j"
  shows "descriptors (snd (with_lock m j)) = descriptors j"
  using assms [of "j\<lparr>ji_locked := True\<rparr>"] by (auto simp: with_lock_def split: prod.splits)

lemma descriptors_promise: "descriptors (snd (set_promise v j)) = descriptors j"
  by (simp add: set_promise_def)

lemma descriptors_complete: "descriptors (snd (complete_with v j)) = descriptors j"
  unfolding complete_with_def by (rule descriptors_lock) (simp add: descriptors_promise)

lemma descriptors_future: "descriptors (snd (get_future j)) = descriptors j"
  by (simp add: get_future_def)

text \<open>The methods that close a socket move it from the held ones to the closed ones, the others touch none.\<close>

lemma descriptors_methods:
  "descriptors (snd (download_report_complete d)) = descriptors d"
  "descriptors (snd (download_report_error p d)) = descriptors d"
  "descriptors (snd (upload_report_error p j)) = descriptors j"
  "descriptors (snd (download_finish (sx_return g) d)) = descriptors d"
  "descriptors (snd (download_cancel (sx_return c) d)) = descriptors d"
  "descriptors (snd (upload_finish (sx_return f) j)) = descriptors j"
  "descriptors (snd (upload_cancel (sx_return c) j)) = descriptors j"
  by (simp_all add: download_report_complete_def download_report_error_def upload_report_error_def descriptors_complete)
    (simp_all add: download_finish_def download_cancel_def upload_finish_def upload_cancel_def descriptors_lock
      descriptors_future sx_return_def)

lemma take_socket_owned:
  assumes "owns_pair r w x" and "\<not> oj_destroyed x"
  shows "owns_pair r w (take_socket take_read_socket x)" "owns_pair r w (take_socket take_write_socket x)"
  using assms
  by (auto simp: owns_pair_def take_socket_def take_read_socket_def take_write_socket_def descriptors_def held_fd_def
      add_mset_commute split: if_splits)

lemma destroy_owned: "owns_pair r w x \<Longrightarrow> owns_pair r w (destroy_job x)"
  by (simp add: owns_pair_def destroy_job_def job_impl_destroy_def)
    (simp add: close_write_socket_def close_read_socket_def)

lemma call_owned:
  "owns_pair r w x \<Longrightarrow> \<not> oj_destroyed x \<Longrightarrow> descriptors (snd (m (oj_job x))) = descriptors (oj_job x) \<Longrightarrow>
     owns_pair r w (call_job m x)"
  by (simp add: owns_pair_def call_job_def)

interpretation download_sockets: invariant_machine download_life "owns_pair r w" for r w
  by unfold_locales
    (auto simp: take_socket_owned destroy_owned call_owned descriptors_methods split: job_use.split)

interpretation upload_sockets: invariant_machine upload_life "owns_pair r w" for r w
  by unfold_locales
    (auto simp: take_socket_owned destroy_owned call_owned descriptors_methods split: job_use.split)

lemma owned_at_end:
  "owns_pair r w x \<Longrightarrow> descriptors (oj_job x) + mset (oj_given x) = {#r, w#} \<and>
     (oj_destroyed x \<longrightarrow> mset (ji_closed (oj_job x)) + mset (oj_given x) = {#r, w#})"
  by (auto simp: owns_pair_def descriptors_def held_fd_def)

text \<open>
  C26. No descriptor of a transfer leaks or is closed twice: whatever is done with an upload or a
  download job that got a pair of descriptors, each descriptor is held by the job, was given to the
  client or was closed, in total once; when the job has been destroyed, every descriptor that was
  not given away was closed exactly once.
\<close>

theorem job_descriptors_balance:
  assumes "0 \<le> r" and "0 \<le> w"
    and "DownloadJobImpl_init (Ok (r, w)) safe_strerror dl_id = Ok d"
    and "job_impl_init (Ok (r, w)) safe_strerror up_id = Ok (u :: provider_item job_impl)"
  shows "(let x = run_events download_life (new_job d) es in
            descriptors (oj_job x) + mset (oj_given x) = {#r, w#} \<and>
            (oj_destroyed x \<longrightarrow> mset (ji_closed (oj_job x)) + mset (oj_given x) = {#r, w#})) \<and>
         (let x = run_events upload_life (new_job u) fs in
            descriptors (oj_job x) + mset (oj_given x) = {#r, w#} \<and>
            (oj_destroyed x \<longrightarrow> mset (ji_closed (oj_job x)) + mset (oj_given x) = {#r, w#}))"
proof -
  have d: "owns_pair r w (new_job d)"
    using assms(1-3) by (auto simp: DownloadJobImpl_init_def job_impl_init_def new_job_def owns_pair_def descriptors_def held_fd_def)
  have u: "owns_pair r w (new_job u)"
    using assms(1,2,4) by (auto simp: job_impl_init_def new_job_def owns_pair_def descriptors_def held_fd_def)
  show ?thesis unfolding Let_def
    using owned_at_end [OF download_sockets.inv_run [OF d]] owned_at_end [OF upload_sockets.inv_run [OF u]] by blast
qed

theorem job_descriptors_balance_witness:
  "let x = run_events download_life (new_job \<lparr>ji_id = ''1'', ji_read_socket = 4, ji_write_socket = 5, ji_closed = [],
          ji_locked = False, ji_completed = False, ji_promise = None, ji_future_taken = False\<rparr>)
        [J_take, J_error (TStd ''x''), J_finish None, J_destroy] in
     oj_given x = [4] \<and> mset (ji_closed (oj_job x)) + mset (oj_given x) = {#4, 5#}"
proof -
  let ?d = "\<lparr>ji_id = ''1'', ji_read_socket = 4, ji_write_socket = 5, ji_closed = [], ji_locked = False,
    ji_completed = False, ji_promise = None, ji_future_taken = False\<rparr>"
  let ?es = "[J_take, J_error (TStd ''x''), J_finish None, J_destroy] :: unit job_use list"
  have "oj_given (run_events download_life (new_job ?d) ?es) = [4]"
    "oj_destroyed (run_events download_life (new_job ?d) ?es)"
    by (simp_all add: new_job_def take_socket_def take_read_socket_def call_job_def destroy_job_def)
  moreover have "oj_destroyed (run_events download_life (new_job ?d) ?es) \<longrightarrow>
      mset (ji_closed (oj_job (run_events download_life (new_job ?d) ?es))) +
      mset (oj_given (run_events download_life (new_job ?d) ?es)) = {#4, 5#}"
  proof -
    have d: "DownloadJobImpl_init (Ok (4, 5)) (\<lambda>_. '''') ''1'' = Ok ?d"
      by (simp add: DownloadJobImpl_init_def job_impl_init_def)
    obtain u :: "provider_item job_impl" where u: "job_impl_init (Ok (4, 5)) (\<lambda>_. '''') ''2'' = Ok u"
      by (simp add: job_impl_init_def)
    show ?thesis using job_descriptors_balance [OF _ _ d u, of ?es "[]"] unfolding Let_def by linarith
  qed
  ultimately show ?thesis unfolding Let_def by blast
qed

end
