(* ===== verification/V1LocalCopy.thy ===== *)
theory V1LocalCopy
  imports V1LocalProps
begin

text \<open>
  The recursive copy of a folder in the version 1 library
  (\<open>src/src/qt/client/internal/local_client/ItemImpl.cpp\<close>, \<open>copy_recursively\<close>) ends. The argument is that of
  the local provider: a path grows with each level and the system refuses longer paths.
\<close>

lemma aborts_never_query: "(\<And>w. q w \<noteq> Abort) \<Longrightarrow> aborts_never (sx_query q)"
  by (simp add: aborts_never_def run_simps)

lemma sx_bind_query_cong': "(\<And>w a. q w = Ok a \<Longrightarrow> f a = g a) \<Longrightarrow> sx_bind (sx_query q) f = sx_bind (sx_query q) g"
  by (rule ext, case_tac "q x") (simp_all add: run_simps)

text \<open>An entry of a folder has a longer path, and a folder whose path is too long cannot be read: this much
  is left of the depth.\<close>

lemma entry_depth:
  assumes "bounded_paths F" and "fs_entries F w source = Ok es" and "e \<in> set es"
    and "PATH_MAX + 2 \<le> Suc k + length source"
  shows "PATH_MAX + 2 \<le> k + length e \<and> 0 < k"
  using assms unfolding bounded_paths_def by fastforce

lemma v1_copy_depth:
  assumes F: "bounded_paths F"
  shows "PATH_MAX + 2 \<le> k + length source \<Longrightarrow> 0 < k \<Longrightarrow>
    v1_copy_recursively F (k + j) source target = v1_copy_recursively F k source target"
proof (induction k arbitrary: source target)
  case (Suc k)
  have entries: "sx_bind (sx_query (\<lambda>w. fs_entries F w source)) (\<lambda>es. sx_for es (\<lambda>e.
        v1_copy_recursively F (k + j) e (path_append F target (path_filename F e)))) =
      sx_bind (sx_query (\<lambda>w. fs_entries F w source)) (\<lambda>es. sx_for es (\<lambda>e.
        v1_copy_recursively F k e (path_append F target (path_filename F e))))"
    by (rule sx_bind_query_cong', rule sx_for_cong)
      (use Suc.IH entry_depth [OF F] Suc.prems in blast)
  show ?case unfolding add_Suc v1_copy_recursively.simps(2) entries ..
qed simp

lemma v1_copy_no_abort:
  assumes F: "bounded_paths F" and A: "no_aborts F"
  shows "PATH_MAX + 2 \<le> k + length source \<Longrightarrow> 0 < k \<Longrightarrow> aborts_never (v1_copy_recursively F k source target)"
proof (induction k arbitrary: source target)
  case (Suc k)
  have rec: "aborts_never (v1_copy_recursively F k e (path_append F target (path_filename F e)))"
    if "fs_entries F w source = Ok es" and "e \<in> set es" for w es e
    using Suc.IH entry_depth [OF F that] Suc.prems by blast
  have ret: "aborts_never (sx_return ())" by (simp add: aborts_never_def sx_return_def)
  have ops: "aborts_never (fs_copy_file F source target)" "aborts_never (fs_copy_directory F source target)"
    using A by (simp_all add: no_aborts_def aborts_never_def)
  have entries: "aborts_never (sx_bind (sx_query (\<lambda>w. fs_entries F w source)) (\<lambda>es. sx_for es (\<lambda>e.
        v1_copy_recursively F k e (path_append F target (path_filename F e)))))"
    by (rule aborts_never_bind [OF aborts_never_query aborts_never_for])
      (use A rec in \<open>auto simp: no_aborts_def sx_query_def\<close>)
  show ?case unfolding v1_copy_recursively.simps(2)
    using A by (auto simp: no_aborts_def intro!: ret ops entries aborts_never_query aborts_never_bind)
qed simp

text \<open>
  The recursive copy of the version 1 library ends: on every source path its recursion is no deeper
  than \<open>PATH_MAX + 1\<close> (any larger bound gives the same run), and it never exhausts the bound.
\<close>

theorem v1_copy_recursively_ends:
  assumes "bounded_paths F" and "no_aborts F" and "source \<noteq> ''''"
  shows "v1_copy_recursively F (Suc PATH_MAX + j) source target = v1_copy_recursively F (Suc PATH_MAX) source target \<and>
         fst (v1_copy_recursively F (Suc PATH_MAX + j) source target w) \<noteq> Abort"
proof -
  have len: "PATH_MAX + 2 \<le> Suc PATH_MAX + length source" using assms(3) by (cases source) simp_all
  have eq: "v1_copy_recursively F (Suc PATH_MAX + j) source target = v1_copy_recursively F (Suc PATH_MAX) source target"
    by (rule v1_copy_depth [OF assms(1) len]) simp
  have "aborts_never (v1_copy_recursively F (Suc PATH_MAX) source target)"
    by (rule v1_copy_no_abort [OF assms(1,2) len]) simp
  then show ?thesis unfolding eq aborts_never_def by blast
qed

theorem v1_copy_recursively_ends_witness:
  "fst (v1_copy_recursively mem_fs (Suc PATH_MAX + 3) ''/r/d'' ''/r/e'' sample_mem) \<noteq> Abort"
  by (rule v1_copy_recursively_ends [THEN conjunct2, OF mem_bounded_paths mem_no_aborts]) simp

end
