(* ===== verification/Spec2Isabelle.thy ===== *)
theory Spec2Isabelle
  imports Activity PeerCache AccountData ReqHandler Server LocalService Transfers V1LocalTransfers V1RemoteProps
    Handles PublicJobs PublicTransfers GobjMemory Executor Process DemoProvider JobSockets V1LocalCopy
begin

text \<open>
  The storage framework gives applications one interface to files that are kept by a provider:
  on the local disk or by a cloud service. An application uses a client library, which talks over
  D-Bus to the registry (which accounts are there) and to provider processes (one per kind of
  provider, one D-Bus object per account); file contents go over a socket pair whose ends the
  provider process hands out. This development models these parts as executable functions, one
  theory per part, and proves what makes each part correct and what they achieve together.

  \<^bold>\<open>Conventions.\<close> \<open>Prelude\<close> has the results of C++ code (a value, an exception, an abort), the
  state-and-exception monad \<open>sx\<close> in which stateful operations are written, runs of event-driven
  objects (\<open>run_events\<close>) and the locales that components implement: \<open>invariant_machine\<close> and
  \<open>simulation\<close> for event machines, \<open>final_machine\<close> for objects with final states, \<open>comparison\<close>, \<open>codec\<close>. An
  object whose methods are Qt slots is a record with a step function on events: the model makes no
  assumption about the order of events beyond what the code's connections allow. Code that is not
  in the repository is a parameter: Boost.Filesystem and the POSIX calls (records of functions over
  an abstract state of the file system), Qt's date parser, sockets, Online Accounts. \<open>MemFs\<close> is an
  in-memory instance of the file system, on which the witnesses are evaluated.

  \<^bold>\<open>Data and transport.\<close> \<open>Common\<close> (include/unity/storage): item types, metadata, accounts. \<open>Errors\<close>
  (src/provider/Exceptions.cpp, src/qt/internal/StorageErrorImpl.cpp and the code between them): the
  provider's exceptions, the D-Bus error they become, the client's error made of that; errors keep
  their kind, message and details on the way. \<open>Wire\<close> (the two dbusmarshal.cpp): items and accounts as
  token streams, round trips. \<open>Validate\<close> (src/qt/internal/validate.cpp): which items a client accepts,
  with an equivalent declarative description.

  \<^bold>\<open>Provider processes\<close> (src/provider/internal). \<open>PendingJobs\<close>: the tables of uploads and downloads and
  the watch on their clients. \<open>Activity\<close>: time-outs and the inactivity timer. \<open>PeerCache\<close>: credentials of
  callers. \<open>AccountData\<close>: authentication. \<open>ReqHandler\<close>: the life of one request, its single retry and
  its reply. \<open>JobImpl\<close>: the objects of transfers, \<open>JobSockets\<close>: who closes their descriptors. \<open>Provider\<close>: ProviderInterface.cpp, all D-Bus methods
  over an arbitrary provider, requests of several clients interleaved; every job object ends at
  most once, every request has one reply, a client reaches only its own jobs. \<open>Server\<close>:
  ServerImpl.cpp, a refinement of the set of announced accounts.

  \<^bold>\<open>The local provider\<close> (src/local-provider). \<open>LocalFs\<close>, \<open>LocalProvider\<close>, \<open>LocalProviderProps\<close>: every
  operation, confinement to the root, the items and their validity, termination of the recursive
  copy. \<open>LocalUpload\<close>, \<open>LocalDownload\<close>: the transfers; what is committed is what was received, what is
  delivered is the file. \<open>LocalService\<close>: the local provider behind \<open>Provider\<close>'s interface, with its
  jobs and sockets; the whole service is confined to its root.

  \<^bold>\<open>The registry\<close> (src/registry/internal). \<open>Registry\<close>: ListAccounts with its time-out.

  \<^bold>\<open>The processes.\<close> \<open>Process\<close>: the registry's main function with its handlers and timer, the mains of the local
  provider and of the demo, the test server; the registry answers every call before it exits. \<open>Executor\<close>: the
  executor of continuations (MainLoopExecutor.cpp), the message handler, the text of system errors; continuations
  run once and in order. \<open>GobjMemory\<close>: the smart pointer of gobj_memory.h over the reference counts of GObject, a
  parameter; references balance. \<open>DemoProvider\<close> (demo/provider_test): the demo as an instance of \<open>Provider\<close>'s
  interface, and which of its answers a client accepts.

  \<^bold>\<open>The client library\<close> (src/qt/internal). \<open>Client\<close>: runtime, accounts, items, the guards of every
  operation and the calls it makes. \<open>ClientJobs\<close>: the reply handlers of the jobs, listing page by page.
  \<open>Transfers\<close>: uploader and downloader. \<open>Handles\<close> (src/qt/Item.cpp, Account.cpp, StorageError.cpp): the value classes
  that an application holds, with copies, moves and their methods; they refine plain values under a condition on
  moves. \<open>PublicJobs\<close> (src/qt/VoidJob.cpp and its siblings): the job objects of the application, their factories
  and queued signals; an application hears of the end of a job exactly once. \<open>PublicTransfers\<close> (src/qt/Uploader.cpp,
  Downloader.cpp): the same for transfers, of which it hears each status once and in order.

  \<^bold>\<open>The version 1 client library\<close> (src/qt/client), the older interface that the same applications may use. \<open>V1Base\<close>:
  exceptions, futures and the graph of runtime, accounts, roots and items (the classes \<open>...Base\<close>), with the
  checks that every method begins with. Its local back end works on the disk without a provider (local_client):
  \<open>V1Local\<close> has every operation, checked in the caller and again in the task of the thread pool, \<open>V1LocalProps\<close>
  that no sequence of calls, tasks and releases leaves the root, and that a deleted object refuses
  every operation; \<open>V1LocalTransfers\<close> has the worker objects of uploads and downloads: what is put in place is what
  was received, an upload that is given up changes nothing, a download that succeeds has sent the file; \<open>V1LocalCopy\<close>
  that the recursive copy ends. Its remote
  back end (remote_client) is in \<open>V1Remote\<close>: the calls and the closures for their replies, the handler, the
  runtime, uploaders and downloaders, and the application with all replies that are outstanding; \<open>V1RemoteProps\<close>: exceptions and
  metadata compared with version 2, futures are answered once, objects are those of valid metadata, no call
  after a shutdown, no forgotten upload, no crash with providers that conform.

  \<^bold>\<open>This theory\<close> holds the properties that span the parts: an upload from the application's writes to
  the linked file, a listing from the directory to the application's items in both versions of the library, the
  agreement of the registry with the provider processes.

  \<^bold>\<open>Bounds and fuel.\<close> \<open>copy_recursively\<close> has a depth argument: \<open>PATH_MAX + 1\<close> is enough because a path
  grows with each level and the system refuses longer paths (\<open>copy_recursively_ends\<close>). The loop that
  drains a socket into a temporary file needs as many rounds as there are bytes
  (\<open>drain_collects_stream\<close>). The recursive copy of version 1 has the same depth argument as the local
  provider's, with the same bound (\<open>v1_copy_recursively_ends\<close>). Everything else is structural recursion over
  data or event lists.
  64-bit sizes and the milliseconds of time-outs are kept at their width.

  \<^bold>\<open>Not modelled.\<close> The wrapper classes of the version 1 library, of the provider's jobs and of the runtime in version 2, whose
  methods are one call of the classes above; class declarations without code; the accessors of QIODevice that
  pass on what the socket says; the lines that the demo prints; QML bindings, the other demos, tests and tools. Of
  the version 1 library the mutexes are not shown: a task of the thread pool holds the locks of
  its objects, so it is one step; and the life of objects is what the application and the accounts release.
\<close>

section \<open>From the application to the file\<close>

text \<open>
  C2. What an application writes is what the file contains: let a client's upload be \<open>Finished\<close> after any
  events, on a socket that takes what it is given, and let the provider's upload job have received
  the bytes that the client's socket was given, cut into any pieces. If the provider's finish
  succeeded, then the file that was linked into place consists of exactly the data of the
  application's successful writes, in order, and their number is the announced size.
\<close>

theorem upload_end_to_end:
  assumes "\<forall>d. accept True d = int (length d)"
    and "t = run_events (upload_step accept check) (transfer_init item meth policy sz) es"
    and "tr_status t = JS_Finished"
    and "writes_all A" and "receiving '''' j" and "concat ds = tr_sent t"
    and "sx_for ds (bytes_arrive A) j = (Ok (), j1)"
    and "FinishUpload_job F A root j1 = (Ok (Some (Fut_value it)), j2)"
  shows "int (length (tr_accepted t)) = lu_size j \<and>
    os_linkat A (tr_accepted t) (lu_item_id j) (os_unlink A (lu_item_id j) (lu_fs j)) = (Ok (), lu_fs j2)"
proof -
  have "up_inv t"
    using upload_data.inv_run [of accept] init_up_inv assms(1,2) by blast
  then have sent: "tr_sent t = tr_accepted t" using assms(3) by (simp add: up_inv_def)
  let ?j = "j\<lparr>lu_written := concat ds, lu_bytes_to_write := lu_bytes_to_write j - int (length (concat ds))\<rparr>"
  have j1: "if int (length (concat ds)) \<le> lu_bytes_to_write j then j1 = ?j else overrun j j1"
    using deliver_all [OF assms(4,5), of ds] assms(7) by auto
  have "\<not> overrun j j1" using assms(8) finish_overrun [of j j1 F A root] by auto
  with j1 have fits: "int (length (concat ds)) \<le> lu_bytes_to_write j" and eq: "j1 = ?j" by (auto split: if_splits)
  have "receiving (concat ds) j1" using receiving_more [OF assms(5) fits] eq by simp
  from finish_commits [OF this assms(8)] show ?thesis using eq assms(6) sent by auto
qed

theorem upload_end_to_end_witness:
  "\<exists>t j1 it j2. t = run_events (upload_step (\<lambda>c d. int (length d)) (\<lambda>_. None))
       (transfer_init sample_file ''m'' ignore_conflict 3) sample_writes \<and>
     tr_status t = JS_Finished \<and> sx_for [''a'', ''bc''] (bytes_arrive mem_os) sample_upload = (Ok (), j1) \<and>
     FinishUpload_job mem_fs mem_os ''/r'' j1 = (Ok (Some (Fut_value it)), j2) \<and>
     lu_fs j2 = sample_mem @ [(''/r/n'', Mem_file ''abc'')]"
proof -
  let ?a = "\<lambda>(c :: bool) (d :: string). int (length d)"
  let ?t = "run_events (upload_step ?a (\<lambda>_. None)) (transfer_init sample_file ''m'' ignore_conflict 3) sample_writes"
  let ?j1 = "sample_upload\<lparr>lu_written := ''abc'', lu_bytes_to_write := 0\<rparr>"
  have t: "tr_status ?t = JS_Finished" "tr_accepted ?t = ''abc''" "tr_sent ?t = ''abc''"
    by (simp_all add: sample_writes_def transfer_init_def transfer_defs flush_buffer_def socket_write_def)
  have run: "sx_for [''a'', ''bc''] (bytes_arrive mem_os) sample_upload = (Ok (), ?j1)"
    using deliver_all [OF mem_os_writes_all sample_upload_receiving, of "[''a'', ''bc'']"] by simp
  have "case FinishUpload_job mem_fs mem_os ''/r'' ?j1 of (Ok (Some (Fut_value _)), _) \<Rightarrow> True | _ \<Rightarrow> False"
    by code_simp
  then obtain it j2 where fin: "FinishUpload_job mem_fs mem_os ''/r'' ?j1 = (Ok (Some (Fut_value it)), j2)"
    by (auto split: prod.splits outcome.splits option.splits future.splits)
  from upload_end_to_end [OF _ refl t(1) mem_os_writes_all sample_upload_receiving _ run fin] t
  have "lu_fs j2 = sample_mem @ [(''/r/n'', Mem_file ''abc'')]"
    by (simp add: mem_os_def sample_mem_def)
  with t run fin show ?thesis by blast
qed

section \<open>From the folder to the application\<close>

lemma local_item_client:
  assumes "item_at F root meth p w = (Ok it, w')" and "p \<noteq> root"
  shows "md_type (client_view it) \<noteq> IT_root \<and> ordered_map (pi_metadata it)"
  by (rule item_at_Ok [OF assms(1)])
    (use assms(2) in \<open>auto simp: client_view_def local_item_def CONTENT_TYPE_def FREE_SPACE_BYTES_def
      LAST_MODIFIED_TIME_def SIZE_IN_BYTES_def USED_SPACE_BYTES_def WRITABLE_def\<close>)

text \<open>The items of a listing of the local provider, as a client of either version receives them.\<close>

lemma listed_items:
  assumes "LocalProvider_list F root folder '''' w = (Ok (items, token), w')"
    and "\<forall>es. fs_entries F w folder = Ok es \<longrightarrow>
           (\<forall>p \<in> set es. p \<noteq> root \<and> p \<noteq> '''' \<and> path_filename F p \<noteq> '''' \<and> path_parent F p \<noteq> '''')"
    and "\<forall>p s. fs_file_size F w p = Ok s \<longrightarrow> 0 \<le> s \<and> s < 2 ^ 63"
    and "\<forall>p a c. fs_space F w p = Ok (a, c) \<longrightarrow> 0 \<le> a \<and> a \<le> c \<and> c < 2 ^ 63"
    and "\<forall>t. parse_date (make_iso_date t) = Some UTC"
  shows "token = ''''" "get_metadata_list (put_items items) = Some (map client_view items, [])"
    "it \<in> set items \<Longrightarrow> md_type (client_view it) \<noteq> IT_root \<and> valid_metadata parse_date (client_view it)"
proof -
  obtain es where es: "fs_entries F w folder = Ok es" "items = shown F root w es" "token = ''''"
    using list_Ok [OF assms(1)] by blast
  have item: "\<exists>p. p \<in> set es \<and> item_at F root ''list()'' p w = (Ok it, w)" if i: "it \<in> set items" for it
  proof -
    obtain p where "p \<in> set es" "fst (item_at F root ''list()'' p w) = Ok it"
      using i es(2) by (auto simp: shown_def split: if_splits outcome.splits)
    then show ?thesis using snd_item_at [of F root "''list()''" p w] by (metis prod.collapse)
  qed
  have good: "md_type (client_view it) \<noteq> IT_root \<and> ordered_map (pi_metadata it) \<and>
      valid_metadata parse_date (client_view it)" if i: "it \<in> set items" for it
  proof -
    obtain p where p: "p \<in> set es" "item_at F root ''list()'' p w = (Ok it, w)" using item [OF i] by blast
    have "validate parse_date ''Item::list()'' (client_view it) = Ok ()"
      using p(1) es(1) assms(2-5) by (intro item_valid [OF p(2)]) auto
    then show ?thesis using local_item_client [OF p(2)] p(1) es(1) assms(2) by (auto simp: validate_Ok_iff)
  qed
  show "token = ''''" using es(3) .
  show "get_metadata_list (put_items items) = Some (map client_view items, [])"
    using get_put_items [of items "[]"] good by simp
  show "it \<in> set items \<Longrightarrow> md_type (client_view it) \<noteq> IT_root \<and> valid_metadata parse_date (client_view it)"
    using good by blast
qed





section \<open>From the registry to the provider\<close>

lemma listed_under_name:
  assumes "map_of BUS_NAMES sid = Some names"
  shows "filter (\<lambda>d. ad_busName d = fst names) (listed_accounts user_name accts) =
    map (\<lambda>a. remote_details a names) (filter (\<lambda>a. oa_serviceId a = sid) accts)"
proof -
  have unique: "i = sid" if "map_of BUS_NAMES i = Some n" "fst n = fst names" for i n
    using that assms by (auto simp: BUS_NAMES_def split: if_splits)
  have "filter (\<lambda>d. ad_busName d = fst names) (known_accounts accts) =
      map (\<lambda>a. remote_details a names) (filter (\<lambda>a. oa_serviceId a = sid) accts)"
    by (induction accts) (auto simp: remote_details_def assms dest: unique split: option.splits)
  moreover have "fst names \<noteq> ad_busName (local_details user_name)"
    using assms by (auto simp: BUS_NAMES_def local_details_def split: if_splits)
  ultimately show ?thesis by (simp add: listed_accounts_def)
qed

lemma served_paths:
  "set (sv_objects (run_events server_step (start_server sid ok) es)) =
     provider_path ` fst (run_events (spec_step sid) (if sid = '''' then {0} else {}, True) es)"
  using server_reaches [of sid ok es] objects_of_accounts by metis

text \<open>
  C20. The registry and the provider processes agree on names: the object paths that \<open>ListAccounts\<close>
  gives for the bus name of a service are exactly the paths on which the server of that service
  has its objects once the account manager, which knows the same accounts, is ready; and the one
  account of the local provider is the one object of a server without a service id.
\<close>

theorem advertised_accounts_are_served:
  assumes "map_of BUS_NAMES sid = Some names"
  shows "ad_objectPath ` set (filter (\<lambda>d. ad_busName d = fst names) (listed_accounts user_name accts)) =
      set (sv_objects (run_events server_step (start_server sid ok)
        [SV_ready name_ok (filter (\<lambda>a. oa_serviceId a = sid) accts)])) \<and>
    {ad_objectPath (local_details user_name)} = set (sv_objects (start_server '''' ok))"
proof
  have "sid \<noteq> ''''" using assms by (auto simp: BUS_NAMES_def)
  then show "ad_objectPath ` set (filter (\<lambda>d. ad_busName d = fst names) (listed_accounts user_name accts)) =
      set (sv_objects (run_events server_step (start_server sid ok)
        [SV_ready name_ok (filter (\<lambda>a. oa_serviceId a = sid) accts)]))"
    unfolding listed_under_name [OF assms] served_paths by (simp add: remote_details_def image_image)
  have "nat_to_string 0 = ''0''" by code_simp
  then show "{ad_objectPath (local_details user_name)} = set (sv_objects (start_server '''' ok))"
    using served_paths [of "''''" ok "[]"] by (simp add: local_details_def provider_path_def)
qed

theorem advertised_accounts_are_served_witness:
  "set (sv_objects (run_events server_step (start_server ''storage-provider-gdrive'' True)
     [SV_ready True [\<lparr>oa_id = 4, oa_serviceId = ''storage-provider-gdrive'', oa_displayName = ''d''\<rparr>]])) =
   ad_objectPath ` set (filter (\<lambda>d. ad_busName d = ''com.canonical.StorageFramework.Provider.GdriveProvider'')
     (listed_accounts ''u''
       [\<lparr>oa_id = 4, oa_serviceId = ''storage-provider-gdrive'', oa_displayName = ''d''\<rparr>,
        \<lparr>oa_id = 5, oa_serviceId = ''mail'', oa_displayName = ''e''\<rparr>]))"
  using advertised_accounts_are_served [of "''storage-provider-gdrive''"
      "(''com.canonical.StorageFramework.Provider.GdriveProvider'', ''GDrive'')" "''u''"
      "[\<lparr>oa_id = 4, oa_serviceId = ''storage-provider-gdrive'', oa_displayName = ''d''\<rparr>,
        \<lparr>oa_id = 5, oa_serviceId = ''mail'', oa_displayName = ''e''\<rparr>]" True True]
  unfolding BUS_NAMES_def by simp

end
